(* ===== verification/Authorizer.thy ===== *)
theory Authorizer
  imports Prelude
begin

text \<open>
  The authorizer of \<open>internal/sqlite/sqlite.c\<close>, the callback SQLite consults for every action of
  a statement it prepares, and the roles of \<open>internal/sqlite/sqlite.go\<close> that select its policy.

  A C string argument that may be \<open>NULL\<close> is a \<^typ>\<open>string option\<close>; the context pointer is an
  option; \<open>strcmp\<close> is equality and \<open>strncmp(name, p, strlen p)\<close> is \<open>HasPrefix\<close>. The action codes
  are the constants of \<open>sqlite3.h\<close>, as a datatype.
\<close>

section \<open>Roles\<close>

type_synonym AuthorizerRole = int

definition AuthorizerRoleAdmin :: AuthorizerRole where
  [role_defs]: "AuthorizerRoleAdmin = 0"
definition AuthorizerRoleReadWrite :: AuthorizerRole where
  [role_defs]: "AuthorizerRoleReadWrite = 1"
definition AuthorizerRoleReadOnly :: AuthorizerRole where
  [role_defs]: "AuthorizerRoleReadOnly = 2"

definition isValid :: "AuthorizerRole \<Rightarrow> bool" where
  [role_defs]: "isValid role \<longleftrightarrow>
     role = AuthorizerRoleAdmin \<or> role = AuthorizerRoleReadWrite \<or> role = AuthorizerRoleReadOnly"

definition CUST_AUTHORIZER_ROLE_ADMIN :: int where [role_defs]: "CUST_AUTHORIZER_ROLE_ADMIN = 0"
definition CUST_AUTHORIZER_ROLE_READ_WRITE :: int where
  [role_defs]: "CUST_AUTHORIZER_ROLE_READ_WRITE = 1"
definition CUST_AUTHORIZER_ROLE_READ_ONLY :: int where
  [role_defs]: "CUST_AUTHORIZER_ROLE_READ_ONLY = 2"

section \<open>Actions and result codes of sqlite3.h\<close>

datatype action =
    SQLITE_CREATE_INDEX | SQLITE_CREATE_TABLE | SQLITE_CREATE_TEMP_INDEX | SQLITE_CREATE_TEMP_TABLE
  | SQLITE_CREATE_TEMP_TRIGGER | SQLITE_CREATE_TEMP_VIEW | SQLITE_CREATE_TRIGGER
  | SQLITE_CREATE_VIEW | SQLITE_DELETE | SQLITE_DROP_INDEX | SQLITE_DROP_TABLE
  | SQLITE_DROP_TEMP_INDEX | SQLITE_DROP_TEMP_TABLE | SQLITE_DROP_TEMP_TRIGGER
  | SQLITE_DROP_TEMP_VIEW | SQLITE_DROP_TRIGGER | SQLITE_DROP_VIEW | SQLITE_INSERT
  | SQLITE_PRAGMA | SQLITE_READ | SQLITE_SELECT | SQLITE_TRANSACTION | SQLITE_UPDATE
  | SQLITE_ATTACH | SQLITE_DETACH | SQLITE_ALTER_TABLE | SQLITE_REINDEX | SQLITE_ANALYZE
  | SQLITE_CREATE_VTABLE | SQLITE_DROP_VTABLE | SQLITE_FUNCTION | SQLITE_SAVEPOINT
  | SQLITE_COPY | SQLITE_RECURSIVE

definition SQLITE_OK :: int where [role_defs]: "SQLITE_OK = 0"
definition SQLITE_DENY :: int where [role_defs]: "SQLITE_DENY = 1"
definition SQLITE_MISUSE :: int where [role_defs]: "SQLITE_MISUSE = 21"

section \<open>The policy\<close>

record cust_authorizer_ctx =
  role :: int

definition cust_authorizer_is_internal_table :: "string option \<Rightarrow> bool" where
  "cust_authorizer_is_internal_table name \<longleftrightarrow>
     (case name of None \<Rightarrow> False | Some n \<Rightarrow> HasPrefix n ''sqlite_'')"

definition allowed_function_names :: "string list" where
  "allowed_function_names =
    [''abs'', ''avg'', ''changes'', ''char'', ''coalesce'', ''concat'', ''concat_ws'', ''count'',
     ''date'', ''datetime'', ''format'', ''glob'', ''group_concat'', ''hex'', ''if'', ''ifnull'',
     ''iif'', ''instr'', ''json'', ''json_array'', ''json_array_insert'', ''json_array_length'',
     ''json_each'', ''json_error_position'', ''json_extract'', ''json_group_array'',
     ''json_group_object'', ''json_insert'', ''json_object'', ''json_patch'', ''json_pretty'',
     ''json_quote'', ''json_remove'', ''json_replace'', ''json_set'', ''json_tree'', ''json_type'',
     ''json_valid'', ''jsonb'', ''jsonb_array'', ''jsonb_array_insert'', ''jsonb_each'',
     ''jsonb_extract'', ''jsonb_group_array'', ''jsonb_group_object'', ''jsonb_insert'',
     ''jsonb_object'', ''jsonb_patch'', ''jsonb_remove'', ''jsonb_replace'', ''jsonb_set'',
     ''jsonb_tree'', ''julianday'', ''last_insert_rowid'', ''length'', ''like'', ''likelihood'',
     ''likely'', ''lower'', ''ltrim'', ''max'', ''min'', ''nullif'', ''octet_length'', ''printf'',
     ''quote'', ''random'', ''randomblob'', ''replace'', ''round'', ''rtrim'', ''sign'',
     ''sqlite_compileoption_get'', ''sqlite_compileoption_used'', ''sqlite_source_id'',
     ''sqlite_version'', ''strftime'', ''substr'', ''substring'', ''sum'', ''time'', ''timediff'',
     ''total'', ''total_changes'', ''trim'', ''typeof'', ''unhex'', ''unicode'', ''unistr'',
     ''unistr_quote'', ''unixepoch'', ''unlikely'', ''upper'', ''zeroblob'']"

definition cust_authorizer_is_allowed_function :: "string option \<Rightarrow> bool" where
  "cust_authorizer_is_allowed_function name \<longleftrightarrow>
     (case name of None \<Rightarrow> False
      | Some n \<Rightarrow> list_ex (\<lambda>f. n = f) allowed_function_names)"

definition introspection_pragmas :: "string list" where
  "introspection_pragmas =
    [''table_info'', ''table_xinfo'', ''index_info'', ''index_xinfo'', ''index_list'',
     ''foreign_key_list'']"

definition stateless_pragmas :: "string list" where
  "stateless_pragmas =
    [''collation_list'', ''compile_options'', ''data_version'', ''database_list'',
     ''defer_foreign_keys'', ''freelist_count'', ''function_list'', ''module_list'',
     ''page_count'', ''page_size'', ''pragma_list'', ''schema_version'', ''user_version'']"

definition cust_authorizer_is_readonly_pragma :: "string option \<Rightarrow> string option \<Rightarrow> bool" where
  "cust_authorizer_is_readonly_pragma name arg \<longleftrightarrow>
     (case name of None \<Rightarrow> False
      | Some n \<Rightarrow>
          if list_ex (\<lambda>p. n = p) introspection_pragmas then True
          else if list_ex (\<lambda>p. n = p) stateless_pragmas then arg = None
          else False)"

definition decide :: "bool \<Rightarrow> int" where
  "decide b = (if b then SQLITE_OK else SQLITE_DENY)"

definition authorizer_read_write :: "action \<Rightarrow> string option \<Rightarrow> string option \<Rightarrow> int" where
  "authorizer_read_write act arg3 arg4 =
     (case act of
        SQLITE_SELECT \<Rightarrow> SQLITE_OK
      | SQLITE_READ \<Rightarrow> SQLITE_OK
      | SQLITE_RECURSIVE \<Rightarrow> SQLITE_OK
      | SQLITE_FUNCTION \<Rightarrow> decide (cust_authorizer_is_allowed_function arg4)
      | SQLITE_PRAGMA \<Rightarrow> decide (cust_authorizer_is_readonly_pragma arg3 arg4)
      | SQLITE_TRANSACTION \<Rightarrow> SQLITE_OK
      | SQLITE_SAVEPOINT \<Rightarrow> SQLITE_OK
      | SQLITE_INSERT \<Rightarrow> decide (\<not> cust_authorizer_is_internal_table arg3)
      | SQLITE_UPDATE \<Rightarrow> decide (\<not> cust_authorizer_is_internal_table arg3)
      | SQLITE_DELETE \<Rightarrow> decide (\<not> cust_authorizer_is_internal_table arg3)
      | _ \<Rightarrow> SQLITE_DENY)"

definition authorizer_read_only :: "action \<Rightarrow> string option \<Rightarrow> string option \<Rightarrow> int" where
  "authorizer_read_only act arg3 arg4 =
     (case act of
        SQLITE_SELECT \<Rightarrow> SQLITE_OK
      | SQLITE_READ \<Rightarrow> SQLITE_OK
      | SQLITE_RECURSIVE \<Rightarrow> SQLITE_OK
      | SQLITE_FUNCTION \<Rightarrow> decide (cust_authorizer_is_allowed_function arg4)
      | SQLITE_PRAGMA \<Rightarrow> decide (cust_authorizer_is_readonly_pragma arg3 arg4)
      | _ \<Rightarrow> SQLITE_DENY)"

definition cust_sqlite3_authorizer ::
  "cust_authorizer_ctx option \<Rightarrow> action \<Rightarrow> string option \<Rightarrow> string option \<Rightarrow> int" where
  "cust_sqlite3_authorizer ctx act arg3 arg4 =
     (case ctx of
        None \<Rightarrow> SQLITE_DENY
      | Some c \<Rightarrow>
          if role c = CUST_AUTHORIZER_ROLE_ADMIN then SQLITE_OK
          else if role c = CUST_AUTHORIZER_ROLE_READ_WRITE then authorizer_read_write act arg3 arg4
          else if role c = CUST_AUTHORIZER_ROLE_READ_ONLY then authorizer_read_only act arg3 arg4
          else SQLITE_DENY)"

definition cust_authorizer_ctx_new :: cust_authorizer_ctx where
  "cust_authorizer_ctx_new = \<lparr>role = CUST_AUTHORIZER_ROLE_ADMIN\<rparr>"

definition cust_authorizer_ctx_set_role ::
  "cust_authorizer_ctx option \<Rightarrow> int \<Rightarrow> int \<times> cust_authorizer_ctx option" where
  "cust_authorizer_ctx_set_role ctx r =
     (case ctx of None \<Rightarrow> (SQLITE_MISUSE, None)
      | Some c \<Rightarrow> (SQLITE_OK, Some (c\<lparr>role := r\<rparr>)))"

section \<open>Facts\<close>

abbreviation allows :: "int \<Rightarrow> action \<Rightarrow> string option \<Rightarrow> string option \<Rightarrow> bool" where
  "allows r act a3 a4 \<equiv> cust_sqlite3_authorizer (Some \<lparr>role = r\<rparr>) act a3 a4 = SQLITE_OK"

lemma decide_simps [simp]: "decide b = SQLITE_OK \<longleftrightarrow> b" "decide b = SQLITE_DENY \<longleftrightarrow> \<not> b"
  by (simp_all add: decide_def role_defs)

lemma ok_deny [simp]: "SQLITE_OK \<noteq> SQLITE_DENY" "SQLITE_DENY \<noteq> SQLITE_OK"
  by (simp_all add: role_defs)

lemma allows_admin: "allows AuthorizerRoleAdmin act a3 a4"
  by (simp add: cust_sqlite3_authorizer_def role_defs)

lemma allows_rw: "allows AuthorizerRoleReadWrite act a3 a4 \<longleftrightarrow>
    authorizer_read_write act a3 a4 = SQLITE_OK"
  by (simp add: cust_sqlite3_authorizer_def role_defs)

lemma allows_ro: "allows AuthorizerRoleReadOnly act a3 a4 \<longleftrightarrow>
    authorizer_read_only act a3 a4 = SQLITE_OK"
  by (simp add: cust_sqlite3_authorizer_def role_defs)

lemma read_only_le_read_write:
  "authorizer_read_only act a3 a4 = SQLITE_OK \<Longrightarrow> authorizer_read_write act a3 a4 = SQLITE_OK"
  by (auto simp: authorizer_read_only_def authorizer_read_write_def split: action.splits)

lemma authorizer_range:
  "cust_sqlite3_authorizer ctx act a3 a4 = SQLITE_OK \<or>
   cust_sqlite3_authorizer ctx act a3 a4 = SQLITE_DENY"
  by (auto simp: cust_sqlite3_authorizer_def authorizer_read_only_def authorizer_read_write_def
      decide_def split: action.splits option.splits)

text \<open>The actions that change the content of the database.\<close>

definition modifies :: "action \<Rightarrow> bool" where
  "modifies act \<longleftrightarrow>
     act \<notin> {SQLITE_SELECT, SQLITE_READ, SQLITE_RECURSIVE, SQLITE_FUNCTION, SQLITE_PRAGMA,
             SQLITE_TRANSACTION, SQLITE_SAVEPOINT}"

lemma read_only_no_modify: "modifies act \<Longrightarrow> authorizer_read_only act a3 a4 = SQLITE_DENY"
  by (cases act) (simp_all add: modifies_def authorizer_read_only_def)

lemma rw_modify:
  "modifies act \<Longrightarrow> authorizer_read_write act a3 a4 = SQLITE_OK \<longleftrightarrow>
     act \<in> {SQLITE_INSERT, SQLITE_UPDATE, SQLITE_DELETE} \<and>
     \<not> cust_authorizer_is_internal_table a3"
  by (cases act) (simp_all add: modifies_def authorizer_read_write_def)

section \<open>Properties\<close>

text \<open>C25. The three roles form a hierarchy that fails closed: whatever the read-only policy lets a
  statement do, the read-write policy lets it do, and the admin policy allows everything; a role
  outside the three is denied everything, and so is a missing context.\<close>

theorem role_hierarchy:
  "allows AuthorizerRoleAdmin act a3 a4 \<and>
   (allows AuthorizerRoleReadOnly act a3 a4 \<longrightarrow> allows AuthorizerRoleReadWrite act a3 a4) \<and>
   cust_sqlite3_authorizer None act a3 a4 = SQLITE_DENY \<and>
   (\<not> isValid r \<longrightarrow> cust_sqlite3_authorizer (Some \<lparr>role = r\<rparr>) act a3 a4 = SQLITE_DENY)"
proof (intro conjI)
  show "allows AuthorizerRoleAdmin act a3 a4"
    by (rule allows_admin)
  show "allows AuthorizerRoleReadOnly act a3 a4 \<longrightarrow> allows AuthorizerRoleReadWrite act a3 a4"
    unfolding allows_ro allows_rw using read_only_le_read_write by blast
  show "cust_sqlite3_authorizer None act a3 a4 = SQLITE_DENY"
    by (simp add: cust_sqlite3_authorizer_def)
  show "\<not> isValid r \<longrightarrow> cust_sqlite3_authorizer (Some \<lparr>role = r\<rparr>) act a3 a4 = SQLITE_DENY"
    by (simp add: cust_sqlite3_authorizer_def role_defs)
qed

theorem role_hierarchy_witness:
  "allows AuthorizerRoleReadOnly SQLITE_READ (Some ''users'') (Some ''name'') \<and>
   allows AuthorizerRoleReadWrite SQLITE_READ (Some ''users'') (Some ''name'') \<and>
   \<not> isValid 3 \<and> cust_sqlite3_authorizer (Some \<lparr>role = 3\<rparr>) SQLITE_READ (Some ''users'') (Some ''name'') = SQLITE_DENY"
proof -
  have ro: "allows AuthorizerRoleReadOnly SQLITE_READ (Some ''users'') (Some ''name'')"
    by (simp add: allows_ro authorizer_read_only_def)
  have iv: "\<not> isValid 3" by (simp add: role_defs)
  show ?thesis
    using ro iv role_hierarchy [of SQLITE_READ "Some ''users''" "Some ''name''" 3] by blast
qed

lemma restricted_modify:
  assumes "modifies act"
  shows "\<not> allows AuthorizerRoleReadOnly act a3 a4 \<and>
    (allows AuthorizerRoleReadWrite act a3 a4 \<longleftrightarrow>
      act \<in> {SQLITE_INSERT, SQLITE_UPDATE, SQLITE_DELETE} \<and>
      \<not> (\<exists>t. a3 = Some (''sqlite_'' @ t))) \<and>
    \<not> allows AuthorizerRoleReadOnly SQLITE_TRANSACTION a3 a4 \<and>
    \<not> allows AuthorizerRoleReadOnly SQLITE_SAVEPOINT a3 a4"
proof (intro conjI)
  show "\<not> allows AuthorizerRoleReadOnly act a3 a4"
    unfolding allows_ro read_only_no_modify [OF assms] by simp
  show "allows AuthorizerRoleReadWrite act a3 a4 \<longleftrightarrow>
      act \<in> {SQLITE_INSERT, SQLITE_UPDATE, SQLITE_DELETE} \<and> \<not> (\<exists>t. a3 = Some (''sqlite_'' @ t))"
    unfolding allows_rw rw_modify [OF assms] cust_authorizer_is_internal_table_def
    by (cases a3) (simp_all add: HasPrefix_iff)
  show "\<not> allows AuthorizerRoleReadOnly SQLITE_TRANSACTION a3 a4"
    unfolding allows_ro by (simp add: authorizer_read_only_def)
  show "\<not> allows AuthorizerRoleReadOnly SQLITE_SAVEPOINT a3 a4"
    unfolding allows_ro by (simp add: authorizer_read_only_def)
qed

lemma restricted_functions_and_pragmas:
  assumes "r \<in> {AuthorizerRoleReadWrite, AuthorizerRoleReadOnly}"
  shows "(allows r SQLITE_FUNCTION a3 (Some f) \<longleftrightarrow> f \<in> set allowed_function_names) \<and>
    \<not> allows r SQLITE_FUNCTION a3 (Some ''load_extension'') \<and>
    (allows r SQLITE_PRAGMA (Some p) arg \<longleftrightarrow>
       p \<in> set introspection_pragmas \<or> (p \<in> set stateless_pragmas \<and> arg = None)) \<and>
    \<not> allows r SQLITE_PRAGMA (Some ''writable_schema'') arg"
proof -
  have f: "allows r SQLITE_FUNCTION a3 (Some f) \<longleftrightarrow> f \<in> set allowed_function_names" for f
    using assms by (auto simp: allows_rw allows_ro authorizer_read_only_def
        authorizer_read_write_def cust_authorizer_is_allowed_function_def list_ex_iff)
  have p: "allows r SQLITE_PRAGMA (Some p) arg \<longleftrightarrow>
       p \<in> set introspection_pragmas \<or> (p \<in> set stateless_pragmas \<and> arg = None)" for p
    using assms by (auto simp: allows_rw allows_ro authorizer_read_only_def
        authorizer_read_write_def cust_authorizer_is_readonly_pragma_def list_ex_iff split: if_splits)
  show ?thesis unfolding f p
    by (simp add: allowed_function_names_def introspection_pragmas_def stateless_pragmas_def)
qed

text \<open>C26. What the restricted roles may do. Among the actions that change the database, the read-only policy allows none and the
  read-write policy exactly row inserts, updates and deletes on tables whose name does not start
  with \<open>sqlite_\<close>: neither can change the schema, attach files, or write to SQLite's own tables. The read-only
  policy denies transaction control as well. A function call is allowed exactly when its name is
  on the list, so \<open>load_extension\<close> is denied, and a pragma exactly when it cannot change anything:
  one of the six introspection pragmas, or one of the stateless pragmas called without an argument.\<close>

theorem restricted_roles:
  assumes "r \<in> {AuthorizerRoleReadWrite, AuthorizerRoleReadOnly}" "modifies act"
  shows "(allows r act a3 a4 \<longleftrightarrow> r = AuthorizerRoleReadWrite \<and>
      act \<in> {SQLITE_INSERT, SQLITE_UPDATE, SQLITE_DELETE} \<and> \<not> (\<exists>t. a3 = Some (''sqlite_'' @ t))) \<and>
    \<not> allows AuthorizerRoleReadOnly SQLITE_TRANSACTION a3 a4 \<and>
    \<not> allows AuthorizerRoleReadOnly SQLITE_SAVEPOINT a3 a4 \<and>
    (allows r SQLITE_FUNCTION a3 (Some f) \<longleftrightarrow> f \<in> set allowed_function_names) \<and>
    \<not> allows r SQLITE_FUNCTION a3 (Some ''load_extension'') \<and>
    (allows r SQLITE_PRAGMA (Some p) arg \<longleftrightarrow>
       p \<in> set introspection_pragmas \<or> (p \<in> set stateless_pragmas \<and> arg = None)) \<and>
    \<not> allows r SQLITE_PRAGMA (Some ''writable_schema'') arg"
proof -
  have "AuthorizerRoleReadOnly \<noteq> AuthorizerRoleReadWrite"
    by (simp add: AuthorizerRoleReadOnly_def AuthorizerRoleReadWrite_def)
  with restricted_modify [OF assms(2), of a3 a4] restricted_functions_and_pragmas [OF assms(1), of a3 f p arg] assms(1)
  show ?thesis by auto
qed

theorem restricted_roles_witness:
  "modifies SQLITE_DELETE \<and> allows AuthorizerRoleReadWrite SQLITE_DELETE (Some ''users'') None \<and>
   \<not> allows AuthorizerRoleReadWrite SQLITE_DELETE (Some ''sqlite_master'') None \<and>
   allows AuthorizerRoleReadWrite SQLITE_FUNCTION (Some ''users'') (Some ''count'') \<and>
   \<not> allows AuthorizerRoleReadWrite SQLITE_PRAGMA (Some ''user_version'') (Some ''123'')"
proof -
  have m: "modifies SQLITE_DELETE" by (simp add: modifies_def)
  show ?thesis
    using m restricted_roles [OF _ m, of AuthorizerRoleReadWrite "Some ''users''" None "''count''" "''user_version''" "Some ''123''"]
      restricted_roles [OF _ m, of AuthorizerRoleReadWrite "Some ''sqlite_master''" None]
    by (simp add: allowed_function_names_def introspection_pragmas_def stateless_pragmas_def)
qed

end
