(* ===== verification/Sqlite_Conn.thy ===== *)
theory Sqlite_Conn
  imports Authorizer
begin

text \<open>
  The wrapper \<open>internal/sqlite/sqlite.go\<close> around the SQLite C library.

  SQLite itself (\<open>sqlite3.c\<close>, downloaded at build time) is not part of the repository: its C
  interface is the record \<open>capi\<close>, an argument of every definition that calls it, over an
  arbitrary state \<open>'w\<close> (the database file, the open connections and the statement handles). A
  handle is a number, \<open>None\<close> is a null pointer. The connection's authorizer runs inside
  \<open>sqlite3_prepare_v2\<close> and, when SQLite recompiles a statement, inside \<open>sqlite3_step\<close>, so both
  take the callback that is in force.

  Machine integers have their width: a C \<open>int\<close> is a 32-bit word, \<open>sqlite3_int64\<close>, Go's \<open>int\<close> and
  \<open>int64\<close> are 64-bit words. Floating point values are opaque bit patterns (IEEE 754), moved around
  unchanged.
\<close>

section \<open>The C interface\<close>

type_synonym auth_cb = "action \<Rightarrow> string option \<Rightarrow> string option \<Rightarrow> int"
type_synonym hptr = "nat option"

record 'w capi =
  sqlite3_open :: "string \<Rightarrow> 'w \<Rightarrow> (int \<times> hptr) \<times> 'w"
  sqlite3_close :: "hptr \<Rightarrow> 'w \<Rightarrow> int \<times> 'w"
  sqlite3_close_v2 :: "hptr \<Rightarrow> 'w \<Rightarrow> int \<times> 'w"
  sqlite3_errmsg :: "hptr \<Rightarrow> 'w \<Rightarrow> string"
  sqlite3_errstr :: "int \<Rightarrow> string"
  sqlite3_set_authorizer :: "hptr \<Rightarrow> 'w \<Rightarrow> int \<times> 'w"
  ctx_calloc_ok :: "'w \<Rightarrow> bool"
  sqlite3_prepare_v2 :: "hptr \<Rightarrow> auth_cb \<Rightarrow> string \<Rightarrow> 'w \<Rightarrow> (int \<times> hptr) \<times> 'w"
  sqlite3_stmt_readonly :: "hptr \<Rightarrow> 'w \<Rightarrow> int"
  sqlite3_bind_parameter_count :: "hptr \<Rightarrow> 'w \<Rightarrow> int"
  sqlite3_bind_parameter_name :: "hptr \<Rightarrow> 32 word \<Rightarrow> 'w \<Rightarrow> string"
  sqlite3_bind_parameter_index :: "hptr \<Rightarrow> string \<Rightarrow> 'w \<Rightarrow> int"
  sqlite3_bind_int :: "hptr \<Rightarrow> 32 word \<Rightarrow> 32 word \<Rightarrow> 'w \<Rightarrow> int \<times> 'w"
  sqlite3_bind_int64 :: "hptr \<Rightarrow> 32 word \<Rightarrow> 64 word \<Rightarrow> 'w \<Rightarrow> int \<times> 'w"
  sqlite3_bind_double :: "hptr \<Rightarrow> 32 word \<Rightarrow> 64 word \<Rightarrow> 'w \<Rightarrow> int \<times> 'w"
  sqlite3_bind_text :: "hptr \<Rightarrow> 32 word \<Rightarrow> string \<Rightarrow> 'w \<Rightarrow> int \<times> 'w"
  sqlite3_bind_blob :: "hptr \<Rightarrow> 32 word \<Rightarrow> bytes \<Rightarrow> 'w \<Rightarrow> int \<times> 'w"
  sqlite3_bind_null :: "hptr \<Rightarrow> 32 word \<Rightarrow> 'w \<Rightarrow> int \<times> 'w"
  sqlite3_step :: "hptr \<Rightarrow> auth_cb \<Rightarrow> 'w \<Rightarrow> int \<times> 'w"
  sqlite3_column_count :: "hptr \<Rightarrow> 'w \<Rightarrow> nat"
  sqlite3_column_name :: "hptr \<Rightarrow> nat \<Rightarrow> 'w \<Rightarrow> string"
  sqlite3_column_decltype :: "hptr \<Rightarrow> nat \<Rightarrow> 'w \<Rightarrow> string"
  sqlite3_column_type :: "hptr \<Rightarrow> nat \<Rightarrow> 'w \<Rightarrow> int"
  sqlite3_column_int :: "hptr \<Rightarrow> nat \<Rightarrow> 'w \<Rightarrow> 32 word"
  sqlite3_column_int64 :: "hptr \<Rightarrow> nat \<Rightarrow> 'w \<Rightarrow> 64 word"
  sqlite3_column_double :: "hptr \<Rightarrow> nat \<Rightarrow> 'w \<Rightarrow> 64 word"
  sqlite3_column_bytes :: "hptr \<Rightarrow> nat \<Rightarrow> 'w \<Rightarrow> int"
  sqlite3_column_text :: "hptr \<Rightarrow> nat \<Rightarrow> 'w \<Rightarrow> bytes option"
  sqlite3_column_blob :: "hptr \<Rightarrow> nat \<Rightarrow> 'w \<Rightarrow> bytes option"
  sqlite3_finalize :: "hptr \<Rightarrow> 'w \<Rightarrow> int \<times> 'w"
  sqlite3_last_insert_rowid :: "hptr \<Rightarrow> 'w \<Rightarrow> 64 word"
  sqlite3_changes :: "hptr \<Rightarrow> 'w \<Rightarrow> 32 word"

definition SQLITE_ROW :: int where "SQLITE_ROW = 100"
definition SQLITE_DONE :: int where "SQLITE_DONE = 101"

text \<open>
  A Go string handed to C with \<open>C.CString\<close> is read by SQLite up to the first NUL byte, since every
  call passes length \<open>-1\<close> or a NUL-terminated pointer.
\<close>

definition CString :: "string \<Rightarrow> string" where
  "CString s = takeWhile (\<lambda>c. c \<noteq> CHR 0x00) s"

text \<open>The conversion \<open>C.int(i)\<close> of a Go \<open>int\<close>.\<close>

definition C_int :: "nat \<Rightarrow> 32 word" where
  "C_int i = of_nat i"

definition getResCodeStr :: "'w capi \<Rightarrow> int \<Rightarrow> string" where
  "getResCodeStr api resCode = show_int resCode @ '': '' @ sqlite3_errstr api resCode"

section \<open>Connections\<close>

record conn =
  cDB :: hptr
  authorizerCtx :: "cust_authorizer_ctx option"

definition getLastError :: "'w capi \<Rightarrow> conn \<Rightarrow> 'w \<Rightarrow> go_error" where
  "getLastError api c w =
     (if cDB c = None
      then ErrorString ''failed to get last error: database connection is nil''
      else ErrorString (sqlite3_errmsg api (cDB c) w))"

definition sqlite_Open :: "'w capi \<Rightarrow> string \<Rightarrow> 'w \<Rightarrow> (go_error + conn) \<times> 'w" where
  "sqlite_Open api filePath w =
     (let ((resCode, db), w1) = sqlite3_open api (CString filePath) w in
      if resCode \<noteq> SQLITE_OK then
        let errMsg = getLastError api \<lparr>cDB = db, authorizerCtx = None\<rparr> w1 in
        (Inl (Wrapped (''failed to open database: '' @ getResCodeStr api resCode) errMsg),
         snd (sqlite3_close api db w1))
      else if \<not> ctx_calloc_ok api w1 then
        (Inl (ErrorString ''failed to allocate SQLite authorizer context''),
         snd (sqlite3_close api db w1))
      else
        let (resCode, w2) = sqlite3_set_authorizer api db w1 in
        if resCode \<noteq> SQLITE_OK then
          let errMsg = getLastError api \<lparr>cDB = db, authorizerCtx = None\<rparr> w2 in
          (Inl (Wrapped (''failed to register SQLite authorizer: '' @ getResCodeStr api resCode)
                 errMsg),
           snd (sqlite3_close api db w2))
        else (Inr \<lparr>cDB = db, authorizerCtx = Some cust_authorizer_ctx_new\<rparr>, w2))"

definition conn_Close :: "'w capi \<Rightarrow> conn \<Rightarrow> 'w \<Rightarrow> (go_error option \<times> conn) \<times> 'w" where
  "conn_Close api c w =
     (if cDB c = None then ((None, c), w)
      else
        let (resCode, w1) = sqlite3_close_v2 api (cDB c) w in
        if resCode \<noteq> SQLITE_OK then
          ((Some (Wrapped (''failed to close database: '' @ getResCodeStr api resCode)
              (getLastError api c w1)), c), w1)
        else ((None, c\<lparr>authorizerCtx := None, cDB := None\<rparr>), w1))"

definition SetAuthorizerRole :: "'w capi \<Rightarrow> conn \<Rightarrow> AuthorizerRole \<Rightarrow> go_error option \<times> conn" where
  "SetAuthorizerRole api c r =
     (if cDB c = None then
        (Some (ErrorString ''failed to set authorizer role: database connection is nil''), c)
      else if authorizerCtx c = None then
        (Some (ErrorString ''failed to set authorizer role: authorizer context is nil''), c)
      else if \<not> isValid r then
        (Some (ErrorString (''failed to set authorizer role: invalid role '' @ show_int r)), c)
      else
        let (resCode, ctx) = cust_authorizer_ctx_set_role (authorizerCtx c) r in
        if resCode \<noteq> SQLITE_OK then
          (Some (ErrorString (''failed to set authorizer role: '' @ getResCodeStr api resCode)),
           c\<lparr>authorizerCtx := ctx\<rparr>)
        else (None, c\<lparr>authorizerCtx := ctx\<rparr>))"

definition callback :: "conn \<Rightarrow> auth_cb" where
  "callback c = cust_sqlite3_authorizer (authorizerCtx c)"

definition LastInsertRowID :: "'w capi \<Rightarrow> conn \<Rightarrow> 'w \<Rightarrow> 64 word" where
  "LastInsertRowID api c w = sqlite3_last_insert_rowid api (cDB c) w"

definition RowsAffected :: "'w capi \<Rightarrow> conn \<Rightarrow> 'w \<Rightarrow> 64 word" where
  "RowsAffected api c w = scast (sqlite3_changes api (cDB c) w)"

section \<open>Statements\<close>

definition Prepare :: "'w capi \<Rightarrow> conn \<Rightarrow> string \<Rightarrow> 'w \<Rightarrow> (go_error + hptr) \<times> 'w" where
  "Prepare api c query w =
     (let ((resCode, st), w1) = sqlite3_prepare_v2 api (cDB c) (callback c) (CString query) w in
      if resCode \<noteq> SQLITE_OK then
        (Inl (Wrapped (''failed to prepare statement: '' @ getResCodeStr api resCode)
           (getLastError api c w1)), w1)
      else (Inr st, w1))"

definition ReadOnly :: "'w capi \<Rightarrow> hptr \<Rightarrow> 'w \<Rightarrow> bool" where
  "ReadOnly api st w \<longleftrightarrow> sqlite3_stmt_readonly api st w \<noteq> 0"

definition BindParameterCount :: "'w capi \<Rightarrow> hptr \<Rightarrow> 'w \<Rightarrow> int" where
  "BindParameterCount api st w = sqlite3_bind_parameter_count api st w"

definition BindParameterName :: "'w capi \<Rightarrow> hptr \<Rightarrow> nat \<Rightarrow> 'w \<Rightarrow> string" where
  "BindParameterName api st index w = sqlite3_bind_parameter_name api st (C_int index) w"

definition BindParameterIndex :: "'w capi \<Rightarrow> hptr \<Rightarrow> string \<Rightarrow> 'w \<Rightarrow> int" where
  "BindParameterIndex api st name w = sqlite3_bind_parameter_index api st (CString name) w"

definition param_prefixes :: "string list" where
  "param_prefixes = ['':'', ''@'', ''$'', ''?'']"

fun first_index :: "'w capi \<Rightarrow> hptr \<Rightarrow> string \<Rightarrow> 'w \<Rightarrow> string list \<Rightarrow> int" where
  "first_index api st name w [] = 0"
| "first_index api st name w (p # ps) =
     (let index = BindParameterIndex api st (p @ name) w in
      if index \<noteq> 0 then index else first_index api st name w ps)"

definition BindParameterIndexSafe :: "'w capi \<Rightarrow> hptr \<Rightarrow> string \<Rightarrow> 'w \<Rightarrow> int" where
  "BindParameterIndexSafe api st name w =
     (if name = [] then 0
      else if list_ex (HasPrefix name) param_prefixes then BindParameterIndex api st name w
      else first_index api st name w param_prefixes)"

section \<open>Values\<close>

text \<open>A Go \<open>any\<close>; \<open>GOther t s\<close> is a value of any other type \<open>t\<close>, printed by \<open>fmt.Sprint\<close> as \<open>s\<close>.\<close>

datatype go_any =
    GNil
  | GBool bool
  | GInt8 "8 word" | GUint8 "8 word"
  | GInt16 "16 word" | GUint16 "16 word"
  | GInt32 "32 word" | GUint32 "32 word"
  | GInt "64 word" | GUint "64 word"
  | GInt64 "64 word" | GUint64 "64 word"
  | GFloat64 "64 word" | GFloat32 "32 word"
  | GString string
  | GBytes bytes
  | GOther string string

text \<open>The conversion \<open>float64(v)\<close> of a \<open>float32\<close>, on IEEE 754 bit patterns.\<close>

fun top_bit :: "nat \<Rightarrow> nat" where
  "top_bit n = (if n < 2 then 0 else Suc (top_bit (n div 2)))"

declare top_bit.simps [simp del]

definition widen_float :: "32 word \<Rightarrow> 64 word" where
  "widen_float x =
     (let s = unat x div 2 ^ 31; e = unat x div 2 ^ 23 mod 2 ^ 8; m = unat x mod 2 ^ 23;
          k = top_bit m;
          (e', m') =
            (if e = 255 then (2047, if m = 0 then 0 else (m * 2 ^ 29) mod 2 ^ 51 + 2 ^ 51)
             else if e = 0 then (if m = 0 then (0, 0) else (k + 874, (m - 2 ^ k) * 2 ^ (52 - k)))
             else (e + 896, m * 2 ^ 29))
      in of_nat (s * 2 ^ 63 + e' * 2 ^ 52 + m'))"

section \<open>Binding\<close>

definition nil_statement :: go_error where
  "nil_statement = ErrorString ''cannot bind to a nil statement''"

definition bind_result :: "'w capi \<Rightarrow> string \<Rightarrow> int \<times> 'w \<Rightarrow> go_error option \<times> 'w" where
  "bind_result api what r =
     (let (resCode, w) = r in
      (if resCode \<noteq> SQLITE_OK
       then Some (ErrorString (''failed to bind '' @ what @ '': '' @ getResCodeStr api resCode))
       else None, w))"

definition BindInt :: "'w capi \<Rightarrow> hptr \<Rightarrow> nat \<Rightarrow> 32 word \<Rightarrow> 'w \<Rightarrow> go_error option \<times> 'w" where
  "BindInt api st index v w =
     (if st = None then (Some nil_statement, w)
      else bind_result api ''int'' (sqlite3_bind_int api st (C_int index) v w))"

definition BindInt64 :: "'w capi \<Rightarrow> hptr \<Rightarrow> nat \<Rightarrow> 64 word \<Rightarrow> 'w \<Rightarrow> go_error option \<times> 'w" where
  "BindInt64 api st index v w =
     (if st = None then (Some nil_statement, w)
      else bind_result api ''int64'' (sqlite3_bind_int64 api st (C_int index) v w))"

definition BindDouble :: "'w capi \<Rightarrow> hptr \<Rightarrow> nat \<Rightarrow> 64 word \<Rightarrow> 'w \<Rightarrow> go_error option \<times> 'w" where
  "BindDouble api st index v w =
     (if st = None then (Some nil_statement, w)
      else bind_result api ''float64'' (sqlite3_bind_double api st (C_int index) v w))"

definition BindText :: "'w capi \<Rightarrow> hptr \<Rightarrow> nat \<Rightarrow> string \<Rightarrow> 'w \<Rightarrow> go_error option \<times> 'w" where
  "BindText api st index v w =
     (if st = None then (Some nil_statement, w)
      else bind_result api ''text'' (sqlite3_bind_text api st (C_int index) (CString v) w))"

definition BindNull :: "'w capi \<Rightarrow> hptr \<Rightarrow> nat \<Rightarrow> 'w \<Rightarrow> go_error option \<times> 'w" where
  "BindNull api st index w =
     (if st = None then (Some nil_statement, w)
      else bind_result api ''null'' (sqlite3_bind_null api st (C_int index) w))"

definition BindBlob :: "'w capi \<Rightarrow> hptr \<Rightarrow> nat \<Rightarrow> bytes \<Rightarrow> 'w \<Rightarrow> go_error option \<times> 'w" where
  "BindBlob api st index d w =
     (if st = None then (Some nil_statement, w)
      else if length d = 0 then BindNull api st index w
      else bind_result api ''blob'' (sqlite3_bind_blob api st (C_int index) d w))"

definition BindDynamic :: "'w capi \<Rightarrow> hptr \<Rightarrow> nat \<Rightarrow> go_any \<Rightarrow> 'w \<Rightarrow> go_error option \<times> 'w" where
  "BindDynamic api st index v w =
     (case v of
        GBool b \<Rightarrow> BindInt api st index (if b then 1 else 0) w
      | GInt8 x \<Rightarrow> BindInt api st index (scast x) w
      | GUint8 x \<Rightarrow> BindInt api st index (ucast x) w
      | GInt16 x \<Rightarrow> BindInt api st index (scast x) w
      | GUint16 x \<Rightarrow> BindInt api st index (ucast x) w
      | GInt32 x \<Rightarrow> BindInt api st index x w
      | GUint32 x \<Rightarrow> BindInt api st index x w
      | GInt x \<Rightarrow> BindInt64 api st index x w
      | GUint x \<Rightarrow> BindInt64 api st index x w
      | GInt64 x \<Rightarrow> BindInt64 api st index x w
      | GUint64 x \<Rightarrow> BindInt64 api st index x w
      | GFloat64 x \<Rightarrow> BindDouble api st index x w
      | GFloat32 x \<Rightarrow> BindDouble api st index (widen_float x) w
      | GString s \<Rightarrow> BindText api st index s w
      | GBytes d \<Rightarrow> BindBlob api st index d w
      | GNil \<Rightarrow> BindNull api st index w
      | GOther t s \<Rightarrow> (Some (ErrorString (''unsupported bind '' @ t @ '' type: '' @ s)), w))"

section \<open>Columns\<close>

definition Step :: "'w capi \<Rightarrow> conn \<Rightarrow> hptr \<Rightarrow> 'w \<Rightarrow> (go_error + bool) \<times> 'w" where
  "Step api c st w =
     (let (resCode, w1) = sqlite3_step api st (callback c) w in
      if resCode = SQLITE_DONE then (Inr False, w1)
      else if resCode = SQLITE_ROW then (Inr True, w1)
      else (Inl (ErrorString (''failed to step statement: '' @ getResCodeStr api resCode)), w1))"

definition ColumnCount :: "'w capi \<Rightarrow> hptr \<Rightarrow> 'w \<Rightarrow> nat" where
  "ColumnCount api st w = sqlite3_column_count api st w"

definition ColumnName :: "'w capi \<Rightarrow> hptr \<Rightarrow> nat \<Rightarrow> 'w \<Rightarrow> string" where
  "ColumnName api st i w = sqlite3_column_name api st i w"

definition ColumnNames :: "'w capi \<Rightarrow> hptr \<Rightarrow> 'w \<Rightarrow> string list" where
  "ColumnNames api st w = map (\<lambda>i. ColumnName api st i w) [0..<ColumnCount api st w]"

definition ColumnDecltype :: "'w capi \<Rightarrow> hptr \<Rightarrow> nat \<Rightarrow> 'w \<Rightarrow> string" where
  "ColumnDecltype api st i w = ToUpper (sqlite3_column_decltype api st i w)"

definition ColumnValueType :: "go_any \<Rightarrow> string" where
  "ColumnValueType v =
     (case v of
        GNil \<Rightarrow> ''NULL''
      | GBool _ \<Rightarrow> ''INTEGER'' | GInt _ \<Rightarrow> ''INTEGER'' | GInt8 _ \<Rightarrow> ''INTEGER''
      | GInt16 _ \<Rightarrow> ''INTEGER'' | GInt32 _ \<Rightarrow> ''INTEGER'' | GInt64 _ \<Rightarrow> ''INTEGER''
      | GUint _ \<Rightarrow> ''INTEGER'' | GUint8 _ \<Rightarrow> ''INTEGER'' | GUint16 _ \<Rightarrow> ''INTEGER''
      | GUint32 _ \<Rightarrow> ''INTEGER'' | GUint64 _ \<Rightarrow> ''INTEGER''
      | GFloat32 _ \<Rightarrow> ''REAL'' | GFloat64 _ \<Rightarrow> ''REAL''
      | GString _ \<Rightarrow> ''TEXT''
      | GBytes _ \<Rightarrow> ''BLOB''
      | GOther _ _ \<Rightarrow> '''')"

definition ColumnTypeInteger :: int where "ColumnTypeInteger = 1"
definition ColumnTypeFloat :: int where "ColumnTypeFloat = 2"
definition ColumnTypeText :: int where "ColumnTypeText = 3"
definition ColumnTypeBlob :: int where "ColumnTypeBlob = 4"
definition ColumnTypeNull :: int where "ColumnTypeNull = 5"

lemmas column_type_defs = ColumnTypeInteger_def ColumnTypeFloat_def ColumnTypeText_def
  ColumnTypeBlob_def ColumnTypeNull_def

definition ColumnType :: "'w capi \<Rightarrow> hptr \<Rightarrow> nat \<Rightarrow> 'w \<Rightarrow> int" where
  "ColumnType api st i w = sqlite3_column_type api st i w"

definition ColumnBytes :: "'w capi \<Rightarrow> hptr \<Rightarrow> nat \<Rightarrow> 'w \<Rightarrow> int" where
  "ColumnBytes api st i w = sqlite3_column_bytes api st i w"

definition ColumnInt :: "'w capi \<Rightarrow> hptr \<Rightarrow> nat \<Rightarrow> 'w \<Rightarrow> 64 word" where
  "ColumnInt api st i w = scast (sqlite3_column_int api st i w)"

definition ColumnInt64 :: "'w capi \<Rightarrow> hptr \<Rightarrow> nat \<Rightarrow> 'w \<Rightarrow> 64 word" where
  "ColumnInt64 api st i w = sqlite3_column_int64 api st i w"

definition ColumnFloat64 :: "'w capi \<Rightarrow> hptr \<Rightarrow> nat \<Rightarrow> 'w \<Rightarrow> 64 word" where
  "ColumnFloat64 api st i w = sqlite3_column_double api st i w"

text \<open>\<open>C.GoStringN\<close> and \<open>C.GoBytes\<close> copy \<open>size\<close> bytes from the pointer.\<close>

definition ColumnText :: "'w capi \<Rightarrow> hptr \<Rightarrow> nat \<Rightarrow> 'w \<Rightarrow> string" where
  "ColumnText api st i w =
     (let size = sqlite3_column_bytes api st i w in
      if size \<le> 0 then []
      else case sqlite3_column_text api st i w of None \<Rightarrow> [] | Some t \<Rightarrow> take (nat size) t)"

definition ColumnBlob :: "'w capi \<Rightarrow> hptr \<Rightarrow> nat \<Rightarrow> 'w \<Rightarrow> bytes" where
  "ColumnBlob api st i w =
     (let size = sqlite3_column_bytes api st i w in
      if size \<le> 0 then []
      else case sqlite3_column_blob api st i w of None \<Rightarrow> [] | Some d \<Rightarrow> take (nat size) d)"

definition ColumnDynamic :: "'w capi \<Rightarrow> hptr \<Rightarrow> nat \<Rightarrow> 'w \<Rightarrow> go_error + go_any" where
  "ColumnDynamic api st i w =
     (let columnType = ColumnType api st i w in
      if columnType = ColumnTypeInteger then Inr (GInt (ColumnInt api st i w))
      else if columnType = ColumnTypeFloat then Inr (GFloat64 (ColumnFloat64 api st i w))
      else if columnType = ColumnTypeText then Inr (GString (ColumnText api st i w))
      else if columnType = ColumnTypeBlob then Inr (GBytes (ColumnBlob api st i w))
      else if columnType = ColumnTypeNull then Inr GNil
      else Inl (ErrorString (''unsupported column type: '' @ show_int columnType)))"

definition Finalize :: "'w capi \<Rightarrow> conn \<Rightarrow> hptr \<Rightarrow> 'w \<Rightarrow> (go_error option \<times> hptr) \<times> 'w" where
  "Finalize api c st w =
     (if st = None then ((None, None), w)
      else
        let (resCode, w1) = sqlite3_finalize api st w in
        if resCode \<noteq> SQLITE_OK then
          ((Some (ErrorString (''failed to finalize statement: '' @ getResCodeStr api resCode @
              '': '' @ sqlite3_errmsg api (cDB c) w1)), st), w1)
        else ((None, None), w1))"

end
