(* ===== verification/Sqlite_Query.thy ===== *)
theory Sqlite_Query
  imports Sqlite_Conn
begin

text \<open>
  \<open>Conn.Query\<close> of \<open>internal/sqlite/sqlite.go\<close>: prepare, bind, run to the end, collect, finalize;
  and the connection set-up of \<open>internal/sqlitedrv/driver.go\<close>.

  A statement can run for ever (an unbounded recursive query), so the row loops are
  \<^theory_text>\<open>partial_function (option)\<close>: \<open>None\<close> is a call that does not return. The lemmas about \<open>rows_from\<close>
  say when they do return.
\<close>

record QueryParam =
  p_Name :: string
  p_Value :: go_any

record sq_result =
  sr_LastInsertID :: "64 word"
  sr_RowsAffected :: "64 word"
  sr_Columns :: "string list"
  sr_Types :: "string list"
  sr_Rows :: "go_any list list"

section \<open>Binding the parameters\<close>

fun bind_params :: "'w capi \<Rightarrow> hptr \<Rightarrow> nat \<Rightarrow> QueryParam list \<Rightarrow> 'w \<Rightarrow> go_error option \<times> 'w" where
  "bind_params api st i [] w = (None, w)"
| "bind_params api st i (p # ps) w =
     (if p_Name p = [] then
        (case BindDynamic api st (i + 1) (p_Value p) w of
           (Some e, w1) \<Rightarrow> (Some (Wrapped ''failed to bind nameless parameter'' e), w1)
         | (None, w1) \<Rightarrow> bind_params api st (i + 1) ps w1)
      else
        let index = BindParameterIndexSafe api st (p_Name p) w in
        if index = 0 then
          (Some (ErrorString (''failed to find named parameter index: '' @ p_Name p)), w)
        else
          (case BindDynamic api st (nat index) (p_Value p) w of
             (Some e, w1) \<Rightarrow> (Some (Wrapped ''failed to bind named parameter'' e), w1)
           | (None, w1) \<Rightarrow> bind_params api st (i + 1) ps w1))"

section \<open>Running the statement\<close>

partial_function (option) drain ::
  "'w capi \<Rightarrow> conn \<Rightarrow> hptr \<Rightarrow> 'w \<Rightarrow> ((go_error + unit) \<times> 'w) option" where
  "drain api c st w =
     (case Step api c st w of
        (Inl e, w1) \<Rightarrow> Some (Inl (Wrapped ''failed to step statement'' e), w1)
      | (Inr hasNext, w1) \<Rightarrow> if \<not> hasNext then Some (Inr (), w1) else drain api c st w1)"

fun read_cols ::
  "'w capi \<Rightarrow> hptr \<Rightarrow> 'w \<Rightarrow> bool \<Rightarrow> nat list \<Rightarrow> string list \<Rightarrow> go_error + (go_any list \<times> string list)" where
  "read_cols api st w isFirstIter [] types = Inr ([], types)"
| "read_cols api st w isFirstIter (i # is) types =
     (case ColumnDynamic api st i w of
        Inl e \<Rightarrow> Inl (Wrapped ''failed to get column value'' e)
      | Inr col \<Rightarrow>
          let types' = (if isFirstIter \<and> types ! i = [] then types[i := ColumnValueType col]
                        else types) in
          (case read_cols api st w isFirstIter is types' of
             Inl e \<Rightarrow> Inl e
           | Inr (row, types'') \<Rightarrow> Inr (col # row, types'')))"

partial_function (option) collect ::
  "'w capi \<Rightarrow> conn \<Rightarrow> hptr \<Rightarrow> nat \<Rightarrow> bool \<Rightarrow> string list \<Rightarrow> go_any list list \<Rightarrow> 'w
   \<Rightarrow> ((go_error + (string list \<times> go_any list list)) \<times> 'w) option" where
  "collect api c st columnCount isFirstIter types rows w =
     (case Step api c st w of
        (Inl e, w1) \<Rightarrow> Some (Inl (Wrapped ''failed to step statement'' e), w1)
      | (Inr hasNext, w1) \<Rightarrow>
          if \<not> hasNext then Some (Inr (types, rows), w1)
          else
            (case read_cols api st w1 isFirstIter [0..<columnCount] types of
               Inl e \<Rightarrow> Some (Inl e, w1)
             | Inr (row, types') \<Rightarrow>
                 collect api c st columnCount False types' (rows @ [row]) w1))"

definition run_stmt ::
  "'w capi \<Rightarrow> conn \<Rightarrow> hptr \<Rightarrow> QueryParam list \<Rightarrow> 'w \<Rightarrow> ((go_error + sq_result) \<times> 'w) option" where
  "run_stmt api c st parameters w =
     (let columnCount = ColumnCount api st w in
      case bind_params api st 0 parameters w of
        (Some e, w1) \<Rightarrow> Some (Inl e, w1)
      | (None, w1) \<Rightarrow>
          if columnCount = 0 then
            (case drain api c st w1 of
               None \<Rightarrow> None
             | Some (Inl e, w2) \<Rightarrow> Some (Inl e, w2)
             | Some (Inr _, w2) \<Rightarrow>
                 Some (Inr \<lparr>sr_LastInsertID = LastInsertRowID api c w2,
                            sr_RowsAffected = RowsAffected api c w2,
                            sr_Columns = [], sr_Types = [], sr_Rows = []\<rparr>, w2))
          else
            let columns = map (\<lambda>i. ColumnName api st i w1) [0..<columnCount];
                types = map (\<lambda>i. ColumnDecltype api st i w1) [0..<columnCount] in
            (case collect api c st columnCount True types [] w1 of
               None \<Rightarrow> None
             | Some (Inl e, w2) \<Rightarrow> Some (Inl e, w2)
             | Some (Inr (types', rows), w2) \<Rightarrow>
                 Some (Inr \<lparr>sr_LastInsertID = 0, sr_RowsAffected = 0,
                            sr_Columns = columns, sr_Types = types', sr_Rows = rows\<rparr>, w2)))"

definition conn_Query ::
  "'w capi \<Rightarrow> conn \<Rightarrow> string \<Rightarrow> QueryParam list \<Rightarrow> 'w \<Rightarrow> ((go_error + sq_result) \<times> 'w) option" where
  "conn_Query api c query parameters w =
     (case Prepare api c query w of
        (Inl e, w1) \<Rightarrow> Some (Inl (Wrapped ''failed to prepare query'' e), w1)
      | (Inr st, w1) \<Rightarrow>
          (case run_stmt api c st parameters w1 of
             None \<Rightarrow> None
           | Some (r, w2) \<Rightarrow> Some (r, snd (Finalize api c st w2))))"

section \<open>Opening a pooled connection\<close>

text \<open>
  \<open>newConn\<close> of \<open>internal/sqlitedrv/driver.go\<close>: open, then run the post-connect queries, stopping
  at the first that fails.
\<close>

fun run_post_connect ::
  "'w capi \<Rightarrow> conn \<Rightarrow> string list \<Rightarrow> 'w \<Rightarrow> (go_error option \<times> 'w) option" where
  "run_post_connect api c [] w = Some (None, w)"
| "run_post_connect api c (q # qs) w =
     (case conn_Query api c q [] w of
        None \<Rightarrow> None
      | Some (Inl e, w1) \<Rightarrow>
          Some (Some (Wrapped (''failed to execute \"'' @ q @ ''\" post-connect query'') e), w1)
      | Some (Inr _, w1) \<Rightarrow> run_post_connect api c qs w1)"

definition newConn ::
  "'w capi \<Rightarrow> string \<Rightarrow> string list \<Rightarrow> 'w \<Rightarrow> ((go_error + conn) \<times> 'w) option" where
  "newConn api dsn postConnectQueries w =
     (case sqlite_Open api dsn w of
        (Inl e, w1) \<Rightarrow> Some (Inl (Wrapped ''failed to open connection'' e), w1)
      | (Inr c, w1) \<Rightarrow>
          (case run_post_connect api c postConnectQueries w1 of
             None \<Rightarrow> None
           | Some (Some e, w2) \<Rightarrow> Some (Inl e, w2)
           | Some (None, w2) \<Rightarrow> Some (Inr c, w2)))"

text \<open>\<open>Connector\<close> and \<open>newConnector\<close> of \<open>internal/db/connector.go\<close>: the pragmas of a connection.\<close>

record connector =
  dsn :: string
  postConnectQueries :: "string list"

definition optimizations :: "bool \<Rightarrow> int \<Rightarrow> int \<Rightarrow> string list" where
  "optimizations readOnly cacheSizeKB busyTimeoutMs =
     [''PRAGMA BUSY_TIMEOUT = '' @ show_int busyTimeoutMs @ '';'',
      ''PRAGMA CACHE_SIZE = -'' @ show_int (max cacheSizeKB (- cacheSizeKB)) @ '';'',
      ''PRAGMA JOURNAL_MODE = WAL;'',
      ''PRAGMA SYNCHRONOUS = NORMAL;'',
      ''PRAGMA FOREIGN_KEYS = true;'',
      ''PRAGMA TEMP_STORE = MEMORY;'',
      ''PRAGMA MMAP_SIZE = 2147483648;''] @
     (if readOnly then [''PRAGMA QUERY_ONLY = true;''] else [])"

text \<open>\<open>NewConnector\<close> of \<open>internal/sqlitedrv/driver.go\<close>, with its options.\<close>

definition WithPostConnectQueries :: "string list \<Rightarrow> connector \<Rightarrow> connector" where
  "WithPostConnectQueries queries k = k\<lparr>postConnectQueries := queries\<rparr>"

definition NewConnector :: "string \<Rightarrow> (connector \<Rightarrow> connector) list \<Rightarrow> connector" where
  "NewConnector d options = fold (\<lambda>option k. option k) options \<lparr>dsn = d, postConnectQueries = []\<rparr>"

lemma NewConnector_queries [simp]:
  "NewConnector d [WithPostConnectQueries qs] = \<lparr>dsn = d, postConnectQueries = qs\<rparr>"
  by (simp add: NewConnector_def WithPostConnectQueries_def)

text \<open>\<open>busyTimeout.Milliseconds()\<close> truncates a duration in nanoseconds towards zero.\<close>

definition Milliseconds :: "int \<Rightarrow> int" where
  "Milliseconds d = sgn d * (\<bar>d\<bar> div 1000000)"

definition newConnector :: "string \<Rightarrow> bool \<Rightarrow> int \<Rightarrow> int \<Rightarrow> connector" where
  "newConnector dbPath readOnly cacheSizeKB busyTimeout =
     NewConnector dbPath [WithPostConnectQueries (optimizations readOnly cacheSizeKB (Milliseconds busyTimeout))]"

definition Connect :: "'w capi \<Rightarrow> connector \<Rightarrow> 'w \<Rightarrow> ((go_error + conn) \<times> 'w) option" where
  "Connect api k w = newConn api (dsn k) (postConnectQueries k) w"

text \<open>The rest of the driver: \<open>Driver.Open\<close>, and the methods of its connection, which \<open>database/sql\<close> calls
  and which do nothing but for \<open>Close\<close>.\<close>

definition Driver_Open :: "'w capi \<Rightarrow> string \<Rightarrow> 'w \<Rightarrow> ((go_error + conn) \<times> 'w) option" where
  "Driver_Open api d w = Connect api (NewConnector d []) w"

definition drv_Close :: "'w capi \<Rightarrow> conn \<Rightarrow> 'w \<Rightarrow> (go_error option \<times> conn) \<times> 'w" where
  "drv_Close api c w =
     (case conn_Close api c w of
        ((Some e, c1), w1) \<Rightarrow> ((Some (Wrapped ''failed to close connection'' e), c1), w1)
      | ((None, c1), w1) \<Rightarrow> ((None, c1), w1))"

lemma drv_Close_world [simp]: "snd (drv_Close api c w) = snd (conn_Close api c w)"
  by (simp add: drv_Close_def split: prod.split option.split)

definition drv_SetAuthorizerRole :: "'w capi \<Rightarrow> conn \<Rightarrow> AuthorizerRole \<Rightarrow> go_error option \<times> conn" where
  "drv_SetAuthorizerRole api c r = SetAuthorizerRole api c r"

definition drv_ResetSession :: "conn \<Rightarrow> go_error option" where
  "drv_ResetSession c = None"

definition drv_IsValid :: "conn \<Rightarrow> bool" where
  "drv_IsValid c \<longleftrightarrow> True"

section \<open>How far a statement runs\<close>

text \<open>
  \<open>rows_from api c st n w\<close>: the statement delivers exactly \<open>n\<close> rows from state \<open>w\<close> and then
  stops, either done or with an error.
\<close>

fun rows_from :: "'w capi \<Rightarrow> conn \<Rightarrow> hptr \<Rightarrow> nat \<Rightarrow> 'w \<Rightarrow> bool" where
  "rows_from api c st 0 w \<longleftrightarrow> fst (sqlite3_step api st (callback c) w) \<noteq> SQLITE_ROW"
| "rows_from api c st (Suc n) w \<longleftrightarrow>
     fst (sqlite3_step api st (callback c) w) = SQLITE_ROW \<and>
     rows_from api c st n (snd (sqlite3_step api st (callback c) w))"

text \<open>\<open>ends_done\<close>: the same run, ending with \<open>SQLITE_DONE\<close>.\<close>

fun ends_done :: "'w capi \<Rightarrow> conn \<Rightarrow> hptr \<Rightarrow> nat \<Rightarrow> 'w \<Rightarrow> bool" where
  "ends_done api c st 0 w \<longleftrightarrow> fst (sqlite3_step api st (callback c) w) = SQLITE_DONE"
| "ends_done api c st (Suc n) w \<longleftrightarrow>
     ends_done api c st n (snd (sqlite3_step api st (callback c) w))"

lemma row_done [simp]: "SQLITE_ROW \<noteq> SQLITE_DONE" "SQLITE_DONE \<noteq> SQLITE_ROW"
  by (simp_all add: SQLITE_ROW_def SQLITE_DONE_def)

lemma Step_row:
  "fst (sqlite3_step api st (callback c) w) = SQLITE_ROW \<Longrightarrow>
   Step api c st w = (Inr True, snd (sqlite3_step api st (callback c) w))"
  by (simp add: Step_def case_prod_unfold Let_def)

lemma Step_not_row:
  "fst (sqlite3_step api st (callback c) w) \<noteq> SQLITE_ROW \<Longrightarrow>
   \<exists>e. Step api c st w = (Inl e, snd (sqlite3_step api st (callback c) w)) \<or>
       Step api c st w = (Inr False, snd (sqlite3_step api st (callback c) w))"
  by (simp add: Step_def case_prod_unfold Let_def)

lemma Step_done:
  "fst (sqlite3_step api st (callback c) w) = SQLITE_DONE \<Longrightarrow>
   Step api c st w = (Inr False, snd (sqlite3_step api st (callback c) w))"
  by (simp add: Step_def case_prod_unfold Let_def)

lemma Step_done_iff:
  "Step api c st w = (Inr False, w') \<longleftrightarrow>
   sqlite3_step api st (callback c) w = (SQLITE_DONE, w')"
  by (cases "sqlite3_step api st (callback c) w") (auto simp: Step_def)

lemma drain_returns: "rows_from api c st n w \<Longrightarrow> \<exists>r. drain api c st w = Some r"
proof (induction n arbitrary: w)
  case 0
  then obtain e where
    "Step api c st w = (Inl e, snd (sqlite3_step api st (callback c) w)) \<or>
     Step api c st w = (Inr False, snd (sqlite3_step api st (callback c) w))"
    using Step_not_row by fastforce
  then show ?case by (subst drain.simps) auto
next
  case (Suc n)
  then show ?case by (subst drain.simps) (simp add: Step_row)
qed

lemma read_cols_lengths:
  "read_cols api st w f is types = Inr (row, types') \<Longrightarrow>
   length row = length is \<and> length types' = length types"
proof (induction "is" arbitrary: types row)
  case Nil
  then show ?case by simp
next
  case (Cons i "is")
  then show ?case by (fastforce simp: Let_def split: sum.splits if_splits)
qed

lemma collect_returns:
  "rows_from api c st n w \<Longrightarrow> \<exists>r. collect api c st k f types rows w = Some r"
proof (induction n arbitrary: w f types rows)
  case 0
  then obtain e where
    "Step api c st w = (Inl e, snd (sqlite3_step api st (callback c) w)) \<or>
     Step api c st w = (Inr False, snd (sqlite3_step api st (callback c) w))"
    using Step_not_row by fastforce
  then show ?case by (subst collect.simps) auto
next
  case (Suc n)
  then show ?case by (subst collect.simps) (auto simp: Step_row split: sum.splits)
qed

lemma collect_shape:
  assumes "rows_from api c st n w"
    and "collect api c st k f types rows w = Some (Inr (types', rows'), w')"
    and "length types = k" and "\<forall>r \<in> set rows. length r = k"
  shows "length types' = k \<and> length rows' = length rows + n \<and> (\<forall>r \<in> set rows'. length r = k)"
  using assms
proof (induction n arbitrary: w f types rows)
  case 0
  then obtain e where
    "Step api c st w = (Inl e, snd (sqlite3_step api st (callback c) w)) \<or>
     Step api c st w = (Inr False, snd (sqlite3_step api st (callback c) w))"
    using Step_not_row by fastforce
  with 0 show ?case by (subst (asm) collect.simps) auto
next
  case (Suc n)
  let ?w1 = "snd (sqlite3_step api st (callback c) w)"
  from Suc.prems(1) have s: "Step api c st w = (Inr True, ?w1)" and rf: "rows_from api c st n ?w1"
    by (simp_all add: Step_row)
  from Suc.prems(2) s obtain row types1 where
    rc: "read_cols api st ?w1 f [0..<k] types = Inr (row, types1)" and
    col: "collect api c st k False types1 (rows @ [row]) ?w1 = Some (Inr (types', rows'), w')"
    by (subst (asm) collect.simps) (auto split: sum.splits)
  from read_cols_lengths [OF rc] Suc.prems(3,4)
  have "length types1 = k" "\<forall>r \<in> set (rows @ [row]). length r = k" by auto
  from Suc.IH [OF rf col this] show ?case by simp
qed

lemma drain_done: "drain api c st w = Some (Inr (), w') \<Longrightarrow> \<exists>n. ends_done api c st n w"
proof (rule drain.raw_induct [where P = "\<lambda>api c st w r. \<forall>w'. r = (Inr (), w') \<longrightarrow>
    (\<exists>n. ends_done api c st n w)", THEN spec, THEN mp])
  fix f api c st w r
  assume IH: "\<And>api c st w r. f api c st w = Some r \<Longrightarrow>
      \<forall>w'. r = (Inr (), w') \<longrightarrow> (\<exists>n. ends_done api c st n w)"
    and eq: "(case Step api c st w of
        (Inl e, w1) \<Rightarrow> Some (Inl (Wrapped ''failed to step statement'' e), w1)
      | (Inr hasNext, w1) \<Rightarrow> if \<not> hasNext then Some (Inr (), w1) else f api c st w1) = Some r"
  show "\<forall>w'. r = (Inr (), w') \<longrightarrow> (\<exists>n. ends_done api c st n w)"
  proof (intro allI impI)
    fix w' assume r: "r = (Inr (), w')"
    let ?s = "sqlite3_step api st (callback c) w"
    show "\<exists>n. ends_done api c st n w"
    proof (cases "fst ?s = SQLITE_ROW")
      case True
      with eq r have "f api c st (snd ?s) = Some (Inr (), w')" by (simp add: Step_row)
      from IH [OF this] obtain n where "ends_done api c st n (snd ?s)" by auto
      then have "ends_done api c st (Suc n) w" by simp
      then show ?thesis by blast
    next
      case False
      with eq r have "Step api c st w = (Inr False, w')"
        using Step_not_row [OF False] by auto
      then have "ends_done api c st 0 w" by (simp add: Step_done_iff)
      then show ?thesis by blast
    qed
  qed
qed auto

end
