(* ===== verification/Vdl.thy ===== *)
theory Vdl
  imports Sqlite_Query
begin

text \<open>
  The wire types of \<open>internal/vdl\<close> that the server reads and writes: the request types with their
  strict decoding (\<open>pre...\<close>, \<open>validate\<close>, \<open>transform\<close>), the result types, the enumerations and the
  pointer helpers. A pointer field is an option. The JSON package that fills the \<open>pre\<close> structures is
  a third-party one: \<open>unmarshal\<close>, a parameter, gives the structure or an error.
\<close>

section \<open>Pointers and enumerations\<close>

text \<open>\<open>Val\<close> of \<open>pointers.go\<close> at the zero value of its type.\<close>

definition Val :: "'a \<Rightarrow> 'a option \<Rightarrow> 'a" where
  "Val zero p = (case p of None \<Rightarrow> zero | Some v \<Rightarrow> v)"

type_synonym AuthRole = string
type_synonym QueryResultType = string
type_synonym SqliteStorageClass = string

definition AuthRoleAdmin :: AuthRole where "AuthRoleAdmin = ''admin''"
definition AuthRoleReadWrite :: AuthRole where "AuthRoleReadWrite = ''rw''"
definition AuthRoleReadOnly :: AuthRole where "AuthRoleReadOnly = ''ro''"

definition AuthRole_IsValid :: "AuthRole \<Rightarrow> bool" where
  "AuthRole_IsValid e \<longleftrightarrow> e = AuthRoleAdmin \<or> e = AuthRoleReadWrite \<or> e = AuthRoleReadOnly"

definition QueryResultTypeRead :: QueryResultType where "QueryResultTypeRead = ''read''"
definition QueryResultTypeWrite :: QueryResultType where "QueryResultTypeWrite = ''write''"
definition QueryResultTypeBegin :: QueryResultType where "QueryResultTypeBegin = ''begin''"
definition QueryResultTypeCommit :: QueryResultType where "QueryResultTypeCommit = ''commit''"
definition QueryResultTypeRollback :: QueryResultType where "QueryResultTypeRollback = ''rollback''"
definition QueryResultTypeError :: QueryResultType where "QueryResultTypeError = ''error''"

lemmas result_type_defs = QueryResultTypeRead_def QueryResultTypeWrite_def QueryResultTypeBegin_def
  QueryResultTypeCommit_def QueryResultTypeRollback_def QueryResultTypeError_def

definition QueryResultTypeList :: "QueryResultType list" where
  "QueryResultTypeList = [QueryResultTypeRead, QueryResultTypeWrite, QueryResultTypeBegin,
     QueryResultTypeCommit, QueryResultTypeRollback, QueryResultTypeError]"

definition QueryResultType_IsValid :: "QueryResultType \<Rightarrow> bool" where
  "QueryResultType_IsValid e \<longleftrightarrow>
     e = QueryResultTypeRead \<or> e = QueryResultTypeWrite \<or> e = QueryResultTypeBegin \<or>
     e = QueryResultTypeCommit \<or> e = QueryResultTypeRollback \<or> e = QueryResultTypeError"

definition SqliteStorageClassNull :: SqliteStorageClass where "SqliteStorageClassNull = ''NULL''"
definition SqliteStorageClassInteger :: SqliteStorageClass where
  "SqliteStorageClassInteger = ''INTEGER''"
definition SqliteStorageClassReal :: SqliteStorageClass where "SqliteStorageClassReal = ''REAL''"
definition SqliteStorageClassText :: SqliteStorageClass where "SqliteStorageClassText = ''TEXT''"
definition SqliteStorageClassBlob :: SqliteStorageClass where "SqliteStorageClassBlob = ''BLOB''"

lemmas storage_class_defs = SqliteStorageClassNull_def SqliteStorageClassInteger_def
  SqliteStorageClassReal_def SqliteStorageClassText_def SqliteStorageClassBlob_def

definition SqliteStorageClass_IsValid :: "SqliteStorageClass \<Rightarrow> bool" where
  "SqliteStorageClass_IsValid e \<longleftrightarrow>
     e = SqliteStorageClassNull \<or> e = SqliteStorageClassInteger \<or> e = SqliteStorageClassReal \<or>
     e = SqliteStorageClassText \<or> e = SqliteStorageClassBlob"

section \<open>Values, queries and results\<close>

record SqliteValue =
  sv_Null :: "bool option"
  sv_Integer :: "64 word option"
  sv_Real :: "64 word option"
  sv_Text :: "string option"
  sv_Blob :: "string option"

definition SqliteValue0 :: SqliteValue where
  "SqliteValue0 = \<lparr>sv_Null = None, sv_Integer = None, sv_Real = None, sv_Text = None, sv_Blob = None\<rparr>"

record vdl_QueryParam =
  vp_Name :: "string option"
  vp_Value :: SqliteValue

record vdl_Query =
  vq_TxId :: "string option"
  vq_Query :: string
  vq_Params :: "vdl_QueryParam list option"

text \<open>The fields \<open>Time\<close> hold seconds as a \<open>float64\<close>; the model keeps the duration that they
  are computed from.\<close>

record vdl_QueryResult =
  vr_Type :: QueryResultType
  vr_Time :: int
  vr_Error :: "string option"
  vr_TxId :: "string option"
  vr_LastInsertId :: "64 word option"
  vr_RowsAffected :: "64 word option"
  vr_Columns :: "string list option"
  vr_Types :: "SqliteStorageClass list option"
  vr_Rows :: "SqliteValue list list option"

record DatabaseQueryOutput =
  o_Time :: int
  o_Results :: "vdl_QueryResult list"

definition QueryResult_of :: "QueryResultType \<Rightarrow> int \<Rightarrow> vdl_QueryResult" where
  "QueryResult_of t time = \<lparr>vr_Type = t, vr_Time = time, vr_Error = None, vr_TxId = None,
     vr_LastInsertId = None, vr_RowsAffected = None, vr_Columns = None, vr_Types = None,
     vr_Rows = None\<rparr>"

text \<open>The outputs of the \<open>System\<close> procedures.\<close>

record StatsTotalsCounters =
  vc_Reads :: "64 word"
  vc_Writes :: "64 word"
  vc_Begins :: "64 word"
  vc_Commits :: "64 word"
  vc_Rollbacks :: "64 word"
  vc_Errors :: "64 word"
  vc_HttpRequests :: "64 word"

record StatsQueuedCounters =
  vk_Begins :: "64 word"
  vk_Writes :: "64 word"
  vk_HttpRequests :: "64 word"

record vdl_Stats =
  vs_StartedAt :: int
  vs_UptimeSeconds :: int
  vs_Totals :: StatsTotalsCounters
  vs_Queued :: StatsQueuedCounters
  vs_Minutes :: "string \<rightharpoonup> StatsTotalsCounters"

record SystemHealthOutput =
  h_Healthy :: bool
  h_Database :: bool
  h_Message :: string

record SystemStatusOutput =
  y_Name :: string
  y_Version :: string
  y_Stats :: vdl_Stats

section \<open>Strict decoding of a request\<close>

record preQueryParam =
  pp_Name :: "string option"
  pp_Value :: "SqliteValue option"

record preQuery =
  pq_TxId :: "string option"
  pq_Query :: "string option"
  pq_Params :: "preQueryParam list option"

record preDatabaseQueryInput =
  pi_Queries :: "preQuery list option"

definition field :: "string \<Rightarrow> string \<Rightarrow> string" where
  "field parentPath name = (if parentPath \<noteq> [] then parentPath @ ''.'' @ name else name)"

definition required :: "string \<Rightarrow> go_error" where
  "required path = ErrorString (''field '' @ path @ '' is required'')"

text \<open>\<open>for i, item := range xs { if err := item.validate(path[i]); err != nil { return err } }\<close>\<close>

fun validate_items :: "('a \<Rightarrow> string \<Rightarrow> go_error option) \<Rightarrow> string \<Rightarrow> nat \<Rightarrow> 'a list \<Rightarrow> go_error option"
  where
  "validate_items v path i [] = None"
| "validate_items v path i (x # xs) =
     (case v x (path @ ''['' @ show_nat i @ '']'') of
        Some e \<Rightarrow> Some e
      | None \<Rightarrow> validate_items v path (i + 1) xs)"

definition validate_preQueryParam :: "preQueryParam \<Rightarrow> string \<Rightarrow> go_error option" where
  "validate_preQueryParam p parentPath =
     (if pp_Value p = None then Some (required (field parentPath ''value'')) else None)"

definition validate_preQuery :: "preQuery \<Rightarrow> string \<Rightarrow> go_error option" where
  "validate_preQuery p parentPath =
     (if pq_Query p = None then Some (required (field parentPath ''query''))
      else case pq_Params p of
        None \<Rightarrow> None
      | Some ps \<Rightarrow> validate_items validate_preQueryParam (field parentPath ''params'') 0 ps)"

definition validate_preDatabaseQueryInput :: "preDatabaseQueryInput \<Rightarrow> string \<Rightarrow> go_error option" where
  "validate_preDatabaseQueryInput p parentPath =
     (case pi_Queries p of
        None \<Rightarrow> Some (required (field parentPath ''queries''))
      | Some qs \<Rightarrow> validate_items validate_preQuery (field parentPath ''queries'') 0 qs)"

text \<open>The transforms run after a successful validation only; \<open>the\<close> is the dereference.\<close>

definition transform_preQueryParam :: "preQueryParam \<Rightarrow> vdl_QueryParam" where
  "transform_preQueryParam p = \<lparr>vp_Name = pp_Name p, vp_Value = the (pp_Value p)\<rparr>"

definition transform_preQuery :: "preQuery \<Rightarrow> vdl_Query" where
  "transform_preQuery p = \<lparr>vq_TxId = pq_TxId p, vq_Query = the (pq_Query p),
     vq_Params = map_option (map transform_preQueryParam) (pq_Params p)\<rparr>"

definition transform_preDatabaseQueryInput :: "preDatabaseQueryInput \<Rightarrow> vdl_Query list" where
  "transform_preDatabaseQueryInput p = map transform_preQuery (the (pi_Queries p))"

definition UnmarshalJSON_DatabaseQueryInput ::
  "(bytes \<Rightarrow> go_error + preDatabaseQueryInput) \<Rightarrow> bytes \<Rightarrow> go_error + vdl_Query list" where
  "UnmarshalJSON_DatabaseQueryInput unmarshal data =
     (case unmarshal data of
        Inl e \<Rightarrow> Inl e
      | Inr p \<Rightarrow>
          (case validate_preDatabaseQueryInput p [] of
             Some e \<Rightarrow> Inl e
           | None \<Rightarrow> Inr (transform_preDatabaseQueryInput p)))"

section \<open>What decoding accepts\<close>

definition complete_param :: "preQueryParam \<Rightarrow> bool" where
  "complete_param p \<longleftrightarrow> pp_Value p \<noteq> None"

definition complete_query :: "preQuery \<Rightarrow> bool" where
  "complete_query p \<longleftrightarrow> pq_Query p \<noteq> None \<and> list_all complete_param (Val [] (pq_Params p))"

text \<open>The structures that \<open>transform\<close> came from, read back.\<close>

definition pre_of_query :: "vdl_Query \<Rightarrow> preQuery" where
  "pre_of_query q = \<lparr>pq_TxId = vq_TxId q, pq_Query = Some (vq_Query q),
     pq_Params = map_option (map (\<lambda>p. \<lparr>pp_Name = vp_Name p, pp_Value = Some (vp_Value p)\<rparr>)) (vq_Params q)\<rparr>"

lemma validate_items_None:
  "validate_items v path i xs = None \<longleftrightarrow>
   (\<forall>k < length xs. v (xs ! k) (path @ ''['' @ show_nat (i + k) @ '']'') = None)"
proof (induction xs arbitrary: i)
  case (Cons x xs)
  have "(\<forall>k < Suc n. P k) \<longleftrightarrow> P 0 \<and> (\<forall>k < n. P (Suc k))" for P and n :: nat
    using less_Suc_eq_0_disj by auto
  then show ?case using Cons by (auto split: option.splits)
qed simp

lemma validate_items_Some:
  "validate_items v path i xs = Some e \<longleftrightarrow>
   (\<exists>k < length xs. v (xs ! k) (path @ ''['' @ show_nat (i + k) @ '']'') = Some e \<and>
      (\<forall>j < k. v (xs ! j) (path @ ''['' @ show_nat (i + j) @ '']'') = None))"
proof (induction xs arbitrary: i)
  case (Cons x xs)
  have ex: "(\<exists>k < Suc n. P k \<and> (\<forall>j<k. R j)) \<longleftrightarrow> P 0 \<or> (R 0 \<and> (\<exists>k<n. P (Suc k) \<and> (\<forall>j<k. R (Suc j))))"
    for P R and n :: nat
  proof
    assume "\<exists>k < Suc n. P k \<and> (\<forall>j<k. R j)"
    then obtain k where k: "k < Suc n" "P k" "\<forall>j<k. R j" by blast
    then show "P 0 \<or> (R 0 \<and> (\<exists>k<n. P (Suc k) \<and> (\<forall>j<k. R (Suc j))))" by (cases k) auto
  next
    assume "P 0 \<or> (R 0 \<and> (\<exists>k<n. P (Suc k) \<and> (\<forall>j<k. R (Suc j))))"
    then show "\<exists>k < Suc n. P k \<and> (\<forall>j<k. R j)"
    proof
      assume "R 0 \<and> (\<exists>k<n. P (Suc k) \<and> (\<forall>j<k. R (Suc j)))"
      then obtain k where "k < n" "P (Suc k)" "R 0" "\<forall>j<k. R (Suc j)" by blast
      then have "Suc k < Suc n \<and> P (Suc k) \<and> (\<forall>j < Suc k. R j)" by (auto simp: less_Suc_eq_0_disj)
      then show ?thesis by blast
    qed blast
  qed
  show ?case using Cons unfolding length_Cons ex by (auto split: option.splits)
qed simp

lemma validate_param_None: "validate_preQueryParam p path = None \<longleftrightarrow> complete_param p"
  by (simp add: validate_preQueryParam_def complete_param_def)

lemma validate_query_None: "validate_preQuery p path = None \<longleftrightarrow> complete_query p"
  by (auto simp: validate_preQuery_def complete_query_def validate_items_None validate_param_None
      Val_def list_all_length split: option.splits)

lemma transform_param_inv: "complete_param p \<Longrightarrow>
  \<lparr>pp_Name = vp_Name (transform_preQueryParam p), pp_Value = Some (vp_Value (transform_preQueryParam p))\<rparr> = p"
  by (auto simp: complete_param_def transform_preQueryParam_def)

lemma transform_query_inv:
  assumes "complete_query p"
  shows "pre_of_query (transform_preQuery p) = p"
proof -
  have "map_option (map (\<lambda>p. \<lparr>pp_Name = vp_Name p, pp_Value = Some (vp_Value p)\<rparr>))
      (map_option (map transform_preQueryParam) (pq_Params p)) = pq_Params p"
    using assms
    by (cases "pq_Params p")
      (auto simp: complete_query_def Val_def list_all_iff transform_param_inv intro!: map_idI)
  then show ?thesis using assms
    by (auto simp: pre_of_query_def transform_preQuery_def complete_query_def)
qed

text \<open>C18. A request body is accepted exactly when the JSON package reads it, \<open>queries\<close> is
  present, every query has its text and every parameter its value. What is accepted is the
  structure that was read, with nothing lost or added. What is missing is named by its path: an
  absent \<open>queries\<close> first, otherwise the first query in order that lacks something, with its index, and in it
  its text when that is absent, otherwise the first parameter without a value.\<close>

theorem request_decoding_strict:
  assumes "unmarshal data = Inr p"
  shows "case pi_Queries p of
      None \<Rightarrow> UnmarshalJSON_DatabaseQueryInput unmarshal data =
                Inl (ErrorString ''field queries is required'')
    | Some qs \<Rightarrow>
        (case UnmarshalJSON_DatabaseQueryInput unmarshal data of
           Inr vs \<Rightarrow> list_all complete_query qs \<and> map pre_of_query vs = qs
         | Inl e \<Rightarrow> \<exists>k < length qs. \<not> complete_query (qs ! k) \<and> list_all complete_query (take k qs) \<and>
             (if pq_Query (qs ! k) = None
              then e = ErrorString (''field queries['' @ show_nat k @ ''].query is required'')
              else \<exists>i < length (the (pq_Params (qs ! k))).
                e = ErrorString (''field queries['' @ show_nat k @ ''].params['' @ show_nat i @ ''].value is required'') \<and>
                pp_Value (the (pq_Params (qs ! k)) ! i) = None \<and>
                (\<forall>j < i. pp_Value (the (pq_Params (qs ! k)) ! j) \<noteq> None)))"
proof (cases "pi_Queries p")
  case None
  then show ?thesis
    by (simp add: assms UnmarshalJSON_DatabaseQueryInput_def validate_preDatabaseQueryInput_def
        required_def field_def)
next
  case (Some qs)
  let ?v = "validate_items validate_preQuery ''queries'' 0 qs"
  have run: "UnmarshalJSON_DatabaseQueryInput unmarshal data =
      (case ?v of Some e \<Rightarrow> Inl e | None \<Rightarrow> Inr (map transform_preQuery qs))"
    by (simp add: Some assms UnmarshalJSON_DatabaseQueryInput_def validate_preDatabaseQueryInput_def
        transform_preDatabaseQueryInput_def field_def cong: option.case_cong)
  show ?thesis
  proof (cases ?v)
    case None
    then have "list_all complete_query qs"
      by (simp add: validate_items_None validate_query_None list_all_length)
    moreover from this have "map pre_of_query (map transform_preQuery qs) = qs"
      by (auto simp: list_all_iff transform_query_inv intro!: map_idI)
    ultimately show ?thesis using Some None run by simp
  next
    fix e assume e: "?v = Some e"
    then obtain k where k: "k < length qs"
      "validate_preQuery (qs ! k) (''queries['' @ show_nat k @ '']'') = Some e"
      and before: "\<forall>j<k. validate_preQuery (qs ! j) (''queries['' @ show_nat j @ '']'') = None"
      by (auto simp: validate_items_Some)
    have "\<not> complete_query (qs ! k)" using k(2) validate_query_None by (metis option.distinct(1))
    moreover have "list_all complete_query (take k qs)"
      using before k(1) by (simp add: list_all_length validate_query_None)
    ultimately have c: "\<not> complete_query (qs ! k)" "list_all complete_query (take k qs)" .
    have "if pq_Query (qs ! k) = None
        then e = ErrorString (''field queries['' @ show_nat k @ ''].query is required'')
        else \<exists>i < length (the (pq_Params (qs ! k))).
          e = ErrorString (''field queries['' @ show_nat k @ ''].params['' @ show_nat i @ ''].value is required'') \<and>
          pp_Value (the (pq_Params (qs ! k)) ! i) = None \<and> (\<forall>j < i. pp_Value (the (pq_Params (qs ! k)) ! j) \<noteq> None)"
      using k(2) by (auto simp: validate_preQuery_def required_def field_def validate_items_Some
          validate_preQueryParam_def split: option.splits if_splits)
    with c k(1) Some e run show ?thesis by auto
  qed
qed

lemma request_decoding_strict_witness:
  "UnmarshalJSON_DatabaseQueryInput
     (\<lambda>d. Inr \<lparr>pi_Queries = Some [\<lparr>pq_TxId = None, pq_Query = None, pq_Params = None\<rparr>]\<rparr>) ''{}'' =
     Inl (ErrorString ''field queries[0].query is required'')"
  using request_decoding_strict
    [of "\<lambda>d. Inr \<lparr>pi_Queries = Some [\<lparr>pq_TxId = None, pq_Query = None, pq_Params = None\<rparr>]\<rparr>" "''{}''",
     OF refl]
  by (auto simp: complete_query_def show_nat_eval digit_eval split: sum.splits)

end
