(* ===== verification/Encoding.thy ===== *)
theory Encoding
  imports Prelude
begin

text \<open>
  The byte encodings of the wire formats: \<open>base64.StdEncoding\<close>, in which blobs travel,
  \<open>hex.DecodeString\<close> and the verb \<open>%x\<close> of package \<open>fmt\<close>. The decoders follow the Go standard
  library, the positions in their errors included. A \<open>codec\<close> is a pair that undoes itself; the two
  encodings are interpreted as one, so their encoders are injective.
\<close>

section \<open>Codecs\<close>

locale codec =
  fixes enc :: "bytes \<Rightarrow> string" and dec :: "string \<Rightarrow> 'e + bytes"
  assumes dec_enc: "dec (enc d) = Inr d"
begin

lemma enc_inject: "enc c = enc d \<longleftrightarrow> c = d"
  by (metis dec_enc sum.inject(2))

lemma accepted: "\<not> isl (dec (enc d))"
  by (simp add: dec_enc)

end

section \<open>Base64\<close>

text \<open>The standard alphabet: the letter of a 6-bit value, and the value of a letter.\<close>

definition b64_char :: "nat \<Rightarrow> char" where
  "b64_char v =
     char_of (if v < 26 then v + 65 else if v < 52 then v + 71 else if v < 62 then v - 4
              else if v = 62 then 43 else 47 :: nat)"

definition b64_val :: "char \<Rightarrow> nat option" where
  "b64_val ch =
     (let n = of_char ch :: nat in
      if 65 \<le> n \<and> n \<le> 90 then Some (n - 65)
      else if 97 \<le> n \<and> n \<le> 122 then Some (n - 71)
      else if 48 \<le> n \<and> n \<le> 57 then Some (n + 4)
      else if n = 43 then Some 62
      else if n = 47 then Some 63
      else None)"

definition byte :: "nat \<Rightarrow> char" where
  "byte n = char_of n"

definition code :: "char \<Rightarrow> nat" where
  "code ch = of_char ch"

fun EncodeToString :: "bytes \<Rightarrow> string" where
  "EncodeToString [] = []"
| "EncodeToString [x] =
     [b64_char (code x div 4), b64_char (code x mod 4 * 16), CHR ''='', CHR ''='']"
| "EncodeToString [x, y] =
     [b64_char (code x div 4), b64_char (code x mod 4 * 16 + code y div 16),
      b64_char (code y mod 16 * 4), CHR ''='']"
| "EncodeToString (x # y # z # r) =
     b64_char (code x div 4) # b64_char (code x mod 4 * 16 + code y div 16) #
     b64_char (code y mod 16 * 4 + code z div 64) # b64_char (code z mod 64) # EncodeToString r"

text \<open>The bytes of a quantum of two, three or four 6-bit values.\<close>

fun quantum :: "nat list \<Rightarrow> bytes" where
  "quantum [p, q] = [byte (p * 4 + q div 16)]"
| "quantum [p, q, r] = [byte (p * 4 + q div 16), byte (q mod 16 * 16 + r div 4)]"
| "quantum [p, q, r, s] =
     [byte (p * 4 + q div 16), byte (q mod 16 * 16 + r div 4), byte (r mod 4 * 64 + s)]"
| "quantum _ = []"

definition is_newline :: "char \<Rightarrow> bool" where
  "is_newline ch \<longleftrightarrow> ch = CHR 0x0A \<or> ch = CHR 0x0D"

fun skip_newlines :: "nat \<Rightarrow> string \<Rightarrow> nat \<times> string" where
  "skip_newlines si [] = (si, [])"
| "skip_newlines si (ch # cs) = (if is_newline ch then skip_newlines (si + 1) cs else (si, ch # cs))"

text \<open>
  What follows the padding: only newlines. An error is the offset in a \<open>CorruptInputError\<close>.
\<close>

definition after_padding :: "nat \<Rightarrow> nat list \<Rightarrow> string \<Rightarrow> nat + bytes" where
  "after_padding si buf cs =
     (case skip_newlines si cs of
        (si1, []) \<Rightarrow> Inr (quantum buf)
      | (si1, _) \<Rightarrow> Inl si1)"

text \<open>\<open>si\<close> is the position in the text and \<open>buf\<close> the values of the quantum read so far.\<close>

fun decode_from :: "nat \<Rightarrow> nat list \<Rightarrow> string \<Rightarrow> nat + bytes" where
  "decode_from si buf [] = (if buf = [] then Inr [] else Inl (si - length buf))"
| "decode_from si buf (ch # cs) =
     (case b64_val ch of
        Some v \<Rightarrow>
          if length buf = 3 then
            map_sum id ((@) (quantum (buf @ [v]))) (decode_from (si + 1) [] cs)
          else decode_from (si + 1) (buf @ [v]) cs
      | None \<Rightarrow>
          if is_newline ch then decode_from (si + 1) buf cs
          else if ch \<noteq> CHR ''='' \<or> length buf < 2 then Inl si
          else if length buf = 2 then
            (case skip_newlines (si + 1) cs of
               (si1, []) \<Rightarrow> Inl si1
             | (si1, d # ds) \<Rightarrow>
                 if d \<noteq> CHR ''='' then Inl (si1 - 1) else after_padding (si1 + 1) buf ds)
          else after_padding (si + 1) buf cs)"

definition CorruptInputError :: "nat \<Rightarrow> go_error" where
  "CorruptInputError n = ErrorString (''illegal base64 data at input byte '' @ show_nat n)"

definition DecodeString :: "string \<Rightarrow> go_error + bytes" where
  "DecodeString s = map_sum CorruptInputError id (decode_from 0 [] s)"

lemma code_less [simp]: "code ch < 256"
  by (simp add: code_def)

lemma byte_code [simp]: "byte (code ch) = ch"
  by (simp add: byte_def code_def)

lemma b64_val_char [simp]: "v < 64 \<Longrightarrow> b64_val (b64_char v) = Some v"
  by (auto simp: b64_val_def b64_char_def Let_def)

lemma b64_val_pad [simp]: "b64_val (CHR ''='') = None" "is_newline (CHR ''='') = False"
  by code_simp+

lemma six_bits [simp]:
  "code x div 4 < 64" "code x mod 4 * 16 < 64" "code x mod 4 * 16 + code y div 16 < 64"
  "code y mod 16 * 4 < 64" "code y mod 16 * 4 + code z div 64 < 64" "code z mod 64 < 64"
  using code_less [of x] code_less [of y] code_less [of z] by linarith+

lemma high_bits [simp]:
  "code x div 16 div 16 = 0" "code x div 64 div 4 = 0" "code x div 16 mod 16 = code x div 16"
  "code x div 64 mod 4 = code x div 64"
proof -
  have "code x div 16 < 16" "code x div 64 < 4" using code_less [of x] by linarith+
  then show "code x div 16 div 16 = 0" "code x div 64 div 4 = 0" "code x div 16 mod 16 = code x div 16"
    "code x div 64 mod 4 = code x div 64" by auto
qed

lemma decode_encode: "decode_from si [] (EncodeToString d) = Inr d"
  by (induction d arbitrary: si rule: EncodeToString.induct) (simp_all add: after_padding_def)

interpretation b64: codec EncodeToString DecodeString
  by unfold_locales (simp add: DecodeString_def decode_encode)

section \<open>Hexadecimal\<close>

definition hex_digit :: "nat \<Rightarrow> char" where
  "hex_digit v = (if v < 10 then byte (v + 48) else byte (v + 87))"

definition hex_val :: "char \<Rightarrow> nat option" where
  "hex_val ch =
     (if 48 \<le> code ch \<and> code ch \<le> 57 then Some (code ch - 48)
      else if 97 \<le> code ch \<and> code ch \<le> 102 then Some (code ch - 87)
      else if 65 \<le> code ch \<and> code ch \<le> 70 then Some (code ch - 55)
      else None)"

text \<open>\<open>fmt.Sprintf("%x", d)\<close>, and \<open>hex.DecodeString\<close>, whose error the program only tests.\<close>

fun hex_Encode :: "bytes \<Rightarrow> string" where
  "hex_Encode [] = []"
| "hex_Encode (x # xs) = hex_digit (code x div 16) # hex_digit (code x mod 16) # hex_Encode xs"

fun hex_Decode :: "string \<Rightarrow> unit + bytes" where
  "hex_Decode [] = Inr []"
| "hex_Decode [ch] = Inl ()"
| "hex_Decode (ch # dh # cs) =
     (case (hex_val ch, hex_val dh) of
        (Some p, Some q) \<Rightarrow> map_sum id ((#) (byte (p * 16 + q))) (hex_Decode cs)
      | _ \<Rightarrow> Inl ())"

lemma hex_val_digit [simp]: "v < 16 \<Longrightarrow> hex_val (hex_digit v) = Some v"
  by (auto simp: hex_val_def hex_digit_def code_def byte_def)

lemma four_bits [simp]: "code x div 16 < 16"
  using code_less [of x] by linarith

interpretation hex: codec hex_Encode hex_Decode
proof
  show "hex_Decode (hex_Encode d) = Inr d" for d
    by (induction d) auto
qed

end
