(* ===== verification/Auth.thy ===== *)
theory Auth
  imports Encoding
begin

text \<open>
  Authentication: \<open>internal/server/auth.go\<close> and \<open>internal/util/cryptoutil\<close>. The hash functions are
  parameters, collected in \<open>crypto\<close>: SHA-256, and the comparisons of the argon2id and bcrypt
  packages. An HTTP request enters as its \<open>Authorization\<close> header. The cache is the \<open>sync.Map\<close> from
  the hash of the salted token to the role.
\<close>

section \<open>Errors with an HTTP status\<close>

definition NewJSONError :: "nat \<Rightarrow> go_error \<Rightarrow> string \<Rightarrow> go_error" where
  "NewJSONError status e safeMessage = JSONErr e status safeMessage"

definition unauthorizedError :: go_error where
  "unauthorizedError = NewJSONError 401 (ErrorString ''Unauthorized'') ''Unauthorized''"

definition forbiddenError :: go_error where
  "forbiddenError = NewJSONError 403 (ErrorString ''Forbidden'') ''Forbidden''"

section \<open>Hash algorithms\<close>

record crypto =
  Sum256 :: "bytes \<Rightarrow> bytes"
  ComparePasswordAndHash :: "string \<Rightarrow> string \<Rightarrow> go_error + bool"
  CompareHashAndPassword :: "bytes \<Rightarrow> bytes \<Rightarrow> go_error option"

type_synonym HashAlgo = string

definition HashAlgoPlaintext :: HashAlgo where "HashAlgoPlaintext = ''plaintext''"
definition HashAlgoArgon2ID :: HashAlgo where "HashAlgoArgon2ID = ''argon2id''"
definition HashAlgoBcrypt :: HashAlgo where "HashAlgoBcrypt = ''bcrypt''"

lemmas hash_algo_defs = HashAlgoPlaintext_def HashAlgoArgon2ID_def HashAlgoBcrypt_def

definition GetHashAlgo :: "string \<Rightarrow> HashAlgo" where
  "GetHashAlgo token =
     (if HasPrefix token ''$argon2id$'' then HashAlgoArgon2ID
      else if HasPrefix token ''$2a$'' \<or> HasPrefix token ''$2b$'' \<or> HasPrefix token ''$2y$''
      then HashAlgoBcrypt
      else HashAlgoPlaintext)"

definition Argon2IDCheckHash :: "crypto \<Rightarrow> string \<Rightarrow> string \<Rightarrow> bool" where
  "Argon2IDCheckHash K password hash =
     (case ComparePasswordAndHash K password hash of Inl e \<Rightarrow> False | Inr match \<Rightarrow> match)"

definition BcryptCheckHash :: "crypto \<Rightarrow> string \<Rightarrow> string \<Rightarrow> bool" where
  "BcryptCheckHash K password hash \<longleftrightarrow> CompareHashAndPassword K hash password = None"

section \<open>Tokens\<close>

type_synonym authRole = string

definition authRoleAdmin :: authRole where "authRoleAdmin = ''admin''"
definition authRoleReadWrite :: authRole where "authRoleReadWrite = ''read-write''"
definition authRoleReadOnly :: authRole where "authRoleReadOnly = ''read-only''"

lemmas auth_role_defs = authRoleAdmin_def authRoleReadWrite_def authRoleReadOnly_def

record authToken =
  at_role :: authRole
  at_algo :: HashAlgo
  at_value :: string

record auth =
  authTokens :: "authToken list"
  authTokenCache :: "bytes \<rightharpoonup> authRole"
  authTokenSalt :: string

definition newAuthTokens :: "string list \<Rightarrow> string list \<Rightarrow> string list \<Rightarrow> authToken list" where
  "newAuthTokens adminTokens readWriteTokens readOnlyTokens =
     map (\<lambda>t. \<lparr>at_role = authRoleAdmin, at_algo = GetHashAlgo t, at_value = t\<rparr>) adminTokens @
     map (\<lambda>t. \<lparr>at_role = authRoleReadWrite, at_algo = GetHashAlgo t, at_value = t\<rparr>) readWriteTokens @
     map (\<lambda>t. \<lparr>at_role = authRoleReadOnly, at_algo = GetHashAlgo t, at_value = t\<rparr>) readOnlyTokens"

definition checkAuthToken :: "crypto \<Rightarrow> HashAlgo \<Rightarrow> string \<Rightarrow> string \<Rightarrow> bool" where
  "checkAuthToken K tokenAlgo clientToken serverToken =
     (if tokenAlgo = HashAlgoPlaintext then clientToken = serverToken
      else if tokenAlgo = HashAlgoArgon2ID then Argon2IDCheckHash K clientToken serverToken
      else if tokenAlgo = HashAlgoBcrypt then BcryptCheckHash K clientToken serverToken
      else False)"

definition authIsDisabled :: "auth \<Rightarrow> bool" where
  "authIsDisabled s \<longleftrightarrow> length (authTokens s) = 0"

text \<open>The scan of the configured tokens.\<close>

definition find_token :: "crypto \<Rightarrow> string \<Rightarrow> authToken list \<Rightarrow> authToken option" where
  "find_token K clientToken = List.find (\<lambda>t. checkAuthToken K (at_algo t) clientToken (at_value t))"

definition principal_of :: "crypto \<Rightarrow> string \<Rightarrow> string \<Rightarrow> string" where
  "principal_of K salt clientToken = hex_Encode (Sum256 K (salt @ clientToken))"

definition checkAuthWithCache :: "crypto \<Rightarrow> string \<Rightarrow> auth \<Rightarrow> (authRole \<times> string \<times> bool) \<times> auth" where
  "checkAuthWithCache K clientToken s =
     (if clientToken = [] then (('''', '''', False), s)
      else
        let hash = Sum256 K (authTokenSalt s @ clientToken);
            pal = hex_Encode hash in
        case authTokenCache s hash of
          Some r \<Rightarrow> ((r, pal, True), s)
        | None \<Rightarrow>
            (case find_token K clientToken (authTokens s) of
               Some t \<Rightarrow> ((at_role t, pal, True),
                          s\<lparr>authTokenCache := (authTokenCache s)(hash \<mapsto> at_role t)\<rparr>)
             | None \<Rightarrow> (('''', '''', False), s)))"

text \<open>\<open>header\<close> is \<open>r.Header.Get("Authorization")\<close>.\<close>

definition bearer_token :: "string \<Rightarrow> string" where
  "bearer_token header = TrimPrefix (TrimPrefix header ''Bearer '') ''bearer ''"

definition authenticateRequest ::
  "crypto \<Rightarrow> string \<Rightarrow> auth \<Rightarrow> (go_error + authRole \<times> string) \<times> auth" where
  "authenticateRequest K header s =
     (if authIsDisabled s then (Inr (authRoleAdmin, ''''), s)
      else
        let clientAuthToken = bearer_token header in
        if clientAuthToken = [] then (Inl unauthorizedError, s)
        else
          case checkAuthWithCache K clientAuthToken s of
            ((r, pal, ok), s1) \<Rightarrow>
              (if \<not> ok then Inl unauthorizedError else Inr (r, pal), s1))"

section \<open>A service whose state does not show\<close>

text \<open>
  \<open>serve\<close> answers a request and changes a state; \<open>spec\<close> answers it without one. While the requests
  are among \<open>K\<close> the invariant \<open>inv\<close> is kept and the two agree, so no history of requests shows in an
  answer.
\<close>

locale pure_service =
  fixes serve :: "'k \<Rightarrow> 's \<Rightarrow> 'v \<times> 's" and spec :: "'k \<Rightarrow> 'v" and inv :: "'s \<Rightarrow> bool" and K :: "'k set"
  assumes answers: "\<lbrakk>inv s; k \<in> K\<rbrakk> \<Longrightarrow> fst (serve k s) = spec k"
    and keeps_inv: "\<lbrakk>inv s; k \<in> K\<rbrakk> \<Longrightarrow> inv (snd (serve k s))"
begin

lemma inv_after: "\<lbrakk>inv s; set ks \<subseteq> K\<rbrakk> \<Longrightarrow> inv (fold (\<lambda>k s. snd (serve k s)) ks s)"
  by (induction ks arbitrary: s) (auto simp: keeps_inv)

lemma answers_after: "\<lbrakk>inv s; set ks \<subseteq> K; k \<in> K\<rbrakk> \<Longrightarrow> fst (serve k (fold (\<lambda>k s. snd (serve k s)) ks s)) = spec k"
  by (simp add: answers inv_after)

end

text \<open>The answer of the scan alone, and what the cache may hold: for tokens among \<open>T\<close> without
  a hash collision, the role that the scan finds.\<close>

definition scan :: "crypto \<Rightarrow> string \<Rightarrow> authToken list \<Rightarrow> string \<Rightarrow> authRole \<times> string \<times> bool" where
  "scan K salt tokens clientToken =
     (if clientToken = [] then ('''', '''', False)
      else case find_token K clientToken tokens of
        Some t \<Rightarrow> (at_role t, principal_of K salt clientToken, True)
      | None \<Rightarrow> ('''', '''', False))"

definition collision_free :: "crypto \<Rightarrow> string \<Rightarrow> string set \<Rightarrow> bool" where
  "collision_free K salt T \<longleftrightarrow> inj_on (\<lambda>t. Sum256 K (salt @ t)) T"

definition cache_ok :: "crypto \<Rightarrow> string \<Rightarrow> authToken list \<Rightarrow> string set \<Rightarrow> auth \<Rightarrow> bool" where
  "cache_ok K salt tokens T s \<longleftrightarrow>
     authTokenSalt s = salt \<and> authTokens s = tokens \<and> collision_free K salt T \<and>
     (\<forall>t \<in> T. \<forall>r. authTokenCache s (Sum256 K (salt @ t)) = Some r \<longrightarrow>
        map_option at_role (find_token K t tokens) = Some r)"

interpretation auth: pure_service "checkAuthWithCache K" "scan K salt tokens" "cache_ok K salt tokens T" T
  for K salt tokens T
proof
  fix s k
  assume s: "cache_ok K salt tokens T s" and k: "k \<in> T"
  show "fst (checkAuthWithCache K k s) = scan K salt tokens k"
    using s k
    by (auto simp: checkAuthWithCache_def scan_def cache_ok_def principal_of_def Let_def
        split: option.splits)
  show "cache_ok K salt tokens T (snd (checkAuthWithCache K k s))"
    using s k
    by (auto simp: checkAuthWithCache_def cache_ok_def Let_def collision_free_def inj_on_def
        split: option.splits)
qed

text \<open>The server as \<open>NewServer\<close> sets it up, and after a sequence of authentications.\<close>

definition new_auth :: "string list \<Rightarrow> string list \<Rightarrow> string list \<Rightarrow> string \<Rightarrow> auth" where
  "new_auth adminTokens readWriteTokens readOnlyTokens salt =
     \<lparr>authTokens = newAuthTokens adminTokens readWriteTokens readOnlyTokens,
      authTokenCache = Map.empty, authTokenSalt = salt\<rparr>"

definition after_checks :: "crypto \<Rightarrow> string list \<Rightarrow> auth \<Rightarrow> auth" where
  "after_checks K clientTokens s = fold (\<lambda>t s. snd (checkAuthWithCache K t s)) clientTokens s"

lemma new_auth_ok:
  "collision_free K salt T \<Longrightarrow>
   cache_ok K salt (newAuthTokens as ws rs) T (new_auth as ws rs salt)"
  by (simp add: new_auth_def cache_ok_def)

definition matches :: "crypto \<Rightarrow> string \<Rightarrow> string list \<Rightarrow> bool" where
  "matches K clientToken tokens \<longleftrightarrow>
     list_ex (\<lambda>t. checkAuthToken K (GetHashAlgo t) clientToken t) tokens"

lemma find_append: "List.find P (xs @ ys) = (case List.find P xs of None \<Rightarrow> List.find P ys | Some x \<Rightarrow> Some x)"
  by (induction xs) auto

lemma find_role:
  "map_option at_role (List.find P (map (\<lambda>t. \<lparr>at_role = r, at_algo = f t, at_value = t\<rparr>) ts)) =
   (if list_ex (\<lambda>t. P \<lparr>at_role = r, at_algo = f t, at_value = t\<rparr>) ts then Some r else None)"
  by (induction ts) auto

lemma find_token_role:
  "map_option at_role (find_token K c (newAuthTokens as ws rs)) =
   (if matches K c as then Some authRoleAdmin
    else if matches K c ws then Some authRoleReadWrite
    else if matches K c rs then Some authRoleReadOnly else None)"
proof -
  let ?P = "\<lambda>t. checkAuthToken K (at_algo t) c (at_value t)"
  have m: "map_option at_role (case x of None \<Rightarrow> y | Some v \<Rightarrow> Some v) =
      (case map_option at_role x of None \<Rightarrow> map_option at_role y | Some v \<Rightarrow> Some v)" for x y :: "authToken option"
    by (cases x) auto
  show ?thesis
    by (simp add: find_token_def newAuthTokens_def find_append m find_role matches_def)
qed

definition granted :: "crypto \<Rightarrow> string list \<Rightarrow> string list \<Rightarrow> string list \<Rightarrow> string \<Rightarrow> authRole option" where
  "granted K as ws rs c =
     (if c = [] then None
      else if matches K c as then Some authRoleAdmin
      else if matches K c ws then Some authRoleReadWrite
      else if matches K c rs then Some authRoleReadOnly else None)"

lemma scan_granted:
  "scan K salt (newAuthTokens as ws rs) c =
   (case granted K as ws rs c of
      None \<Rightarrow> ('''', '''', False) | Some r \<Rightarrow> (r, principal_of K salt c, True))"
  using find_token_role [of K c as ws rs]
  by (cases "find_token K c (newAuthTokens as ws rs)") (auto simp: scan_def granted_def split: if_splits)

lemma authenticate_scan:
  assumes "cache_ok K salt tokens T s" "bearer_token header \<in> T" "tokens \<noteq> []"
  shows "fst (authenticateRequest K header s) =
    (case scan K salt tokens (bearer_token header) of
       (r, p, ok) \<Rightarrow> if ok then Inr (r, p) else Inl unauthorizedError)"
proof -
  have "\<not> authIsDisabled s" using assms(1,3) by (auto simp: authIsDisabled_def cache_ok_def)
  moreover obtain s1 where
    "checkAuthWithCache K (bearer_token header) s = (scan K salt tokens (bearer_token header), s1)"
    using auth.answers [OF assms(1,2)] by (metis prod.collapse)
  ultimately show ?thesis
    by (cases "bearer_token header = []")
      (simp_all add: authenticateRequest_def scan_def split: prod.split)
qed

text \<open>The answer after any checks of tokens among \<open>T\<close>.\<close>

lemma authenticate_after:
  assumes "collision_free K salt T" "set sent \<subseteq> T" "bearer_token h \<in> T"
  shows "fst (authenticateRequest K h (after_checks K sent (new_auth as ws rs salt))) =
    (if as = [] \<and> ws = [] \<and> rs = [] then Inr (authRoleAdmin, '''')
     else case granted K as ws rs (bearer_token h) of
       None \<Rightarrow> Inl unauthorizedError
     | Some r \<Rightarrow> Inr (r, principal_of K salt (bearer_token h)))"
proof -
  let ?tokens = "newAuthTokens as ws rs" and ?s = "after_checks K sent (new_auth as ws rs salt)"
  have ok: "cache_ok K salt ?tokens T ?s"
    unfolding after_checks_def by (rule auth.inv_after [OF new_auth_ok [OF assms(1)] assms(2)])
  have nil: "?tokens = [] \<longleftrightarrow> as = [] \<and> ws = [] \<and> rs = []"
    by (auto simp: newAuthTokens_def)
  show ?thesis
  proof (cases "?tokens = []")
    case True
    with ok nil show ?thesis by (simp add: authenticateRequest_def authIsDisabled_def cache_ok_def)
  next
    case False
    with authenticate_scan [OF ok assms(3)] nil show ?thesis
      by (auto simp: scan_granted split: option.splits)
  qed
qed

lemma principal_inject:
  assumes "collision_free K salt T" "c \<in> T" "d \<in> T"
  shows "principal_of K salt c = principal_of K salt d \<longleftrightarrow> c = d"
  using assms by (auto simp: principal_of_def hex.enc_inject collision_free_def inj_on_def)

text \<open>C15. Whoever asked before, the answer to a request depends on its own token only: it is the
  strongest role for which a configured token matches (admin before read-write before read-only),
  and an unauthorized error when none does or no token was sent; only a server without any token
  lets everybody in as admin. Two tokens that are accepted get the same principal only when they
  are the same. This holds as long as the salted SHA-256 hashes of the tokens that were sent
  do not collide.\<close>

theorem authentication_is_history_free:
  assumes "collision_free K salt T" and "set sent \<subseteq> T" "bearer_token h \<in> T" "bearer_token h' \<in> T"
    and "s = after_checks K sent (new_auth as ws rs salt)"
  shows "(as = [] \<and> ws = [] \<and> rs = [] \<longrightarrow> fst (authenticateRequest K h s) = Inr (authRoleAdmin, '''')) \<and>
    (\<not> (as = [] \<and> ws = [] \<and> rs = []) \<longrightarrow>
      fst (authenticateRequest K h s) =
        (case granted K as ws rs (bearer_token h) of
           None \<Rightarrow> Inl unauthorizedError
         | Some r \<Rightarrow> Inr (r, principal_of K salt (bearer_token h))) \<and>
      (\<forall>r r' p. fst (authenticateRequest K h s) = Inr (r, p) \<and>
         fst (authenticateRequest K h' s) = Inr (r', p) \<longrightarrow> bearer_token h = bearer_token h'))"
  using authenticate_after [OF assms(1,2,3), of as ws rs] authenticate_after [OF assms(1,2,4), of as ws rs]
    principal_inject [OF assms(1,3,4)]
  unfolding assms(5) by (auto split: option.splits)

text \<open>The identity is a hash without collisions.\<close>

definition id_crypto :: crypto where
  "id_crypto = \<lparr>Sum256 = (\<lambda>d. d), ComparePasswordAndHash = (\<lambda>p h. Inr (p = drop 10 h)),
     CompareHashAndPassword = (\<lambda>h p. if p = drop 4 h then None else Some (ErrorString ''mismatch''))\<rparr>"

lemma authentication_is_history_free_witness:
  "fst (authenticateRequest id_crypto ''Bearer root''
     (after_checks id_crypto [''root'', ''guess'', ''view''] (new_auth [''$2a$root''] [] [''view''] ''salt''))) =
   Inr (''admin'', principal_of id_crypto ''salt'' ''root'')"
proof -
  have "bearer_token ''Bearer root'' = ''root''"
    by (simp add: bearer_token_def TrimPrefix_def HasPrefix_def)
  moreover have "granted id_crypto [''$2a$root''] [] [''view''] ''root'' = Some ''admin''"
    by (simp add: granted_def matches_def GetHashAlgo_def HasPrefix_def checkAuthToken_def
        hash_algo_defs BcryptCheckHash_def id_crypto_def auth_role_defs)
  moreover have "collision_free id_crypto ''salt'' {''root'', ''guess'', ''view''}"
    by (simp add: collision_free_def id_crypto_def)
  ultimately show ?thesis
    using authentication_is_history_free [of id_crypto "''salt''" "{''root'', ''guess'', ''view''}"
        "[''root'', ''guess'', ''view'']" "''Bearer root''" "''Bearer root''" _ "[''$2a$root'']" "[]" "[''view'']", OF _ _ _ _ refl]
    by simp
qed

end
