(* ===== verification/Gotime.thy ===== *)
theory Gotime
  imports Prelude
begin

text \<open>
  The parts of Go's package \<open>time\<close> that the statistics use. A \<open>time.Time\<close> in UTC is the number of
  nanoseconds since Go's zero time, 0001-01-01T00:00:00Z; a \<open>time.Duration\<close> is a number of
  nanoseconds. \<open>Format\<close> and \<open>Parse\<close> are for the layout \<open>time.RFC3339\<close> in UTC with whole seconds,
  the only shape of text the program formats and parses back.
\<close>

type_synonym time = int
type_synonym duration = int

definition Second :: duration where "Second = 1000000000"
definition Minute :: duration where "Minute = 60 * Second"
definition Hour :: duration where "Hour = 60 * Minute"

lemmas duration_defs = Second_def Minute_def Hour_def

definition Truncate :: "time \<Rightarrow> duration \<Rightarrow> time" where
  "Truncate t d = (if d \<le> 0 then t else t - t mod d)"

section \<open>The calendar\<close>

text \<open>\<open>days_before k\<close>: days from the zero time to January 1st of year \<open>k + 1\<close>.\<close>

definition days_before :: "nat \<Rightarrow> nat" where
  "days_before k = 365 * k + k div 4 + k div 400 - k div 100"

function years_from :: "nat \<Rightarrow> nat \<Rightarrow> nat" where
  "years_from d k = (if days_before (Suc k) \<le> d then years_from d (Suc k) else k)"
  by pat_completeness auto
termination
proof (relation "measure (\<lambda>(d, k). d - k)")
  fix d k assume "days_before (Suc k) \<le> d"
  then have "k < d" by (simp add: days_before_def)
  then show "((d, Suc k), d, k) \<in> measure (\<lambda>(d, k). d - k)" by simp
qed simp

declare years_from.simps [simp del]

lemma years_from_eval:
  "d < days_before (Suc k) \<Longrightarrow> years_from d k = k"
  "days_before (Suc k) \<le> d \<Longrightarrow> years_from d k = years_from d (Suc k)"
  by (simp_all add: years_from.simps [of d k])

definition leap :: "nat \<Rightarrow> bool" where
  "leap y \<longleftrightarrow> 4 dvd y \<and> (\<not> 100 dvd y \<or> 400 dvd y)"

definition month_lengths :: "nat \<Rightarrow> nat list" where
  "month_lengths y = [31, if leap y then 29 else 28, 31, 30, 31, 30, 31, 31, 30, 31, 30, 31]"

text \<open>Month (from 0) and day (from 0) of a day of the year.\<close>

fun month_day :: "nat list \<Rightarrow> nat \<Rightarrow> nat \<times> nat" where
  "month_day [] d = (0, d)"
| "month_day [n] d = (0, d)"
| "month_day (n # m # ns) d =
     (if d < n then (0, d) else let (i, r) = month_day (m # ns) (d - n) in (Suc i, r))"

definition days_of_date :: "nat \<Rightarrow> nat \<Rightarrow> nat \<Rightarrow> nat" where
  "days_of_date y m d = days_before (y - 1) + sum_list (take (m - 1) (month_lengths y)) + (d - 1)"

lemma days_before_le: "days_before k \<le> 366 * k"
  by (simp add: days_before_def)

lemma days_before_ge: "365 * k \<le> days_before k"
  by (simp add: days_before_def div_le_mono2)

lemma years_from_correct:
  "days_before k \<le> d \<Longrightarrow>
   days_before (years_from d k) \<le> d \<and> d < days_before (Suc (years_from d k))"
proof (induction d k rule: years_from.induct)
  case (1 d k)
  then show ?case by (cases "days_before (Suc k) \<le> d") (simp_all add: years_from.simps [of d k])
qed

lemma month_day_sum:
  "month_day ns d = (i, r) \<Longrightarrow> ns \<noteq> [] \<Longrightarrow> i < length ns \<and> sum_list (take i ns) + r = d"
proof (induction ns d arbitrary: i r rule: month_day.induct)
  case (3 n m ns d)
  then show ?case by (cases "d < n") (auto split: prod.splits)
qed auto

lemma month_day_bound:
  "month_day ns d = (i, r) \<Longrightarrow> d < sum_list ns \<Longrightarrow> r < ns ! i"
proof (induction ns d arbitrary: i r rule: month_day.induct)
  case (3 n m ns d)
  then show ?case by (cases "d < n") (auto split: prod.splits)
qed auto

text \<open>The quotients that count leap days move exactly at the years that divide.\<close>

lemma div_Suc_step: "0 < n \<Longrightarrow> Suc k div n = k div n + (if n dvd Suc k then 1 else 0)"
  by (simp add: div_Suc mod_eq_0_iff_dvd)

lemma leap_count:
  fixes a b c k :: nat
  assumes "q400 \<Longrightarrow> q100" "q100 \<Longrightarrow> q4" "b \<le> 365 * k + a + c"
  shows "365 * Suc k + (a + (if q4 then 1 else 0)) + (c + (if q400 then 1 else 0)) -
      (b + (if q100 then 1 else 0)) =
    365 * k + a + c - b + (if q4 \<and> (\<not> q100 \<or> q400) then 366 else 365)"
  using assms by (cases q4; cases q100; cases q400) simp_all

lemma days_before_Suc: "days_before (Suc k) = days_before k + (if leap (Suc k) then 366 else 365)"
proof -
  have "k div 100 \<le> k div 4" by (simp add: div_le_mono2)
  then have le: "k div 100 \<le> 365 * k + k div 4 + k div 400" by linarith
  have d: "4 dvd (100 :: nat)" "100 dvd (400 :: nat)" by presburger+
  have s: "Suc k div 4 = k div 4 + (if 4 dvd Suc k then 1 else 0)"
    "Suc k div 100 = k div 100 + (if 100 dvd Suc k then 1 else 0)"
    "Suc k div 400 = k div 400 + (if 400 dvd Suc k then 1 else 0)"
    by (rule div_Suc_step, simp)+
  show ?thesis unfolding days_before_def s leap_def
    by (rule leap_count [OF dvd_trans [OF d(2)] dvd_trans [OF d(1)] le])
qed

lemma sum_month_lengths: "sum_list (month_lengths y) = (if leap y then 366 else 365)"
  by (simp add: month_lengths_def)

section \<open>RFC 3339\<close>

definition pad :: "nat \<Rightarrow> nat \<Rightarrow> string" where
  "pad w n = replicate (w - length (show_nat n)) (CHR ''0'') @ show_nat n"

definition Format :: "time \<Rightarrow> string" where
  "Format t =
     (let secs = nat (t div Second); d = secs div 86400; s = secs mod 86400;
          k = years_from d (d div 366);
          (m, r) = month_day (month_lengths (Suc k)) (d - days_before k) in
      pad 4 (Suc k) @ ''-'' @ pad 2 (Suc m) @ ''-'' @ pad 2 (Suc r) @ ''T'' @
      pad 2 (s div 3600) @ '':'' @ pad 2 (s div 60 mod 60) @ '':'' @ pad 2 (s mod 60) @ ''Z'')"

definition field :: "nat \<Rightarrow> nat \<Rightarrow> string \<Rightarrow> string" where
  "field i n s = take n (drop i s)"

definition Parse :: "string \<Rightarrow> time option" where
  "Parse s =
     (let digits = concat [field 0 4 s, field 5 2 s, field 8 2 s, field 11 2 s, field 14 2 s,
                           field 17 2 s];
          y = read_digits 0 (field 0 4 s); m = read_digits 0 (field 5 2 s);
          d = read_digits 0 (field 8 2 s); hh = read_digits 0 (field 11 2 s);
          mm = read_digits 0 (field 14 2 s); ss = read_digits 0 (field 17 2 s) in
      if length s = 20 \<and> list_all is_digit digits \<and>
         field 4 1 s = ''-'' \<and> field 7 1 s = ''-'' \<and> field 10 1 s = ''T'' \<and>
         field 13 1 s = '':'' \<and> field 16 1 s = '':'' \<and> field 19 1 s = ''Z'' \<and>
         1 \<le> y \<and> 1 \<le> m \<and> m \<le> 12 \<and> 1 \<le> d \<and> d \<le> month_lengths y ! (m - 1) \<and>
         hh < 24 \<and> mm < 60 \<and> ss < 60
      then Some (Second * int (days_of_date y m d * 86400 + hh * 3600 + mm * 60 + ss))
      else None)"

lemma read_zeros: "read_digits 0 (replicate k (CHR ''0'') @ s) = read_digits 0 s"
  by (induction k) (simp_all add: digit_val_def)

lemma read_pad [simp]: "read_digits 0 (pad w n) = n"
  by (simp add: pad_def read_zeros read_show_nat)

lemma length_show_nat: "n < 10 ^ w \<Longrightarrow> 0 < w \<Longrightarrow> length (show_nat n) \<le> w"
proof (induction n arbitrary: w rule: show_nat.induct)
  case (1 n)
  show ?case
  proof (cases "n < 10")
    case True
    with "1.prems" show ?thesis by (simp add: show_nat.simps [of n])
  next
    case False
    from False "1.prems" obtain v where v: "w = Suc v" "0 < v"
      by (cases w; cases "w - 1") auto
    from "1.prems" v have "n div 10 < 10 ^ v" by (simp add: less_mult_imp_div_less mult.commute)
    with "1.IH" [OF False] v have "length (show_nat (n div 10)) \<le> v" by blast
    with False v show ?thesis by (simp add: show_nat.simps [of n])
  qed
qed

lemma length_pad: "n < 10 ^ w \<Longrightarrow> 0 < w \<Longrightarrow> length (pad w n) = w"
  using length_show_nat [of n w] by (simp add: pad_def)

lemma pad_digits: "list_all is_digit (pad w n)"
  by (auto simp: pad_def list_all_iff is_digit_def dest: show_nat_digits [unfolded is_digit_def])

lemma split_fields:
  assumes "length y = 4" "length m = 2" "length d = 2" "length hh = 2" "length mm = 2"
    "length ss = 2"
  defines "s \<equiv> y @ ''-'' @ m @ ''-'' @ d @ ''T'' @ hh @ '':'' @ mm @ '':'' @ ss @ ''Z''"
  shows "length s = 20" "field 0 4 s = y" "field 5 2 s = m" "field 8 2 s = d"
    "field 11 2 s = hh" "field 14 2 s = mm" "field 17 2 s = ss" "field 4 1 s = ''-''"
    "field 7 1 s = ''-''" "field 10 1 s = ''T''" "field 13 1 s = '':''" "field 16 1 s = '':''"
    "field 19 1 s = ''Z''"
  using assms by (simp_all add: field_def)

text \<open>Year, month and day that \<open>Format\<close> prints.\<close>

lemma calendar_day:
  fixes d :: nat
  defines "k \<equiv> years_from d (d div 366)"
  assumes "month_day (month_lengths (Suc k)) (d - days_before k) = (m, r)"
  shows "m < 12 \<and> days_of_date (Suc k) (Suc m) (Suc r) = d \<and> r < month_lengths (Suc k) ! m"
proof -
  have "days_before (d div 366) \<le> d" using days_before_le [of "d div 366"] by linarith
  from years_from_correct [OF this] have k: "days_before k \<le> d" "d < days_before (Suc k)"
    by (simp_all add: k_def)
  have len: "length (month_lengths (Suc k)) = 12" by (simp add: month_lengths_def)
  from month_day_sum [OF assms(2)] len have m: "m < 12"
    and sum: "sum_list (take m (month_lengths (Suc k))) + r = d - days_before k"
    by (auto simp: month_lengths_def)
  have "d - days_before k < sum_list (month_lengths (Suc k))"
    using k by (simp add: days_before_Suc sum_month_lengths)
  from month_day_bound [OF assms(2) this] have r: "r < month_lengths (Suc k) ! m" .
  show ?thesis using m sum k r by (simp add: days_of_date_def)
qed

lemma days_before_mono: "j \<le> k \<Longrightarrow> days_before j \<le> days_before k"
  by (rule lift_Suc_mono_le [of days_before]) (simp_all add: days_before_Suc)

definition year_10000 :: time where
  "year_10000 = Second * int (days_before 9999 * 86400)"

lemma month_length_le: "i < 12 \<Longrightarrow> month_lengths y ! i \<le> 31"
  by (auto simp: month_lengths_def nth_Cons' split: if_splits)

lemma year_small: "d < days_before 9999 \<Longrightarrow> Suc (years_from d (d div 366)) < 10 ^ 4"
proof -
  assume d: "d < days_before 9999"
  have "days_before (d div 366) \<le> d" using days_before_le [of "d div 366"] by linarith
  with d have "days_before (years_from d (d div 366)) < days_before 9999"
    using years_from_correct by fastforce
  then have "years_from d (d div 366) < 9999"
    using days_before_mono [of 9999 "years_from d (d div 366)"] by (meson leD not_le_imp_less)
  then show ?thesis by simp
qed

lemma clock_fields:
  fixes s :: nat
  assumes "s < 86400"
  shows "s div 3600 < 24" "s div 60 mod 60 < 60" "s mod 60 < 60"
    "s div 3600 * 3600 + s div 60 mod 60 * 60 + s mod 60 = s"
proof -
  show "s div 3600 < 24" using assms by (simp add: less_mult_imp_div_less)
  have "s div 60 div 60 * 60 + s div 60 mod 60 = s div 60" by simp
  moreover have "s div 60 * 60 + s mod 60 = s" by simp
  moreover have "s div 60 div 60 = s div 3600" by (simp add: div_mult2_eq [symmetric])
  ultimately show "s div 3600 * 3600 + s div 60 mod 60 * 60 + s mod 60 = s" by linarith
qed simp_all

lemma Parse_printed:
  assumes "y < 10 ^ 4" "1 \<le> y" "m < 12" "r < month_lengths y ! m" "hh < 24" "mm < 60" "ss < 60"
  shows "Parse (pad 4 y @ ''-'' @ pad 2 (Suc m) @ ''-'' @ pad 2 (Suc r) @ ''T'' @
      pad 2 hh @ '':'' @ pad 2 mm @ '':'' @ pad 2 ss @ ''Z'') =
    Some (Second * int (days_of_date y (Suc m) (Suc r) * 86400 + hh * 3600 + mm * 60 + ss))"
proof -
  have "Suc r < 100" using month_length_le [OF assms(3), of y] assms(4) by linarith
  then have len: "length (pad 4 y) = 4" "length (pad 2 (Suc m)) = 2" "length (pad 2 (Suc r)) = 2"
    "length (pad 2 hh) = 2" "length (pad 2 mm) = 2" "length (pad 2 ss) = 2"
    using assms by (simp_all add: length_pad)
  note f = split_fields [OF len]
  show ?thesis unfolding Parse_def Let_def f
    using assms by (simp add: pad_digits)
qed

text \<open>Parsing what was formatted gives the time back, for whole seconds up to the year 9999.\<close>

lemma Parse_Format:
  assumes "0 \<le> t" "t < year_10000" "t mod Second = 0"
  shows "Parse (Format t) = Some t"
proof -
  define secs where "secs = nat (t div Second)"
  have t: "t = Second * int secs"
    using assms mult_div_mod_eq [of Second t] by (simp add: secs_def Second_def pos_imp_zdiv_nonneg_iff)
  define d where "d = secs div 86400"
  define k where "k = years_from d (d div 366)"
  obtain m r where md: "month_day (month_lengths (Suc k)) (d - days_before k) = (m, r)"
    by fastforce
  note cal = calendar_day [of d m r, folded k_def, OF md]
  have "secs < days_before 9999 * 86400"
    using assms(2) unfolding t year_10000_def by (simp add: Second_def del: of_nat_mult)
  then have "d < days_before 9999" unfolding d_def by (rule less_mult_imp_div_less)
  from year_small [OF this] have y: "Suc k < 10 ^ 4" by (simp add: k_def)
  note cl = clock_fields [of "secs mod 86400"]
  have "Parse (Format t) = Some (Second * int (d * 86400 + secs mod 86400 div 3600 * 3600 +
      secs mod 86400 div 60 mod 60 * 60 + secs mod 86400 mod 60))"
    unfolding Format_def Let_def secs_def [symmetric] d_def [symmetric] k_def [symmetric] md prod.case
    using Parse_printed [OF y, of m r "secs mod 86400 div 3600" "secs mod 86400 div 60 mod 60"
      "secs mod 86400 mod 60"] cal cl by simp
  also have "d * 86400 + secs mod 86400 div 3600 * 3600 + secs mod 86400 div 60 mod 60 * 60 +
      secs mod 86400 mod 60 = secs"
    using cl(4) unfolding d_def by (simp add: add.assoc)
  finally show ?thesis using t by simp
qed

lemma replicate_eval:
  "replicate 2 x = [x, x]" "replicate 3 x = [x, x, x]" "replicate (Suc 0) x = [x]"
  by (simp_all add: numeral_eq_Suc)

lemmas Format_eval = Format_def Let_def duration_defs years_from_eval days_before_def
  month_lengths_def leap_def pad_def show_nat_eval digit_eval replicate_eval

lemmas Parse_eval = Parse_def field_def Let_def digit_val_def is_digit_def days_of_date_def
  days_before_def month_lengths_def duration_defs

end
