(* ===== verification/Stats.thy ===== *)
theory Stats
  imports Gotime "HOL-Library.Multiset"
begin

text \<open>
  The statistics of \<open>internal/stats\<close>: per-minute counters in a \<open>sync.Map\<close> keyed by the minute in
  RFC 3339, gauges for queued work, the cleanup worker and \<open>LoadStats\<close>.

  The map is an association list, in the order in which \<open>Range\<close> happens to visit it; Go does not
  fix that order and \<open>LoadStats\<close> is shown not to depend on it. Counters are \<open>atomic.Int64\<close>, so
  64-bit words whose additions wrap. Every operation that reads the clock takes the reading.
\<close>

record minuteData =
  reads :: "64 word"
  writes :: "64 word"
  begins :: "64 word"
  commits :: "64 word"
  rollbacks :: "64 word"
  errors :: "64 word"
  httpRequests :: "64 word"

record DBStats =
  startedAt :: time
  minutes :: "(string \<times> minuteData) list"
  queuedBegins :: "64 word"
  queuedWrites :: "64 word"
  queuedHTTPRequests :: "64 word"

definition zero_minute :: minuteData where
  "zero_minute = \<lparr>reads = 0, writes = 0, begins = 0, commits = 0, rollbacks = 0, errors = 0,
     httpRequests = 0\<rparr>"

definition NewDBStats :: "time \<Rightarrow> DBStats" where
  "NewDBStats now = \<lparr>startedAt = now, minutes = [], queuedBegins = 0, queuedWrites = 0,
     queuedHTTPRequests = 0\<rparr>"

section \<open>Counting\<close>

definition minuteKey :: "time \<Rightarrow> string" where
  "minuteKey now = Format (Truncate now Minute)"

definition getOrCreateMinuteData :: "time \<Rightarrow> DBStats \<Rightarrow> string \<times> DBStats" where
  "getOrCreateMinuteData now db =
     (let key = minuteKey now in
      case map_of (minutes db) key of
        None \<Rightarrow> (key, db\<lparr>minutes := minutes db @ [(key, zero_minute)]\<rparr>)
      | Some md \<Rightarrow> (key, db))"

text \<open>An atomic addition to the counters of one minute, reached through the returned pointer.\<close>

definition on_minute ::
  "string \<Rightarrow> (minuteData \<Rightarrow> minuteData) \<Rightarrow> (string \<times> minuteData) list \<Rightarrow> (string \<times> minuteData) list" where
  "on_minute k f ms = map (\<lambda>(k', md). if k' = k then (k', f md) else (k', md)) ms"

definition count_in :: "(minuteData \<Rightarrow> minuteData) \<Rightarrow> time \<Rightarrow> DBStats \<Rightarrow> DBStats" where
  "count_in f now db =
     (let (key, db1) = getOrCreateMinuteData now db in
      db1\<lparr>minutes := on_minute key f (minutes db1)\<rparr>)"

definition IncReads :: "time \<Rightarrow> DBStats \<Rightarrow> DBStats" where
  [stat_defs]: "IncReads = count_in (\<lambda>md. md\<lparr>reads := reads md + 1\<rparr>)"
definition IncWrites :: "time \<Rightarrow> DBStats \<Rightarrow> DBStats" where
  [stat_defs]: "IncWrites = count_in (\<lambda>md. md\<lparr>writes := writes md + 1\<rparr>)"
definition IncBegins :: "time \<Rightarrow> DBStats \<Rightarrow> DBStats" where
  [stat_defs]: "IncBegins = count_in (\<lambda>md. md\<lparr>begins := begins md + 1\<rparr>)"
definition IncCommits :: "time \<Rightarrow> DBStats \<Rightarrow> DBStats" where
  [stat_defs]: "IncCommits = count_in (\<lambda>md. md\<lparr>commits := commits md + 1\<rparr>)"
definition IncRollbacks :: "time \<Rightarrow> DBStats \<Rightarrow> DBStats" where
  [stat_defs]: "IncRollbacks = count_in (\<lambda>md. md\<lparr>rollbacks := rollbacks md + 1\<rparr>)"
definition IncErrors :: "time \<Rightarrow> DBStats \<Rightarrow> DBStats" where
  [stat_defs]: "IncErrors = count_in (\<lambda>md. md\<lparr>errors := errors md + 1\<rparr>)"
definition IncHTTPRequests :: "time \<Rightarrow> DBStats \<Rightarrow> DBStats" where
  [stat_defs]: "IncHTTPRequests = count_in (\<lambda>md. md\<lparr>httpRequests := httpRequests md + 1\<rparr>)"

definition IncQueuedBegins :: "DBStats \<Rightarrow> DBStats" where
  [stat_defs]: "IncQueuedBegins db = db\<lparr>queuedBegins := queuedBegins db + 1\<rparr>"
definition DecQueuedBegins :: "DBStats \<Rightarrow> DBStats" where
  [stat_defs]: "DecQueuedBegins db = db\<lparr>queuedBegins := queuedBegins db + (- 1)\<rparr>"
definition IncQueuedWrites :: "DBStats \<Rightarrow> DBStats" where
  [stat_defs]: "IncQueuedWrites db = db\<lparr>queuedWrites := queuedWrites db + 1\<rparr>"
definition DecQueuedWrites :: "DBStats \<Rightarrow> DBStats" where
  [stat_defs]: "DecQueuedWrites db = db\<lparr>queuedWrites := queuedWrites db + (- 1)\<rparr>"
definition IncQueuedHTTPRequests :: "DBStats \<Rightarrow> DBStats" where
  [stat_defs]: "IncQueuedHTTPRequests db = db\<lparr>queuedHTTPRequests := queuedHTTPRequests db + 1\<rparr>"
definition DecQueuedHTTPRequests :: "DBStats \<Rightarrow> DBStats" where
  [stat_defs]: "DecQueuedHTTPRequests db = db\<lparr>queuedHTTPRequests := queuedHTTPRequests db + (- 1)\<rparr>"

section \<open>The cleanup worker\<close>

text \<open>One tick of \<open>runCleanupWorker\<close> at time \<open>now\<close>: minutes older than 24 hours are deleted; a key
  that does not parse is kept.\<close>

definition cleanup_tick :: "time \<Rightarrow> DBStats \<Rightarrow> DBStats" where
  "cleanup_tick now db =
     (let cutoff = now + (- 24) * Hour in
      db\<lparr>minutes := filter (\<lambda>(key, _). case Parse key of None \<Rightarrow> True | Some t \<Rightarrow> \<not> t < cutoff)
                     (minutes db)\<rparr>)"

section \<open>LoadStats\<close>

record Totals =
  T_Reads :: "64 word"
  T_Writes :: "64 word"
  T_Begins :: "64 word"
  T_Commits :: "64 word"
  T_Rollbacks :: "64 word"
  T_Errors :: "64 word"
  T_HTTPRequests :: "64 word"

record Stat =
  S_Minute :: string
  S_Counters :: minuteData

record LoadedStats =
  L_StartedAt :: string
  L_Uptime :: duration
  L_QueuedBegins :: "64 word"
  L_QueuedWrites :: "64 word"
  L_QueuedHTTPRequests :: "64 word"
  L_Totals :: Totals
  L_Stats :: "Stat list"

text \<open>\<open>time.Parse\<close> returns the zero time with the error that the comparison ignores.\<close>

definition parse_or_zero :: "string \<Rightarrow> time" where
  "parse_or_zero s = (case Parse s of None \<Rightarrow> 0 | Some t \<Rightarrow> t)"

definition zero_totals :: Totals where
  "zero_totals = \<lparr>T_Reads = 0, T_Writes = 0, T_Begins = 0, T_Commits = 0, T_Rollbacks = 0,
     T_Errors = 0, T_HTTPRequests = 0\<rparr>"

definition add_totals :: "Totals \<Rightarrow> minuteData \<Rightarrow> Totals" where
  "add_totals t md =
     \<lparr>T_Reads = T_Reads t + reads md, T_Writes = T_Writes t + writes md,
      T_Begins = T_Begins t + begins md, T_Commits = T_Commits t + commits md,
      T_Rollbacks = T_Rollbacks t + rollbacks md, T_Errors = T_Errors t + errors md,
      T_HTTPRequests = T_HTTPRequests t + httpRequests md\<rparr>"

text \<open>\<open>time.Duration.Round(time.Second)\<close>, halfway values away from zero.\<close>

definition RoundSecond :: "duration \<Rightarrow> duration" where
  "RoundSecond d = sgn d * ((2 * \<bar>d\<bar> + Second) div (2 * Second)) * Second"

definition LoadStats :: "time \<Rightarrow> DBStats \<Rightarrow> LoadedStats" where
  "LoadStats now db =
     (let totals = foldl add_totals zero_totals (map snd (minutes db));
          allStats = map (\<lambda>(k, md). \<lparr>S_Minute = k, S_Counters = md\<rparr>) (minutes db) in
      \<lparr>L_StartedAt = Format (startedAt db),
       L_Uptime = RoundSecond (now - startedAt db),
       L_QueuedBegins = queuedBegins db,
       L_QueuedWrites = queuedWrites db,
       L_QueuedHTTPRequests = queuedHTTPRequests db,
       L_Totals = totals,
       L_Stats = sort_key (\<lambda>s. - parse_or_zero (S_Minute s)) allStats\<rparr>)"

section \<open>Facts about the minute table\<close>

definition total :: "(minuteData \<Rightarrow> 64 word) \<Rightarrow> (string \<times> minuteData) list \<Rightarrow> 64 word" where
  "total get ms = sum_list (map (get \<circ> snd) ms)"

definition stats_wf :: "DBStats \<Rightarrow> bool" where
  "stats_wf db \<longleftrightarrow> distinct (map fst (minutes db)) \<and>
     list_all (\<lambda>k. \<exists>t. Parse k = Some t \<and> Format t = k) (map fst (minutes db))"

lemma map_fst_on_minute [simp]: "map fst (on_minute k f ms) = map fst ms"
  by (induction ms) (auto simp: on_minute_def)

lemma on_minute_Nil [simp]: "on_minute k f [] = []"
  and on_minute_Cons [simp]:
    "on_minute k f ((k', md) # ms) = (k', if k' = k then f md else md) # on_minute k f ms"
  by (simp_all add: on_minute_def)

lemma on_minute_fresh: "k \<notin> fst ` set ms \<Longrightarrow> on_minute k f ms = ms"
  by (induction ms) auto

lemma on_minute_append: "on_minute k f (xs @ ys) = on_minute k f xs @ on_minute k f ys"
  by (simp add: on_minute_def)

lemma map_of_Some_key: "map_of ms k = Some v \<Longrightarrow> k \<in> fst ` set ms"
  by (metis domI dom_map_of_conv_image_fst)

lemma map_of_None_key: "map_of ms k = None \<Longrightarrow> k \<notin> fst ` set ms"
  by (simp add: map_of_eq_None_iff)

lemma minutes_count_in:
  "minutes (count_in f now db) =
    (case map_of (minutes db) (minuteKey now) of
       None \<Rightarrow> minutes db @ [(minuteKey now, f zero_minute)]
     | Some _ \<Rightarrow> on_minute (minuteKey now) f (minutes db))"
proof (cases "map_of (minutes db) (minuteKey now)")
  case None
  then show ?thesis using map_of_None_key [OF None]
    by (simp add: count_in_def getOrCreateMinuteData_def Let_def on_minute_append on_minute_fresh)
next
  case (Some md)
  then show ?thesis by (simp add: count_in_def getOrCreateMinuteData_def Let_def)
qed

lemma map_fst_count_in:
  "map fst (minutes (count_in f now db)) =
    (if minuteKey now \<in> fst ` set (minutes db) then map fst (minutes db)
     else map fst (minutes db) @ [minuteKey now])"
proof (cases "map_of (minutes db) (minuteKey now)")
  case None
  then show ?thesis using map_of_None_key [OF None] by (simp add: minutes_count_in)
next
  case (Some md)
  then show ?thesis using map_of_Some_key [OF Some] by (simp add: minutes_count_in)
qed

lemma gauges_count_in [simp]:
  "queuedBegins (count_in f now db) = queuedBegins db"
  "queuedWrites (count_in f now db) = queuedWrites db"
  "queuedHTTPRequests (count_in f now db) = queuedHTTPRequests db"
  "startedAt (count_in f now db) = startedAt db"
  by (simp_all add: count_in_def getOrCreateMinuteData_def Let_def split: option.splits)

text \<open>A counter field of the minute table and the addition that touches it.\<close>

locale minute_counter =
  fixes get :: "minuteData \<Rightarrow> 64 word"
    and inc :: "minuteData \<Rightarrow> minuteData"
  assumes get_inc: "get (inc md) = get md + 1"
    and get_zero: "get zero_minute = 0"
begin

lemma total_on_minute:
  "distinct (map fst ms) \<Longrightarrow> k \<in> fst ` set ms \<Longrightarrow> total get (on_minute k inc ms) = total get ms + 1"
proof (induction ms)
  case Nil
  then show ?case by simp
next
  case (Cons p ms)
  obtain k' md where p: "p = (k', md)" by fastforce
  show ?case
  proof (cases "k' = k")
    case True
    with Cons.prems p have "on_minute k inc ms = ms" by (simp add: on_minute_fresh)
    with True p show ?thesis by (simp add: total_def get_inc)
  next
    case False
    with Cons p show ?thesis by (auto simp: total_def)
  qed
qed

lemma total_count_in:
  "distinct (map fst (minutes db)) \<Longrightarrow>
   total get (minutes (count_in inc now db)) = total get (minutes db) + 1"
proof (cases "map_of (minutes db) (minuteKey now)")
  case None
  then show ?thesis by (simp add: minutes_count_in total_def get_inc get_zero)
next
  case (Some md)
  then have "minuteKey now \<in> fst ` set (minutes db)" by (rule map_of_Some_key)
  moreover assume "distinct (map fst (minutes db))"
  ultimately show ?thesis by (simp add: minutes_count_in Some total_on_minute)
qed

end

interpretation reads: minute_counter reads "\<lambda>md. md\<lparr>reads := reads md + 1\<rparr>"
  by unfold_locales (simp_all add: zero_minute_def)
interpretation writes: minute_counter writes "\<lambda>md. md\<lparr>writes := writes md + 1\<rparr>"
  by unfold_locales (simp_all add: zero_minute_def)
interpretation begins: minute_counter begins "\<lambda>md. md\<lparr>begins := begins md + 1\<rparr>"
  by unfold_locales (simp_all add: zero_minute_def)
interpretation commits: minute_counter commits "\<lambda>md. md\<lparr>commits := commits md + 1\<rparr>"
  by unfold_locales (simp_all add: zero_minute_def)
interpretation rollbacks: minute_counter rollbacks "\<lambda>md. md\<lparr>rollbacks := rollbacks md + 1\<rparr>"
  by unfold_locales (simp_all add: zero_minute_def)
interpretation errors: minute_counter errors "\<lambda>md. md\<lparr>errors := errors md + 1\<rparr>"
  by unfold_locales (simp_all add: zero_minute_def)
interpretation https: minute_counter httpRequests "\<lambda>md. md\<lparr>httpRequests := httpRequests md + 1\<rparr>"
  by unfold_locales (simp_all add: zero_minute_def)

text \<open>An addition to one field leaves the totals of every other field alone.\<close>

lemma total_frame:
  assumes "\<And>md. get (f md) = get md" and "get zero_minute = 0"
  shows "total get (minutes (count_in f now db)) = total get (minutes db)"
proof -
  have "total get (on_minute k f ms) = total get ms" for k ms
    by (induction ms) (auto simp: total_def assms)
  then show ?thesis
    by (simp add: minutes_count_in split: option.splits) (simp add: total_def assms)
qed

lemma totals_LoadStats:
  "L_Totals (LoadStats now db) =
     \<lparr>T_Reads = total reads (minutes db), T_Writes = total writes (minutes db),
      T_Begins = total begins (minutes db), T_Commits = total commits (minutes db),
      T_Rollbacks = total rollbacks (minutes db), T_Errors = total errors (minutes db),
      T_HTTPRequests = total httpRequests (minutes db)\<rparr>"
proof -
  have "foldl add_totals t (map snd ms) =
     \<lparr>T_Reads = T_Reads t + total reads ms, T_Writes = T_Writes t + total writes ms,
      T_Begins = T_Begins t + total begins ms, T_Commits = T_Commits t + total commits ms,
      T_Rollbacks = T_Rollbacks t + total rollbacks ms, T_Errors = T_Errors t + total errors ms,
      T_HTTPRequests = T_HTTPRequests t + total httpRequests ms\<rparr>" for t ms
    by (induction ms arbitrary: t) (simp_all add: total_def add_totals_def add.assoc)
  then show ?thesis by (simp add: LoadStats_def Let_def zero_totals_def)
qed

lemmas totals_count =
  reads.total_count_in writes.total_count_in begins.total_count_in commits.total_count_in
  rollbacks.total_count_in errors.total_count_in https.total_count_in

lemma minuteKey_Parse:
  assumes "0 \<le> now" "now < year_10000"
  shows "Parse (minuteKey now) = Some (Truncate now Minute)"
proof -
  have m: "Truncate now Minute = Minute * (now div Minute)"
    by (simp add: Truncate_def duration_defs minus_mod_eq_mult_div)
  have "0 \<le> Truncate now Minute" "Truncate now Minute \<le> now"
    using assms by (simp_all add: Truncate_def duration_defs zmod_le_nonneg_dividend)
  moreover have "Truncate now Minute mod Second = 0"
    unfolding m mod_eq_0_iff_dvd unfolding Minute_def by simp
  ultimately show ?thesis unfolding minuteKey_def using assms by (intro Parse_Format) simp_all
qed

lemma stats_wf_count_in:
  assumes "stats_wf db" "0 \<le> now" "now < year_10000"
  shows "stats_wf (count_in f now db)"
proof -
  have "\<exists>t. Parse (minuteKey now) = Some t \<and> Format t = minuteKey now"
    using minuteKey_Parse [OF assms(2,3)] by (simp add: minuteKey_def)
  with assms(1) show ?thesis by (auto simp: stats_wf_def map_fst_count_in list_all_iff)
qed

lemma stats_wf_cleanup: "stats_wf db \<Longrightarrow> stats_wf (cleanup_tick now db)"
  by (auto simp: stats_wf_def cleanup_tick_def Let_def list_all_iff distinct_map
      intro: inj_on_subset)

lemma stats_wf_new [simp]: "stats_wf (NewDBStats now)"
  by (simp add: stats_wf_def NewDBStats_def)

section \<open>Properties\<close>

text \<open>Every completed operation is counted once and in its own counter: from a table with one
  entry per minute, each increment raises the total that \<open>LoadStats\<close> reports for it by one
  (modulo 2 to the 64, the width of the counters) and leaves the other totals unchanged.\<close>

lemma increments_count_once:
  assumes "stats_wf db"
    and "T = L_Totals (LoadStats t db)"
  shows "L_Totals (LoadStats t (IncReads now db)) = T\<lparr>T_Reads := T_Reads T + 1\<rparr> \<and>
    L_Totals (LoadStats t (IncWrites now db)) = T\<lparr>T_Writes := T_Writes T + 1\<rparr> \<and>
    L_Totals (LoadStats t (IncBegins now db)) = T\<lparr>T_Begins := T_Begins T + 1\<rparr> \<and>
    L_Totals (LoadStats t (IncCommits now db)) = T\<lparr>T_Commits := T_Commits T + 1\<rparr> \<and>
    L_Totals (LoadStats t (IncRollbacks now db)) = T\<lparr>T_Rollbacks := T_Rollbacks T + 1\<rparr> \<and>
    L_Totals (LoadStats t (IncErrors now db)) = T\<lparr>T_Errors := T_Errors T + 1\<rparr> \<and>
    L_Totals (LoadStats t (IncHTTPRequests now db)) = T\<lparr>T_HTTPRequests := T_HTTPRequests T + 1\<rparr>"
  using assms(1) unfolding assms(2) totals_LoadStats stat_defs stats_wf_def
  by (simp add: totals_count total_frame zero_minute_def)

text \<open>C28. \<open>LoadStats\<close> does not depend on the order in which \<open>sync.Map.Range\<close> visits the minutes,
  and it lists the minutes strictly newest first.\<close>

theorem LoadStats_range_order:
  assumes "stats_wf db" and "mset ms = mset (minutes db)"
  shows "LoadStats now (db\<lparr>minutes := ms\<rparr>) = LoadStats now db \<and>
    sorted_wrt (\<lambda>a b. parse_or_zero (S_Minute b) < parse_or_zero (S_Minute a))
      (L_Stats (LoadStats now db))"
proof -
  let ?st = "map (\<lambda>(k, md). \<lparr>S_Minute = k, S_Counters = md\<rparr>)"
  let ?f = "\<lambda>s. - parse_or_zero (S_Minute s)"
  have minute: "S_Minute ` set (?st xs) = fst ` set xs" for xs by force
  have inj: "inj_on parse_or_zero (fst ` set (minutes db))"
    by (rule inj_on_inverseI [where g = Format])
      (use assms(1) in \<open>fastforce simp: stats_wf_def list_all_iff parse_or_zero_def\<close>)
  have dist: "distinct (map fst xs) \<Longrightarrow> inj_on parse_or_zero (fst ` set xs) \<Longrightarrow>
      distinct (map ?f (sort_key ?f (?st xs)))" for xs
  proof -
    assume a: "distinct (map fst xs)" "inj_on parse_or_zero (fst ` set xs)"
    have eq: "map ?f (?st xs) = map (uminus \<circ> parse_or_zero) (map fst xs)" by auto
    have "distinct (map ?f (?st xs))" unfolding eq
      using a by (simp add: distinct_map comp_inj_on)
    moreover have "mset (map ?f (sort_key ?f (?st xs))) = mset (map ?f (?st xs))"
      by (simp only: mset_map mset_sort)
    ultimately show "distinct (map ?f (sort_key ?f (?st xs)))"
      by (metis (no_types) mset_eq_imp_distinct_iff)
  qed
  have key: "distinct (map fst (minutes db))" using assms(1) by (simp add: stats_wf_def)
  have perm: "distinct (map fst ms)" "set ms = set (minutes db)"
    using assms(2) key by (metis mset_map mset_eq_imp_distinct_iff, metis mset_eq_setD)
  have "total get ms = total get (minutes db)" for get
    unfolding total_def using assms(2) by (metis mset_map sum_mset_sum_list)
  then have tot: "L_Totals (LoadStats now (db\<lparr>minutes := ms\<rparr>)) = L_Totals (LoadStats now db)"
    by (simp add: totals_LoadStats)
  have "sort_key ?f (?st ms) = sort_key ?f (?st (minutes db))"
  proof (rule map_sorted_distinct_set_unique [of ?f])
    show "inj_on ?f (set (sort_key ?f (?st ms)) \<union> set (sort_key ?f (?st (minutes db))))"
      using dist [OF key inj] perm(2) by (simp add: distinct_map)
  qed (use dist [OF key inj] dist [OF perm(1)] inj perm(2) in \<open>simp_all add: distinct_map\<close>)
  with tot have "LoadStats now (db\<lparr>minutes := ms\<rparr>) = LoadStats now db"
    by (simp add: LoadStats_def Let_def)
  moreover have "sorted_wrt (<) (map ?f (sort_key ?f (?st (minutes db))))"
    using dist [OF key inj] by (simp add: strict_sorted_iff)
  then have "sorted_wrt (\<lambda>a b. parse_or_zero (S_Minute b) < parse_or_zero (S_Minute a))
      (L_Stats (LoadStats now db))"
    by (simp add: LoadStats_def Let_def sorted_wrt_map)
  ultimately show ?thesis by blast
qed

definition two_minutes :: DBStats where
  "two_minutes = IncWrites (90 * Second) (IncReads 0 (NewDBStats 0))"

lemma two_minutes_keys:
  "map fst (minutes two_minutes) = [''0001-01-01T00:00:00Z'', ''0001-01-01T00:01:00Z'']"
proof -
  have k: "minuteKey 0 = ''0001-01-01T00:00:00Z''" "minuteKey (90 * Second) = ''0001-01-01T00:01:00Z''"
    by (simp_all add: minuteKey_def Truncate_def Format_eval)
  have one: "map fst (minutes (IncReads 0 (NewDBStats 0))) = [minuteKey 0]"
    by (simp add: IncReads_def minutes_count_in NewDBStats_def)
  then have "fst ` set (minutes (IncReads 0 (NewDBStats 0))) = {minuteKey 0}"
    by (metis list.set(1,2) set_map)
  with one have "map fst (minutes two_minutes) = [minuteKey 0, minuteKey (90 * Second)]"
    by (simp add: two_minutes_def IncWrites_def map_fst_count_in k)
  then show ?thesis by (simp add: k)
qed

lemma two_minutes_wf: "stats_wf two_minutes"
  unfolding two_minutes_def IncWrites_def IncReads_def
  by (intro stats_wf_count_in) (simp_all add: year_10000_def days_before_def duration_defs)

theorem LoadStats_range_order_witness:
  "length (minutes two_minutes) = 2 \<and>
   LoadStats 0 (two_minutes\<lparr>minutes := rev (minutes two_minutes)\<rparr>) = LoadStats 0 two_minutes"
proof -
  have "length (minutes two_minutes) = 2"
    using arg_cong [OF two_minutes_keys, of length] by simp
  then show ?thesis using LoadStats_range_order [OF two_minutes_wf mset_rev, of 0] by blast
qed

text \<open>One tick of the cleanup worker deletes exactly the minutes that began more than 24 hours
  before it: the others stay with their counters, so an operation counted within the last 24 hours
  less a minute is still in the table.\<close>

lemma cleanup_deletes_old_minutes:
  assumes "stats_wf db"
  shows "((k, md) \<in> set (minutes (cleanup_tick now db)) \<longleftrightarrow>
      (k, md) \<in> set (minutes db) \<and> now - 24 * Hour \<le> parse_or_zero k) \<and>
    (0 \<le> u \<and> u < year_10000 \<and> now - 24 * Hour + Minute \<le> u \<and>
     (minuteKey u, md) \<in> set (minutes db) \<longrightarrow>
     (minuteKey u, md) \<in> set (minutes (cleanup_tick now db)))"
proof -
  have keep: "(k, md) \<in> set (minutes (cleanup_tick now db)) \<longleftrightarrow>
      (k, md) \<in> set (minutes db) \<and> now - 24 * Hour \<le> parse_or_zero k" for k
    using assms
    by (fastforce simp: cleanup_tick_def Let_def stats_wf_def list_all_iff parse_or_zero_def
        split: option.splits)
  have "now - 24 * Hour \<le> parse_or_zero (minuteKey u)"
    if "0 \<le> u" "u < year_10000" "now - 24 * Hour + Minute \<le> u"
  proof -
    have "u - u mod Minute > u - Minute" using pos_mod_bound [of Minute u] by (simp add: duration_defs)
    then show ?thesis using minuteKey_Parse [OF that(1,2)] that(3)
      by (simp add: parse_or_zero_def Truncate_def duration_defs)
  qed
  with keep show ?thesis by blast
qed

text \<open>
  The reported totals are sums over the minutes that are left, so they go down when a minute is
  deleted: after a read in the first minute, the total of reads is one, and a day later it is
  zero again.
\<close>

lemma totals_forget_old_minutes:
  "T_Reads (L_Totals (LoadStats (25 * Hour) (IncReads 0 (NewDBStats 0)))) = 1 \<and>
   T_Reads (L_Totals (LoadStats (25 * Hour) (cleanup_tick (25 * Hour) (IncReads 0 (NewDBStats 0))))) = 0"
proof -
  have k: "minuteKey 0 = ''0001-01-01T00:00:00Z''"
    by (simp add: minuteKey_def Truncate_def Format_eval)
  have m: "minutes (IncReads 0 (NewDBStats 0)) = [(minuteKey 0, zero_minute\<lparr>reads := 1\<rparr>)]"
    by (simp add: IncReads_def minutes_count_in NewDBStats_def zero_minute_def)
  have "Parse (minuteKey 0) = Some 0" unfolding k by (simp add: Parse_eval)
  with m show ?thesis
    by (simp add: totals_LoadStats total_def cleanup_tick_def Let_def duration_defs)
qed

end
