(* ===== verification/Database.thy ===== *)
theory Database
  imports Sqlite_Query Stats
begin

text \<open>
  The transaction manager \<open>internal/db/db.go\<close>, with the connection pools of \<open>database/sql\<close> it
  is built on.

  An operation is a function from the state of the \<open>DB\<close> object to an outcome and a new state, run
  with no other goroutine in between (\<open>Tx_Machine\<close> has the interleavings). The outcome is
  \<open>Done r\<close> when the call returns \<open>r\<close>; \<open>Blocked m\<close> when it waits for a mutex or a pooled
  connection that nobody releases in between; \<open>Running\<close> when a statement never ends inside
  SQLite; \<open>Fatal\<close> when Go aborts the process because an unlocked mutex is unlocked.

  The environment \<open>'w env\<close> holds what the operations read from outside: the C interface of
  SQLite, the clock and the UUID generator, whose \<open>n\<close>-th answers are \<open>time_Now E n\<close> and
  \<open>uuid_NewString E n\<close>; \<open>ticks\<close> counts what was asked. A context is the answer of \<open>ctx.Err()\<close>
  at each of these moments.
\<close>

section \<open>Outcomes\<close>

datatype wait = OnTxMu | OnTxOpMu | OnWriteMu | OnConn

datatype 'a outcome = Done 'a | Blocked wait | Running | Fatal

definition ret :: "'a \<Rightarrow> 's \<Rightarrow> 'a outcome \<times> 's" where
  "ret a s = (Done a, s)"

definition bnd :: "('s \<Rightarrow> 'a outcome \<times> 's) \<Rightarrow> ('a \<Rightarrow> 's \<Rightarrow> 'b outcome \<times> 's) \<Rightarrow> 's \<Rightarrow> 'b outcome \<times> 's"
  where
  "bnd p f s =
     (case p s of
        (Done a, s1) \<Rightarrow> f a s1
      | (Blocked m, s1) \<Rightarrow> (Blocked m, s1)
      | (Running, s1) \<Rightarrow> (Running, s1)
      | (Fatal, s1) \<Rightarrow> (Fatal, s1))"

text \<open>A \<open>sync.Mutex\<close> is a field of the state: a test and an update. Unlocking a free one is fatal.\<close>

definition Lock :: "('s \<Rightarrow> bool) \<Rightarrow> ((bool \<Rightarrow> bool) \<Rightarrow> 's \<Rightarrow> 's) \<Rightarrow> wait \<Rightarrow> 's \<Rightarrow> unit outcome \<times> 's" where
  "Lock held upd m s = (if held s then (Blocked m, s) else (Done (), upd (\<lambda>_. True) s))"

definition Unlock :: "('s \<Rightarrow> bool) \<Rightarrow> ((bool \<Rightarrow> bool) \<Rightarrow> 's \<Rightarrow> 's) \<Rightarrow> 's \<Rightarrow> unit outcome \<times> 's" where
  "Unlock held upd s = (if held s then (Done (), upd (\<lambda>_. False) s) else (Fatal, s))"

text \<open>\<open>mu.Lock(); defer mu.Unlock(); body\<close>\<close>

definition locked ::
  "('s \<Rightarrow> bool) \<Rightarrow> ((bool \<Rightarrow> bool) \<Rightarrow> 's \<Rightarrow> 's) \<Rightarrow> wait \<Rightarrow> ('s \<Rightarrow> 'a outcome \<times> 's) \<Rightarrow> 's \<Rightarrow> 'a outcome \<times> 's"
  where
  "locked held upd m body =
     bnd (Lock held upd m) (\<lambda>_. bnd body (\<lambda>r. bnd (Unlock held upd) (\<lambda>_. ret r)))"

section \<open>Connection pools of database/sql\<close>

text \<open>
  The part of \<open>sql.DB\<close> that the program uses. \<open>p_maxOpen = 0\<close> is no limit; \<open>p_maxIdle\<close> is Go's
  \<open>maxIdleCount\<close>: \<open>0\<close> is the default of two, a negative number keeps no idle connection. The
  driver's \<open>ResetSession\<close> and \<open>IsValid\<close> accept every connection.
\<close>

record pool =
  p_connector :: connector
  p_free :: "conn list"
  p_numOpen :: nat
  p_maxOpen :: nat
  p_maxIdle :: int
  p_closed :: bool

definition OpenDB :: "connector \<Rightarrow> pool" where
  "OpenDB k = \<lparr>p_connector = k, p_free = [], p_numOpen = 0, p_maxOpen = 0, p_maxIdle = 0,
     p_closed = False\<rparr>"

definition maxIdleConns :: "pool \<Rightarrow> nat" where
  "maxIdleConns p = (if p_maxIdle p = 0 then 2 else nat (p_maxIdle p))"

fun close_all :: "'w capi \<Rightarrow> conn list \<Rightarrow> 'w \<Rightarrow> go_error option \<times> 'w" where
  "close_all api [] w = (None, w)"
| "close_all api (c # cs) w =
     (let ((e, _), w1) = drv_Close api c w; (e', w2) = close_all api cs w1 in
      (if e' = None then map_option (Wrapped ''failed to close connection'') e else e', w2))"

definition SetMaxIdleConns :: "'w capi \<Rightarrow> int \<Rightarrow> pool \<Rightarrow> 'w \<Rightarrow> pool \<times> 'w" where
  "SetMaxIdleConns api n p w =
     (let p1 = p\<lparr>p_maxIdle := (if n > 0 then n else -1)\<rparr>;
          p2 = (if 0 < p_maxOpen p1 \<and> p_maxOpen p1 < maxIdleConns p1
                then p1\<lparr>p_maxIdle := int (p_maxOpen p1)\<rparr> else p1);
          extra = drop (maxIdleConns p2) (p_free p2) in
      (p2\<lparr>p_free := take (maxIdleConns p2) (p_free p2),
          p_numOpen := p_numOpen p2 - length extra\<rparr>,
       snd (close_all api extra w)))"

definition SetMaxOpenConns :: "'w capi \<Rightarrow> int \<Rightarrow> pool \<Rightarrow> 'w \<Rightarrow> pool \<times> 'w" where
  "SetMaxOpenConns api n p w =
     (let p1 = p\<lparr>p_maxOpen := nat n\<rparr> in
      if 0 < p_maxOpen p1 \<and> p_maxOpen p1 < maxIdleConns p1 then SetMaxIdleConns api n p1 w
      else (p1, w))"

definition pool_take ::
  "'w capi \<Rightarrow> go_error option \<Rightarrow> pool \<Rightarrow> 'w \<Rightarrow> (go_error + conn) outcome \<times> pool \<times> 'w" where
  "pool_take api cerr p w =
     (if p_closed p then (Done (Inl (ErrorString ''sql: database is closed'')), p, w)
      else case cerr of
        Some e \<Rightarrow> (Done (Inl e), p, w)
      | None \<Rightarrow>
          if p_free p \<noteq> [] then (Done (Inr (last (p_free p))), p\<lparr>p_free := butlast (p_free p)\<rparr>, w)
          else if 0 < p_maxOpen p \<and> p_maxOpen p \<le> p_numOpen p then (Blocked OnConn, p, w)
          else
            (case Connect api (p_connector p) w of
               None \<Rightarrow> (Running, p\<lparr>p_numOpen := p_numOpen p + 1\<rparr>, w)
             | Some (Inl e, w1) \<Rightarrow> (Done (Inl e), p, w1)
             | Some (Inr c, w1) \<Rightarrow> (Done (Inr c), p\<lparr>p_numOpen := p_numOpen p + 1\<rparr>, w1)))"

definition pool_put :: "'w capi \<Rightarrow> conn \<Rightarrow> pool \<Rightarrow> 'w \<Rightarrow> pool \<times> 'w" where
  "pool_put api c p w =
     (if p_closed p \<or> 0 < p_maxOpen p \<and> p_maxOpen p < p_numOpen p \<or>
         maxIdleConns p \<le> length (p_free p)
      then (p\<lparr>p_numOpen := p_numOpen p - 1\<rparr>, snd (drv_Close api c w))
      else (p\<lparr>p_free := p_free p @ [c]\<rparr>, w))"

definition pool_Ping :: "'w capi \<Rightarrow> pool \<Rightarrow> 'w \<Rightarrow> go_error option outcome \<times> pool \<times> 'w" where
  "pool_Ping api p w =
     (case pool_take api None p w of
        (Done (Inr c), p1, w1) \<Rightarrow> (Done None, pool_put api c p1 w1)
      | (Done (Inl e), p1, w1) \<Rightarrow> (Done (Some e), p1, w1)
      | (Blocked m, p1, w1) \<Rightarrow> (Blocked m, p1, w1)
      | (Running, p1, w1) \<Rightarrow> (Running, p1, w1)
      | (Fatal, p1, w1) \<Rightarrow> (Fatal, p1, w1))"

definition pool_Close :: "'w capi \<Rightarrow> pool \<Rightarrow> 'w \<Rightarrow> go_error option \<times> pool \<times> 'w" where
  "pool_Close api p w =
     (if p_closed p then (None, p, w)
      else
        let (e, w1) = close_all api (p_free p) w in
        (e, p\<lparr>p_free := [], p_numOpen := p_numOpen p - length (p_free p), p_closed := True\<rparr>, w1))"

section \<open>The DB object\<close>

definition ErrTxNotFound :: go_error where
  "ErrTxNotFound = ErrorString ''transaction not found or timed out, check your settings''"
definition ErrTxNotMatch :: go_error where
  "ErrTxNotMatch =
     ErrorString ''transaction ID does not match the currently active transaction''"
definition ErrTxWithinTx :: go_error where
  "ErrTxWithinTx = ErrorString ''cannot start a transaction within a transaction''"
definition ErrTxIdRequired :: go_error where
  "ErrTxIdRequired = ErrorString ''transaction ID is required for this operation''"

record db_config =
  DataDir :: string
  TxIdleTimeout :: duration
  MaxReadConns :: int
  CacheSizeKB :: int
  BusyTimeout :: duration

record 'w env =
  e_api :: "'w capi"
  time_Now :: "nat \<Rightarrow> time"
  uuid_NewString :: "nat \<Rightarrow> string"

record 'w DB =
  db_Config :: db_config
  isInitialized :: bool
  readWritePool :: pool
  readOnlyPool :: pool
  txID :: string
  txOwner :: string
  txLastUsed :: time
  txIdleMonitorStop :: bool
  txMu :: bool
  txOpMu :: bool
  writeMu :: bool
  dbStats :: DBStats
  world :: 'w
  ticks :: nat

type_synonym ctx = "nat \<Rightarrow> go_error option"
type_synonym ('w, 'a) act = "'w DB \<Rightarrow> 'a outcome \<times> 'w DB"

definition Background :: ctx where
  "Background _ = None"

record query =
  q_TxID :: string
  q_TxOwner :: string
  q_Query :: string
  q_Params :: "QueryParam list"
  q_Role :: AuthorizerRole

type_synonym QueryType = string

definition QueryTypeUnknown :: QueryType where "QueryTypeUnknown = ''unknown''"
definition QueryTypeRead :: QueryType where "QueryTypeRead = ''read''"
definition QueryTypeWrite :: QueryType where "QueryTypeWrite = ''write''"
definition QueryTypeBegin :: QueryType where "QueryTypeBegin = ''begin''"
definition QueryTypeCommit :: QueryType where "QueryTypeCommit = ''commit''"
definition QueryTypeRollback :: QueryType where "QueryTypeRollback = ''rollback''"

lemmas query_type_defs = QueryTypeUnknown_def QueryTypeRead_def QueryTypeWrite_def
  QueryTypeBegin_def QueryTypeCommit_def QueryTypeRollback_def

record db_result =
  r_Type :: QueryType
  r_TxID :: string
  r_LastInsertID :: "64 word"
  r_RowsAffected :: "64 word"
  r_Columns :: "string list"
  r_Types :: "string list"
  r_Rows :: "go_any list list"

definition QueryResult0 :: db_result where
  "QueryResult0 = \<lparr>r_Type = '''', r_TxID = '''', r_LastInsertID = 0, r_RowsAffected = 0,
     r_Columns = [], r_Types = [], r_Rows = []\<rparr>"

section \<open>Elementary actions\<close>

abbreviation lock_txMu :: "('w, unit) act" where "lock_txMu \<equiv> Lock txMu txMu_update OnTxMu"
abbreviation unlock_txMu :: "('w, unit) act" where "unlock_txMu \<equiv> Unlock txMu txMu_update"
abbreviation with_txMu :: "('w, 'a) act \<Rightarrow> ('w, 'a) act" where
  "with_txMu \<equiv> locked txMu txMu_update OnTxMu"
abbreviation with_txOpMu :: "('w, 'a) act \<Rightarrow> ('w, 'a) act" where
  "with_txOpMu \<equiv> locked txOpMu txOpMu_update OnTxOpMu"
abbreviation with_writeMu :: "('w, 'a) act \<Rightarrow> ('w, 'a) act" where
  "with_writeMu \<equiv> locked writeMu writeMu_update OnWriteMu"

definition upd :: "('w DB \<Rightarrow> 'w DB) \<Rightarrow> ('w, unit) act" where
  "upd f s = (Done (), f s)"

text \<open>An assignment that reads the clock, and a counter of \<open>DBStats\<close> that does.\<close>

definition at_now :: "'w env \<Rightarrow> (time \<Rightarrow> 'w DB \<Rightarrow> 'w DB) \<Rightarrow> ('w, unit) act" where
  "at_now E f s = (Done (), (f (time_Now E (ticks s)) s)\<lparr>ticks := ticks s + 1\<rparr>)"

abbreviation touch :: "'w env \<Rightarrow> ('w, unit) act" where
  "touch E \<equiv> at_now E (\<lambda>now s. s\<lparr>txLastUsed := now\<rparr>)"

definition count :: "'w env \<Rightarrow> (time \<Rightarrow> DBStats \<Rightarrow> DBStats) \<Rightarrow> ('w, unit) act" where
  "count E inc = at_now E (\<lambda>now s. s\<lparr>dbStats := inc now (dbStats s)\<rparr>)"

definition gauge :: "(DBStats \<Rightarrow> DBStats) \<Rightarrow> ('w, unit) act" where
  "gauge f = upd (\<lambda>s. s\<lparr>dbStats := f (dbStats s)\<rparr>)"

datatype which = RW | RO

fun pool_of :: "which \<Rightarrow> 'w DB \<Rightarrow> pool" where
  "pool_of RW s = readWritePool s"
| "pool_of RO s = readOnlyPool s"

fun set_pool :: "which \<Rightarrow> pool \<Rightarrow> 'w DB \<Rightarrow> 'w DB" where
  "set_pool RW p s = s\<lparr>readWritePool := p\<rparr>"
| "set_pool RO p s = s\<lparr>readOnlyPool := p\<rparr>"

definition getRawConn :: "'w env \<Rightarrow> ctx \<Rightarrow> which \<Rightarrow> ('w, go_error + conn) act" where
  "getRawConn E ctx k s =
     (case pool_take (e_api E) (ctx (ticks s)) (pool_of k s) (world s) of
        (r, p, w) \<Rightarrow>
          (case r of
             Done (Inl e) \<Rightarrow> Done (Inl (Wrapped ''failed to get connection from pool'' e))
           | _ \<Rightarrow> r,
           (set_pool k p s)\<lparr>world := w, ticks := ticks s + 1\<rparr>))"

definition returnConn :: "'w env \<Rightarrow> which \<Rightarrow> conn \<Rightarrow> ('w, unit) act" where
  "returnConn E k c s =
     (case pool_put (e_api E) c (pool_of k s) (world s) of
        (p, w) \<Rightarrow> (Done (), (set_pool k p s)\<lparr>world := w\<rparr>))"

text \<open>
  \<open>conn, returnConn, err := db.getRawConn(ctx, pool); ...; defer returnConn(); body\<close>, with the
  message that wraps a failure. The body gives its result and the connection as it leaves it.
\<close>

definition with_conn ::
  "'w env \<Rightarrow> ctx \<Rightarrow> which \<Rightarrow> string \<Rightarrow> (conn \<Rightarrow> ('w, (go_error + 'a) \<times> conn) act) \<Rightarrow> ('w, go_error + 'a) act"
  where
  "with_conn E ctx k msg body =
     bnd (getRawConn E ctx k) (\<lambda>r. case r of
         Inl e \<Rightarrow> ret (Inl (Wrapped msg e))
       | Inr c \<Rightarrow> bnd (body c) (\<lambda>(v, c'). bnd (returnConn E k c') (\<lambda>_. ret v)))"

definition do_Query ::
  "'w env \<Rightarrow> conn \<Rightarrow> string \<Rightarrow> QueryParam list \<Rightarrow> ('w, go_error + sq_result) act" where
  "do_Query E c q ps s =
     (case conn_Query (e_api E) c q ps (world s) of
        None \<Rightarrow> (Running, s)
      | Some (r, w) \<Rightarrow> (Done r, s\<lparr>world := w\<rparr>))"

section \<open>Classification\<close>

definition classifyPreparedQuery ::
  "'w env \<Rightarrow> string \<Rightarrow> conn \<Rightarrow> ('w, (go_error + QueryType) \<times> conn) act" where
  "classifyPreparedQuery E query c s =
     (case SetAuthorizerRole (e_api E) c AuthorizerRoleAdmin of
        (Some e, c1) \<Rightarrow>
          (Done (Inl (Wrapped ''failed to set classification authorizer role'' e), c1), s)
      | (None, c1) \<Rightarrow>
          (case Prepare (e_api E) c1 query (world s) of
             (Inl e, w1) \<Rightarrow>
               (Done (Inl (Wrapped ''failed to prepare statement'' e), c1), s\<lparr>world := w1\<rparr>)
           | (Inr st, w1) \<Rightarrow>
               (Done (Inr (if ReadOnly (e_api E) st w1 then QueryTypeRead else QueryTypeWrite), c1),
                s\<lparr>world := snd (Finalize (e_api E) c1 st w1)\<rparr>)))"

definition classifyQueryOnReadOnlyConn :: "'w env \<Rightarrow> ctx \<Rightarrow> string \<Rightarrow> ('w, go_error + QueryType) act"
  where
  "classifyQueryOnReadOnlyConn E ctx query =
     with_conn E ctx RO ''failed to get read-only connection'' (classifyPreparedQuery E query)"

definition classifyQueryOnReadWriteConn :: "'w env \<Rightarrow> ctx \<Rightarrow> string \<Rightarrow> ('w, go_error + QueryType) act"
  where
  "classifyQueryOnReadWriteConn E ctx query =
     with_writeMu
       (with_conn E ctx RW ''failed to get read-write connection'' (classifyPreparedQuery E query))"

text \<open>The keyword part of \<open>ClassifyQuery\<close>: the statements it recognises by their first word.\<close>

definition keyword_type :: "string \<Rightarrow> QueryType option" where
  "keyword_type query =
     (let trimmed = ToLower (TrimSpace query) in
      if HasPrefix trimmed ''begin'' then Some QueryTypeBegin
      else if HasPrefix trimmed ''commit'' then Some QueryTypeCommit
      else if HasPrefix trimmed ''rollback'' \<or> HasPrefix trimmed ''end transaction''
      then Some QueryTypeRollback
      else None)"

definition ClassifyQuery :: "'w env \<Rightarrow> ctx \<Rightarrow> string \<Rightarrow> string \<Rightarrow> ('w, go_error + QueryType) act" where
  "ClassifyQuery E ctx query tx =
     (case keyword_type query of
        Some t \<Rightarrow> ret (Inr t)
      | None \<Rightarrow>
          if tx \<noteq> [] then classifyQueryOnReadWriteConn E ctx query
          else classifyQueryOnReadOnlyConn E ctx query)"

section \<open>Executing a query\<close>

definition validateTxID :: "string \<Rightarrow> string \<Rightarrow> 'w DB \<Rightarrow> go_error option" where
  "validateTxID tx owner s =
     (if tx = [] then None
      else
        let currentTxID = txID s in
        if currentTxID = [] then Some ErrTxNotFound
        else if tx \<noteq> currentTxID then Some ErrTxNotMatch
        else if owner \<noteq> [] \<and> owner \<noteq> txOwner s then Some ErrTxNotMatch
        else None)"

definition withReadWriteConn ::
  "'w env \<Rightarrow> ctx \<Rightarrow> AuthorizerRole \<Rightarrow> (conn \<Rightarrow> ('w, go_error + 'a) act) \<Rightarrow> ('w, go_error + 'a) act"
  where
  "withReadWriteConn E ctx r fn =
     with_writeMu
       (with_conn E ctx RW ''failed to get read-write connection from pool'' (\<lambda>c.
          case SetAuthorizerRole (e_api E) c r of
            (Some e, c1) \<Rightarrow>
              ret (Inl (Wrapped ''failed to set write connection authorizer role'' e), c1)
          | (None, c1) \<Rightarrow> bnd (fn c1) (\<lambda>v. ret (v, c1))))"

text \<open>The closures that run one fixed statement and return an empty \<open>QueryResult\<close>.\<close>

definition run_sql :: "'w env \<Rightarrow> string \<Rightarrow> conn \<Rightarrow> ('w, go_error + db_result) act" where
  "run_sql E sql c =
     bnd (do_Query E c sql []) (\<lambda>r. ret (case r of Inl e \<Rightarrow> Inl e | Inr _ \<Rightarrow> Inr QueryResult0))"

definition executeBeginQuery ::
  "'w env \<Rightarrow> ctx \<Rightarrow> string \<Rightarrow> AuthorizerRole \<Rightarrow> string \<Rightarrow> ('w, go_error + db_result) act" where
  "executeBeginQuery E ctx queryTxID r queryTxOwner =
     (if queryTxID \<noteq> [] then ret (Inl ErrTxWithinTx)
      else
        bnd (gauge IncQueuedBegins) (\<lambda>_.
        bnd lock_txMu (\<lambda>_.
        bnd (withReadWriteConn E ctx r (run_sql E ''BEGIN TRANSACTION'')) (\<lambda>v.
        case v of
          Inl e \<Rightarrow>
            bnd unlock_txMu (\<lambda>_. bnd (gauge DecQueuedBegins) (\<lambda>_.
            ret (Inl (Wrapped ''failed to begin transaction'' e))))
        | Inr _ \<Rightarrow>
            bnd (\<lambda>s. (Done (uuid_NewString E (ticks s)), s\<lparr>ticks := ticks s + 1\<rparr>)) (\<lambda>newID.
            bnd (upd (\<lambda>s. s\<lparr>txID := newID, txOwner := queryTxOwner\<rparr>)) (\<lambda>_.
            bnd (touch E) (\<lambda>_.
            bnd (count E IncBegins) (\<lambda>_.
            bnd (gauge DecQueuedBegins) (\<lambda>_.
            ret (Inr (QueryResult0\<lparr>r_Type := QueryTypeBegin, r_TxID := newID\<rparr>)))))))))))"

text \<open>What a commit and a rollback have in common: run the statement, clear the transaction,
  count it and release \<open>txMu\<close>, which the begin left locked.\<close>

definition end_tx ::
  "'w env \<Rightarrow> ctx \<Rightarrow> string \<Rightarrow> string \<Rightarrow> QueryType \<Rightarrow> (time \<Rightarrow> DBStats \<Rightarrow> DBStats) \<Rightarrow> string
   \<Rightarrow> AuthorizerRole \<Rightarrow> ('w, go_error + db_result) act" where
  "end_tx E ctx sql msg qt inc queryTxID r =
     (if queryTxID = [] then ret (Inl ErrTxIdRequired)
      else
        bnd (withReadWriteConn E ctx r (run_sql E sql)) (\<lambda>v.
        case v of
          Inl e \<Rightarrow> ret (Inl (Wrapped msg e))
        | Inr _ \<Rightarrow>
            bnd (upd (\<lambda>s. s\<lparr>txID := [], txOwner := []\<rparr>)) (\<lambda>_.
            bnd (touch E) (\<lambda>_.
            bnd (count E inc) (\<lambda>_.
            bnd unlock_txMu (\<lambda>_.
            ret (Inr (QueryResult0\<lparr>r_Type := qt\<rparr>))))))))"

definition executeCommitQuery ::
  "'w env \<Rightarrow> ctx \<Rightarrow> string \<Rightarrow> AuthorizerRole \<Rightarrow> ('w, go_error + db_result) act" where
  "executeCommitQuery E ctx =
     end_tx E ctx ''COMMIT'' ''failed to commit transaction'' QueryTypeCommit IncCommits"

definition executeRollbackQuery ::
  "'w env \<Rightarrow> ctx \<Rightarrow> string \<Rightarrow> AuthorizerRole \<Rightarrow> ('w, go_error + db_result) act" where
  "executeRollbackQuery E ctx =
     end_tx E ctx ''ROLLBACK'' ''failed to rollback transaction'' QueryTypeRollback IncRollbacks"

definition write_result :: "sq_result \<Rightarrow> db_result" where
  "write_result res = \<lparr>r_Type = QueryTypeWrite, r_TxID = [], r_LastInsertID = sr_LastInsertID res,
     r_RowsAffected = sr_RowsAffected res, r_Columns = sr_Columns res, r_Types = sr_Types res,
     r_Rows = sr_Rows res\<rparr>"

definition read_result :: "sq_result \<Rightarrow> db_result" where
  "read_result res = QueryResult0\<lparr>r_Type := QueryTypeRead, r_Columns := sr_Columns res,
     r_Types := sr_Types res, r_Rows := sr_Rows res\<rparr>"

definition executeWriteQuery :: "'w env \<Rightarrow> ctx \<Rightarrow> query \<Rightarrow> ('w, go_error + db_result) act" where
  "executeWriteQuery E ctx q =
     bnd (gauge IncQueuedWrites) (\<lambda>_.
     bnd (withReadWriteConn E ctx (q_Role q) (\<lambda>c.
            bnd (do_Query E c (q_Query q) (q_Params q)) (\<lambda>r. ret (case r of
                Inl e \<Rightarrow> Inl (Wrapped ''failed to execute write query'' e)
              | Inr res \<Rightarrow> Inr (write_result res))))) (\<lambda>v.
     case v of
       Inl e \<Rightarrow> bnd (gauge DecQueuedWrites) (\<lambda>_. ret (Inl e))
     | Inr res \<Rightarrow>
         bnd (count E IncWrites) (\<lambda>_. bnd (gauge DecQueuedWrites) (\<lambda>_. ret (Inr res)))))"

definition executeReadQuery :: "'w env \<Rightarrow> ctx \<Rightarrow> query \<Rightarrow> ('w, go_error + db_result) act" where
  "executeReadQuery E ctx q =
     (if q_TxID q = [] then
        with_conn E ctx RO ''failed to get read-only connection'' (\<lambda>c.
          case SetAuthorizerRole (e_api E) c (q_Role q) of
            (Some e, c1) \<Rightarrow>
              ret (Inl (Wrapped ''failed to set read connection authorizer role'' e), c1)
          | (None, c1) \<Rightarrow>
              bnd (do_Query E c1 (q_Query q) (q_Params q)) (\<lambda>r. case r of
                  Inl e \<Rightarrow> ret (Inl (Wrapped ''failed to execute read query'' e), c1)
                | Inr res \<Rightarrow> bnd (count E IncReads) (\<lambda>_. ret (Inr (read_result res), c1))))
      else
        bnd (withReadWriteConn E ctx (q_Role q) (\<lambda>c.
               bnd (do_Query E c (q_Query q) (q_Params q)) (\<lambda>r. ret (case r of
                   Inl e \<Rightarrow> Inl (Wrapped ''failed to execute read query'' e)
                 | Inr res \<Rightarrow> Inr (read_result res))))) (\<lambda>v.
        case v of
          Inl e \<Rightarrow> ret (Inl e)
        | Inr res \<Rightarrow> bnd (count E IncReads) (\<lambda>_. ret (Inr res))))"

definition executeClassifiedQuery ::
  "'w env \<Rightarrow> ctx \<Rightarrow> query \<Rightarrow> QueryType \<Rightarrow> ('w, go_error + db_result) act" where
  "executeClassifiedQuery E ctx q queryType =
     (if queryType = QueryTypeBegin then
        executeBeginQuery E ctx (q_TxID q) (q_Role q) (q_TxOwner q)
      else if queryType = QueryTypeCommit then executeCommitQuery E ctx (q_TxID q) (q_Role q)
      else if queryType = QueryTypeRollback then executeRollbackQuery E ctx (q_TxID q) (q_Role q)
      else if queryType = QueryTypeRead then executeReadQuery E ctx q
      else if queryType = QueryTypeWrite then executeWriteQuery E ctx q
      else ret (Inl (ErrorString (''unknown query type: '' @ queryType))))"

definition queryWithType :: "'w env \<Rightarrow> ctx \<Rightarrow> query \<Rightarrow> ('w, go_error + db_result) act" where
  "queryWithType E ctx q s =
     (case validateTxID (q_TxID q) (q_TxOwner q) s of
        Some e \<Rightarrow> (Done (Inl e), s)
      | None \<Rightarrow>
          let body =
            bnd (ClassifyQuery E ctx (q_Query q) (q_TxID q)) (\<lambda>t. case t of
                Inl e \<Rightarrow> ret (Inl (Wrapped ''failed to detect query type'' e))
              | Inr queryType \<Rightarrow> executeClassifiedQuery E ctx q queryType) in
          if q_TxID q \<noteq> [] then
            bnd (touch E) (\<lambda>_. bnd body (\<lambda>r. bnd (touch E) (\<lambda>_. ret r))) s
          else body s)"

text \<open>\<open>DB.query\<close>, the logic under \<open>DB.Query\<close>.\<close>

definition db_query :: "'w env \<Rightarrow> ctx \<Rightarrow> query \<Rightarrow> ('w, go_error + db_result) act" where
  "db_query E ctx q =
     (if q_TxID q \<noteq> [] then with_txOpMu (queryWithType E ctx q)
      else
        bnd (ClassifyQuery E ctx (q_Query q) (q_TxID q)) (\<lambda>t.
        case t of
          Inl e \<Rightarrow>
            (\<lambda>s. if txID s \<noteq> [] then
               with_txMu
                 (bnd (ClassifyQuery E ctx (q_Query q) (q_TxID q)) (\<lambda>t. case t of
                     Inr queryType \<Rightarrow> executeClassifiedQuery E ctx q queryType
                   | Inl e \<Rightarrow> ret (Inl (Wrapped ''failed to detect query type'' e)))) s
             else ret (Inl (Wrapped ''failed to detect query type'' e)) s)
        | Inr queryType \<Rightarrow>
            if queryType = QueryTypeWrite
            then with_txMu (executeClassifiedQuery E ctx q queryType)
            else executeClassifiedQuery E ctx q queryType))"

definition db_Query :: "'w env \<Rightarrow> ctx \<Rightarrow> query \<Rightarrow> ('w, go_error + db_result) act" where
  "db_Query E ctx q =
     bnd (db_query E ctx q) (\<lambda>r. case r of
         Inl e \<Rightarrow> bnd (count E IncErrors) (\<lambda>_. ret (Inl e))
       | Inr res \<Rightarrow> ret (Inr res))"

section \<open>The idle monitor, opening and closing\<close>

text \<open>One tick of \<open>txIdleMonitor\<close>; the logger only prints.\<close>

definition txIdleMonitor_tick :: "'w env \<Rightarrow> ('w, unit) act" where
  "txIdleMonitor_tick E =
     with_txOpMu (\<lambda>s.
       let tx = txID s in
       if tx = [] then (Done (), s)
       else if time_Now E (ticks s) - txLastUsed s > TxIdleTimeout (db_Config s) then
         bnd (executeRollbackQuery E Background tx AuthorizerRoleAdmin) (\<lambda>_. ret ())
           (s\<lparr>ticks := ticks s + 1\<rparr>)
       else (Done (), s\<lparr>ticks := ticks s + 1\<rparr>))"

definition close_pool :: "'w env \<Rightarrow> which \<Rightarrow> ('w, go_error option) act" where
  "close_pool E k s =
     (case pool_Close (e_api E) (pool_of k s) (world s) of
        (e, p, w) \<Rightarrow> (Done e, (set_pool k p s)\<lparr>world := w\<rparr>))"

definition db_Close :: "'w env \<Rightarrow> ('w, go_error option) act" where
  "db_Close E =
     bnd (upd (\<lambda>s. s\<lparr>txIdleMonitorStop := True\<rparr>)) (\<lambda>_.
     bnd (with_txOpMu (\<lambda>s.
            if txID s \<noteq> [] then
              bnd (executeRollbackQuery E Background (txID s) AuthorizerRoleAdmin) (\<lambda>_. ret ()) s
            else (Done (), s))) (\<lambda>_.
     bnd (close_pool E RW) (\<lambda>e. case e of
         Some e \<Rightarrow> ret (Some (Wrapped ''failed to close write connection'' e))
       | None \<Rightarrow>
           bnd (close_pool E RO) (\<lambda>e. case e of
               Some e \<Rightarrow> ret (Some (Wrapped ''failed to close read connections'' e))
             | None \<Rightarrow> ret None))))"

text \<open>
  \<open>NewDB\<close>. \<open>mkdirAll\<close> is the answer of \<open>os.MkdirAll\<close>.
\<close>

definition open_pool ::
  "'w env \<Rightarrow> connector \<Rightarrow> int \<Rightarrow> int \<Rightarrow> string \<Rightarrow> 'w \<Rightarrow> (go_error + pool) outcome \<times> 'w" where
  "open_pool E k maxIdle maxOpen msg w =
     (case pool_Ping (e_api E) (OpenDB k) w of
        (Done None, p, w1) \<Rightarrow>
          let (p1, w2) = SetMaxIdleConns (e_api E) maxIdle p w1;
              (p2, w3) = SetMaxOpenConns (e_api E) maxOpen p1 w2 in
          (Done (Inr p2), w3)
      | (Done (Some e), p, w1) \<Rightarrow> (Done (Inl (Wrapped msg e)), w1)
      | (Blocked m, p, w1) \<Rightarrow> (Blocked m, w1)
      | (Running, p, w1) \<Rightarrow> (Running, w1)
      | (Fatal, p, w1) \<Rightarrow> (Fatal, w1))"

definition fresh_DB :: "db_config \<Rightarrow> pool \<Rightarrow> pool \<Rightarrow> time \<Rightarrow> DBStats \<Rightarrow> 'w \<Rightarrow> 'w DB" where
  "fresh_DB config rw ro now st w =
     \<lparr>db_Config = config, isInitialized = True, readWritePool = rw, readOnlyPool = ro,
      txID = [], txOwner = [], txLastUsed = now, txIdleMonitorStop = False,
      txMu = False, txOpMu = False, writeMu = False, dbStats = st, world = w, ticks = 1\<rparr>"

definition NewDB ::
  "'w env \<Rightarrow> go_error option \<Rightarrow> DBStats \<Rightarrow> db_config \<Rightarrow> 'w
   \<Rightarrow> (go_error + 'w DB) outcome \<times> 'w" where
  "NewDB E mkdirAll st config w =
     (if DataDir config = [] then (Done (Inl (ErrorString ''database directory is required'')), w)
      else case mkdirAll of
        Some e \<Rightarrow> (Done (Inl (Wrapped ''failed to create database directory'' e)), w)
      | None \<Rightarrow>
        if TxIdleTimeout config \<le> 0 then
          (Done (Inl (ErrorString ''transaction idle timeout must be provided'')), w)
        else
          let databasePath = path_Join [DataDir config, ''database.sqlite''];
              connector = (\<lambda>ro. newConnector databasePath ro (CacheSizeKB config) (BusyTimeout config)) in
          (case open_pool E (connector False) 1 1 ''failed to ping write connection'' w of
             (Done (Inr rw), w1) \<Rightarrow>
               (case open_pool E (connector True) (MaxReadConns config) (MaxReadConns config)
                       ''failed to ping read connection'' w1 of
                  (Done (Inr ro), w2) \<Rightarrow>
                    (Done (Inr (fresh_DB config rw ro (time_Now E 0) st w2)), w2)
                | (Done (Inl e), w2) \<Rightarrow> (Done (Inl e), w2)
                | (Blocked m, w2) \<Rightarrow> (Blocked m, w2)
                | (Running, w2) \<Rightarrow> (Running, w2)
                | (Fatal, w2) \<Rightarrow> (Fatal, w2))
           | (Done (Inl e), w1) \<Rightarrow> (Done (Inl e), w1)
           | (Blocked m, w1) \<Rightarrow> (Blocked m, w1)
           | (Running, w1) \<Rightarrow> (Running, w1)
           | (Fatal, w1) \<Rightarrow> (Fatal, w1)))"

end
