(* ===== verification/Convert.thy ===== *)
theory Convert
  imports Vdl Auth Database
begin

text \<open>
  \<open>internal/server/query_convert.go\<close>: from the wire types of a request to the parameters of the
  database and back from its results. A Go \<open>any\<close> is a \<open>go_any\<close>; the integers keep their width.
\<close>

definition authorizerRoleForAuthRole :: "authRole \<Rightarrow> AuthorizerRole" where
  "authorizerRoleForAuthRole r =
     (if r = authRoleReadWrite then AuthorizerRoleReadWrite
      else if r = authRoleReadOnly then AuthorizerRoleReadOnly
      else AuthorizerRoleAdmin)"

section \<open>Parameters\<close>

text \<open>
  The five tests of \<open>sqliteValueFromVDL\<close> in order; each gives the number of fields seen and the
  value converted last, and the blob may fail.
\<close>

definition sqliteValueFromVDL :: "SqliteValue \<Rightarrow> go_error + go_any" where
  "sqliteValueFromVDL v =
     (let s0 = (0 :: nat, GNil);
          s1 = (if sv_Null v = Some True then (fst s0 + 1, GNil) else s0);
          s2 = (case sv_Integer v of Some i \<Rightarrow> (fst s1 + 1, GInt64 i) | None \<Rightarrow> s1);
          s3 = (case sv_Real v of Some f \<Rightarrow> (fst s2 + 1, GFloat64 f) | None \<Rightarrow> s2);
          s4 = (case sv_Text v of Some t \<Rightarrow> (fst s3 + 1, GString t) | None \<Rightarrow> s3);
          s5 = (case sv_Blob v of
                  Some b \<Rightarrow>
                    (case DecodeString b of
                       Inl e \<Rightarrow> Inl (Wrapped ''decode blob parameter'' e)
                     | Inr d \<Rightarrow> Inr (fst s4 + 1, GBytes d))
                | None \<Rightarrow> Inr s4) in
      case s5 of
        Inl e \<Rightarrow> Inl e
      | Inr (fieldCount, converted) \<Rightarrow>
          if fieldCount \<noteq> 1 then Inl (ErrorString ''exactly one SQLite value field must be set'')
          else Inr converted)"

fun convert_params :: "vdl_QueryParam list \<Rightarrow> go_error + QueryParam list" where
  "convert_params [] = Inr []"
| "convert_params (p # ps) =
     (case sqliteValueFromVDL (vp_Value p) of
        Inl e \<Rightarrow> Inl e
      | Inr v \<Rightarrow> map_sum id ((#) \<lparr>p_Name = Val [] (vp_Name p), p_Value = v\<rparr>) (convert_params ps))"

definition sqliteParamsFromVDL :: "vdl_QueryParam list option \<Rightarrow> go_error + QueryParam list" where
  "sqliteParamsFromVDL params = (case params of None \<Rightarrow> Inr [] | Some ps \<Rightarrow> convert_params ps)"

section \<open>Results\<close>

definition queryResultTypeFromDB :: "QueryType \<Rightarrow> QueryResultType" where
  "queryResultTypeFromDB t =
     (if t = QueryTypeRead then QueryResultTypeRead
      else if t = QueryTypeWrite then QueryResultTypeWrite
      else if t = QueryTypeBegin then QueryResultTypeBegin
      else if t = QueryTypeCommit then QueryResultTypeCommit
      else if t = QueryTypeRollback then QueryResultTypeRollback
      else QueryResultTypeError)"

definition sqliteStorageClassFromString :: "string \<Rightarrow> SqliteStorageClass" where
  "sqliteStorageClassFromString valueType =
     (let upper = ToUpper (TrimSpace valueType) in
      if upper = ''NULL'' then SqliteStorageClassNull
      else if upper = ''INTEGER'' then SqliteStorageClassInteger
      else if upper = ''REAL'' then SqliteStorageClassReal
      else if upper = ''TEXT'' then SqliteStorageClassText
      else if upper = ''BLOB'' then SqliteStorageClassBlob
      else if Contains upper ''INT'' then SqliteStorageClassInteger
      else if Contains upper ''CHAR'' \<or> Contains upper ''CLOB'' \<or> Contains upper ''TEXT'' \<or>
              Contains upper ''DATE'' \<or> Contains upper ''TIME'' then SqliteStorageClassText
      else if Contains upper ''BLOB'' \<or> upper = [] then SqliteStorageClassBlob
      else if Contains upper ''REAL'' \<or> Contains upper ''FLOA'' \<or> Contains upper ''DOUB'' \<or>
              Contains upper ''NUMERIC'' \<or> Contains upper ''DECIMAL'' \<or> Contains upper ''BOOLEAN''
      then SqliteStorageClassReal
      else SqliteStorageClassText)"

definition sqliteValueToVDL :: "go_any \<Rightarrow> SqliteValue" where
  "sqliteValueToVDL v =
     (let int64 = \<lambda>i. SqliteValue0\<lparr>sv_Integer := Some i\<rparr> in
      case v of
        GNil \<Rightarrow> SqliteValue0\<lparr>sv_Null := Some True\<rparr>
      | GInt i \<Rightarrow> int64 i
      | GInt8 i \<Rightarrow> int64 (scast i)
      | GInt16 i \<Rightarrow> int64 (scast i)
      | GInt32 i \<Rightarrow> int64 (scast i)
      | GInt64 i \<Rightarrow> int64 i
      | GUint i \<Rightarrow> int64 i
      | GUint8 i \<Rightarrow> int64 (ucast i)
      | GUint16 i \<Rightarrow> int64 (ucast i)
      | GUint32 i \<Rightarrow> int64 (ucast i)
      | GUint64 i \<Rightarrow> int64 i
      | GFloat32 f \<Rightarrow> SqliteValue0\<lparr>sv_Real := Some (widen_float f)\<rparr>
      | GFloat64 f \<Rightarrow> SqliteValue0\<lparr>sv_Real := Some f\<rparr>
      | GString t \<Rightarrow> SqliteValue0\<lparr>sv_Text := Some t\<rparr>
      | GBytes d \<Rightarrow> SqliteValue0\<lparr>sv_Blob := Some (EncodeToString d)\<rparr>
      | GBool b \<Rightarrow> SqliteValue0\<lparr>sv_Text := Some (if b then ''true'' else ''false'')\<rparr>
      | GOther t s \<Rightarrow> SqliteValue0\<lparr>sv_Text := Some s\<rparr>)"

definition nonempty :: "'a list \<Rightarrow> 'a list option" where
  "nonempty xs = (if length xs > 0 then Some xs else None)"

text \<open>\<open>time\<close> is \<open>time.Since(startedAt)\<close>.\<close>

definition queryResultFromDB :: "int \<Rightarrow> db_result \<Rightarrow> vdl_QueryResult" where
  "queryResultFromDB time result =
     \<lparr>vr_Type = queryResultTypeFromDB (r_Type result), vr_Time = time, vr_Error = None,
      vr_TxId = (if r_TxID result \<noteq> [] then Some (r_TxID result) else None),
      vr_LastInsertId =
        (if r_Type result = QueryTypeWrite then Some (r_LastInsertID result) else None),
      vr_RowsAffected =
        (if r_Type result = QueryTypeWrite then Some (r_RowsAffected result) else None),
      vr_Columns = nonempty (r_Columns result),
      vr_Types = nonempty (map sqliteStorageClassFromString (r_Types result)),
      vr_Rows = nonempty (map (map sqliteValueToVDL) (r_Rows result))\<rparr>"

section \<open>Values survive the trip\<close>


definition one_field :: "SqliteValue \<Rightarrow> bool" where
  "one_field v \<longleftrightarrow>
     (if sv_Null v = Some True then 1 else 0 :: nat) +
     (if sv_Integer v \<noteq> None then 1 else 0) + (if sv_Real v \<noteq> None then 1 else 0) +
     (if sv_Text v \<noteq> None then 1 else 0) + (if sv_Blob v \<noteq> None then 1 else 0) = 1"


lemma one_field_ToVDL: "one_field (sqliteValueToVDL v)"
  by (cases v) (simp_all add: sqliteValueToVDL_def one_field_def SqliteValue0_def Let_def)




section \<open>The shape of an answer\<close>

lemma queryResultTypeFromDB_valid: "QueryResultType_IsValid (queryResultTypeFromDB t)"
  by (auto simp: QueryResultType_IsValid_def queryResultTypeFromDB_def)

lemma sqliteStorageClassFromString_valid: "SqliteStorageClass_IsValid (sqliteStorageClassFromString t)"
  by (auto simp: SqliteStorageClass_IsValid_def sqliteStorageClassFromString_def Let_def)

text \<open>What the JSON encoder and the clients rely on in an answer: enumerations inside their sets,
  as otherwise \<open>MarshalJSON\<close> fails, one field per value, the transaction ID and the write counts
  where the type has them, and an error message exactly in errors.\<close>

definition answer_ok :: "vdl_QueryResult \<Rightarrow> bool" where
  "answer_ok a \<longleftrightarrow>
     QueryResultType_IsValid (vr_Type a) \<and>
     list_all SqliteStorageClass_IsValid (Val [] (vr_Types a)) \<and>
     list_all (list_all one_field) (Val [] (vr_Rows a)) \<and>
     (vr_Error a \<noteq> None \<longleftrightarrow> vr_Type a = QueryResultTypeError) \<and>
     (vr_TxId a \<noteq> None \<longleftrightarrow> vr_Type a = QueryResultTypeBegin) \<and>
     (vr_LastInsertId a \<noteq> None \<longleftrightarrow> vr_Type a = QueryResultTypeWrite) \<and>
     (vr_RowsAffected a \<noteq> None \<longleftrightarrow> vr_Type a = QueryResultTypeWrite)"

lemma Val_nonempty [simp]: "Val [] (nonempty xs) = xs"
  by (simp add: nonempty_def Val_def)

lemma answer_of_result:
  assumes "r_Type res \<in> {QueryTypeRead, QueryTypeWrite, QueryTypeBegin, QueryTypeCommit, QueryTypeRollback}"
    and "r_TxID res \<noteq> [] \<longleftrightarrow> r_Type res = QueryTypeBegin"
  shows "answer_ok (queryResultFromDB time res)"
  using assms
  by (auto simp: answer_ok_def queryResultFromDB_def queryResultTypeFromDB_valid one_field_ToVDL
      sqliteStorageClassFromString_valid list_all_iff
      queryResultTypeFromDB_def QueryResultType_IsValid_def query_type_defs result_type_defs)

lemma answer_of_error: "answer_ok (QueryResult_of QueryResultTypeError time\<lparr>vr_Error := Some m\<rparr>)"
  by (simp add: answer_ok_def QueryResult_of_def QueryResultType_IsValid_def Val_def result_type_defs)

end
