(* ===== verification/Database_Inv.thy ===== *)
theory Database_Inv
  imports Database
begin

text \<open>
  The invariant of the transaction manager: between two calls no mutex is held except \<open>txMu\<close>,
  which is held exactly while a transaction is open, and every pooled connection is back in its
  pool. Weakest preconditions turn a composed action into equations, so each operation is one
  short proof.
\<close>

section \<open>Weakest preconditions\<close>

text \<open>
  \<open>wp p Q s\<close>: run from \<open>s\<close>, the action does not abort, waits for nothing but \<open>txMu\<close> of an open
  transaction, and if it returns \<open>r\<close> in \<open>s'\<close> then \<open>Q r s'\<close>.
\<close>

definition wp :: "('w, 'a) act \<Rightarrow> ('a \<Rightarrow> 'w DB \<Rightarrow> bool) \<Rightarrow> 'w DB \<Rightarrow> bool" where
  "wp p Q s \<longleftrightarrow>
     (case p s of
        (Done r, s') \<Rightarrow> Q r s'
      | (Blocked m, s') \<Rightarrow> m = OnTxMu \<and> txMu s' \<and> txID s' \<noteq> []
      | (Running, s') \<Rightarrow> True
      | (Fatal, s') \<Rightarrow> False)"

lemma wp_ret [simp]: "wp (ret a) Q = Q a"
  by (rule ext) (simp add: wp_def ret_def)

lemma wp_bnd [simp]: "wp (bnd p f) Q = wp p (\<lambda>a. wp (f a) Q)"
  by (rule ext) (auto simp: wp_def bnd_def split: prod.splits outcome.splits)

lemma wp_upd [simp]: "wp (upd f) Q = (\<lambda>s. Q () (f s))"
  by (rule ext) (simp add: wp_def upd_def)

lemma wp_at_now [simp]:
  "wp (at_now E f) Q = (\<lambda>s. Q () ((f (time_Now E (ticks s)) s)\<lparr>ticks := Suc (ticks s)\<rparr>))"
  by (rule ext) (simp add: wp_def at_now_def)

lemma wp_pure [simp]: "wp (\<lambda>s. (Done (g s), h s)) Q = (\<lambda>s. Q (g s) (h s))"
  by (rule ext) (simp add: wp_def)

lemma wp_mono: "wp p Q s \<Longrightarrow> (\<And>r s'. Q r s' \<Longrightarrow> R r s') \<Longrightarrow> wp p R s"
  by (auto simp: wp_def split: prod.splits outcome.splits)

section \<open>Mutexes\<close>

text \<open>
  The contract of a \<open>sync.Mutex\<close> field: its update changes what its test sees. A critical section
  runs when the mutex is free, and leaves it free.
\<close>

locale mutex =
  fixes held :: "'s \<Rightarrow> bool"
    and set_held :: "(bool \<Rightarrow> bool) \<Rightarrow> 's \<Rightarrow> 's"
    and m :: wait
  assumes held_set [simp]: "held (set_held f s) = f (held s)"
begin

lemma Lock_free: "\<not> held s \<Longrightarrow> Lock held set_held m s = (Done (), set_held (\<lambda>_. True) s)"
  by (simp add: Lock_def)

lemma Lock_held: "held s \<Longrightarrow> Lock held set_held m s = (Blocked m, s)"
  by (simp add: Lock_def)

lemma Lock_excludes:
  "Lock held set_held m s = (Done (), s1) \<Longrightarrow> Lock held set_held m s1 = (Blocked m, s1)"
  by (auto simp: Lock_def split: if_splits)

lemma Unlock_Lock:
  "Lock held set_held m s = (Done (), s1) \<Longrightarrow>
   \<exists>s2. Unlock held set_held s1 = (Done (), s2) \<and> \<not> held s2"
  by (auto simp: Lock_def Unlock_def split: if_splits)

lemma locked_returns_free:
  assumes "locked held set_held m body s = (Done r, s')"
  shows "\<not> held s \<and> \<not> held s'"
  using assms
  by (auto simp: locked_def bnd_def Lock_def Unlock_def ret_def
      split: if_splits prod.splits outcome.splits)

lemma locked_blocked: "held s \<Longrightarrow> locked held set_held m body s = (Blocked m, s)"
  by (simp add: locked_def bnd_def Lock_held)

lemma locked_run:
  assumes "\<not> held s" and "body (set_held (\<lambda>_. True) s) = (Done r, s1)" and "held s1"
  shows "locked held set_held m body s = (Done r, set_held (\<lambda>_. False) s1)"
  using assms by (simp add: locked_def bnd_def Lock_def Unlock_def ret_def)

end

interpretation tx_mutex: mutex txMu txMu_update OnTxMu
  by unfold_locales simp

interpretation txop_mutex: mutex txOpMu txOpMu_update OnTxOpMu
  by unfold_locales simp

interpretation write_mutex: mutex writeMu writeMu_update OnWriteMu
  by unfold_locales simp

lemma wp_lock_txMu [simp]:
  "wp lock_txMu Q = (\<lambda>s. if txMu s then txID s \<noteq> [] else Q () (s\<lparr>txMu := True\<rparr>))"
  by (rule ext) (simp add: wp_def Lock_def)

lemma wp_lock_others [simp]:
  "wp (Lock txOpMu txOpMu_update OnTxOpMu) Q = (\<lambda>s. \<not> txOpMu s \<and> Q () (s\<lparr>txOpMu := True\<rparr>))"
  "wp (Lock writeMu writeMu_update OnWriteMu) Q = (\<lambda>s. \<not> writeMu s \<and> Q () (s\<lparr>writeMu := True\<rparr>))"
  by (rule ext, simp add: wp_def Lock_def)+

lemma wp_unlock [simp]:
  "wp unlock_txMu Q = (\<lambda>s. txMu s \<and> Q () (s\<lparr>txMu := False\<rparr>))"
  "wp (Unlock txOpMu txOpMu_update) Q = (\<lambda>s. txOpMu s \<and> Q () (s\<lparr>txOpMu := False\<rparr>))"
  "wp (Unlock writeMu writeMu_update) Q = (\<lambda>s. writeMu s \<and> Q () (s\<lparr>writeMu := False\<rparr>))"
  by (rule ext, simp add: wp_def Unlock_def)+

lemma wp_with_mutex:
  "wp (with_txMu p) Q =
     (\<lambda>s. if txMu s then txID s \<noteq> []
          else wp p (\<lambda>r s'. txMu s' \<and> Q r (s'\<lparr>txMu := False\<rparr>)) (s\<lparr>txMu := True\<rparr>))"
  "wp (with_txOpMu p) Q =
     (\<lambda>s. \<not> txOpMu s \<and>
          wp p (\<lambda>r s'. txOpMu s' \<and> Q r (s'\<lparr>txOpMu := False\<rparr>)) (s\<lparr>txOpMu := True\<rparr>))"
  "wp (with_writeMu p) Q =
     (\<lambda>s. \<not> writeMu s \<and>
          wp p (\<lambda>r s'. writeMu s' \<and> Q r (s'\<lparr>writeMu := False\<rparr>)) (s\<lparr>writeMu := True\<rparr>))"
  by (simp_all add: locked_def)

section \<open>Pools\<close>

text \<open>A pool at rest: every open connection is idle, and there are at most \<open>maxOpen\<close> of them.\<close>

definition pool_ok :: "pool \<Rightarrow> bool" where
  "pool_ok p \<longleftrightarrow>
     p_numOpen p = length (p_free p) \<and> (p_maxOpen p = 0 \<or> p_numOpen p \<le> p_maxOpen p)"

text \<open>A pool with one connection out.\<close>

definition pool_out :: "pool \<Rightarrow> bool" where
  "pool_out p \<longleftrightarrow>
     p_numOpen p = Suc (length (p_free p)) \<and> (p_maxOpen p = 0 \<or> p_numOpen p \<le> p_maxOpen p)"

lemma pool_take_ok:
  assumes "pool_ok p"
  shows "case pool_take api cerr p w of
     (Done (Inl e), p', w') \<Rightarrow> pool_ok p'
   | (Done (Inr c), p', w') \<Rightarrow> pool_out p'
   | (Running, p', w') \<Rightarrow> True
   | _ \<Rightarrow> False"
  using assms
  by (auto simp: pool_take_def pool_ok_def pool_out_def split: option.splits sum.splits prod.splits)

lemma pool_put_ok: "pool_out p \<Longrightarrow> pool_put api c p w = (p', w') \<Longrightarrow> pool_ok p'"
  by (auto simp: pool_put_def pool_ok_def pool_out_def split: if_splits)

lemma pool_Close_ok: "pool_ok p \<Longrightarrow> pool_Close api p w = (e, p', w') \<Longrightarrow> pool_ok p'"
  by (auto simp: pool_Close_def pool_ok_def split: if_splits prod.splits)

definition pools_ok :: "'w DB \<Rightarrow> bool" where
  "pools_ok s \<longleftrightarrow> pool_ok (readWritePool s) \<and> pool_ok (readOnlyPool s)"

text \<open>
  What an action that only uses connections may change: the pools, which are at rest again, the
  engine's state and the clock.
\<close>

definition conn_frame :: "'w DB \<Rightarrow> 'w DB \<Rightarrow> bool" where
  "conn_frame s s' \<longleftrightarrow>
     (\<exists>rw ro w t. pool_ok rw \<and> pool_ok ro \<and>
        s' = s\<lparr>readWritePool := rw, readOnlyPool := ro, world := w, ticks := t\<rparr>)"

lemma conn_frameI:
  assumes "pools_ok s" "pool_ok p"
  shows "conn_frame s ((set_pool k p s)\<lparr>world := w, ticks := t\<rparr>)"
proof (cases k)
  case RW
  with assms show ?thesis
    unfolding conn_frame_def pools_ok_def
    by (intro exI [of _ p] exI [of _ "readOnlyPool s"] exI [of _ w] exI [of _ t]) simp
next
  case RO
  with assms show ?thesis
    unfolding conn_frame_def pools_ok_def
    by (intro exI [of _ "readWritePool s"] exI [of _ p] exI [of _ w] exI [of _ t]) simp
qed

lemma conn_frame_refl: "pools_ok s \<Longrightarrow> conn_frame s s"
  unfolding conn_frame_def pools_ok_def
  by (intro exI [of _ "readWritePool s"] exI [of _ "readOnlyPool s"] exI [of _ "world s"]
      exI [of _ "ticks s"]) simp

lemma conn_frame_writeMu:
  assumes "conn_frame (s\<lparr>writeMu := True\<rparr>) s'" and "\<not> writeMu s"
  shows "writeMu s' \<and> conn_frame s (s'\<lparr>writeMu := False\<rparr>)"
proof -
  from assms(1) obtain rw ro w t where ok: "pool_ok rw" "pool_ok ro"
    and s': "s' = s\<lparr>writeMu := True, readWritePool := rw, readOnlyPool := ro, world := w, ticks := t\<rparr>"
    by (auto simp: conn_frame_def)
  from assms(2) have "s'\<lparr>writeMu := False\<rparr> = s\<lparr>readWritePool := rw, readOnlyPool := ro, world := w, ticks := t\<rparr>"
    unfolding s' by (cases s) simp
  with ok s' show ?thesis unfolding conn_frame_def by auto
qed

lemma ticks_world [simp]: "s\<lparr>ticks := t, world := w\<rparr> = s\<lparr>world := w, ticks := t\<rparr>"
  by (cases s) simp

lemma set_pool_twice [simp]:
  "set_pool k p (set_pool k p' s) = set_pool k p s"
  "set_pool k p (s\<lparr>world := w\<rparr>) = (set_pool k p s)\<lparr>world := w\<rparr>"
  "set_pool k p (s\<lparr>ticks := t\<rparr>) = (set_pool k p s)\<lparr>ticks := t\<rparr>"
  "pool_of k (set_pool k p s) = p"
  "pool_of k (s\<lparr>world := w\<rparr>) = pool_of k s"
  "pool_of k (s\<lparr>ticks := t\<rparr>) = pool_of k s"
  by (cases k; simp)+

lemma wp_with_conn:
  assumes "pools_ok s"
    and body: "\<And>c p w. pool_out p \<Longrightarrow>
      wp (body c) (\<lambda>(v, c') s2. pool_of k s2 = p \<and>
          (\<forall>p' w'. pool_ok p' \<longrightarrow> Q v ((set_pool k p' s2)\<lparr>world := w'\<rparr>)))
        ((set_pool k p s)\<lparr>world := w, ticks := Suc (ticks s)\<rparr>)"
    and err: "\<And>e p w. pool_ok p \<Longrightarrow>
      Q (Inl (Wrapped msg e)) ((set_pool k p s)\<lparr>world := w, ticks := Suc (ticks s)\<rparr>)"
  shows "wp (with_conn E ctx k msg body) Q s"
proof -
  obtain r p w where t: "pool_take (e_api E) (ctx (ticks s)) (pool_of k s) (world s) = (r, p, w)"
    by (metis prod.exhaust)
  from assms(1) have ok: "pool_ok (pool_of k s)" by (cases k) (auto simp: pools_ok_def)
  show ?thesis
  proof (cases r)
    case (Done v)
    show ?thesis
    proof (cases v)
      case (Inl e)
      with Done t pool_take_ok [OF ok, of "e_api E" "ctx (ticks s)" "world s"] have "pool_ok p"
        by simp
      with Done Inl t show ?thesis
        by (simp add: with_conn_def) (simp add: wp_def [of "getRawConn _ _ _"] getRawConn_def err)
    next
      case (Inr c)
      with Done t pool_take_ok [OF ok, of "e_api E" "ctx (ticks s)" "world s"] have "pool_out p"
        by simp
      from body [OF this, of c w] have "wp (body c) (\<lambda>(v, c'). wp (returnConn E k c') (\<lambda>_. Q v))
          ((set_pool k p s)\<lparr>world := w, ticks := Suc (ticks s)\<rparr>)"
        by (rule wp_mono)
          (use \<open>pool_out p\<close> in \<open>auto simp: wp_def [of "returnConn _ _ _"] returnConn_def
            split: prod.splits dest: pool_put_ok\<close>)
      then have "wp (body c) (\<lambda>x. wp (case x of (v, c') \<Rightarrow> bnd (returnConn E k c') (\<lambda>_. ret v)) Q)
          ((set_pool k p s)\<lparr>world := w, ticks := Suc (ticks s)\<rparr>)"
        by (rule wp_mono) (auto split: prod.splits)
      with Done Inr t show ?thesis
        by (simp add: with_conn_def) (simp add: wp_def [of "getRawConn _ _ _"] getRawConn_def)
    qed
  qed (use t pool_take_ok [OF ok, of "e_api E" "ctx (ticks s)" "world s"] in
      \<open>auto simp: with_conn_def wp_def [of "getRawConn _ _ _"] getRawConn_def\<close>)
qed


section \<open>Operations\<close>

definition db_inv :: "'w DB \<Rightarrow> bool" where
  "db_inv s \<longleftrightarrow> \<not> txOpMu s \<and> \<not> writeMu s \<and> (txMu s \<longleftrightarrow> txID s \<noteq> []) \<and> pools_ok s"

lemma wp_do_Query:
  "(\<And>r w. Q r (s\<lparr>world := w\<rparr>)) \<Longrightarrow> wp (do_Query E c q ps) Q s"
  by (auto simp: wp_def do_Query_def split: option.splits)

lemma wp_classifyPreparedQuery:
  assumes "\<And>r c' w. Q (r, c') (s\<lparr>world := w\<rparr>)"
  shows "wp (classifyPreparedQuery E query c) Q s"
proof -
  have "Q (r, c') s" for r c' using assms [of r c' "world s"] by simp
  with assms show ?thesis
    by (auto simp: wp_def classifyPreparedQuery_def split: option.splits prod.splits sum.splits)
qed

text \<open>
  The two ways to use a connection: \<open>with_conn\<close> on a body that only runs the engine, and
  \<open>withReadWriteConn\<close>.
\<close>

lemma wp_with_conn_engine:
  assumes "pools_ok s"
    and body: "\<And>c s1. wp (body c) (\<lambda>(v, c') s2. V v \<and> (\<exists>w. s2 = s1\<lparr>world := w\<rparr>)) s1"
    and err: "\<And>e. V (Inl e)"
    and Q: "\<And>r s'. V r \<Longrightarrow> conn_frame s s' \<Longrightarrow> Q r s'"
  shows "wp (with_conn E ctx k msg body) Q s"
proof (rule wp_with_conn [OF assms(1)])
  fix c p w
  assume "pool_out p"
  show "wp (body c) (\<lambda>(v, c') s2. pool_of k s2 = p \<and>
      (\<forall>p' w'. pool_ok p' \<longrightarrow> Q v ((set_pool k p' s2)\<lparr>world := w'\<rparr>)))
    ((set_pool k p s)\<lparr>world := w, ticks := Suc (ticks s)\<rparr>)"
    by (rule wp_mono [OF body]) (use assms(1) in \<open>auto intro!: Q conn_frameI\<close>)
next
  fix e p w
  assume "pool_ok p"
  with assms(1) show "Q (Inl (Wrapped msg e)) ((set_pool k p s)\<lparr>world := w, ticks := Suc (ticks s)\<rparr>)"
    by (auto intro!: Q conn_frameI err)
qed

lemma wp_withReadWriteConn:
  assumes "pools_ok s" and "\<not> writeMu s"
    and fn: "\<And>c s1. wp (fn c) (\<lambda>v s2. V v \<and> (\<exists>w. s2 = s1\<lparr>world := w\<rparr>)) s1"
    and err: "\<And>e. V (Inl e)"
    and Q: "\<And>r s'. V r \<Longrightarrow> conn_frame s s' \<Longrightarrow> Q r s'"
  shows "wp (withReadWriteConn E ctx r fn) Q s"
  unfolding withReadWriteConn_def wp_with_mutex
proof (intro conjI)
  show "\<not> writeMu s" by fact
  show "wp (with_conn E ctx RW ''failed to get read-write connection from pool''
      (\<lambda>c. case SetAuthorizerRole (e_api E) c r of
        (None, c1) \<Rightarrow> bnd (fn c1) (\<lambda>v. ret (v, c1))
      | (Some e, c1) \<Rightarrow> ret (Inl (Wrapped ''failed to set write connection authorizer role'' e), c1)))
    (\<lambda>r s'. writeMu s' \<and> Q r (s'\<lparr>writeMu := False\<rparr>)) (s\<lparr>writeMu := True\<rparr>)"
  proof (rule wp_with_conn_engine [where V = V], goal_cases)
    case 1
    show ?case using assms(1) by (simp add: pools_ok_def)
  next
    case (2 c s1)
    have "\<exists>w. s1 = s1\<lparr>world := w\<rparr>" by (rule exI [of _ "world s1"]) simp
    then show ?case using fn err by (auto split: prod.splits option.splits)
  next
    case 3
    show ?case by (rule err)
  next
    case (4 r s')
    then show ?case using conn_frame_writeMu [OF _ assms(2)] Q by blast
  qed
qed


text \<open>Facts that a use of the connections leaves alone.\<close>

lemma conn_frameD:
  "conn_frame s s' \<Longrightarrow>
     pools_ok s' \<and> txMu s' = txMu s \<and> txOpMu s' = txOpMu s \<and> writeMu s' = writeMu s \<and>
     txID s' = txID s \<and> txOwner s' = txOwner s \<and> db_Config s' = db_Config s \<and>
     dbStats s' = dbStats s"
  by (auto simp: conn_frame_def pools_ok_def)

lemma wp_run_sql:
  assumes "pools_ok s" "\<not> writeMu s" "\<And>r s'. conn_frame s s' \<Longrightarrow> Q r s'"
  shows "wp (withReadWriteConn E ctx r (run_sql E sql)) Q s"
  by (rule wp_withReadWriteConn [where V = "\<lambda>_. True"])
    (use assms in \<open>auto simp: run_sql_def intro!: wp_do_Query split: sum.splits\<close>)

lemma wp_run_query:
  assumes "pools_ok s" "\<not> writeMu s"
    and "\<And>e s'. conn_frame s s' \<Longrightarrow> Q (Inl e) s'"
    and "\<And>x s'. conn_frame s s' \<Longrightarrow> Q (Inr (g x)) s'"
  shows "wp (withReadWriteConn E ctx r (\<lambda>c. bnd (do_Query E c q ps) (\<lambda>r. ret (case r of
      Inl e \<Rightarrow> Inl (Wrapped msg e) | Inr res \<Rightarrow> Inr (g res))))) Q s"
  by (rule wp_withReadWriteConn [where V = "\<lambda>r. \<forall>res. r = Inr res \<longrightarrow> (\<exists>x. res = g x)"])
    (use assms in \<open>auto intro!: wp_do_Query split: sum.splits, metis sum.exhaust\<close>)

text \<open>What \<open>ClassifyQuery\<close> promises: a statement with no keyword is a read or a write.\<close>

definition classified :: "string \<Rightarrow> go_error + QueryType \<Rightarrow> bool" where
  "classified query r \<longleftrightarrow>
     (case keyword_type query of
        Some t \<Rightarrow> r = Inr t
      | None \<Rightarrow> (\<forall>t. r = Inr t \<longrightarrow> t = QueryTypeRead \<or> t = QueryTypeWrite))"

lemma classifyPreparedQuery_frame:
  "wp (classifyPreparedQuery E query c)
     (\<lambda>(v, c') s2. (\<forall>t. v = Inr t \<longrightarrow> t = QueryTypeRead \<or> t = QueryTypeWrite) \<and>
        (\<exists>w. s2 = s1\<lparr>world := w\<rparr>)) s1"
  using exI [of "\<lambda>w. s1 = s1\<lparr>world := w\<rparr>" "world s1"]
  by (auto simp: wp_def classifyPreparedQuery_def split: option.splits prod.splits sum.splits)

lemma wp_ClassifyQuery:
  assumes "pools_ok s" "\<not> writeMu s"
    and Q: "\<And>r s'. classified query r \<Longrightarrow> conn_frame s s' \<Longrightarrow> Q r s'"
  shows "wp (ClassifyQuery E ctx query tx) Q s"
proof (cases "keyword_type query")
  case (Some t)
  with conn_frame_refl [OF assms(1)] show ?thesis by (simp add: ClassifyQuery_def Q classified_def)
next
  case None
  have ro: "wp (classifyQueryOnReadOnlyConn E ctx query) Q s"
    unfolding classifyQueryOnReadOnlyConn_def
    by (rule wp_with_conn_engine [OF assms(1) classifyPreparedQuery_frame])
      (auto intro!: Q simp: classified_def None)
  have "wp (classifyQueryOnReadWriteConn E ctx query) Q s"
    unfolding classifyQueryOnReadWriteConn_def wp_with_mutex
  proof (intro conjI)
    show "wp (with_conn E ctx RW ''failed to get read-write connection'' (classifyPreparedQuery E query))
        (\<lambda>r s'. writeMu s' \<and> Q r (s'\<lparr>writeMu := False\<rparr>)) (s\<lparr>writeMu := True\<rparr>)"
      by (rule wp_with_conn_engine [OF _ classifyPreparedQuery_frame])
        (use assms(1) in \<open>auto simp: classified_def None pools_ok_def
          dest!: conn_frame_writeMu [OF _ assms(2)] intro!: Q\<close>)
  qed fact
  with ro None show ?thesis by (simp add: ClassifyQuery_def)
qed

section \<open>The contract of a query\<close>

definition inc_of :: "QueryType \<Rightarrow> time \<Rightarrow> DBStats \<Rightarrow> DBStats" where
  "inc_of qt =
     (if qt = QueryTypeBegin then IncBegins
      else if qt = QueryTypeCommit then IncCommits
      else if qt = QueryTypeRollback then IncRollbacks
      else if qt = QueryTypeRead then IncReads
      else IncWrites)"

definition raised :: "QueryType \<Rightarrow> DBStats \<Rightarrow> DBStats \<Rightarrow> bool" where
  "raised qt st st' \<longleftrightarrow> (\<exists>t. st' = inc_of qt t st)"

definition same_tx :: "'w DB \<Rightarrow> 'w DB \<Rightarrow> bool" where
  "same_tx s s' \<longleftrightarrow> txMu s' = txMu s \<and> txID s' = txID s \<and> txOwner s' = txOwner s"

text \<open>
  \<open>served s r s'\<close>: the effect of an executed query on the object. A failed one changes neither the
  transaction nor the counters; a begin takes \<open>txMu\<close> and stores the new transaction; a commit or
  rollback clears it and releases \<open>txMu\<close>; any other query keeps it. The matching counter is
  raised once and the gauges are back where they were.
\<close>

definition served :: "'w DB \<Rightarrow> go_error + db_result \<Rightarrow> 'w DB \<Rightarrow> bool" where
  "served s r s' \<longleftrightarrow>
     txOpMu s' = txOpMu s \<and> \<not> writeMu s' \<and> pools_ok s' \<and> db_Config s' = db_Config s \<and>
     (case r of
        Inl e \<Rightarrow> dbStats s' = dbStats s \<and> same_tx s s'
      | Inr res \<Rightarrow>
          raised (r_Type res) (dbStats s) (dbStats s') \<and>
          (if r_Type res = QueryTypeBegin then
             \<not> txMu s \<and> txMu s' \<and> txID s' = r_TxID res \<and> r_TxID res \<noteq> []
           else if r_Type res = QueryTypeCommit \<or> r_Type res = QueryTypeRollback then
             txMu s \<and> \<not> txMu s' \<and> txID s' = [] \<and> txOwner s' = []
           else same_tx s s'))"

lemma count_in_gauge:
  "count_in f t (db\<lparr>queuedBegins := x\<rparr>) = (count_in f t db)\<lparr>queuedBegins := x\<rparr>"
  "count_in f t (db\<lparr>queuedWrites := x\<rparr>) = (count_in f t db)\<lparr>queuedWrites := x\<rparr>"
  by (simp_all add: count_in_def getOrCreateMinuteData_def Let_def split: option.splits)

lemma gauge_balanced:
  "DecQueuedBegins (IncQueuedBegins db) = db"
  "DecQueuedWrites (IncQueuedWrites db) = db"
  "DecQueuedBegins (IncBegins t (IncQueuedBegins db)) = IncBegins t db"
  "DecQueuedWrites (IncWrites t (IncQueuedWrites db)) = IncWrites t db"
  by (simp_all add: stat_defs count_in_gauge)

lemma types_distinct:
  "QueryTypeRead \<noteq> QueryTypeBegin" "QueryTypeRead \<noteq> QueryTypeCommit"
  "QueryTypeRead \<noteq> QueryTypeRollback" "QueryTypeWrite \<noteq> QueryTypeBegin"
  "QueryTypeWrite \<noteq> QueryTypeCommit" "QueryTypeWrite \<noteq> QueryTypeRollback"
  "QueryTypeWrite \<noteq> QueryTypeRead" "QueryTypeCommit \<noteq> QueryTypeBegin"
  "QueryTypeRollback \<noteq> QueryTypeBegin" "QueryTypeRollback \<noteq> QueryTypeCommit"
  by (simp_all add: query_type_defs)

lemmas types_neq = types_distinct types_distinct [symmetric]

lemma raised_simps [simp]:
  "raised QueryTypeBegin st (IncBegins t st)" "raised QueryTypeCommit st (IncCommits t st)"
  "raised QueryTypeRollback st (IncRollbacks t st)" "raised QueryTypeRead st (IncReads t st)"
  "raised QueryTypeWrite st (IncWrites t st)"
  unfolding raised_def inc_of_def by (rule exI [of _ t], simp add: types_neq)+

lemma result_types [simp]:
  "r_Type (write_result res) = QueryTypeWrite" "r_Type (read_result res) = QueryTypeRead"
  by (simp_all add: write_result_def read_result_def)

lemma wp_executeBegin:
  assumes "pools_ok s" "\<not> writeMu s" "txMu s \<Longrightarrow> txID s \<noteq> []" "\<forall>n. uuid_NewString E n \<noteq> []"
  shows "wp (executeBeginQuery E ctx tx r owner) (served s) s"
  using assms
  by (auto simp: executeBeginQuery_def gauge_def count_def served_def same_tx_def pools_ok_def
      gauge_balanced types_distinct QueryResult0_def dest!: conn_frameD split: sum.splits
      intro!: wp_run_sql)

lemma wp_end_tx:
  assumes "pools_ok s" "\<not> writeMu s" "tx \<noteq> [] \<Longrightarrow> txMu s"
    and "qt = QueryTypeCommit \<and> inc = IncCommits \<or> qt = QueryTypeRollback \<and> inc = IncRollbacks"
  shows "wp (end_tx E ctx sql msg qt inc tx r) (served s) s"
  using assms
  by (auto simp: end_tx_def count_def served_def same_tx_def pools_ok_def types_distinct
      dest!: conn_frameD split: sum.splits intro!: wp_run_sql)

lemma wp_executeWrite:
  assumes "pools_ok s" "\<not> writeMu s"
  shows "wp (executeWriteQuery E ctx q)
    (\<lambda>r s'. served s r s' \<and> (\<forall>res. r = Inr res \<longrightarrow> r_Type res = QueryTypeWrite)) s"
  using assms
  by (auto simp: executeWriteQuery_def gauge_def count_def served_def same_tx_def pools_ok_def
      gauge_balanced types_distinct dest!: conn_frameD split: sum.splits intro!: wp_run_query)

lemma wp_executeRead:
  assumes "pools_ok s" "\<not> writeMu s"
  shows "wp (executeReadQuery E ctx q) (served s) s"
proof (cases "q_TxID q = []")
  case True
  have "wp (with_conn E ctx RO ''failed to get read-only connection'' (\<lambda>c.
      case SetAuthorizerRole (e_api E) c (q_Role q) of
        (Some e, c1) \<Rightarrow>
          ret (Inl (Wrapped ''failed to set read connection authorizer role'' e), c1)
      | (None, c1) \<Rightarrow>
          bnd (do_Query E c1 (q_Query q) (q_Params q)) (\<lambda>r. case r of
              Inl e \<Rightarrow> ret (Inl (Wrapped ''failed to execute read query'' e), c1)
            | Inr res \<Rightarrow> bnd (count E IncReads) (\<lambda>_. ret (Inr (read_result res), c1)))))
    (served s) s"
    by (rule wp_with_conn)
      (use assms in \<open>auto simp: served_def same_tx_def pools_ok_def types_distinct count_def
        intro!: wp_do_Query split: prod.splits option.splits sum.splits\<close>)
  with True show ?thesis by (simp add: executeReadQuery_def)
next
  case False
  with assms show ?thesis
    by (auto simp: executeReadQuery_def count_def served_def same_tx_def pools_ok_def types_distinct
        dest!: conn_frameD split: sum.splits intro!: wp_run_query)
qed

lemma wp_executeClassified:
  assumes "pools_ok s" "\<not> writeMu s" "q_TxID q \<noteq> [] \<Longrightarrow> txMu s" "\<forall>n. uuid_NewString E n \<noteq> []"
    and "qt = QueryTypeBegin \<Longrightarrow> txMu s \<Longrightarrow> txID s \<noteq> []"
  shows "wp (executeClassifiedQuery E ctx q qt) (served s) s"
proof -
  have "wp (ret (Inl e)) (served s) s" for e
    using assms(1,2) by (simp add: served_def same_tx_def)
  moreover have "wp (executeCommitQuery E ctx (q_TxID q) (q_Role q)) (served s) s"
    "wp (executeRollbackQuery E ctx (q_TxID q) (q_Role q)) (served s) s"
    unfolding executeCommitQuery_def executeRollbackQuery_def
    by (rule wp_end_tx; use assms(1-3) in simp)+
  ultimately show ?thesis
    using assms wp_mono [OF wp_executeWrite [OF assms(1,2)]] wp_executeRead [OF assms(1,2)]
      wp_executeBegin [OF assms(1,2) _ assms(4)]
    by (simp add: executeClassifiedQuery_def)
qed

text \<open>Statements about a state reached by using the connections carry over to the state before.\<close>

lemma served_frame: "conn_frame s s1 \<Longrightarrow> served s1 r s2 \<Longrightarrow> served s r s2"
  by (drule conn_frameD) (elim conjE, simp only: served_def same_tx_def simp_thms)

lemma served_error: "conn_frame s s1 \<Longrightarrow> \<not> writeMu s \<Longrightarrow> served s (Inl e) s1"
  by (drule conn_frameD) (simp add: served_def same_tx_def)

lemma served_touch [simp]:
  "served (s\<lparr>txLastUsed := t, ticks := n\<rparr>) = served s"
  "served s r (s'\<lparr>txLastUsed := t, ticks := n\<rparr>) \<longleftrightarrow> served s r s'"
  unfolding served_def same_tx_def pools_ok_def fun_eq_iff by (simp_all cong: sum.case_cong)

lemma wp_classify_execute:
  assumes "pools_ok s" "\<not> writeMu s" "q_TxID q \<noteq> [] \<Longrightarrow> txMu s" "\<forall>n. uuid_NewString E n \<noteq> []"
    and "txMu s \<Longrightarrow> txID s \<noteq> [] \<or> keyword_type (q_Query q) = None"
  shows "wp (bnd (ClassifyQuery E ctx (q_Query q) tx) (\<lambda>t. case t of
      Inl e \<Rightarrow> ret (Inl (Wrapped msg e))
    | Inr qt \<Rightarrow> executeClassifiedQuery E ctx q qt)) (served s) s"
  unfolding wp_bnd
proof (rule wp_ClassifyQuery [OF assms(1,2)])
  fix r s1
  assume c: "classified (q_Query q) r" and f: "conn_frame s s1"
  show "wp (case r of Inl e \<Rightarrow> ret (Inl (Wrapped msg e))
      | Inr qt \<Rightarrow> executeClassifiedQuery E ctx q qt) (served s) s1"
  proof (cases r)
    case (Inl e)
    with f assms(2) show ?thesis by (simp add: served_error)
  next
    case (Inr qt)
    have "wp (executeClassifiedQuery E ctx q qt) (served s1) s1"
      by (rule wp_executeClassified)
        (use conn_frameD [OF f] assms c Inr in \<open>auto simp: classified_def types_neq split: option.splits\<close>)
    then have "wp (executeClassifiedQuery E ctx q qt) (served s) s1"
      by (rule wp_mono) (rule served_frame [OF f])
    with Inr show ?thesis by simp
  qed
qed

lemma served_txMu:
  assumes "served (s\<lparr>txMu := True\<rparr>) r s'" "\<not> txMu s"
    and "\<forall>res. r = Inr res \<longrightarrow> r_Type res = QueryTypeWrite"
  shows "txMu s' \<and> served s r (s'\<lparr>txMu := False\<rparr>)"
  using assms by (cases r) (simp_all add: served_def same_tx_def pools_ok_def types_distinct)

lemma wp_executeWrite_alone:
  assumes "pools_ok s" "\<not> writeMu s" "txMu s \<Longrightarrow> txID s \<noteq> []"
  shows "wp (with_txMu (executeWriteQuery E ctx q)) (served s) s"
proof (cases "txMu s")
  case True
  with assms(3) show ?thesis by (simp add: wp_with_mutex)
next
  case False
  have "wp (executeWriteQuery E ctx q) (\<lambda>r s'. txMu s' \<and> served s r (s'\<lparr>txMu := False\<rparr>)) (s\<lparr>txMu := True\<rparr>)"
    by (rule wp_mono [OF wp_executeWrite]) (use assms False served_txMu in \<open>auto simp: pools_ok_def\<close>)
  with False show ?thesis by (simp add: wp_with_mutex)
qed

lemma served_txOpMu: "served (s\<lparr>txOpMu := b\<rparr>) r s' \<Longrightarrow> served (s\<lparr>txOpMu := b'\<rparr>) r (s'\<lparr>txOpMu := b'\<rparr>)"
  unfolding served_def same_tx_def pools_ok_def by (cases r) (simp_all cong: if_cong)

lemma wp_queryWithType:
  assumes "pools_ok s" "\<not> writeMu s" "txMu s \<longleftrightarrow> txID s \<noteq> []" "\<forall>n. uuid_NewString E n \<noteq> []"
  shows "wp (queryWithType E ctx q) (served s) s"
proof (cases "validateTxID (q_TxID q) (q_TxOwner q) s")
  case (Some e)
  with assms show ?thesis by (simp add: queryWithType_def wp_def served_def same_tx_def)
next
  case None
  then have tx: "q_TxID q \<noteq> [] \<Longrightarrow> txMu s"
    using assms(3) by (auto simp: validateTxID_def Let_def split: if_splits)
  let ?body = "bnd (ClassifyQuery E ctx (q_Query q) (q_TxID q)) (\<lambda>t. case t of
      Inl e \<Rightarrow> ret (Inl (Wrapped ''failed to detect query type'' e))
    | Inr queryType \<Rightarrow> executeClassifiedQuery E ctx q queryType)"
  have body: "wp ?body (served s1) s1" if "s1 = s \<or> s1 = s\<lparr>txLastUsed := t, ticks := n\<rparr>" for s1 t n
    by (rule wp_classify_execute) (use that assms tx in \<open>auto simp: pools_ok_def\<close>)
  have eq: "queryWithType E ctx q s =
      (if q_TxID q \<noteq> [] then bnd (touch E) (\<lambda>_. bnd ?body (\<lambda>r. bnd (touch E) (\<lambda>_. ret r))) s
       else ?body s)"
    using None by (simp add: queryWithType_def)
  have "wp (bnd (touch E) (\<lambda>_. bnd ?body (\<lambda>r. bnd (touch E) (\<lambda>_. ret r)))) (served s) s"
    using body [OF disjI2 [OF refl]] by (auto elim!: wp_mono)
  with body [OF disjI1 [OF refl]] show ?thesis
    unfolding wp_def eq by (cases "q_TxID q = []") simp_all
qed

text \<open>The contract of the whole call \<open>DB.query\<close>.\<close>

lemma wp_db_query:
  assumes "db_inv s" "\<forall>n. uuid_NewString E n \<noteq> []"
  shows "wp (db_query E ctx q) (\<lambda>r s'. served s r s') s"
proof (cases "q_TxID q = []")
  case False
  have "wp (queryWithType E ctx q) (served (s\<lparr>txOpMu := True\<rparr>)) (s\<lparr>txOpMu := True\<rparr>)"
    by (rule wp_queryWithType) (use assms in \<open>auto simp: db_inv_def pools_ok_def\<close>)
  then have "wp (queryWithType E ctx q) (\<lambda>r s'. txOpMu s' \<and> served s r (s'\<lparr>txOpMu := False\<rparr>))
      (s\<lparr>txOpMu := True\<rparr>)"
  proof (rule wp_mono)
    fix r s'
    assume "served (s\<lparr>txOpMu := True\<rparr>) r s'"
    moreover have "s\<lparr>txOpMu := False\<rparr> = s" using assms(1) by (cases s) (simp add: db_inv_def)
    ultimately show "txOpMu s' \<and> served s r (s'\<lparr>txOpMu := False\<rparr>)"
      using served_txOpMu [where s = s and b = True and b' = False] by (simp add: served_def [of _ _ s'])
  qed
  with False assms(1) show ?thesis by (simp add: db_query_def wp_with_mutex db_inv_def)
next
  case True
  have inv: "pools_ok s" "\<not> writeMu s" "txMu s \<longleftrightarrow> txID s \<noteq> []" using assms(1) by (auto simp: db_inv_def)
  let ?next = "\<lambda>r. case r of
        Inl e \<Rightarrow> (\<lambda>s. if txID s \<noteq> [] then
            with_txMu (bnd (ClassifyQuery E ctx (q_Query q) (q_TxID q)) (\<lambda>t. case t of
                Inr queryType \<Rightarrow> executeClassifiedQuery E ctx q queryType
              | Inl e \<Rightarrow> ret (Inl (Wrapped ''failed to detect query type'' e)))) s
          else ret (Inl (Wrapped ''failed to detect query type'' e)) s)
      | Inr queryType \<Rightarrow>
          if queryType = QueryTypeWrite
          then with_txMu (executeClassifiedQuery E ctx q queryType)
          else executeClassifiedQuery E ctx q queryType"
  have "wp (ClassifyQuery E ctx (q_Query q) (q_TxID q)) (\<lambda>r. wp (?next r) (served s)) s"
  proof (rule wp_ClassifyQuery [OF inv(1,2)])
    fix r s1
    assume c: "classified (q_Query q) r" and f: "conn_frame s s1"
    note d = conn_frameD [OF f]
    show "wp (?next r) (served s) s1"
    proof (cases r)
      case (Inl e)
      with d inv served_error [OF f inv(2)] show ?thesis
        by (auto simp: wp_def tx_mutex.locked_blocked ret_def)
    next
      case (Inr qt)
      show ?thesis
      proof (cases "qt = QueryTypeWrite")
        case True
        with Inr wp_executeWrite_alone [of s1 E ctx q] served_frame [OF f] d inv show ?thesis
          by (auto simp: executeClassifiedQuery_def types_distinct elim!: wp_mono)
      next
        case False
        have "wp (executeClassifiedQuery E ctx q qt) (served s1) s1"
          by (rule wp_executeClassified) (use d inv assms(2) \<open>q_TxID q = []\<close> in auto)
        with False Inr show ?thesis by (auto elim!: wp_mono intro: served_frame [OF f])
      qed
    qed
  qed
  with True show ?thesis by (simp add: db_query_def)
qed

end
