(* ===== verification/Mini_Engine.thy ===== *)
theory Mini_Engine
  imports Database_Inv
begin

text \<open>
  A miniature SQLite: one table that only has a number of rows, five statements and pragmas that do
  nothing. It instantiates the C interface in the witnesses, where a hypothesis about the engine
  has to be shown to hold somewhere. A statement handle is the number of its kind.
\<close>

record mini =
  m_intx :: bool
  m_rows :: nat
  m_saved :: nat
  m_sent :: bool

definition mini0 :: mini where
  "mini0 = \<lparr>m_intx = False, m_rows = 0, m_saved = 0, m_sent = False\<rparr>"

definition mini_kind :: "string \<Rightarrow> nat" where
  "mini_kind sql =
     (if sql = ''BEGIN TRANSACTION'' then 1 else if sql = ''COMMIT'' then 2
      else if sql = ''ROLLBACK'' then 3 else if sql = ''INSERT'' then 4
      else if sql = ''SELECT'' then 5 else if HasPrefix sql ''PRAGMA'' then 6 else 0)"

definition mini_allowed :: "nat \<Rightarrow> auth_cb \<Rightarrow> bool" where
  "mini_allowed k cb \<longleftrightarrow>
     (if k = 4 then cb SQLITE_INSERT (Some ''t'') None = SQLITE_OK
      else if k = 5 then cb SQLITE_SELECT None None = SQLITE_OK
      else if k = 6 then cb SQLITE_PRAGMA None None = SQLITE_OK
      else cb SQLITE_TRANSACTION None None = SQLITE_OK)"

definition mini_prepare :: "hptr \<Rightarrow> auth_cb \<Rightarrow> string \<Rightarrow> mini \<Rightarrow> (int \<times> hptr) \<times> mini" where
  "mini_prepare h cb sql w =
     (let k = mini_kind sql in
      if k = 0 then ((1, None), w)
      else if \<not> mini_allowed k cb then ((23, None), w)
      else ((0, Some k), w\<lparr>m_sent := False\<rparr>))"

definition mini_step :: "hptr \<Rightarrow> auth_cb \<Rightarrow> mini \<Rightarrow> int \<times> mini" where
  "mini_step st cb w =
     (case st of None \<Rightarrow> (21, w)
      | Some k \<Rightarrow>
          if k = 1 then
            (if m_intx w then (1, w) else (SQLITE_DONE, w\<lparr>m_intx := True, m_saved := m_rows w\<rparr>))
          else if k = 2 then (if m_intx w then (SQLITE_DONE, w\<lparr>m_intx := False\<rparr>) else (1, w))
          else if k = 3 then
            (if m_intx w then (SQLITE_DONE, w\<lparr>m_intx := False, m_rows := m_saved w\<rparr>) else (1, w))
          else if k = 4 then (SQLITE_DONE, w\<lparr>m_rows := m_rows w + 1\<rparr>)
          else if k = 5 then
            (if m_sent w then (SQLITE_DONE, w) else (SQLITE_ROW, w\<lparr>m_sent := True\<rparr>))
          else (SQLITE_DONE, w))"

definition mini_api :: "mini capi" where
  "mini_api = \<lparr>
     sqlite3_open = (\<lambda>f w. ((0, Some 1), w)),
     sqlite3_close = (\<lambda>h w. (0, w)),
     sqlite3_close_v2 = (\<lambda>h w. (0, w)),
     sqlite3_errmsg = (\<lambda>h w. ''error''),
     sqlite3_errstr = (\<lambda>e. ''error''),
     sqlite3_set_authorizer = (\<lambda>h w. (0, w)),
     ctx_calloc_ok = (\<lambda>w. True),
     sqlite3_prepare_v2 = mini_prepare,
     sqlite3_stmt_readonly = (\<lambda>st w. if st = Some 4 then 0 else 1),
     sqlite3_bind_parameter_count = (\<lambda>st w. 0),
     sqlite3_bind_parameter_name = (\<lambda>st i w. ''''),
     sqlite3_bind_parameter_index = (\<lambda>st n w. 0),
     sqlite3_bind_int = (\<lambda>st i v w. (25, w)),
     sqlite3_bind_int64 = (\<lambda>st i v w. (25, w)),
     sqlite3_bind_double = (\<lambda>st i v w. (25, w)),
     sqlite3_bind_text = (\<lambda>st i v w. (25, w)),
     sqlite3_bind_blob = (\<lambda>st i v w. (25, w)),
     sqlite3_bind_null = (\<lambda>st i w. (25, w)),
     sqlite3_step = mini_step,
     sqlite3_column_count = (\<lambda>st w. if st = Some 5 then 1 else 0),
     sqlite3_column_name = (\<lambda>st i w. ''n''),
     sqlite3_column_decltype = (\<lambda>st i w. ''integer''),
     sqlite3_column_type = (\<lambda>st i w. 1),
     sqlite3_column_int = (\<lambda>st i w. of_nat (m_rows w)),
     sqlite3_column_int64 = (\<lambda>st i w. of_nat (m_rows w)),
     sqlite3_column_double = (\<lambda>st i w. 0),
     sqlite3_column_bytes = (\<lambda>st i w. 0),
     sqlite3_column_text = (\<lambda>st i w. None),
     sqlite3_column_blob = (\<lambda>st i w. None),
     sqlite3_finalize = (\<lambda>st w. (0, w)),
     sqlite3_last_insert_rowid = (\<lambda>h w. of_nat (m_rows w)),
     sqlite3_changes = (\<lambda>h w. 1)\<rparr>"

definition mini_conn :: conn where
  "mini_conn = \<lparr>cDB = Some 1, authorizerCtx = Some \<lparr>role = AuthorizerRoleAdmin\<rparr>\<rparr>"

definition mini_pool :: pool where
  "mini_pool = \<lparr>p_connector = \<lparr>dsn = ''db'', postConnectQueries = []\<rparr>, p_free = [mini_conn],
     p_numOpen = 1, p_maxOpen = 1, p_maxIdle = 1, p_closed = False\<rparr>"

definition mini_config :: db_config where
  "mini_config = \<lparr>DataDir = ''data'', TxIdleTimeout = 5 * Second, MaxReadConns = 1,
     CacheSizeKB = 1, BusyTimeout = Second\<rparr>"

definition mini_env :: "mini env" where
  "mini_env = \<lparr>e_api = mini_api, time_Now = (\<lambda>n. int n * Second), uuid_NewString = (\<lambda>n. ''id'' @ show_nat n)\<rparr>"

definition mini_db :: "mini DB" where
  "mini_db = fresh_DB mini_config mini_pool mini_pool 0 (NewDBStats 0) mini0"

lemma mini_uuid [simp]: "uuid_NewString mini_env n \<noteq> []"
  by (simp add: mini_env_def)

lemma mini_inv: "db_inv mini_db"
  by (simp add: db_inv_def mini_db_def fresh_DB_def pools_ok_def pool_ok_def mini_pool_def)

lemmas mini_defs = mini_api_def mini_prepare_def mini_step_def mini_kind_def mini_allowed_def
  callback_def cust_sqlite3_authorizer_def role_defs

lemma drain_step:
  "fst (sqlite3_step api st (callback c) w) \<noteq> SQLITE_ROW \<Longrightarrow>
   drain api c st w =
     (case Step api c st w of
        (Inl e, w1) \<Rightarrow> Some (Inl (Wrapped ''failed to step statement'' e), w1)
      | (Inr _, w1) \<Rightarrow> Some (Inr (), w1))"
  by (subst drain.simps) (auto simp: Step_def Let_def split: prod.splits sum.splits if_splits)

lemma CString_eval:
  "CString ''BEGIN TRANSACTION'' = ''BEGIN TRANSACTION''" "CString ''COMMIT'' = ''COMMIT''"
  "CString ''ROLLBACK'' = ''ROLLBACK''" "CString ''INSERT'' = ''INSERT''"
  "CString ''SELECT'' = ''SELECT''"
  by (simp_all add: CString_def)

lemmas conn_Query_eval = conn_Query_def Prepare_def run_stmt_def drain_step CString_eval Step_def
  Finalize_def LastInsertRowID_def RowsAffected_def ColumnCount_def Let_def getResCodeStr_def

text \<open>A connection of the miniature engine under role \<open>r\<close>, and what it does with each statement.\<close>

definition mini_as :: "AuthorizerRole \<Rightarrow> conn" where
  "mini_as r = mini_conn\<lparr>authorizerCtx := Some \<lparr>role = r\<rparr>\<rparr>"

definition mini_done :: "mini \<Rightarrow> sq_result" where
  "mini_done w = \<lparr>sr_LastInsertID = of_nat (m_rows w), sr_RowsAffected = 1, sr_Columns = [],
     sr_Types = [], sr_Rows = []\<rparr>"

definition mini_failed :: go_error where
  "mini_failed = Wrapped ''failed to step statement''
     (ErrorString ''failed to step statement: 1: error'')"

lemma mini_tx_statements:
  assumes "r = 0 \<or> r = 1"
  shows "conn_Query mini_api (mini_as r) ''BEGIN TRANSACTION'' [] w = Some (
      if m_intx w then (Inl mini_failed, w\<lparr>m_sent := False\<rparr>)
      else (Inr (mini_done w), w\<lparr>m_sent := False, m_intx := True, m_saved := m_rows w\<rparr>))"
    and "conn_Query mini_api (mini_as r) ''COMMIT'' [] w = Some (
      if m_intx w then (Inr (mini_done w), w\<lparr>m_sent := False, m_intx := False\<rparr>)
      else (Inl mini_failed, w\<lparr>m_sent := False\<rparr>))"
    and "conn_Query mini_api (mini_as r) ''ROLLBACK'' [] w = Some (
      if m_intx w then (Inr (mini_done (w\<lparr>m_rows := m_saved w\<rparr>)),
        w\<lparr>m_sent := False, m_intx := False, m_rows := m_saved w\<rparr>)
      else (Inl mini_failed, w\<lparr>m_sent := False\<rparr>))"
    and "conn_Query mini_api (mini_as r) ''INSERT'' [] w = Some (Inr (mini_done (w\<lparr>m_rows := m_rows w + 1\<rparr>)),
        w\<lparr>m_sent := False, m_rows := m_rows w + 1\<rparr>)"
  using assms
  by (auto simp: conn_Query_eval mini_defs mini_as_def mini_conn_def mini_done_def mini_failed_def
      authorizer_read_write_def cust_authorizer_is_internal_table_def decide_def HasPrefix_def
      SQLITE_DONE_def SQLITE_ROW_def show_int_def show_nat_eval digit_eval)

end
