(* ===== verification/Database_Run.thy ===== *)
theory Database_Run
  imports Mini_Engine
begin

text \<open>
  What the operations of the transaction manager compute when a usable connection is idle in the
  pool: the engine's answer decides the result, and the connection goes back under the role of
  the caller.
\<close>

definition as_role :: "AuthorizerRole \<Rightarrow> conn \<Rightarrow> conn" where
  "as_role r c = c\<lparr>authorizerCtx := Some \<lparr>role = r\<rparr>\<rparr>"

definition live :: "conn \<Rightarrow> bool" where
  "live c \<longleftrightarrow> cDB c \<noteq> None \<and> authorizerCtx c \<noteq> None"

lemma SetAuthorizerRole_live:
  "live c \<Longrightarrow> isValid r \<Longrightarrow> SetAuthorizerRole api c r = (None, as_role r c)"
  by (auto simp: live_def SetAuthorizerRole_def cust_authorizer_ctx_set_role_def as_role_def)

lemma SetAuthorizerRole_twice [simp]: "as_role r (as_role r' c) = as_role r c"
  by (simp add: as_role_def)

lemma live_as_role [simp]: "live (as_role r c) \<longleftrightarrow> cDB c \<noteq> None"
  by (simp add: live_def as_role_def)

text \<open>\<open>usable k s cs c\<close>: the pool is open and \<open>c\<close> is the idle connection it hands out next.\<close>

definition usable :: "which \<Rightarrow> 'w DB \<Rightarrow> conn list \<Rightarrow> conn \<Rightarrow> bool" where
  "usable k s cs c \<longleftrightarrow>
     (let p = pool_of k s in
      \<not> p_closed p \<and> p_free p = cs @ [c] \<and> (p_maxOpen p = 0 \<or> p_numOpen p \<le> p_maxOpen p) \<and>
      length cs < maxIdleConns p \<and> live c)"

text \<open>The state while the connection is out, and after it has been returned as \<open>c1\<close>.\<close>

definition conn_out :: "which \<Rightarrow> conn list \<Rightarrow> 'w DB \<Rightarrow> 'w DB" where
  "conn_out k cs s = (set_pool k ((pool_of k s)\<lparr>p_free := cs\<rparr>) s)\<lparr>ticks := Suc (ticks s)\<rparr>"

lemma with_conn_run:
  assumes "usable k s cs c" and "ctx (ticks s) = None"
    and "body c (conn_out k cs s) = (Done (v, c1), s2)"
    and "pool_of k s2 = (pool_of k s)\<lparr>p_free := cs\<rparr>"
  shows "with_conn E ctx k msg body s =
    (Done v, set_pool k ((pool_of k s)\<lparr>p_free := cs @ [c1]\<rparr>) s2)"
proof -
  have take: "getRawConn E ctx k s = (Done (Inr c), conn_out k cs s)"
    using assms(1,2) unfolding usable_def Let_def
    by (cases k) (auto simp: getRawConn_def pool_take_def conn_out_def)
  have "maxIdleConns ((pool_of k s)\<lparr>p_free := cs\<rparr>) = maxIdleConns (pool_of k s)"
    by (simp add: maxIdleConns_def)
  then have "pool_put (e_api E) c1 (pool_of k s2) w = ((pool_of k s)\<lparr>p_free := cs @ [c1]\<rparr>, w)" for w
    using assms(1) unfolding assms(4) usable_def Let_def by (auto simp: pool_put_def)
  then have "returnConn E k c1 s2 = (Done (), set_pool k ((pool_of k s)\<lparr>p_free := cs @ [c1]\<rparr>) s2)"
    by (cases k) (simp_all add: returnConn_def)
  with take assms(3) show ?thesis by (simp add: with_conn_def bnd_def ret_def)
qed

text \<open>The engine's part of an operation on the read-write connection.\<close>

definition after_rw :: "conn list \<Rightarrow> conn \<Rightarrow> 'w \<Rightarrow> 'w DB \<Rightarrow> 'w DB" where
  "after_rw cs c w s =
     s\<lparr>readWritePool := (readWritePool s)\<lparr>p_free := cs @ [c]\<rparr>, world := w, ticks := Suc (ticks s)\<rparr>"

lemma withReadWriteConn_run:
  assumes "usable RW s cs c" "ctx (ticks s) = None" "\<not> writeMu s" "isValid r"
    and "\<And>s1. world s1 = world s \<Longrightarrow> fn (as_role r c) s1 = (Done v, s1\<lparr>world := w\<rparr>)"
  shows "withReadWriteConn E ctx r fn s = (Done v, after_rw cs (as_role r c) w s)"
proof -
  let ?s = "s\<lparr>writeMu := True\<rparr>"
  have u: "usable RW ?s cs c" "live c" using assms(1) by (auto simp: usable_def Let_def)
  let ?body = "\<lambda>c. case SetAuthorizerRole (e_api E) c r of
        (Some e, c1) \<Rightarrow> ret (Inl (Wrapped ''failed to set write connection authorizer role'' e), c1)
      | (None, c1) \<Rightarrow> bnd (fn c1) (\<lambda>v. ret (v, c1))"
  have "?body c (conn_out RW cs ?s) = (Done (v, as_role r c), (conn_out RW cs ?s)\<lparr>world := w\<rparr>)"
    using SetAuthorizerRole_live [OF u(2) assms(4), of "e_api E"] assms(5) [of "conn_out RW cs ?s"]
    by (simp add: bnd_def ret_def conn_out_def)
  from with_conn_run [where msg = "''failed to get read-write connection from pool''" and E = E
        and body = ?body and ctx = ctx, OF u(1) _ this] assms(2,3)
  show ?thesis
    by (cases s) (simp add: withReadWriteConn_def locked_def bnd_def Lock_def Unlock_def ret_def
        conn_out_def after_rw_def)
qed

text \<open>A query of a transaction whose statement has a keyword goes straight to its operation.\<close>

lemma db_query_tx_keyword:
  assumes "keyword_type (q_Query q) = Some t" "q_TxID q \<noteq> []"
    and "validateTxID (q_TxID q) (q_TxOwner q) s = None" "\<not> txOpMu s"
    and "executeClassifiedQuery E ctx q t
        (s\<lparr>txOpMu := True, txLastUsed := time_Now E (ticks s), ticks := Suc (ticks s)\<rparr>) = (Done r, s1)"
    and "txOpMu s1"
  shows "db_query E ctx q s =
    (Done r, s1\<lparr>txOpMu := False, txLastUsed := time_Now E (ticks s1), ticks := Suc (ticks s1)\<rparr>)"
proof -
  have v: "validateTxID (q_TxID q) (q_TxOwner q) (s\<lparr>txOpMu := True\<rparr>) = None"
    using assms(3) by (simp add: validateTxID_def Let_def split: if_splits)
  have "queryWithType E ctx q (s\<lparr>txOpMu := True\<rparr>) =
      (Done r, s1\<lparr>txLastUsed := time_Now E (ticks s1), ticks := Suc (ticks s1)\<rparr>)"
    using assms(1,2,5) v by (simp add: queryWithType_def ClassifyQuery_def bnd_def ret_def at_now_def)
  with assms(2,4,6) show ?thesis
    by (simp add: db_query_def txop_mutex.locked_run)
qed

text \<open>Running one of the fixed transaction statements.\<close>

lemma run_sql_run:
  assumes "conn_Query (e_api E) c sql [] (world s) = Some (v, w)"
  shows "run_sql E sql c s =
    (Done (case v of Inl e \<Rightarrow> Inl e | Inr _ \<Rightarrow> Inr QueryResult0), s\<lparr>world := w\<rparr>)"
  using assms by (simp add: run_sql_def do_Query_def bnd_def ret_def)

lemma withReadWriteConn_sql:
  assumes "usable RW s cs c" "ctx (ticks s) = None" "\<not> writeMu s" "isValid r"
    and "conn_Query (e_api E) (as_role r c) sql [] (world s) = Some (v, w)"
  shows "withReadWriteConn E ctx r (run_sql E sql) s =
    (Done (case v of Inl e \<Rightarrow> Inl e | Inr _ \<Rightarrow> Inr QueryResult0), after_rw cs (as_role r c) w s)"
  by (rule withReadWriteConn_run) (use assms in \<open>simp_all add: run_sql_run\<close>)

lemma usable_upd [simp]:
  "usable k (s\<lparr>txMu := b\<rparr>) cs c = usable k s cs c"
  "usable k (s\<lparr>txOpMu := b\<rparr>) cs c = usable k s cs c"
  "usable k (s\<lparr>dbStats := st\<rparr>) cs c = usable k s cs c"
  "usable k (s\<lparr>txLastUsed := t\<rparr>) cs c = usable k s cs c"
  "usable k (s\<lparr>ticks := n\<rparr>) cs c = usable k s cs c"
  "usable k (s\<lparr>txID := i\<rparr>) cs c = usable k s cs c"
  "usable k (s\<lparr>txOwner := i\<rparr>) cs c = usable k s cs c"
  by (cases k; simp add: usable_def)+

lemma usable_after [simp]:
  "usable RW s cs c \<Longrightarrow> usable RW (after_rw cs (as_role r c) w s) cs (as_role r c)"
  by (simp add: usable_def after_rw_def Let_def maxIdleConns_def live_def as_role_def split: if_splits)

lemma after_rw_simps [simp]:
  "txID (after_rw cs c w s) = txID s" "txOwner (after_rw cs c w s) = txOwner s"
  "txMu (after_rw cs c w s) = txMu s" "txOpMu (after_rw cs c w s) = txOpMu s"
  "writeMu (after_rw cs c w s) = writeMu s" "world (after_rw cs c w s) = w"
  "dbStats (after_rw cs c w s) = dbStats s" "ticks (after_rw cs c w s) = Suc (ticks s)"
  "db_Config (after_rw cs c w s) = db_Config s" "txLastUsed (after_rw cs c w s) = txLastUsed s"
  by (simp_all add: after_rw_def)

lemma executeBegin_run:
  assumes "usable RW s cs c" "ctx (ticks s) = None" "\<not> writeMu s" "\<not> txMu s" "isValid r"
    and "conn_Query (e_api E) (as_role r c) ''BEGIN TRANSACTION'' [] (world s) = Some (v, w)"
  shows "executeBeginQuery E ctx [] r owner s =
    (case v of
       Inl e \<Rightarrow> (Done (Inl (Wrapped ''failed to begin transaction'' e)), after_rw cs (as_role r c) w s)
     | Inr _ \<Rightarrow>
         let id = uuid_NewString E (Suc (ticks s)) in
         (Done (Inr (QueryResult0\<lparr>r_Type := QueryTypeBegin, r_TxID := id\<rparr>)),
          (after_rw cs (as_role r c) w s)\<lparr>txMu := True, txID := id, txOwner := owner,
             txLastUsed := time_Now E (ticks s + 2),
             dbStats := IncBegins (time_Now E (ticks s + 3)) (dbStats s), ticks := ticks s + 4\<rparr>))"
proof -
  let ?s = "s\<lparr>dbStats := IncQueuedBegins (dbStats s), txMu := True\<rparr>"
  have "withReadWriteConn E ctx r (run_sql E ''BEGIN TRANSACTION'') ?s =
      (Done (case v of Inl e \<Rightarrow> Inl e | Inr _ \<Rightarrow> Inr QueryResult0), after_rw cs (as_role r c) w ?s)"
    by (rule withReadWriteConn_sql) (use assms in simp_all)
  with assms(4) show ?thesis
    by (cases s) (simp add: executeBeginQuery_def bnd_def ret_def gauge_def upd_def Lock_def
        Unlock_def at_now_def count_def after_rw_def gauge_balanced Let_def eval_nat_numeral split: sum.split)
qed

lemma end_tx_run:
  assumes "usable RW s cs c" "ctx (ticks s) = None" "\<not> writeMu s" "txMu s" "isValid r" "tx \<noteq> []"
    and "conn_Query (e_api E) (as_role r c) sql [] (world s) = Some (v, w)"
  shows "end_tx E ctx sql msg qt inc tx r s =
    (case v of
       Inl e \<Rightarrow> (Done (Inl (Wrapped msg e)), after_rw cs (as_role r c) w s)
     | Inr _ \<Rightarrow>
         (Done (Inr (QueryResult0\<lparr>r_Type := qt\<rparr>)),
          (after_rw cs (as_role r c) w s)\<lparr>txMu := False, txID := [], txOwner := [],
             txLastUsed := time_Now E (Suc (ticks s)),
             dbStats := inc (time_Now E (ticks s + 2)) (dbStats s), ticks := ticks s + 3\<rparr>))"
  using withReadWriteConn_sql [of s cs c ctx r E sql v w] assms
  by (cases s) (simp add: end_tx_def bnd_def ret_def upd_def Unlock_def at_now_def count_def
      after_rw_def eval_nat_numeral split: sum.split)

end
