(* ===== verification/Database_Props.thy ===== *)
theory Database_Props
  imports Database_Run
begin

text \<open>
  Properties of the transaction manager: locks and pools after every call, the effect of each
  query on the transaction and the counters, exclusion of other clients while a transaction is
  open, begin, commit, rollback and the idle monitor, and what happens to a transaction that
  SQLite has already given up.
\<close>

definition mini_query :: "string \<Rightarrow> string \<Rightarrow> AuthorizerRole \<Rightarrow> query" where
  "mini_query tx sql r =
     \<lparr>q_TxID = tx, q_TxOwner = '''', q_Query = sql, q_Params = [], q_Role = r\<rparr>"

lemma keyword_eval:
  "keyword_type ''BEGIN'' = Some QueryTypeBegin" "keyword_type ''COMMIT'' = Some QueryTypeCommit"
  "keyword_type ''ROLLBACK'' = Some QueryTypeRollback" "keyword_type ''INSERT'' = None"
  "keyword_type ''SELECT'' = None"
  by (simp_all add: keyword_type_def go_strings Let_def)

text \<open>The miniature database before and after a \<open>BEGIN\<close>.\<close>

definition mini_tx :: "mini DB" where
  "mini_tx = (after_rw [] (as_role 0 mini_conn) (mini0\<lparr>m_intx := True\<rparr>) mini_db)
     \<lparr>txMu := True, txID := ''id2'', txLastUsed := 3 * Second,
      dbStats := IncBegins (4 * Second) (NewDBStats 0), ticks := 5\<rparr>"

lemma mini_db_simps [simp]:
  "txID mini_db = []" "txOwner mini_db = []" "ticks mini_db = 1" "txMu mini_db = False"
  "txOpMu mini_db = False" "writeMu mini_db = False" "world mini_db = mini0"
  "dbStats mini_db = NewDBStats 0" "db_Config mini_db = mini_config"
  by (simp_all add: mini_db_def fresh_DB_def)

lemma mini_tx_simps [simp]:
  "txID mini_tx = ''id2''" "txOwner mini_tx = []" "ticks mini_tx = 5" "txMu mini_tx = True"
  "txOpMu mini_tx = False" "writeMu mini_tx = False" "world mini_tx = mini0\<lparr>m_intx := True\<rparr>"
  "db_Config mini_tx = mini_config" "txLastUsed mini_tx = 3 * Second"
  by (simp_all add: mini_tx_def)

lemma mini_usable: "usable RW mini_db [] mini_conn"
  by (simp add: usable_def mini_db_def fresh_DB_def mini_pool_def maxIdleConns_def live_def mini_conn_def)

lemma mini_tx_usable: "usable RW mini_tx [] (as_role 0 mini_conn)"
  using usable_after [OF mini_usable, of 0] by (simp add: mini_tx_def)

lemma as_role_mini: "as_role r mini_conn = mini_as r"
  by (simp add: as_role_def mini_as_def)

lemma mini_tx_inv: "db_inv mini_tx"
  by (simp add: db_inv_def) (simp add: mini_tx_def after_rw_def pools_ok_def mini_db_def fresh_DB_def
      mini_pool_def pool_ok_def)

lemma Background_simp [simp]: "Background n = None"
  by (simp add: Background_def)

lemma mini_begin:
  "db_Query mini_env Background (mini_query [] ''BEGIN'' 0) mini_db =
     (Done (Inr (QueryResult0\<lparr>r_Type := QueryTypeBegin, r_TxID := ''id2''\<rparr>)), mini_tx)"
proof -
  have "executeBeginQuery mini_env Background [] 0 [] mini_db =
      (Done (Inr (QueryResult0\<lparr>r_Type := QueryTypeBegin, r_TxID := ''id2''\<rparr>)), mini_tx)"
    by (subst executeBegin_run [OF mini_usable, where v = "Inr (mini_done mini0)"
          and w = "mini0\<lparr>m_intx := True\<rparr>"])
      (simp_all add: mini_env_def as_role_mini mini_tx_statements mini0_def isValid_def
        AuthorizerRoleAdmin_def Let_def show_nat_eval digit_eval
        digit_eval [unfolded numeral_2_eq_2] mini_tx_def)
  then show ?thesis
    by (simp add: db_Query_def db_query_def mini_query_def keyword_eval ClassifyQuery_def bnd_def
        ret_def types_neq executeClassifiedQuery_def)
qed

section \<open>Locks, pools, counters\<close>

lemma query_inv:
  assumes "db_inv s" and "\<forall>n. uuid_NewString E n \<noteq> []"
  shows "wp (db_Query E ctx q) (\<lambda>r. db_inv) s"
proof -
  have tx: "db_inv s'" if "served s r s'" for r s'
    using that assms(1)
    by (auto simp: served_def db_inv_def same_tx_def split: sum.splits if_splits)
  show ?thesis
    unfolding db_Query_def wp_bnd
    by (rule wp_mono [OF wp_db_query [OF assms]])
      (auto simp: count_def db_inv_def pools_ok_def split: sum.splits dest: tx)
qed

text \<open>C1. Whatever the query, a call of \<open>DB.Query\<close> that returns leaves the object as the next
  call needs it: \<open>writeMu\<close> and \<open>txOpMu\<close> are free, \<open>txMu\<close> is held exactly when a transaction is
  open, every pooled connection is back and no pool exceeds its limit. The call never unlocks a
  free mutex, which would abort the process, and it waits for nothing but the end of an open
  transaction: not for \<open>writeMu\<close>, \<open>txOpMu\<close> or a connection, and not for itself.\<close>

theorem query_keeps_invariant:
  assumes "db_inv s" and "\<forall>n. uuid_NewString E n \<noteq> []"
  shows "case db_Query E ctx q s of
      (Done r, s') \<Rightarrow> db_inv s'
    | (Blocked m, s') \<Rightarrow> m = OnTxMu \<and> txMu s' \<and> txID s' \<noteq> []
    | (Running, s') \<Rightarrow> True
    | (Fatal, s') \<Rightarrow> False"
  using query_inv [OF assms] by (simp add: wp_def)

theorem query_keeps_invariant_witness:
  "db_inv (snd (db_Query mini_env Background (mini_query [] ''BEGIN'' 0) mini_db)) \<and>
   txID (snd (db_Query mini_env Background (mini_query [] ''BEGIN'' 0) mini_db)) = ''id2''"
  using query_keeps_invariant [OF mini_inv, of mini_env Background "mini_query [] ''BEGIN'' 0"]
  by (simp add: mini_begin)

text \<open>The transaction and the counters after an answered query.\<close>

definition tx_effect :: "'w DB \<Rightarrow> go_error + db_result \<Rightarrow> 'w DB \<Rightarrow> bool" where
  "tx_effect s r s' \<longleftrightarrow> (case r of
      Inl e \<Rightarrow> txID s' = txID s \<and> txOwner s' = txOwner s
    | Inr res \<Rightarrow>
        if r_Type res = QueryTypeBegin then txID s = [] \<and> txID s' = r_TxID res \<and> txID s' \<noteq> []
        else if r_Type res = QueryTypeCommit \<or> r_Type res = QueryTypeRollback
        then txID s \<noteq> [] \<and> txID s' = [] \<and> txOwner s' = []
        else txID s' = txID s \<and> txOwner s' = txOwner s)"

definition count_effect :: "'w DB \<Rightarrow> go_error + db_result \<Rightarrow> 'w DB \<Rightarrow> bool" where
  "count_effect s r s' \<longleftrightarrow> (\<exists>t. dbStats s' = (case r of
      Inl e \<Rightarrow> IncErrors t (dbStats s) | Inr res \<Rightarrow> inc_of (r_Type res) t (dbStats s)))"

lemma wp_query_effect:
  assumes "db_inv s" and "\<forall>n. uuid_NewString E n \<noteq> []"
  shows "wp (db_Query E ctx q) (\<lambda>r s'. tx_effect s r s' \<and> count_effect s r s') s"
proof -
  have "wp (case r of Inl e \<Rightarrow> bnd (count E IncErrors) (\<lambda>_. ret (Inl e)) | Inr res \<Rightarrow> ret (Inr res))
      (\<lambda>r s'. tx_effect s r s' \<and> count_effect s r s') s1" if "served s r s1" for r s1
  proof (cases r)
    case (Inl e)
    with that show ?thesis
      by (auto simp: served_def same_tx_def count_def tx_effect_def count_effect_def)
  next
    case (Inr res)
    with that assms(1) show ?thesis
      by (simp add: served_def same_tx_def raised_def db_inv_def types_neq tx_effect_def count_effect_def
          split: if_splits)
  qed
  then show ?thesis
    unfolding db_Query_def wp_bnd by (rule wp_mono [OF wp_db_query [OF assms]])
qed

text \<open>What a returned query did to the transaction: an error leaves it as it was; a
  \<open>begin\<close> result is only given when no transaction was open, and its ID is then the open
  transaction; a \<open>commit\<close> or \<open>rollback\<close> result is only given when one was open, and none is
  afterwards; reads and writes keep it. The counter of that kind of operation is raised once, or
  the counter of errors when the call failed, and the gauges of queued operations are back.\<close>

lemma query_effect:
  assumes "db_inv s" and "\<forall>n. uuid_NewString E n \<noteq> []"
    and "db_Query E ctx q s = (Done r, s')"
  shows "case r of
      Inl e \<Rightarrow> txID s' = txID s \<and> txOwner s' = txOwner s \<and> (\<exists>t. dbStats s' = IncErrors t (dbStats s))
    | Inr res \<Rightarrow>
        (\<exists>t. dbStats s' = inc_of (r_Type res) t (dbStats s)) \<and>
        (if r_Type res = QueryTypeBegin then txID s = [] \<and> txID s' = r_TxID res \<and> txID s' \<noteq> []
         else if r_Type res = QueryTypeCommit \<or> r_Type res = QueryTypeRollback
         then txID s \<noteq> [] \<and> txID s' = [] \<and> txOwner s' = []
         else txID s' = txID s \<and> txOwner s' = txOwner s)"
  using wp_query_effect [OF assms(1,2), of ctx q] assms(3)
  by (cases r) (auto simp: wp_def tx_effect_def count_effect_def types_neq split: if_splits)

lemma query_effect_witness:
  "\<exists>t. dbStats mini_tx = inc_of QueryTypeBegin t (dbStats mini_db)"
  using query_effect [OF mini_inv _ mini_begin] by (simp add: QueryResult0_def)

section \<open>Exclusion\<close>

text \<open>A query of another transaction or owner.\<close>

lemma db_query_wrong_tx:
  assumes "db_inv s" "txID s \<noteq> []" "q_TxID q \<noteq> []"
    and "q_TxID q \<noteq> txID s \<or> q_TxOwner q \<noteq> [] \<and> q_TxOwner q \<noteq> txOwner s"
  shows "db_query E ctx q s = (Done (Inl ErrTxNotMatch), s)"
proof -
  have "\<not> txOpMu s" using assms(1) by (simp add: db_inv_def)
  moreover have "queryWithType E ctx q (s\<lparr>txOpMu := True\<rparr>) = (Done (Inl ErrTxNotMatch), s\<lparr>txOpMu := True\<rparr>)"
    using assms by (auto simp: queryWithType_def validateTxID_def Let_def)
  ultimately show ?thesis
    using assms(3) by (cases s) (simp add: db_query_def txop_mutex.locked_run)
qed

text \<open>One without an ID that its first word classifies.\<close>

lemma keyword_types:
  "keyword_type q = Some t \<Longrightarrow> t = QueryTypeBegin \<or> t = QueryTypeCommit \<or> t = QueryTypeRollback"
  by (auto simp: keyword_type_def Let_def split: if_splits)

lemma db_query_keyword:
  assumes "db_inv s" "txID s \<noteq> []" "q_TxID q = []" "keyword_type (q_Query q) = Some t"
  shows "if t = QueryTypeBegin then
      db_query E ctx q s = (Blocked OnTxMu, s\<lparr>dbStats := IncQueuedBegins (dbStats s)\<rparr>)
    else db_query E ctx q s = (Done (Inl ErrTxIdRequired), s)"
proof -
  have "db_query E ctx q s = executeClassifiedQuery E ctx q t s"
    using assms(3,4) keyword_types [OF assms(4)]
    by (auto simp: db_query_def bnd_def ClassifyQuery_def ret_def types_neq)
  moreover have "executeBeginQuery E ctx [] r ow s =
      (Blocked OnTxMu, s\<lparr>dbStats := IncQueuedBegins (dbStats s)\<rparr>)" for r ow
    using assms(1,2) by (simp add: executeBeginQuery_def gauge_def upd_def bnd_def Lock_def db_inv_def)
  ultimately show ?thesis
    using assms(3) keyword_types [OF assms(4)]
    by (auto simp: executeClassifiedQuery_def types_neq executeCommitQuery_def
        executeRollbackQuery_def end_tx_def ret_def)
qed

text \<open>And one that SQLite classifies.\<close>

lemma db_query_no_keyword:
  assumes "db_inv s" "txID s \<noteq> []" "q_TxID q = []" "keyword_type (q_Query q) = None"
  shows "db_query E ctx q s =
    (case classifyQueryOnReadOnlyConn E ctx (q_Query q) s of
       (Done (Inr t), s1) \<Rightarrow>
         if t = QueryTypeRead then executeReadQuery E ctx q s1 else (Blocked OnTxMu, s1)
     | (Done (Inl e), s1) \<Rightarrow> (Blocked OnTxMu, s1)
     | (Running, s1) \<Rightarrow> (Running, s1)
     | (Blocked m, s1) \<Rightarrow> (Blocked m, s1)
     | (Fatal, s1) \<Rightarrow> (Fatal, s1))"
proof -
  let ?c = "classifyQueryOnReadOnlyConn E ctx (q_Query q)"
  have eq: "ClassifyQuery E ctx (q_Query q) [] = ?c"
    using assms(4) by (simp add: ClassifyQuery_def)
  have "wp ?c (\<lambda>r s1. classified (q_Query q) r \<and> conn_frame s s1) s"
    unfolding eq [symmetric] by (rule wp_ClassifyQuery) (use assms(1) in \<open>auto simp: db_inv_def\<close>)
  then have c: "case ?c s of (Done r, s1) \<Rightarrow> classified (q_Query q) r \<and> txMu s1 \<and> txID s1 \<noteq> []
      | (Blocked m, s1) \<Rightarrow> True | (Running, s1) \<Rightarrow> True | (Fatal, s1) \<Rightarrow> False"
    using assms(1,2) by (auto simp: db_inv_def wp_def dest!: conn_frameD split: prod.splits outcome.splits)
  obtain out s1 where run: "?c s = (out, s1)" by fastforce
  show ?thesis
  proof (cases out)
    case (Done r)
    with c run have "classified (q_Query q) r" "txMu s1" "txID s1 \<noteq> []" by simp_all
    with assms(3,4) Done run show ?thesis
      by (cases r) (auto simp: db_query_def eq bnd_def classified_def executeClassifiedQuery_def types_neq
          tx_mutex.locked_blocked)
  qed (use run assms(3) in \<open>simp_all add: db_query_def eq bnd_def\<close>)
qed

text \<open>C4. While a transaction is open, nobody else gets in. A query that names another
  transaction, or the right one under another owner, is answered with an error without touching
  SQLite. One that names none and begins a transaction waits for the open one to end, and so does
  one that is classified as a write or that cannot be compiled without what the transaction did;
  a commit or rollback without an ID is an error; only a read goes on, on a read-only
  connection.\<close>

theorem open_transaction_excludes_others:
  assumes "db_inv s" and "txID s \<noteq> []"
  shows "(q_TxID q \<noteq> [] \<and> (q_TxID q \<noteq> txID s \<or> q_TxOwner q \<noteq> [] \<and> q_TxOwner q \<noteq> txOwner s) \<longrightarrow>
      db_query E ctx q s = (Done (Inl ErrTxNotMatch), s)) \<and>
    (q_TxID q = [] \<longrightarrow>
      (case keyword_type (q_Query q) of
         Some t \<Rightarrow>
           if t = QueryTypeBegin then
             db_query E ctx q s = (Blocked OnTxMu, s\<lparr>dbStats := IncQueuedBegins (dbStats s)\<rparr>)
           else db_query E ctx q s = (Done (Inl ErrTxIdRequired), s)
       | None \<Rightarrow>
           db_query E ctx q s =
             (case classifyQueryOnReadOnlyConn E ctx (q_Query q) s of
                (Done (Inr t), s1) \<Rightarrow>
                  if t = QueryTypeRead then executeReadQuery E ctx q s1 else (Blocked OnTxMu, s1)
              | (Done (Inl e), s1) \<Rightarrow> (Blocked OnTxMu, s1)
              | (Running, s1) \<Rightarrow> (Running, s1)
              | (Blocked m, s1) \<Rightarrow> (Blocked m, s1)
              | (Fatal, s1) \<Rightarrow> (Fatal, s1))))"
proof (intro conjI impI)
  assume "q_TxID q \<noteq> [] \<and> (q_TxID q \<noteq> txID s \<or> q_TxOwner q \<noteq> [] \<and> q_TxOwner q \<noteq> txOwner s)"
  then show "db_query E ctx q s = (Done (Inl ErrTxNotMatch), s)"
    using db_query_wrong_tx [OF assms] by blast
next
  assume q: "q_TxID q = []"
  let ?k = "keyword_type (q_Query q)"
  show "case ?k of
         Some t \<Rightarrow>
           if t = QueryTypeBegin then
             db_query E ctx q s = (Blocked OnTxMu, s\<lparr>dbStats := IncQueuedBegins (dbStats s)\<rparr>)
           else db_query E ctx q s = (Done (Inl ErrTxIdRequired), s)
       | None \<Rightarrow>
           db_query E ctx q s =
             (case classifyQueryOnReadOnlyConn E ctx (q_Query q) s of
                (Done (Inr t), s1) \<Rightarrow>
                  if t = QueryTypeRead then executeReadQuery E ctx q s1 else (Blocked OnTxMu, s1)
              | (Done (Inl e), s1) \<Rightarrow> (Blocked OnTxMu, s1)
              | (Running, s1) \<Rightarrow> (Running, s1)
              | (Blocked m, s1) \<Rightarrow> (Blocked m, s1)
              | (Fatal, s1) \<Rightarrow> (Fatal, s1))"
  proof (cases ?k)
    case None
    with db_query_no_keyword [OF assms q] show ?thesis by simp
  next
    case (Some t)
    from db_query_keyword [OF assms q Some] show ?thesis unfolding Some option.case .
  qed
qed

theorem open_transaction_excludes_others_witness:
  "db_query mini_env Background (mini_query [] ''BEGIN'' 0) mini_tx =
     (Blocked OnTxMu, mini_tx\<lparr>dbStats := IncQueuedBegins (dbStats mini_tx)\<rparr>)"
  using open_transaction_excludes_others [OF mini_tx_inv, of "mini_query [] ''BEGIN'' 0" mini_env Background]
  by (simp add: mini_query_def keyword_eval)

end
