(* ===== verification/Database_Tx.thy ===== *)
theory Database_Tx
  imports Database_Props
begin

text \<open>
  The life of a transaction: it begins, its owner commits it or rolls it back, the idle monitor
  rolls it back when it has been idle for too long, and it cannot be ended at all once SQLite
  itself has left it.
\<close>

section \<open>Begin, commit, rollback\<close>

text \<open>C2. When no transaction is open and SQLite accepts \<open>BEGIN TRANSACTION\<close> under the caller's
  role, a query that starts with \<open>begin\<close> opens a transaction: the answer carries a fresh ID,
  which becomes the open transaction with the caller as its owner, \<open>txMu\<close> stays locked for it,
  and its idle time starts at a clock reading made after SQLite answered. When SQLite refuses,
  the caller gets the error and no transaction is open.\<close>

theorem begin_opens_transaction:
  assumes "db_inv s" "txID s = []" "usable RW s cs c" "ctx (ticks s) = None"
    and "isValid (q_Role q)" "q_TxID q = []" "keyword_type (q_Query q) = Some QueryTypeBegin"
    and "conn_Query (e_api E) (as_role (q_Role q) c) ''BEGIN TRANSACTION'' [] (world s) = Some (v, w)"
  shows "case v of
      Inl e \<Rightarrow>
        \<exists>s'. db_query E ctx q s = (Done (Inl (Wrapped ''failed to begin transaction'' e)), s') \<and>
             txID s' = [] \<and> \<not> txMu s' \<and> world s' = w
    | Inr _ \<Rightarrow>
        \<exists>s' res. db_query E ctx q s = (Done (Inr res), s') \<and>
             r_Type res = QueryTypeBegin \<and> r_TxID res = uuid_NewString E (Suc (ticks s)) \<and>
             txID s' = r_TxID res \<and> txOwner s' = q_TxOwner q \<and> txMu s' \<and> world s' = w \<and>
             txLastUsed s' = time_Now E (ticks s + 2)"
proof -
  have mu: "\<not> writeMu s" "\<not> txMu s" using assms(1,2) by (auto simp: db_inv_def)
  have "db_query E ctx q s = executeBeginQuery E ctx [] (q_Role q) (q_TxOwner q) s"
    using assms(6,7)
    by (simp add: db_query_def bnd_def ClassifyQuery_def ret_def types_neq executeClassifiedQuery_def)
  with executeBegin_run [where ctx = ctx, OF assms(3,4) mu assms(5,8)] mu assms(2) show ?thesis
    by (cases v) (simp_all add: Let_def)
qed

theorem begin_opens_transaction_witness:
  "\<exists>s' res. db_query mini_env Background (mini_query [] ''BEGIN'' 0) mini_db = (Done (Inr res), s') \<and>
     r_TxID res = ''id2'' \<and> txID s' = ''id2'' \<and> txMu s' \<and> m_intx (world s')"
proof -
  have "conn_Query (e_api mini_env) (as_role 0 mini_conn) ''BEGIN TRANSACTION'' [] mini0 =
      Some (Inr (mini_done mini0), mini0\<lparr>m_intx := True\<rparr>)"
    by (simp add: mini_env_def as_role_mini mini_tx_statements mini0_def)
  moreover have "uuid_NewString mini_env 2 = ''id2''"
    by (simp add: mini_env_def show_nat_eval digit_eval)
  ultimately show ?thesis
    using begin_opens_transaction [OF mini_inv _ mini_usable, where ctx = Background
        and q = "mini_query [] ''BEGIN'' 0" and E = mini_env and v = "Inr (mini_done mini0)"
        and w = "mini0\<lparr>m_intx := True\<rparr>"]
    by (auto simp: mini_query_def isValid_def AuthorizerRoleAdmin_def keyword_eval numeral_2_eq_2)
qed

definition end_sql :: "QueryType \<Rightarrow> string" where
  "end_sql t = (if t = QueryTypeCommit then ''COMMIT'' else ''ROLLBACK'')"

lemma owner_end_run:
  assumes "db_inv s" "txID s \<noteq> []" "usable RW s cs c" "\<forall>n. ctx n = None" "isValid (q_Role q)"
    and "q_TxID q = txID s" "q_TxOwner q = [] \<or> q_TxOwner q = txOwner s"
    and "keyword_type (q_Query q) = Some t" "t = QueryTypeCommit \<or> t = QueryTypeRollback"
    and "conn_Query (e_api E) (as_role (q_Role q) c) (end_sql t) [] (world s) = Some (v, w)"
  shows "\<exists>s'. usable RW s' cs (as_role (q_Role q) c) \<and> world s' = w \<and>
      (case v of
         Inl e \<Rightarrow>
           (\<exists>m. db_query E ctx q s = (Done (Inl (Wrapped m e)), s')) \<and>
           txID s' = txID s \<and> txOwner s' = txOwner s \<and> txMu s'
       | Inr _ \<Rightarrow>
           db_query E ctx q s = (Done (Inr (QueryResult0\<lparr>r_Type := t\<rparr>)), s') \<and>
           txID s' = [] \<and> txOwner s' = [] \<and> \<not> txMu s')"
proof -
  let ?s = "s\<lparr>txOpMu := True, txLastUsed := time_Now E (ticks s), ticks := Suc (ticks s)\<rparr>"
  have mu: "\<not> writeMu s" "txMu s" "\<not> txOpMu s" using assms(1,2) by (auto simp: db_inv_def)
  have valid: "validateTxID (q_TxID q) (q_TxOwner q) s = None"
    using assms(2,6,7) by (auto simp: validateTxID_def)
  have exec: "executeClassifiedQuery E ctx q t = end_tx E ctx (end_sql t)
      (if t = QueryTypeCommit then ''failed to commit transaction'' else ''failed to rollback transaction'') t
      (if t = QueryTypeCommit then IncCommits else IncRollbacks) (q_TxID q) (q_Role q)"
    using assms(9) by (auto simp: executeClassifiedQuery_def types_neq executeCommitQuery_def
        executeRollbackQuery_def end_sql_def)
  have "\<exists>s1 r. executeClassifiedQuery E ctx q t ?s = (Done r, s1) \<and> txOpMu s1 \<and>
      usable RW s1 cs (as_role (q_Role q) c) \<and> world s1 = w \<and>
      (case v of
         Inl e \<Rightarrow> (\<exists>m. r = Inl (Wrapped m e)) \<and> txID s1 = txID s \<and> txOwner s1 = txOwner s \<and> txMu s1
       | Inr _ \<Rightarrow> r = Inr (QueryResult0\<lparr>r_Type := t\<rparr>) \<and> txID s1 = [] \<and> txOwner s1 = [] \<and> \<not> txMu s1)"
    using end_tx_run [of ?s cs c ctx "q_Role q" "q_TxID q" E "end_sql t" v w] assms mu
    unfolding exec by (cases v) auto
  then obtain s1 r where run: "executeClassifiedQuery E ctx q t ?s = (Done r, s1)" "txOpMu s1"
    and post: "usable RW s1 cs (as_role (q_Role q) c)" "world s1 = w"
      "case v of
         Inl e \<Rightarrow> (\<exists>m. r = Inl (Wrapped m e)) \<and> txID s1 = txID s \<and> txOwner s1 = txOwner s \<and> txMu s1
       | Inr _ \<Rightarrow> r = Inr (QueryResult0\<lparr>r_Type := t\<rparr>) \<and> txID s1 = [] \<and> txOwner s1 = [] \<and> \<not> txMu s1"
    by blast
  from assms(2,6) have "q_TxID q \<noteq> []" by simp
  from db_query_tx_keyword [OF assms(8) this valid mu(3) run] post show ?thesis
    by (intro exI [of _ "s1\<lparr>txOpMu := False, txLastUsed := time_Now E (ticks s1), ticks := Suc (ticks s1)\<rparr>"])
      (auto split: sum.splits)
qed

text \<open>C3. The owner of the open transaction ends it: a statement that starts with \<open>commit\<close> runs
  \<open>COMMIT\<close>, one that starts with \<open>rollback\<close> runs \<open>ROLLBACK\<close>, on the read-write connection under
  the caller's role. When SQLite carries it out, no transaction is open afterwards and \<open>txMu\<close> is
  free for the next one; when it refuses, the caller gets the error and the transaction is
  still open and still the caller's.\<close>

theorem owner_ends_transaction:
  assumes "db_inv s" "txID s \<noteq> []" "usable RW s cs c" "\<forall>n. ctx n = None" "isValid (q_Role q)"
    and "q_TxID q = txID s" "q_TxOwner q = [] \<or> q_TxOwner q = txOwner s"
    and "keyword_type (q_Query q) = Some t" "t = QueryTypeCommit \<or> t = QueryTypeRollback"
    and "conn_Query (e_api E) (as_role (q_Role q) c) (end_sql t) [] (world s) = Some (v, w)"
  shows "\<exists>s'. world s' = w \<and>
      (case v of
         Inl e \<Rightarrow>
           (\<exists>m. db_query E ctx q s = (Done (Inl (Wrapped m e)), s')) \<and>
           txID s' = txID s \<and> txOwner s' = txOwner s \<and> txMu s'
       | Inr _ \<Rightarrow>
           db_query E ctx q s = (Done (Inr (QueryResult0\<lparr>r_Type := t\<rparr>)), s') \<and>
           txID s' = [] \<and> txOwner s' = [] \<and> \<not> txMu s')"
  using owner_end_run [OF assms] by blast

theorem owner_ends_transaction_witness:
  "\<exists>s'. db_query mini_env Background (mini_query ''id2'' ''COMMIT'' 0) mini_tx =
       (Done (Inr (QueryResult0\<lparr>r_Type := QueryTypeCommit\<rparr>)), s') \<and>
     txID s' = [] \<and> \<not> txMu s' \<and> \<not> m_intx (world s')"
proof -
  have run: "conn_Query (e_api mini_env) (as_role 0 mini_conn) ''COMMIT'' [] (mini0\<lparr>m_intx := True\<rparr>) =
      Some (Inr (mini_done (mini0\<lparr>m_intx := True\<rparr>)), mini0)"
    by (simp add: mini_env_def as_role_mini mini_tx_statements mini0_def)
  have "\<exists>s'. world s' = mini0 \<and>
      (case Inr (mini_done (mini0\<lparr>m_intx := True\<rparr>)) of
         Inl e \<Rightarrow>
           (\<exists>m. db_query mini_env Background (mini_query ''id2'' ''COMMIT'' 0) mini_tx =
              (Done (Inl (Wrapped m e)), s')) \<and>
           txID s' = txID mini_tx \<and> txOwner s' = txOwner mini_tx \<and> txMu s'
       | Inr _ \<Rightarrow>
           db_query mini_env Background (mini_query ''id2'' ''COMMIT'' 0) mini_tx =
             (Done (Inr (QueryResult0\<lparr>r_Type := QueryTypeCommit\<rparr>)), s') \<and>
           txID s' = [] \<and> txOwner s' = [] \<and> \<not> txMu s')"
    by (rule owner_ends_transaction [OF mini_tx_inv _ mini_tx_usable])
      (simp_all add: run mini_query_def isValid_def AuthorizerRoleAdmin_def keyword_eval end_sql_def)
  then show ?thesis by (auto simp: mini0_def)
qed

section \<open>The idle monitor\<close>

text \<open>C7. A tick of the idle monitor leaves the object alone while no transaction is open or the
  open one was used within the timeout. One that has been idle for longer is rolled back under
  the administrator's role: when SQLite carries the \<open>ROLLBACK\<close> out, no transaction is open
  afterwards and \<open>txMu\<close> is free.\<close>

theorem idle_monitor_rolls_back:
  assumes "db_inv s"
  shows "(txID s = [] \<longrightarrow> txIdleMonitor_tick E s = (Done (), s)) \<and>
    (txID s \<noteq> [] \<and> time_Now E (ticks s) - txLastUsed s \<le> TxIdleTimeout (db_Config s) \<longrightarrow>
      txIdleMonitor_tick E s = (Done (), s\<lparr>ticks := Suc (ticks s)\<rparr>)) \<and>
    (txID s \<noteq> [] \<and> TxIdleTimeout (db_Config s) < time_Now E (ticks s) - txLastUsed s \<and>
     usable RW s cs c \<and>
     conn_Query (e_api E) (as_role AuthorizerRoleAdmin c) ''ROLLBACK'' [] (world s) = Some (Inr x, w) \<longrightarrow>
      (\<exists>s'. txIdleMonitor_tick E s = (Done (), s') \<and> txID s' = [] \<and> txOwner s' = [] \<and> \<not> txMu s' \<and>
        world s' = w \<and> db_inv s'))"
proof (intro conjI impI)
  have mu: "\<not> writeMu s" "\<not> txOpMu s" using assms by (auto simp: db_inv_def)
  then have un: "s\<lparr>txOpMu := False\<rparr> = s" by (cases s) simp
  show "txIdleMonitor_tick E s = (Done (), s)" if "txID s = []"
    using that mu un by (simp add: txIdleMonitor_tick_def txop_mutex.locked_run)
  show "txIdleMonitor_tick E s = (Done (), s\<lparr>ticks := Suc (ticks s)\<rparr>)"
    if "txID s \<noteq> [] \<and> time_Now E (ticks s) - txLastUsed s \<le> TxIdleTimeout (db_Config s)"
    using that mu by (cases s) (simp add: txIdleMonitor_tick_def txop_mutex.locked_run)
  assume late: "txID s \<noteq> [] \<and> TxIdleTimeout (db_Config s) < time_Now E (ticks s) - txLastUsed s \<and>
     usable RW s cs c \<and>
     conn_Query (e_api E) (as_role AuthorizerRoleAdmin c) ''ROLLBACK'' [] (world s) = Some (Inr x, w)"
  let ?s = "s\<lparr>txOpMu := True, ticks := Suc (ticks s)\<rparr>"
  let ?s1 = "(after_rw cs (as_role AuthorizerRoleAdmin c) w ?s)\<lparr>txMu := False, txID := [],
      txOwner := [], txLastUsed := time_Now E (ticks s + 2),
      dbStats := IncRollbacks (time_Now E (ticks s + 3)) (dbStats s), ticks := ticks s + 4\<rparr>"
  have "executeRollbackQuery E Background (txID s) AuthorizerRoleAdmin ?s =
      (Done (Inr (QueryResult0\<lparr>r_Type := QueryTypeRollback\<rparr>)), ?s1)"
    using end_tx_run [of ?s cs c Background AuthorizerRoleAdmin "txID s" E "''ROLLBACK''" "Inr x" w]
      late assms by (simp add: executeRollbackQuery_def db_inv_def isValid_def eval_nat_numeral)
  then have run: "txIdleMonitor_tick E s = (Done (), ?s1\<lparr>txOpMu := False\<rparr>)"
    using late mu by (simp add: txIdleMonitor_tick_def txop_mutex.locked_run bnd_def ret_def)
  have "db_inv (?s1\<lparr>txOpMu := False\<rparr>)"
    using assms late by (auto simp: db_inv_def pools_ok_def after_rw_def pool_ok_def usable_def Let_def)
  with run show "\<exists>s'. txIdleMonitor_tick E s = (Done (), s') \<and> txID s' = [] \<and> txOwner s' = [] \<and>
      \<not> txMu s' \<and> world s' = w \<and> db_inv s'"
    by auto
qed

lemma as_role_mini_as: "as_role r (mini_as r') = mini_as r"
  by (simp add: as_role_def mini_as_def)

theorem idle_monitor_rolls_back_witness:
  "txIdleMonitor_tick mini_env mini_tx = (Done (), mini_tx\<lparr>ticks := 6\<rparr>) \<and>
   (\<exists>s'. txIdleMonitor_tick mini_env (mini_tx\<lparr>ticks := 20\<rparr>) = (Done (), s') \<and> txID s' = [] \<and>
      \<not> m_intx (world s'))"
proof -
  have run: "conn_Query (e_api mini_env) (as_role AuthorizerRoleAdmin (as_role 0 mini_conn)) ''ROLLBACK'' []
      (world (mini_tx\<lparr>ticks := 20\<rparr>)) = Some (Inr (mini_done (mini0\<lparr>m_rows := 0\<rparr>)), mini0)"
    using mini_tx_statements(3) [of 0 "mini0\<lparr>m_intx := True\<rparr>"]
    by (simp add: mini_env_def as_role_mini as_role_mini_as AuthorizerRoleAdmin_def mini0_def mini_done_def)
  have inv: "db_inv (mini_tx\<lparr>ticks := 20\<rparr>)"
    using mini_tx_inv by (simp add: db_inv_def pools_ok_def)
  have "usable RW (mini_tx\<lparr>ticks := 20\<rparr>) [] (as_role 0 mini_conn)"
    using mini_tx_usable by simp
  with run idle_monitor_rolls_back [OF inv, of mini_env "[]" "as_role 0 mini_conn" "mini_done (mini0\<lparr>m_rows := 0\<rparr>)" mini0]
    idle_monitor_rolls_back [OF mini_tx_inv, of mini_env "[]" "as_role 0 mini_conn" "mini_done (mini0\<lparr>m_rows := 0\<rparr>)" mini0]
  show ?thesis by (auto simp: mini_env_def mini_config_def duration_defs mini0_def)
qed

section \<open>A transaction that SQLite has left\<close>

text \<open>
  SQLite can end a transaction without a \<open>COMMIT\<close> or \<open>ROLLBACK\<close> that the program recognises: a
  conflict resolved by \<open>INSERT OR ROLLBACK\<close>, a statement \<open>END\<close>, a commit behind a comment.
  \<open>dead w\<close> stands for such a state of the engine: it refuses both statements
  ("cannot commit - no transaction is active") and stays as it is.
\<close>

definition refuses_end :: "'w capi \<Rightarrow> ('w \<Rightarrow> bool) \<Rightarrow> bool" where
  "refuses_end api dead \<longleftrightarrow>
     (\<forall>w c r sql. dead w \<and> live c \<and> isValid r \<and> (sql = ''COMMIT'' \<or> sql = ''ROLLBACK'') \<longrightarrow>
        (\<exists>e w'. conn_Query api (as_role r c) sql [] w = Some (Inl e, w') \<and> dead w'))"

text \<open>What can be tried: a tick of the monitor (\<open>None\<close>), or a query that its sender waits for as long as
  its context allows.\<close>

fun tried :: "'w env \<Rightarrow> (ctx \<times> query) option list \<Rightarrow> 'w DB \<Rightarrow> 'w DB" where
  "tried E [] s = s"
| "tried E (None # as) s = tried E as (snd (txIdleMonitor_tick E s))"
| "tried E (Some (ctx, q) # as) s = tried E as (snd (db_Query E ctx q s))"

definition dead_tx :: "('w \<Rightarrow> bool) \<Rightarrow> string \<Rightarrow> 'w DB \<Rightarrow> bool" where
  "dead_tx dead tx s \<longleftrightarrow> db_inv s \<and> txID s = tx \<and> dead (world s) \<and> (\<exists>cs c. usable RW s cs c)"

lemma dead_tick:
  assumes "refuses_end (e_api E) dead" "dead_tx dead tx s" "tx \<noteq> []"
  shows "dead_tx dead tx (snd (txIdleMonitor_tick E s))"
proof -
  from assms(2) obtain cs c where u: "usable RW s cs c" and inv: "db_inv s" "txID s = tx" "dead (world s)"
    by (auto simp: dead_tx_def)
  show ?thesis
  proof (cases "time_Now E (ticks s) - txLastUsed s \<le> TxIdleTimeout (db_Config s)")
    case True
    have "txIdleMonitor_tick E s = (Done (), s\<lparr>ticks := Suc (ticks s)\<rparr>)"
      using inv True assms(3) by (cases s) (simp add: db_inv_def txIdleMonitor_tick_def txop_mutex.locked_run)
    with inv u show ?thesis by (auto simp: dead_tx_def db_inv_def pools_ok_def)
  next
    case False
    let ?s = "s\<lparr>txOpMu := True, ticks := Suc (ticks s)\<rparr>"
    have "live c" "isValid AuthorizerRoleAdmin" using u by (auto simp: usable_def Let_def isValid_def)
    with assms(1) inv(3) obtain e w where
      run: "conn_Query (e_api E) (as_role AuthorizerRoleAdmin c) ''ROLLBACK'' [] (world s) = Some (Inl e, w)" "dead w"
      unfolding refuses_end_def by blast
    have "executeRollbackQuery E Background tx AuthorizerRoleAdmin ?s =
        (Done (Inl (Wrapped ''failed to rollback transaction'' e)), after_rw cs (as_role AuthorizerRoleAdmin c) w ?s)"
      using end_tx_run [of ?s cs c Background AuthorizerRoleAdmin tx E "''ROLLBACK''" "Inl e" w] run u inv assms(3)
      by (simp add: executeRollbackQuery_def db_inv_def isValid_def)
    then have "txIdleMonitor_tick E s =
        (Done (), (after_rw cs (as_role AuthorizerRoleAdmin c) w ?s)\<lparr>txOpMu := False\<rparr>)"
      using False inv assms(3) by (simp add: db_inv_def txIdleMonitor_tick_def txop_mutex.locked_run bnd_def ret_def Let_def)
    moreover have "usable RW (after_rw cs (as_role AuthorizerRoleAdmin c) w ?s) cs (as_role AuthorizerRoleAdmin c)"
      using u by simp
    moreover have "db_inv ((after_rw cs (as_role AuthorizerRoleAdmin c) w ?s)\<lparr>txOpMu := False\<rparr>)"
      using inv u by (auto simp: db_inv_def pools_ok_def after_rw_def pool_ok_def usable_def Let_def)
    ultimately show ?thesis using inv run(2) by (auto simp: dead_tx_def)
  qed
qed

text \<open>The statement of a commit or a rollback, under any context and role: it is refused before it reaches
  SQLite, or by SQLite.\<close>

lemma end_tx_cancelled:
  assumes "ctx (ticks s) = Some e" "\<not> writeMu s" "\<not> p_closed (readWritePool s)" "tx \<noteq> []"
  shows "end_tx E ctx sql msg qt inc tx r s =
    (Done (Inl (Wrapped msg (Wrapped ''failed to get read-write connection from pool''
       (Wrapped ''failed to get connection from pool'' e)))), s\<lparr>ticks := Suc (ticks s)\<rparr>)"
  using assms by (cases s) (simp add: end_tx_def withReadWriteConn_def locked_def Lock_def Unlock_def bnd_def
    with_conn_def getRawConn_def pool_take_def ret_def)

lemma end_tx_invalid_role:
  assumes "usable RW s cs c" "ctx (ticks s) = None" "\<not> writeMu s" "\<not> isValid r" "tx \<noteq> []"
  shows "\<exists>e. end_tx E ctx sql msg qt inc tx r s = (Done (Inl e), after_rw cs c (world s) s)"
proof -
  let ?s = "s\<lparr>writeMu := True\<rparr>"
  let ?body = "\<lambda>c. case SetAuthorizerRole (e_api E) c r of
        (Some e, c1) \<Rightarrow> ret (Inl (Wrapped ''failed to set write connection authorizer role'' e), c1)
      | (None, c1) \<Rightarrow> bnd (run_sql E sql c1) (\<lambda>v. ret (v, c1))"
  have u: "usable RW ?s cs c" "live c" using assms(1) by (auto simp: usable_def Let_def)
  then obtain e where "SetAuthorizerRole (e_api E) c r = (Some e, c)"
    using assms(4) by (auto simp: live_def SetAuthorizerRole_def)
  then obtain v where "?body c (conn_out RW cs ?s) = (Done (Inl v, c), conn_out RW cs ?s)"
    by (simp add: ret_def)
  from with_conn_run [where msg = "''failed to get read-write connection from pool''" and E = E
        and body = ?body and ctx = ctx, OF u(1) _ this] assms(2,3,5)
  show ?thesis
    by (cases s) (simp add: end_tx_def withReadWriteConn_def locked_def bnd_def Lock_def Unlock_def ret_def
        conn_out_def after_rw_def)
qed

lemma dead_end_tx:
  assumes "refuses_end (e_api E) dead" "dead (world s)" "usable RW s cs c" "\<not> writeMu s" "txMu s"
    and "sql = ''COMMIT'' \<or> sql = ''ROLLBACK''" "tx \<noteq> []"
  shows "\<exists>e s' c'. end_tx E ctx sql msg qt inc tx r s = (Done (Inl e), s') \<and> dead (world s') \<and>
    txID s' = txID s \<and> txOpMu s' = txOpMu s \<and> usable RW s' cs c'"
proof (cases "ctx (ticks s)")
  case (Some e)
  have "\<not> p_closed (readWritePool s)" using assms(3) by (simp add: usable_def Let_def)
  with end_tx_cancelled [of ctx s e, OF Some assms(4) _ assms(7), where E = E and sql = sql and msg = msg and qt = qt and inc = inc and r = r]
    assms(2,3) show ?thesis by auto
next
  case None
  have l: "live c" using assms(3) by (simp add: usable_def Let_def)
  show ?thesis
  proof (cases "isValid r")
    case True
    with assms(1,2,6) l obtain e w where run: "conn_Query (e_api E) (as_role r c) sql [] (world s) = Some (Inl e, w)" "dead w"
      unfolding refuses_end_def by blast
    with end_tx_run [of s cs c ctx r tx E sql "Inl e" w msg qt inc] assms(3-5,7) None True
    show ?thesis by (auto intro: exI [of _ "as_role r c"])
  next
    case False
    have "usable RW (after_rw cs c (world s) s) cs c"
      using assms(3) by (simp add: usable_def after_rw_def Let_def maxIdleConns_def split: if_splits)
    with end_tx_invalid_role [of s cs c ctx r tx E sql msg qt inc] assms(2-4,7) None False
    show ?thesis by (auto intro: exI [of _ c])
  qed
qed

lemma dead_execute:
  assumes "refuses_end (e_api E) dead" "dead (world s)" "usable RW s cs c" "\<not> writeMu s" "txMu s"
    and "keyword_type (q_Query q) = Some t" "q_TxID q \<noteq> []"
  shows "\<exists>e s' c'. executeClassifiedQuery E ctx q t s = (Done (Inl e), s') \<and> dead (world s') \<and>
    txID s' = txID s \<and> txOpMu s' = txOpMu s \<and> usable RW s' cs c'"
  using keyword_types [OF assms(6)] assms(2,3,7) dead_end_tx [OF assms(1-5) _ assms(7)]
  by (auto simp: executeClassifiedQuery_def types_neq executeCommitQuery_def executeRollbackQuery_def
      executeBeginQuery_def ret_def)

lemma dead_query:
  assumes "refuses_end (e_api E) dead" "dead_tx dead tx s" "tx \<noteq> []" "keyword_type (q_Query q) = Some t"
    and "\<forall>n. uuid_NewString E n \<noteq> []"
  shows "dead_tx dead tx (snd (db_Query E ctx q s))"
proof -
  from assms(2) obtain cs c where u: "usable RW s cs c" and inv: "db_inv s" "txID s = tx" "dead (world s)"
    by (auto simp: dead_tx_def)
  let ?good = "\<lambda>s'. dead (world s') \<and> txID s' = tx \<and> (\<exists>cs c. usable RW s' cs c)"
  let ?waiting = "s\<lparr>dbStats := IncQueuedBegins (dbStats s)\<rparr>"
  have "db_query E ctx q s = (Blocked OnTxMu, ?waiting) \<or> (\<exists>e s'. db_query E ctx q s = (Done (Inl e), s') \<and> ?good s')"
  proof (cases "q_TxID q = []")
    case True
    from db_query_keyword [OF inv(1) _ True assms(4), of E ctx] assms(3) inv u show ?thesis
      by (auto split: if_splits)
  next
    case tx: False
    show ?thesis
    proof (cases "validateTxID (q_TxID q) (q_TxOwner q) s")
      case (Some e)
      with tx inv(2) assms(3) have "q_TxID q \<noteq> txID s \<or> q_TxOwner q \<noteq> [] \<and> q_TxOwner q \<noteq> txOwner s"
        by (auto simp: validateTxID_def Let_def split: if_splits)
      from db_query_wrong_tx [OF inv(1) _ tx this] assms(3) inv u show ?thesis by auto
    next
      case None
      let ?s = "s\<lparr>txOpMu := True, txLastUsed := time_Now E (ticks s), ticks := Suc (ticks s)\<rparr>"
      have mu: "\<not> txOpMu s" "\<not> writeMu s" "txMu s" using inv assms(3) by (auto simp: db_inv_def)
      from dead_execute [OF assms(1), of ?s cs c q t ctx] mu inv(3) u assms(4) tx obtain e s1 c1 where
        x: "executeClassifiedQuery E ctx q t ?s = (Done (Inl e), s1)" "dead (world s1)" "txID s1 = txID s"
          "txOpMu s1" "usable RW s1 cs c1" by auto
      have "usable RW (s1\<lparr>txOpMu := False, txLastUsed := n, ticks := m\<rparr>) cs c1" for n m using x(5) by simp
      with db_query_tx_keyword [OF assms(4) tx None mu(1) x(1,4)] x inv(2) show ?thesis by fastforce
    qed
  qed
  then show ?thesis
  proof
    assume "db_query E ctx q s = (Blocked OnTxMu, ?waiting)"
    moreover have "dead_tx dead tx ?waiting" using inv u by (auto simp: dead_tx_def db_inv_def pools_ok_def)
    ultimately show ?thesis by (simp add: db_Query_def bnd_def)
  next
    assume "\<exists>e s'. db_query E ctx q s = (Done (Inl e), s') \<and> ?good s'"
    then obtain e s1 cs c where s1: "db_query E ctx q s = (Done (Inl e), s1)" "dead (world s1)" "txID s1 = tx" "usable RW s1 cs c"
      by blast
    define s' where "s' = s1\<lparr>dbStats := IncErrors (time_Now E (ticks s1)) (dbStats s1), ticks := Suc (ticks s1)\<rparr>"
    have "usable RW s' cs c" using s1(4) by (simp add: s'_def)
    with s1 have q: "db_Query E ctx q s = (Done (Inl e), s')" "?good s'"
      by (auto simp: db_Query_def bnd_def count_def at_now_def ret_def s'_def)
    with query_inv [OF inv(1) assms(5), of ctx q] show ?thesis by (simp add: wp_def dead_tx_def)
  qed
qed

lemma dead_tried:
  assumes "refuses_end (e_api E) dead" "\<forall>n. uuid_NewString E n \<noteq> []" "tx \<noteq> []"
  shows "\<forall>ctx q. Some (ctx, q) \<in> set as \<longrightarrow> keyword_type (q_Query q) \<noteq> None \<Longrightarrow>
    dead_tx dead tx s \<Longrightarrow> dead_tx dead tx (tried E as s)"
proof (induction "as" arbitrary: s)
  case (Cons a "as")
  show ?case
  proof (cases a)
    case None
    with Cons dead_tick [OF assms(1) Cons.prems(2) assms(3)] show ?thesis by simp
  next
    case (Some x)
    obtain ctx q where x: "x = (ctx, q)" by fastforce
    with Some Cons.prems(1) obtain t where "keyword_type (q_Query q) = Some t" by fastforce
    with Some x Cons dead_query [OF assms(1) Cons.prems(2) assms(3) _ assms(2), of q t ctx] show ?thesis by simp
  qed
qed simp

lemma begin_waits:
  assumes "db_inv s" "txID s \<noteq> []" "q_TxID q = []" "keyword_type (q_Query q) = Some QueryTypeBegin"
  shows "fst (db_Query E ctx q s) = Blocked OnTxMu"
  using assms by (simp add: db_Query_def db_query_def bnd_def ClassifyQuery_def ret_def types_neq
      executeClassifiedQuery_def executeBeginQuery_def gauge_def upd_def Lock_def db_inv_def)

text \<open>C8. Once SQLite has left the open transaction, with a pooled read-write connection to send statements
  on, the program never gets out of it: whatever \<open>BEGIN\<close>s,
  \<open>COMMIT\<close>s and \<open>ROLLBACK\<close>s anybody sends, its owner or another, with the right ID or a wrong one, under any role, by a
  client that waits or hangs up, and however often the idle monitor ticks, in any order,
  the transaction stays open and \<open>txMu\<close> locked, and a further \<open>BEGIN\<close> of any client waits for a
  mutex that nothing of this releases.\<close>

theorem abandoned_transaction_never_ends:
  assumes "refuses_end (e_api E) dead" "\<forall>n. uuid_NewString E n \<noteq> []"
    and "db_inv s" "txID s \<noteq> []" "dead (world s)" "usable RW s cs c"
    and "\<forall>ctx q. Some (ctx, q) \<in> set as \<longrightarrow> keyword_type (q_Query q) \<noteq> None"
  shows "txID (tried E as s) = txID s \<and> txMu (tried E as s) \<and>
    (q_TxID b = [] \<and> keyword_type (q_Query b) = Some QueryTypeBegin \<longrightarrow>
       fst (db_Query E ctx b (tried E as s)) = Blocked OnTxMu)"
proof -
  have "dead_tx dead (txID s) s" using assms(3,5,6) by (auto simp: dead_tx_def)
  from dead_tried [OF assms(1,2,4,7) this]
  have "db_inv (tried E as s)" "txID (tried E as s) = txID s" by (auto simp: dead_tx_def)
  with assms(4) begin_waits [of "tried E as s" b E ctx] show ?thesis by (auto simp: db_inv_def)
qed

text \<open>The miniature engine refuses both statements outside a transaction.\<close>

lemma mini_refuses: "refuses_end mini_api (\<lambda>w. \<not> m_intx w)"
proof -
  have "\<exists>e w'. conn_Query mini_api (as_role r c) sql [] w = Some (Inl e, w') \<and> \<not> m_intx w'"
    if "\<not> m_intx w" "live c" "isValid r" "sql = ''COMMIT'' \<or> sql = ''ROLLBACK''" for w c r sql
    using that
    by (auto simp: conn_Query_eval mini_defs as_role_def authorizer_read_write_def authorizer_read_only_def
        SQLITE_DONE_def SQLITE_ROW_def isValid_def AuthorizerRoleAdmin_def AuthorizerRoleReadWrite_def
        AuthorizerRoleReadOnly_def live_def)
  then show ?thesis unfolding refuses_end_def by blast
qed

text \<open>On a server with tokens, the owner \<open>root\<close> of the transaction and another client try.\<close>

definition mini_ends :: "(ctx \<times> query) option list" where
  "mini_ends =
     [Some (Background, (mini_query ''id2'' ''COMMIT'' 0)\<lparr>q_TxOwner := ''root''\<rparr>), None,
      Some (Background, (mini_query ''id2'' ''ROLLBACK'' 0)\<lparr>q_TxOwner := ''eve''\<rparr>),
      Some (Background, (mini_query ''id2'' ''ROLLBACK'' 0)\<lparr>q_TxOwner := ''root''\<rparr>)]"

theorem abandoned_transaction_never_ends_witness:
  "txID (tried mini_env mini_ends (mini_tx\<lparr>world := mini0, txOwner := ''root''\<rparr>)) = ''id2''"
proof -
  let ?s = "mini_tx\<lparr>world := mini0, txOwner := ''root''\<rparr>"
  have "db_inv ?s" using mini_tx_inv by (simp add: db_inv_def pools_ok_def)
  moreover have "usable RW ?s [] (as_role 0 mini_conn)" using mini_tx_usable by (simp add: usable_def)
  moreover have "refuses_end (e_api mini_env) (\<lambda>w. \<not> m_intx w)"
    using mini_refuses by (simp add: mini_env_def)
  ultimately show ?thesis
    using abandoned_transaction_never_ends [of mini_env "\<lambda>w. \<not> m_intx w" ?s "[]" "as_role 0 mini_conn" mini_ends]
    by (auto simp: mini_ends_def mini_query_def keyword_eval mini0_def)
qed

end
