(* ===== verification/Database_Role.thy ===== *)
theory Database_Role
  imports Database_Tx
begin

text \<open>
  Roles: a request is confined to what SQLite lets statements do that were compiled under the
  policy of its role, and the role that an earlier request left on a pooled connection has no
  influence on it.
\<close>

section \<open>What a role's statements preserve\<close>

definition role_callback :: "AuthorizerRole \<Rightarrow> auth_cb" where
  "role_callback r = cust_sqlite3_authorizer (Some \<lparr>role = r\<rparr>)"

text \<open>
  \<open>confines api ks r I ok\<close>: \<open>I\<close> is a fact about the engine's state that statements of role \<open>r\<close> do not change:
  compiling any text under the policy of \<open>r\<close> keeps it, \<open>ok\<close> holds of the statements that were compiled under
  that policy, and binding and stepping such a statement, with the same policy in force, keep \<open>I\<close>, as do finalizing,
  closing and opening with a connector of \<open>ks\<close>. Nothing is asked here of what is compiled under another role.

  The classification of a query compiles its text under the policy of the administrator, whatever the role
  of the client, and SQLite runs some pragmas while it compiles them. What that may do to \<open>I\<close> is a
  condition of its own: \<open>admin_compile_keeps api texts I\<close> says that compiling one of \<open>texts\<close> as the
  administrator keeps \<open>I\<close>. It holds of a fact about the contents of the database for all texts, and of a flag of the
  connection for the texts that are not a pragma which sets it. The texts that are recognised by their
  first word are not compiled for the classification, so nothing is asked of them.
\<close>

definition bind_safe :: "(hptr \<Rightarrow> 'w \<Rightarrow> bool) \<Rightarrow> ('w \<Rightarrow> bool) \<Rightarrow> hptr \<Rightarrow> ('w \<Rightarrow> int \<times> 'w) \<Rightarrow> bool" where
  "bind_safe ok I st f \<longleftrightarrow> (\<forall>w. ok st w \<and> I w \<longrightarrow> ok st (snd (f w)) \<and> I (snd (f w)))"

definition confines :: "'w capi \<Rightarrow> connector set \<Rightarrow> AuthorizerRole \<Rightarrow> ('w \<Rightarrow> bool) \<Rightarrow> (hptr \<Rightarrow> 'w \<Rightarrow> bool) \<Rightarrow> bool" where
  "confines api ks r I ok \<longleftrightarrow>
     (\<forall>h sql w. I w \<longrightarrow> I (snd (sqlite3_prepare_v2 api h (role_callback r) sql w))) \<and>
     (\<forall>h sql w st w'. I w \<and> sqlite3_prepare_v2 api h (role_callback r) sql w = ((SQLITE_OK, st), w') \<longrightarrow> ok st w') \<and>
     (\<forall>st. bind_safe ok I st (sqlite3_step api st (role_callback r))) \<and>
     (\<forall>st i v. bind_safe ok I st (sqlite3_bind_int api st i v)) \<and>
     (\<forall>st i v. bind_safe ok I st (sqlite3_bind_int64 api st i v)) \<and>
     (\<forall>st i v. bind_safe ok I st (sqlite3_bind_double api st i v)) \<and>
     (\<forall>st i v. bind_safe ok I st (sqlite3_bind_text api st i v)) \<and>
     (\<forall>st i v. bind_safe ok I st (sqlite3_bind_blob api st i v)) \<and>
     (\<forall>st i. bind_safe ok I st (sqlite3_bind_null api st i)) \<and>
     (\<forall>st w. I w \<longrightarrow> I (snd (sqlite3_finalize api st w))) \<and>
     (\<forall>h w. I w \<longrightarrow> I (snd (sqlite3_close_v2 api h w))) \<and>
     (\<forall>k \<in> ks. \<forall>w v w'. I w \<and> Connect api k w = Some (v, w') \<longrightarrow> I w')"

definition admin_compile_keeps :: "'w capi \<Rightarrow> string set \<Rightarrow> ('w \<Rightarrow> bool) \<Rightarrow> bool" where
  "admin_compile_keeps api texts I \<longleftrightarrow>
     (\<forall>h w. \<forall>q \<in> texts. keyword_type q = None \<and> I w \<longrightarrow>
        I (snd (sqlite3_prepare_v2 api h (role_callback AuthorizerRoleAdmin) (CString q) w)))"

lemma admin_compile_mono: "admin_compile_keeps api T I \<Longrightarrow> T' \<subseteq> T \<Longrightarrow> admin_compile_keeps api T' I"
  by (auto simp: admin_compile_keeps_def)

lemma confinesD:
  assumes "confines api ks r I ok"
  shows "I w \<Longrightarrow> I (snd (sqlite3_prepare_v2 api h (role_callback r) sql w))"
    and "I w \<Longrightarrow> sqlite3_prepare_v2 api h (role_callback r) sql w = ((SQLITE_OK, st), w') \<Longrightarrow> ok st w'"
    and "bind_safe ok I st (sqlite3_step api st (role_callback r))"
    and "I w \<Longrightarrow> I (snd (sqlite3_finalize api st w))"
    and "I w \<Longrightarrow> I (snd (sqlite3_close_v2 api h w))"
    and "k \<in> ks \<Longrightarrow> I w \<Longrightarrow> Connect api k w = Some (v, w') \<Longrightarrow> I w'"
  using assms by (simp_all add: confines_def)

lemma confines_bind:
  assumes "confines api ks r I ok"
  shows "bind_safe ok I st (sqlite3_bind_int api st i v1)"
    and "bind_safe ok I st (sqlite3_bind_int64 api st i v2)"
    and "bind_safe ok I st (sqlite3_bind_double api st i v3)"
    and "bind_safe ok I st (sqlite3_bind_text api st i v4)"
    and "bind_safe ok I st (sqlite3_bind_blob api st i v5)"
    and "bind_safe ok I st (sqlite3_bind_null api st i)"
  using assms by (simp_all add: confines_def)

lemma bind_result_safe:
  assumes "bind_safe ok I st f" "ok st w" "I w"
  shows "ok st (snd (bind_result api what (f w))) \<and> I (snd (bind_result api what (f w)))"
  using assms by (simp add: bind_safe_def bind_result_def case_prod_unfold Let_def)

lemma BindDynamic_safe:
  assumes "confines api ks r I ok" "ok st w" "I w"
  shows "ok st (snd (BindDynamic api st i v w)) \<and> I (snd (BindDynamic api st i v w))"
  using assms(2,3) confines_bind [OF assms(1), THEN bind_result_safe, OF assms(2,3)]
  by (cases v; cases st) (simp_all add: BindDynamic_def BindInt_def BindInt64_def BindDouble_def BindText_def
      BindBlob_def BindNull_def)

lemma bind_params_safe:
  assumes "confines api ks r I ok"
  shows "ok st w \<Longrightarrow> I w \<Longrightarrow>
    ok st (snd (bind_params api st i ps w)) \<and> I (snd (bind_params api st i ps w))"
proof (induction ps arbitrary: i w)
  case (Cons p ps)
  have step: "ok st w1 \<and> I w1" if "BindDynamic api st j v w = (e, w1)" for j v e w1
    using BindDynamic_safe [OF assms Cons.prems, of j v] that by simp
  show ?case
    using Cons step by (auto simp: Let_def split: prod.splits option.splits)
qed simp

lemma Step_safe:
  assumes "confines api ks r I ok" "callback c = role_callback r" "ok st w" "I w"
    and "Step api c st w = (v, w')"
  shows "ok st w' \<and> I w'"
proof -
  have "snd (sqlite3_step api st (callback c) w) = w'"
    using assms(5) by (auto simp: Step_def Let_def split: prod.splits if_splits)
  with confinesD(3) [OF assms(1), of st] assms(2-4) show ?thesis
    unfolding bind_safe_def by auto
qed

text \<open>The row loops, by induction on the rows that were delivered before the loop returned.\<close>

lemma drain_safe:
  assumes "confines api ks r I ok" "callback c = role_callback r"
    and "drain api c st w = Some res" "ok st w" "I w"
  shows "I (snd res)"
proof -
  have "callback c = role_callback r \<longrightarrow> confines api ks r I ok \<longrightarrow> ok st w \<longrightarrow> I w \<longrightarrow> I (snd res)"
  proof (rule drain.raw_induct [OF _ assms(3)])
    fix f api c st w res
    assume IH: "\<And>api c st w res. f api c st w = Some res \<Longrightarrow>
        callback c = role_callback r \<longrightarrow> confines api ks r I ok \<longrightarrow> ok st w \<longrightarrow> I w \<longrightarrow> I (snd res)"
      and eq: "(case Step api c st w of
          (Inl e, w1) \<Rightarrow> Some (Inl (Wrapped ''failed to step statement'' e), w1)
        | (Inr hasNext, w1) \<Rightarrow> if \<not> hasNext then Some (Inr (), w1) else f api c st w1) = Some res"
    show "callback c = role_callback r \<longrightarrow> confines api ks r I ok \<longrightarrow> ok st w \<longrightarrow> I w \<longrightarrow> I (snd res)"
    proof (intro impI)
      assume a: "callback c = role_callback r" "confines api ks r I ok" "ok st w" "I w"
      obtain v w1 where st: "Step api c st w = (v, w1)" by fastforce
      with Step_safe [OF a(2,1,3,4) st] eq IH a show "I (snd res)"
        by (auto split: sum.splits if_splits)
    qed
  qed
  with assms show ?thesis by blast
qed

lemma collect_safe:
  assumes "confines api ks r I ok" "callback c = role_callback r"
    and "collect api c st n b types rows w = Some res" "ok st w" "I w"
  shows "I (snd res)"
proof -
  have "callback c = role_callback r \<longrightarrow> confines api ks r I ok \<longrightarrow> ok st w \<longrightarrow> I w \<longrightarrow> I (snd res)"
  proof (rule collect.raw_induct [OF _ assms(3)])
    fix f api c st n b types rows w res
    assume IH: "\<And>api c st n b types rows w res. f api c st n b types rows w = Some res \<Longrightarrow>
        callback c = role_callback r \<longrightarrow> confines api ks r I ok \<longrightarrow> ok st w \<longrightarrow> I w \<longrightarrow> I (snd res)"
      and eq: "(case Step api c st w of
        (Inl e, w1) \<Rightarrow> Some (Inl (Wrapped ''failed to step statement'' e), w1)
      | (Inr hasNext, w1) \<Rightarrow>
          if \<not> hasNext then Some (Inr (types, rows), w1)
          else
            (case read_cols api st w1 b [0..<n] types of
               Inl e \<Rightarrow> Some (Inl e, w1)
             | Inr (row, types') \<Rightarrow> f api c st n False types' (rows @ [row]) w1)) = Some res"
    show "callback c = role_callback r \<longrightarrow> confines api ks r I ok \<longrightarrow> ok st w \<longrightarrow> I w \<longrightarrow> I (snd res)"
    proof (intro impI)
      assume a: "callback c = role_callback r" "confines api ks r I ok" "ok st w" "I w"
      obtain v w1 where st: "Step api c st w = (v, w1)" by fastforce
      with Step_safe [OF a(2,1,3,4) st] eq IH a show "I (snd res)"
        by (auto split: sum.splits if_splits prod.splits)
    qed
  qed
  with assms show ?thesis by blast
qed

lemma conn_Query_safe:
  assumes "confines api ks r I ok" "callback c = role_callback r"
    and "conn_Query api c q ps w = Some res" "I w"
  shows "I (snd res)"
proof -
  obtain e st w1 where p: "sqlite3_prepare_v2 api (cDB c) (callback c) (CString q) w = ((e, st), w1)"
    by (metis prod.exhaust)
  have I1: "I w1" using confinesD(1) [OF assms(1,4), of "cDB c" "CString q"] p assms(2) by simp
  show ?thesis
  proof (cases "e = SQLITE_OK")
    case False
    with p I1 assms(3) show ?thesis by (auto simp: conn_Query_def Prepare_def Let_def)
  next
    case True
    with confinesD(2) [OF assms(1,4)] p assms(2) have ok1: "ok st w1" by simp
    from True p assms(3) obtain v w2 where r: "run_stmt api c st ps w1 = Some (v, w2)"
      and res: "res = (v, snd (Finalize api c st w2))"
      by (auto simp: conn_Query_def Prepare_def Let_def split: option.splits)
    obtain e2 w3 where b: "bind_params api st 0 ps w1 = (e2, w3)" by fastforce
    with bind_params_safe [OF assms(1) ok1 I1, of 0 ps] have s3: "ok st w3" "I w3" by simp_all
    have "I w2"
      using r b s3 drain_safe [OF assms(1,2) _ s3] collect_safe [OF assms(1,2) _ s3]
      by (fastforce simp: run_stmt_def Let_def split: option.splits if_splits sum.splits prod.splits)
    then have "I (snd (Finalize api c st w2))"
      using confinesD(4) [OF assms(1), of w2 st]
      by (auto simp: Finalize_def Let_def split: prod.splits)
    with res show ?thesis by simp
  qed
qed

section \<open>Actions that keep a fact about the engine\<close>

definition guarded :: "connector set \<Rightarrow> ('w \<Rightarrow> bool) \<Rightarrow> 'w DB \<Rightarrow> bool" where
  "guarded ks I s \<longleftrightarrow>
     I (world s) \<and> p_connector (readWritePool s) \<in> ks \<and> p_connector (readOnlyPool s) \<in> ks"

definition keeps :: "connector set \<Rightarrow> ('w \<Rightarrow> bool) \<Rightarrow> ('w, 'a) act \<Rightarrow> bool" where
  "keeps ks I p \<longleftrightarrow> (\<forall>s. guarded ks I s \<longrightarrow> guarded ks I (snd (p s)))"

named_theorems keeps_rules

lemma keeps_ret [keeps_rules]: "keeps ks I (ret a)"
  by (simp add: keeps_def ret_def)

lemma keeps_bnd [keeps_rules]: "keeps ks I p \<Longrightarrow> (\<And>a. keeps ks I (f a)) \<Longrightarrow> keeps ks I (bnd p f)"
  by (fastforce simp: keeps_def bnd_def split: prod.splits outcome.splits)

lemma keeps_basic [keeps_rules]:
  "keeps ks I lock_txMu" "keeps ks I unlock_txMu"
  "keeps ks I (Lock txOpMu txOpMu_update OnTxOpMu)" "keeps ks I (Unlock txOpMu txOpMu_update)"
  "keeps ks I (Lock writeMu writeMu_update OnWriteMu)" "keeps ks I (Unlock writeMu writeMu_update)"
  "keeps ks I (touch E)" "keeps ks I (count E inc)" "keeps ks I (gauge g)"
  "keeps ks I (upd (\<lambda>s. s\<lparr>txID := i, txOwner := j\<rparr>))"
  "keeps ks I (\<lambda>s. (Done (h s), s\<lparr>ticks := n s\<rparr>))"
  by (auto simp: keeps_def guarded_def Lock_def Unlock_def at_now_def count_def gauge_def upd_def)

lemma keeps_locked [keeps_rules]:
  "keeps ks I p \<Longrightarrow> keeps ks I (with_txMu p)" "keeps ks I p \<Longrightarrow> keeps ks I (with_txOpMu p)"
  "keeps ks I p \<Longrightarrow> keeps ks I (with_writeMu p)"
  unfolding locked_def by (intro keeps_bnd keeps_basic keeps_ret; assumption)+

lemma guarded_pool:
  "guarded ks I s \<Longrightarrow> p_connector p = p_connector (pool_of k s) \<Longrightarrow> I w \<Longrightarrow>
   guarded ks I ((set_pool k p s)\<lparr>world := w\<rparr>) \<and> guarded ks I ((set_pool k p s)\<lparr>world := w, ticks := n\<rparr>)"
  by (cases k) (simp_all add: guarded_def)

lemma keeps_getRawConn:
  assumes "confines (e_api E) ks r I ok"
  shows "keeps ks I (getRawConn E ctx k)"
  unfolding keeps_def
proof (intro allI impI)
  fix s :: "'a DB"
  assume g: "guarded ks I s"
  obtain r p w where t: "pool_take (e_api E) (ctx (ticks s)) (pool_of k s) (world s) = (r, p, w)"
    by (metis prod.exhaust)
  have "p_connector (pool_of k s) \<in> ks" "I (world s)" using g by (cases k; simp add: guarded_def)+
  with t confinesD(6) [OF assms, of "p_connector (pool_of k s)" "world s"]
  have "I w" "p_connector p = p_connector (pool_of k s)"
    by (auto simp: pool_take_def split: option.splits sum.splits prod.splits if_splits)
  with guarded_pool [OF g this(2,1)] t show "guarded ks I (snd (getRawConn E ctx k s))"
    by (simp add: getRawConn_def)
qed

lemma keeps_returnConn:
  assumes "confines (e_api E) ks r I ok"
  shows "keeps ks I (returnConn E k c)"
  unfolding keeps_def
proof (intro allI impI)
  fix s :: "'a DB"
  assume g: "guarded ks I s"
  obtain p w where t: "pool_put (e_api E) c (pool_of k s) (world s) = (p, w)" by fastforce
  have "I (world s)" using g by (simp add: guarded_def)
  then have "I (snd (conn_Close (e_api E) c (world s)))"
    using confinesD(5) [OF assms, of "world s" "cDB c"]
    by (auto simp: conn_Close_def Let_def split: prod.splits)
  with t \<open>I (world s)\<close> have "I w" "p_connector p = p_connector (pool_of k s)"
    by (auto simp: pool_put_def split: if_splits)
  with guarded_pool [OF g this(2,1)] t show "guarded ks I (snd (returnConn E k c s))"
    by (simp add: returnConn_def)
qed

lemma keeps_with_conn:
  assumes "confines (e_api E) ks r I ok" "\<And>c. keeps ks I (body c)"
  shows "keeps ks I (with_conn E ctx k msg body)"
  unfolding with_conn_def
  by (intro keeps_bnd keeps_getRawConn [OF assms(1)])
    (auto split: sum.split intro!: keeps_bnd keeps_ret keeps_returnConn [OF assms(1)] assms(2))

lemma keeps_do_Query:
  assumes "confines (e_api E) ks r I ok" "callback c = role_callback r"
  shows "keeps ks I (do_Query E c q ps)"
  using conn_Query_safe [OF assms] by (force simp: keeps_def guarded_def do_Query_def split: option.splits)

lemma role_update [simp]: "ctx\<lparr>role := r\<rparr> = \<lparr>role = r\<rparr>" for ctx :: cust_authorizer_ctx
  by (cases ctx) simp

lemma callback_SetAuthorizerRole:
  "SetAuthorizerRole api c r = (None, c1) \<Longrightarrow> callback c1 = role_callback r"
  by (auto simp: SetAuthorizerRole_def cust_authorizer_ctx_set_role_def callback_def role_callback_def
      Let_def role_defs split: if_splits option.splits)

text \<open>The classification: the text is compiled as the administrator's, whoever sent it.\<close>

lemma classification_compiles_as_admin:
  assumes "SetAuthorizerRole (e_api E) c AuthorizerRoleAdmin = (None, c1)"
    and "sqlite3_prepare_v2 (e_api E) (cDB c1) (role_callback AuthorizerRoleAdmin) (CString q) (world s) = ((rc, st), w)"
  shows "world (snd (classifyPreparedQuery E q c s)) =
    (if rc = SQLITE_OK then snd (Finalize (e_api E) c1 st w) else w)"
  using assms callback_SetAuthorizerRole [OF assms(1)]
  by (auto simp: classifyPreparedQuery_def Prepare_def Let_def split: prod.splits sum.splits if_splits)

lemma keeps_classifyPrepared:
  assumes "confines (e_api E) ks r I ok" "admin_compile_keeps (e_api E) {q} I" "keyword_type q = None"
  shows "keeps ks I (classifyPreparedQuery E q c)"
proof -
  have p: "I (snd (Prepare (e_api E) c1 q w))"
    if "I w" "SetAuthorizerRole (e_api E) c AuthorizerRoleAdmin = (None, c1)" for c1 w
    using assms(2,3) that callback_SetAuthorizerRole [OF that(2)]
    by (simp add: Prepare_def case_prod_unfold Let_def admin_compile_keeps_def)
  have f: "I (snd (Finalize (e_api E) c' st w))" if "I w" for c' st w
    using that confinesD(4) [OF assms(1) that, of st] by (auto simp: Finalize_def Let_def split: prod.splits)
  show ?thesis
    unfolding keeps_def
  proof (intro allI impI)
    fix s :: "'a DB"
    assume g: "guarded ks I s"
    show "guarded ks I (snd (classifyPreparedQuery E q c s))"
    proof (cases "SetAuthorizerRole (e_api E) c AuthorizerRoleAdmin")
      case (Pair e c1)
      with g p [of "world s" c1] f show ?thesis
        by (cases "Prepare (e_api E) c1 q (world s)")
          (auto simp: guarded_def classifyPreparedQuery_def split: option.splits sum.splits)
    qed
  qed
qed

lemma keeps_Classify:
  assumes "confines (e_api E) ks r I ok" "admin_compile_keeps (e_api E) {q} I"
  shows "keeps ks I (ClassifyQuery E ctx q tx)"
  unfolding ClassifyQuery_def classifyQueryOnReadWriteConn_def classifyQueryOnReadOnlyConn_def
  by (auto split: option.split intro!: keeps_ret keeps_locked keeps_with_conn [OF assms(1)]
      keeps_classifyPrepared [OF assms])

lemma keeps_withReadWriteConn:
  assumes "confines (e_api E) ks r I ok" "\<And>c. callback c = role_callback r \<Longrightarrow> keeps ks I (fn c)"
  shows "keeps ks I (withReadWriteConn E ctx r fn)"
  unfolding withReadWriteConn_def
  by (auto split: option.split prod.split intro!: keeps_rules keeps_with_conn [OF assms(1)] assms(2)
      callback_SetAuthorizerRole)

lemma keeps_execute:
  assumes "confines (e_api E) ks (q_Role q) I ok"
  shows "keeps ks I (executeClassifiedQuery E ctx q t)"
proof -
  have sql: "keeps ks I (withReadWriteConn E ctx (q_Role q) (run_sql E sql))" for sql
    by (rule keeps_withReadWriteConn [OF assms])
      (auto simp: run_sql_def intro!: keeps_rules keeps_do_Query [OF assms])
  have "keeps ks I (executeBeginQuery E ctx tx (q_Role q) ow)" for tx ow
    unfolding executeBeginQuery_def by (auto split: sum.split intro!: keeps_rules sql)
  moreover have "keeps ks I (end_tx E ctx sql msg qt inc tx (q_Role q))" for sql msg qt inc tx
    unfolding end_tx_def by (auto split: sum.split intro!: keeps_rules sql)
  moreover have "keeps ks I (executeWriteQuery E ctx q)"
    unfolding executeWriteQuery_def
    by (auto split: sum.split intro!: keeps_rules keeps_withReadWriteConn [OF assms] keeps_do_Query [OF assms])
  moreover have "keeps ks I (executeReadQuery E ctx q)"
    unfolding executeReadQuery_def
    by (auto split: sum.split option.split prod.split intro!: keeps_rules keeps_withReadWriteConn [OF assms]
        keeps_with_conn [OF assms] keeps_do_Query [OF assms] callback_SetAuthorizerRole)
  ultimately show ?thesis
    by (simp add: executeClassifiedQuery_def executeCommitQuery_def executeRollbackQuery_def keeps_ret)
qed

lemma keeps_queryWithType:
  assumes "confines (e_api E) ks (q_Role q) I ok" "admin_compile_keeps (e_api E) {q_Query q} I"
  shows "keeps ks I (queryWithType E ctx q)"
proof -
  let ?body = "bnd (ClassifyQuery E ctx (q_Query q) (q_TxID q)) (\<lambda>t. case t of
      Inl e \<Rightarrow> ret (Inl (Wrapped ''failed to detect query type'' e))
    | Inr queryType \<Rightarrow> executeClassifiedQuery E ctx q queryType)"
  have "keeps ks I ?body" "keeps ks I (bnd (touch E) (\<lambda>_. bnd ?body (\<lambda>r. bnd (touch E) (\<lambda>_. ret r))))"
    by (auto split: sum.split intro!: keeps_rules keeps_Classify [OF assms] keeps_execute [OF assms(1)])
  then show ?thesis
    unfolding keeps_def queryWithType_def by (cases "q_TxID q = []") (simp_all add: Let_def split: option.split)
qed

lemma keeps_if_tx: "keeps ks I p \<Longrightarrow> keeps ks I p' \<Longrightarrow> keeps ks I (\<lambda>s. if b s then p s else p' s)"
  by (simp add: keeps_def)

lemma keeps_db_Query:
  assumes "confines (e_api E) ks (q_Role q) I ok" "admin_compile_keeps (e_api E) {q_Query q} I"
  shows "keeps ks I (db_Query E ctx q)"
proof -
  have "keeps ks I (db_query E ctx q)"
    unfolding db_query_def
    by (auto split: sum.split intro!: keeps_rules keeps_if_tx keeps_Classify [OF assms]
        keeps_execute [OF assms(1)] keeps_queryWithType [OF assms])
  then show ?thesis
    unfolding db_Query_def by (auto split: sum.split intro!: keeps_rules)
qed

text \<open>C5. A request is confined to its role, but for one step. Take any fact about the engine that statements of
  role \<open>r\<close> do not change, neither while they are compiled under the policy of \<open>r\<close> nor when they run, and that opening
  and closing connections leaves alone. A query of role \<open>r\<close> keeps it, whatever its parameters and
  transaction, whether it succeeds, fails, or blocks on the way, on one condition on its text:
  the classification compiles the text once under the administrator's policy, and that compilation must
  keep the fact. SQLite's compilation does not change the contents of the database, but it executes flag pragmas,
  so a fact about the flags of a connection is kept only by texts that are not such a pragma. The
  condition is void for the texts of \<open>BEGIN\<close>, \<open>COMMIT\<close> and \<open>ROLLBACK\<close>. Everything else that is
  compiled or run on behalf of the request is under the policy of \<open>r\<close>.\<close>

theorem query_confined_to_role:
  assumes "confines (e_api E) ks (q_Role q) I ok" and "I (world s)"
    and "p_connector (readWritePool s) \<in> ks" "p_connector (readOnlyPool s) \<in> ks"
    and "admin_compile_keeps (e_api E) {q_Query q} I"
  shows "I (world (snd (db_Query E ctx q s)))"
  using keeps_db_Query [OF assms(1,5)] assms(2-4) by (simp add: keeps_def guarded_def)

text \<open>On the miniature engine a read-only request cannot change the rows.\<close>

definition mini_reads :: "hptr \<Rightarrow> mini \<Rightarrow> bool" where
  "mini_reads st w \<longleftrightarrow> st = Some 5"

lemma mini_prepare_rows: "m_rows (snd (mini_prepare h cb sql w)) = m_rows w"
  by (simp add: mini_prepare_def Let_def)

lemma mini_prepare_read_only:
  "mini_prepare h (role_callback AuthorizerRoleReadOnly) sql w = ((0, st), w') \<Longrightarrow> st = Some 5"
  by (auto simp: mini_prepare_def mini_allowed_def mini_kind_def role_callback_def Let_def role_defs
      AuthorizerRoleReadOnly_def cust_sqlite3_authorizer_def authorizer_read_only_def decide_def
      cust_authorizer_is_readonly_pragma_def split: if_splits)

lemma mini_confines:
  "confines mini_api {\<lparr>dsn = ''db'', postConnectQueries = []\<rparr>} AuthorizerRoleReadOnly
     (\<lambda>w. m_rows w = n) mini_reads"
  unfolding confines_def bind_safe_def
  by (auto simp: mini_api_def mini_prepare_rows mini_reads_def SQLITE_OK_def mini_step_def
      dest: mini_prepare_read_only)
    (auto simp: Connect_def newConn_def sqlite_Open_def SQLITE_OK_def)

lemma mini_admin_compile: "admin_compile_keeps mini_api T (\<lambda>w. m_rows w = n)"
  by (simp add: admin_compile_keeps_def mini_api_def mini_prepare_rows)

theorem query_confined_to_role_witness:
  "m_rows (world (snd (db_Query mini_env Background (mini_query [] ''INSERT'' AuthorizerRoleReadOnly) mini_db))) = 0"
proof (rule query_confined_to_role [where ks = "{\<lparr>dsn = ''db'', postConnectQueries = []\<rparr>}" and ok = mini_reads])
  show "confines (e_api mini_env) {\<lparr>dsn = ''db'', postConnectQueries = []\<rparr>}
      (q_Role (mini_query [] ''INSERT'' AuthorizerRoleReadOnly)) (\<lambda>w. m_rows w = 0) mini_reads"
    using mini_confines by (simp add: mini_env_def mini_query_def)
qed (simp_all add: mini_admin_compile [of UNIV, THEN admin_compile_mono] mini0_def mini_env_def, simp_all add: mini_db_def fresh_DB_def mini_pool_def)

end
