(* ===== verification/Role_Residue.thy ===== *)
theory Role_Residue
  imports Database_Role
begin

text \<open>
  Roles left on pooled connections. A connection keeps the role of its last user when it goes back
  to the pool; every user sets its own role first. This relates two runs of a query from states
  that differ only in such roles.
\<close>

text \<open>The state with every pooled connection put back under the administrator's role.\<close>

definition plain_conn :: "conn \<Rightarrow> conn" where
  "plain_conn c = c\<lparr>authorizerCtx := map_option (\<lambda>_. \<lparr>role = AuthorizerRoleAdmin\<rparr>) (authorizerCtx c)\<rparr>"

definition plain_pool :: "pool \<Rightarrow> pool" where
  "plain_pool p = p\<lparr>p_free := map plain_conn (p_free p)\<rparr>"

definition plain :: "'w DB \<Rightarrow> 'w DB" where
  "plain s = s\<lparr>readWritePool := plain_pool (readWritePool s), readOnlyPool := plain_pool (readOnlyPool s)\<rparr>"

text \<open>\<open>oblivious R p q\<close>: from states equal up to such roles, the two actions agree up to them.\<close>

definition oblivious :: "('a \<Rightarrow> 'a \<Rightarrow> bool) \<Rightarrow> ('w, 'a) act \<Rightarrow> ('w, 'a) act \<Rightarrow> bool" where
  "oblivious R p q \<longleftrightarrow>
     (\<forall>s1 s2. plain s1 = plain s2 \<longrightarrow>
        rel_prod (rel_outcome R) (\<lambda>t1 t2. plain t1 = plain t2) (p s1) (q s2))"

named_theorems oblivious_rules

lemma oblivious_ret: "R a b \<Longrightarrow> oblivious R (ret a) (ret b)"
  by (simp add: oblivious_def ret_def)

lemma oblivious_ret_eq [oblivious_rules]: "oblivious (=) (ret a) (ret a)"
  by (simp add: oblivious_ret)

lemma oblivious_bnd:
  assumes "oblivious R p q" "\<And>a b. R a b \<Longrightarrow> oblivious S (f a) (g b)"
  shows "oblivious S (bnd p f) (bnd q g)"
  unfolding oblivious_def
proof (intro allI impI)
  fix s1 s2 :: "'b DB"
  assume "plain s1 = plain s2"
  with assms(1) have r: "rel_prod (rel_outcome R) (\<lambda>t1 t2. plain t1 = plain t2) (p s1) (q s2)"
    by (simp add: oblivious_def)
  obtain o1 t1 o2 t2 where e: "p s1 = (o1, t1)" "q s2 = (o2, t2)" by (metis prod.exhaust)
  from r show "rel_prod (rel_outcome S) (\<lambda>t1 t2. plain t1 = plain t2) (bnd p f s1) (bnd q g s2)"
    unfolding bnd_def e using assms(2)
    by (cases o1; cases o2) (auto simp: oblivious_def)
qed

lemma oblivious_bnd_eq [oblivious_rules]:
  "oblivious (=) p q \<Longrightarrow> (\<And>a. oblivious S (f a) (g a)) \<Longrightarrow> oblivious S (bnd p f) (bnd q g)"
  by (rule oblivious_bnd [where R = "(=)"]) auto

lemma plain_fields:
  assumes "plain s1 = plain s2"
  shows "txMu s1 = txMu s2 \<and> txOpMu s1 = txOpMu s2 \<and> writeMu s1 = writeMu s2 \<and> txID s1 = txID s2 \<and>
    txOwner s1 = txOwner s2 \<and> txLastUsed s1 = txLastUsed s2 \<and> db_Config s1 = db_Config s2 \<and>
    dbStats s1 = dbStats s2 \<and> world s1 = world s2 \<and> ticks s1 = ticks s2 \<and>
    isInitialized s1 = isInitialized s2 \<and> txIdleMonitorStop s1 = txIdleMonitorStop s2 \<and>
    plain_pool (readWritePool s1) = plain_pool (readWritePool s2) \<and>
    plain_pool (readOnlyPool s1) = plain_pool (readOnlyPool s2)"
  using assms by (cases s1; cases s2) (simp add: plain_def)

lemma oblivious_pure:
  fixes f :: "'w DB \<Rightarrow> 'w DB"
  assumes "\<And>s1 s2. plain s1 = plain s2 \<Longrightarrow> g s1 = g s2 \<and> plain (f s1) = plain (f s2)"
  shows "oblivious (=) (\<lambda>s. (Done (g s), f s)) (\<lambda>s. (Done (g s), f s))"
  unfolding oblivious_def
proof (intro allI impI)
  fix s1 s2 :: "'w DB"
  assume "plain s1 = plain s2"
  from assms [OF this] show "rel_prod (rel_outcome (=)) (\<lambda>t1 t2. plain t1 = plain t2) (Done (g s1), f s1) (Done (g s2), f s2)"
    by simp
qed

lemma plain_commutes [simp]:
  "plain (s\<lparr>txID := i\<rparr>) = (plain s)\<lparr>txID := i\<rparr>"
  "plain (s\<lparr>txOwner := i\<rparr>) = (plain s)\<lparr>txOwner := i\<rparr>"
  "plain (s\<lparr>txLastUsed := t\<rparr>) = (plain s)\<lparr>txLastUsed := t\<rparr>"
  "plain (s\<lparr>dbStats := st\<rparr>) = (plain s)\<lparr>dbStats := st\<rparr>"
  "plain (s\<lparr>ticks := n\<rparr>) = (plain s)\<lparr>ticks := n\<rparr>"
  "plain (s\<lparr>world := w\<rparr>) = (plain s)\<lparr>world := w\<rparr>"
  "plain (s\<lparr>txMu := b\<rparr>) = (plain s)\<lparr>txMu := b\<rparr>"
  "plain (s\<lparr>txOpMu := b\<rparr>) = (plain s)\<lparr>txOpMu := b\<rparr>"
  "plain (s\<lparr>writeMu := b\<rparr>) = (plain s)\<lparr>writeMu := b\<rparr>"
  by (cases s; simp add: plain_def)+

lemma oblivious_basic [oblivious_rules]:
  "oblivious (=) (touch E) (touch E)" "oblivious (=) (count E inc) (count E inc)"
  "oblivious (=) (gauge g) (gauge g)"
  "oblivious (=) (upd (\<lambda>s. s\<lparr>txID := i, txOwner := j\<rparr>)) (upd (\<lambda>s. s\<lparr>txID := i, txOwner := j\<rparr>))"
  "oblivious (=) (\<lambda>s. (Done (uuid_NewString E (ticks s)), s\<lparr>ticks := Suc (ticks s)\<rparr>))
     (\<lambda>s. (Done (uuid_NewString E (ticks s)), s\<lparr>ticks := Suc (ticks s)\<rparr>))"
  unfolding at_now_def count_def gauge_def upd_def
  by (rule oblivious_pure, frule plain_fields, simp)+

lemma oblivious_mutex [oblivious_rules]:
  "oblivious (=) lock_txMu lock_txMu" "oblivious (=) unlock_txMu unlock_txMu"
  "oblivious (=) (Lock txOpMu txOpMu_update OnTxOpMu) (Lock txOpMu txOpMu_update OnTxOpMu)"
  "oblivious (=) (Unlock txOpMu txOpMu_update) (Unlock txOpMu txOpMu_update)"
  "oblivious (=) (Lock writeMu writeMu_update OnWriteMu) (Lock writeMu writeMu_update OnWriteMu)"
  "oblivious (=) (Unlock writeMu writeMu_update) (Unlock writeMu writeMu_update)"
  unfolding oblivious_def Lock_def Unlock_def
  by (intro allI impI, frule plain_fields, simp)+

lemma oblivious_locked [oblivious_rules]:
  "oblivious (=) p p \<Longrightarrow> oblivious (=) (with_txMu p) (with_txMu p)"
  "oblivious (=) p p \<Longrightarrow> oblivious (=) (with_txOpMu p) (with_txOpMu p)"
  "oblivious (=) p p \<Longrightarrow> oblivious (=) (with_writeMu p) (with_writeMu p)"
  unfolding locked_def by (intro oblivious_rules; assumption)+

text \<open>Connections of the two runs are related when they agree up to the role.\<close>

lemma plain_live:
  assumes "plain_conn c1 = plain_conn c2"
  shows "cDB c1 = cDB c2" "(authorizerCtx c1 = None) = (authorizerCtx c2 = None)"
  using assms by (cases c1; cases c2; auto simp: plain_conn_def)+

lemma plain_SetAuthorizerRole:
  assumes "plain_conn c1 = plain_conn c2"
  obtains e where "SetAuthorizerRole api c1 r = (Some e, c1)" "SetAuthorizerRole api c2 r = (Some e, c2)"
  | c where "SetAuthorizerRole api c1 r = (None, c)" "SetAuthorizerRole api c2 r = (None, c)"
proof (cases "cDB c1 = None \<or> authorizerCtx c1 = None \<or> \<not> isValid r")
  case True
  with plain_live [OF assms]
  have "\<exists>e. SetAuthorizerRole api c1 r = (Some e, c1) \<and> SetAuthorizerRole api c2 r = (Some e, c2)"
    by (auto simp: SetAuthorizerRole_def)
  with that(1) show ?thesis by blast
next
  case False
  with plain_live [OF assms] have "live c1" "live c2" "isValid r" by (auto simp: live_def)
  moreover have "as_role r c1 = as_role r c2"
    using plain_live(1) [OF assms] by (cases c1; cases c2) (simp add: as_role_def)
  ultimately show ?thesis using that(2) SetAuthorizerRole_live by metis
qed

lemma plain_conn_Close:
  "plain_conn c1 = plain_conn c2 \<Longrightarrow> snd (conn_Close api c1 w) = snd (conn_Close api c2 w)"
  using plain_live(1) [of c1 c2] by (auto simp: conn_Close_def getLastError_def Let_def split: prod.splits)

lemma plain_pool_of: "plain s1 = plain s2 \<Longrightarrow> plain_pool (pool_of k s1) = plain_pool (pool_of k s2)"
  using plain_fields [of s1 s2] by (cases k) simp_all

lemma plain_set_pool: "plain (set_pool k p s) = set_pool k (plain_pool p) (plain s)"
  by (cases k; cases s) (simp_all add: plain_def)

lemma plain_pool_fields:
  assumes "plain_pool p1 = plain_pool p2"
  shows "p_connector p1 = p_connector p2" "p_numOpen p1 = p_numOpen p2" "p_maxOpen p1 = p_maxOpen p2"
    "p_maxIdle p1 = p_maxIdle p2" "p_closed p1 = p_closed p2" "maxIdleConns p1 = maxIdleConns p2"
    "map plain_conn (p_free p1) = map plain_conn (p_free p2)" "length (p_free p1) = length (p_free p2)"
  using assms by (cases p1; cases p2; auto simp: plain_pool_def maxIdleConns_def dest: map_eq_imp_length_eq)+

lemma plain_pool_update:
  "plain_pool (p\<lparr>p_numOpen := n\<rparr>) = (plain_pool p)\<lparr>p_numOpen := n\<rparr>"
  "plain_pool (p\<lparr>p_free := p_free p @ [c]\<rparr>) =
     (plain_pool p)\<lparr>p_free := p_free (plain_pool p) @ [plain_conn c]\<rparr>"
  by (simp_all add: plain_pool_def)

lemma oblivious_getRawConn:
  "oblivious (rel_sum (=) (\<lambda>c1 c2. plain_conn c1 = plain_conn c2)) (getRawConn E ctx k) (getRawConn E ctx k)"
  unfolding oblivious_def
proof (intro allI impI)
  fix s1 s2 :: "'a DB"
  assume eq: "plain s1 = plain s2"
  note f = plain_fields [OF eq] and p = plain_pool_fields [OF plain_pool_of [OF eq, of k]]
  have w: "plain (set_pool k qa s1\<lparr>world := w, ticks := n\<rparr>) = plain (set_pool k qb s2\<lparr>world := w, ticks := n\<rparr>)"
    if "plain_pool qa = plain_pool qb" for qa qb w n
    using that eq by (simp add: plain_set_pool)
  show "rel_prod (rel_outcome (rel_sum (=) (\<lambda>c1 c2. plain_conn c1 = plain_conn c2)))
      (\<lambda>t1 t2. plain t1 = plain t2) (getRawConn E ctx k s1) (getRawConn E ctx k s2)"
  proof (cases "p_free (pool_of k s1) = []")
    case True
    with p(8) have "p_free (pool_of k s2) = []" by simp
    with True have e: "pool_of k s1 = pool_of k s2"
      using plain_pool_of [OF eq, of k] by (cases "pool_of k s1"; cases "pool_of k s2") (simp add: plain_pool_def)
    have wt: "world s1 = world s2" "ticks s1 = ticks s2" using f by auto
    obtain r q w' where "pool_take (e_api E) (ctx (ticks s2)) (pool_of k s2) (world s2) = (r, q, w')"
      by (metis prod.exhaust)
    then show ?thesis
      using w [where qa = q and qb = q and w = w' and n = "Suc (ticks s2)"] unfolding getRawConn_def e wt
      by (auto split: outcome.split sum.split)
  next
    case False
    with p(8) have ne: "p_free (pool_of k s2) \<noteq> []" by auto
    have wt: "world s1 = world s2" "ticks s1 = ticks s2" using f by auto
    from False ne p(7) have "plain_conn (last (p_free (pool_of k s1))) = plain_conn (last (p_free (pool_of k s2)))"
      "map plain_conn (butlast (p_free (pool_of k s1))) = map plain_conn (butlast (p_free (pool_of k s2)))"
      by (metis last_map, metis map_butlast)
    moreover from this(2) have "plain_pool ((pool_of k s1)\<lparr>p_free := butlast (p_free (pool_of k s1))\<rparr>) =
        plain_pool ((pool_of k s2)\<lparr>p_free := butlast (p_free (pool_of k s2))\<rparr>)"
      using plain_pool_of [OF eq, of k] by (cases "pool_of k s1"; cases "pool_of k s2") (simp add: plain_pool_def)
    moreover have "plain (s1\<lparr>ticks := n\<rparr>) = plain (s2\<lparr>ticks := n\<rparr>)" for n using eq by simp
    ultimately show ?thesis
      using False ne w [OF plain_pool_of [OF eq, of k], where w = "world s2" and n = "Suc (ticks s2)"]
        w [where w = "world s2" and n = "Suc (ticks s2)"] p(5)
      unfolding getRawConn_def pool_take_def wt
      by (auto split: option.split)
  qed
qed

lemma oblivious_returnConn:
  assumes "plain_conn c1 = plain_conn c2"
  shows "oblivious (=) (returnConn E k c1) (returnConn E k c2)"
  unfolding oblivious_def
proof (intro allI impI)
  fix s1 s2 :: "'a DB"
  assume eq: "plain s1 = plain s2"
  note f = plain_fields [OF eq] and p = plain_pool_fields [OF plain_pool_of [OF eq, of k]]
  obtain p1 w1 p2 w2 where e: "pool_put (e_api E) c1 (pool_of k s1) (world s1) = (p1, w1)"
    "pool_put (e_api E) c2 (pool_of k s2) (world s2) = (p2, w2)" by fastforce
  have w: "world s1 = world s2" using f by simp
  have "plain_pool p1 = plain_pool p2 \<and> w1 = w2"
  proof (cases "p_closed (pool_of k s2) \<or> 0 < p_maxOpen (pool_of k s2) \<and>
      p_maxOpen (pool_of k s2) < p_numOpen (pool_of k s2) \<or>
      maxIdleConns (pool_of k s2) \<le> length (p_free (pool_of k s2))")
    case True
    then have "pool_put (e_api E) c1 (pool_of k s1) (world s1) =
        ((pool_of k s1)\<lparr>p_numOpen := p_numOpen (pool_of k s2) - 1\<rparr>, snd (conn_Close (e_api E) c1 (world s2)))"
      using p(2-6,8) w by (simp add: pool_put_def)
    with True e plain_conn_Close [OF assms, of "e_api E" "world s2"] plain_pool_of [OF eq, of k]
    show ?thesis by (simp add: pool_put_def) (metis plain_pool_update(1))
  next
    case False
    then have "pool_put (e_api E) c1 (pool_of k s1) (world s1) =
        ((pool_of k s1)\<lparr>p_free := p_free (pool_of k s1) @ [c1]\<rparr>, world s2)"
      using p(2-6,8) w by (auto simp: pool_put_def)
    moreover have "pool_put (e_api E) c2 (pool_of k s2) (world s2) =
        ((pool_of k s2)\<lparr>p_free := p_free (pool_of k s2) @ [c2]\<rparr>, world s2)"
      using False by (auto simp: pool_put_def)
    moreover have "plain_pool ((pool_of k s1)\<lparr>p_free := p_free (pool_of k s1) @ [c1]\<rparr>) =
        plain_pool ((pool_of k s2)\<lparr>p_free := p_free (pool_of k s2) @ [c2]\<rparr>)"
      unfolding plain_pool_update using assms plain_pool_of [OF eq, of k] by simp
    ultimately show ?thesis using e by simp
  qed
  with e eq show "rel_prod (rel_outcome (=)) (\<lambda>t1 t2. plain t1 = plain t2) (returnConn E k c1 s1) (returnConn E k c2 s2)"
    by (simp add: returnConn_def plain_set_pool)
qed

abbreviation same_conn :: "'a \<times> conn \<Rightarrow> 'a \<times> conn \<Rightarrow> bool" where
  "same_conn \<equiv> rel_prod (=) (\<lambda>c1 c2. plain_conn c1 = plain_conn c2)"

lemma oblivious_with_conn:
  assumes "\<And>c1 c2. plain_conn c1 = plain_conn c2 \<Longrightarrow> oblivious same_conn (body c1) (body c2)"
  shows "oblivious (=) (with_conn E ctx k msg body) (with_conn E ctx k msg body)"
  unfolding with_conn_def
  by (rule oblivious_bnd [OF oblivious_getRawConn])
    (auto elim!: rel_sum.cases intro!: oblivious_bnd [OF assms] oblivious_bnd [OF oblivious_returnConn]
      oblivious_ret_eq split: prod.splits)

lemma oblivious_do_Query [oblivious_rules]: "oblivious (=) (do_Query E c q ps) (do_Query E c q ps)"
  unfolding oblivious_def
proof (intro allI impI)
  fix s1 s2 :: "'a DB"
  assume eq: "plain s1 = plain s2"
  then have w: "world s1 = world s2" using plain_fields [OF eq] by simp
  show "rel_prod (rel_outcome (=)) (\<lambda>t1 t2. plain t1 = plain t2) (do_Query E c q ps s1) (do_Query E c q ps s2)"
    unfolding do_Query_def w using eq by (auto split: option.split)
qed

lemma oblivious_same_conn:
  "oblivious (=) p p \<Longrightarrow> oblivious same_conn (bnd p (\<lambda>v. ret (v, c))) (bnd p (\<lambda>v. ret (v, c)))"
  by (rule oblivious_bnd [where R = "(=)"]) (auto intro: oblivious_ret)

lemma oblivious_classify:
  assumes "plain_conn c1 = plain_conn c2"
  shows "oblivious same_conn (classifyPreparedQuery E q c1) (classifyPreparedQuery E q c2)"
  unfolding oblivious_def
proof (intro allI impI)
  fix s1 s2 :: "'a DB"
  assume eq: "plain s1 = plain s2"
  then have w: "world s1 = world s2" using plain_fields [OF eq] by simp
  show "rel_prod (rel_outcome same_conn) (\<lambda>t1 t2. plain t1 = plain t2)
      (classifyPreparedQuery E q c1 s1) (classifyPreparedQuery E q c2 s2)"
    by (rule plain_SetAuthorizerRole [OF assms, of "e_api E" AuthorizerRoleAdmin])
      (auto simp: classifyPreparedQuery_def w eq assms split: prod.split sum.split)
qed

lemma oblivious_Classify [oblivious_rules]:
  "oblivious (=) (ClassifyQuery E ctx q tx) (ClassifyQuery E ctx q tx)"
  unfolding ClassifyQuery_def classifyQueryOnReadWriteConn_def classifyQueryOnReadOnlyConn_def
  by (auto split: option.split intro!: oblivious_ret_eq oblivious_locked oblivious_with_conn oblivious_classify)

lemma oblivious_withReadWriteConn [oblivious_rules]:
  assumes "\<And>c. oblivious (=) (fn c) (fn c)"
  shows "oblivious (=) (withReadWriteConn E ctx r fn) (withReadWriteConn E ctx r fn)"
  unfolding withReadWriteConn_def
proof (intro oblivious_locked oblivious_with_conn)
  fix c1 c2 :: conn
  assume c: "plain_conn c1 = plain_conn c2"
  then show "oblivious same_conn
      (case SetAuthorizerRole (e_api E) c1 r of
        (None, c1) \<Rightarrow> bnd (fn c1) (\<lambda>v. ret (v, c1))
      | (Some e, c1) \<Rightarrow> ret (Inl (Wrapped ''failed to set write connection authorizer role'' e), c1))
      (case SetAuthorizerRole (e_api E) c2 r of
        (None, c1) \<Rightarrow> bnd (fn c1) (\<lambda>v. ret (v, c1))
      | (Some e, c1) \<Rightarrow> ret (Inl (Wrapped ''failed to set write connection authorizer role'' e), c1))"
    by (rule plain_SetAuthorizerRole [of c1 c2 "e_api E" r])
      (auto simp: c intro: oblivious_ret oblivious_same_conn assms)
qed

lemma oblivious_read:
  assumes "plain_conn c1 = plain_conn c2"
  shows "oblivious same_conn
      (case SetAuthorizerRole (e_api E) c1 r of
        (Some e, c1) \<Rightarrow> ret (Inl (Wrapped m e), c1)
      | (None, c1) \<Rightarrow> bnd (do_Query E c1 q ps) (\<lambda>r. case r of
            Inl e \<Rightarrow> ret (Inl (Wrapped m' e), c1)
          | Inr res \<Rightarrow> bnd (count E IncReads) (\<lambda>_. ret (Inr (read_result res), c1))))
      (case SetAuthorizerRole (e_api E) c2 r of
        (Some e, c1) \<Rightarrow> ret (Inl (Wrapped m e), c1)
      | (None, c1) \<Rightarrow> bnd (do_Query E c1 q ps) (\<lambda>r. case r of
            Inl e \<Rightarrow> ret (Inl (Wrapped m' e), c1)
          | Inr res \<Rightarrow> bnd (count E IncReads) (\<lambda>_. ret (Inr (read_result res), c1))))"
  by (rule plain_SetAuthorizerRole [OF assms, of "e_api E" r])
    (auto simp: assms intro!: oblivious_ret oblivious_bnd_eq oblivious_do_Query oblivious_basic split: sum.split)

lemma oblivious_execute [oblivious_rules]:
  "oblivious (=) (executeClassifiedQuery E ctx q t) (executeClassifiedQuery E ctx q t)"
proof -
  have sql: "oblivious (=) (run_sql E sql c) (run_sql E sql c)" for sql c
    unfolding run_sql_def by (intro oblivious_rules)
  note rules = oblivious_rules sql
  have "oblivious (=) (executeBeginQuery E ctx tx r ow) (executeBeginQuery E ctx tx r ow)" for tx r ow
    unfolding executeBeginQuery_def by (auto split: sum.split intro!: rules)
  moreover have "oblivious (=) (end_tx E ctx s msg qt inc tx r) (end_tx E ctx s msg qt inc tx r)" for s msg qt inc tx r
    unfolding end_tx_def by (auto split: sum.split intro!: rules)
  moreover have "oblivious (=) (executeWriteQuery E ctx q) (executeWriteQuery E ctx q)"
    unfolding executeWriteQuery_def by (auto split: sum.split intro!: rules)
  moreover have "oblivious (=) (executeReadQuery E ctx q) (executeReadQuery E ctx q)"
    unfolding executeReadQuery_def
    by (auto split: sum.split intro!: rules oblivious_with_conn oblivious_read)
  ultimately show ?thesis
    by (simp add: executeClassifiedQuery_def executeCommitQuery_def executeRollbackQuery_def oblivious_ret_eq)
qed

text \<open>A step that reads fields of the state which the two runs have in common.\<close>

lemma oblivious_choice:
  assumes "\<And>s1 s2. plain s1 = plain s2 \<Longrightarrow> f s1 = f s2" "\<And>x. oblivious (=) (p x) (p x)"
  shows "oblivious (=) (\<lambda>s. p (f s) s) (\<lambda>s. p (f s) s)"
  unfolding oblivious_def
proof (intro allI impI)
  fix s1 s2 :: "'a DB"
  assume "plain s1 = plain s2"
  with assms(1) [OF this] assms(2) [of "f s2"]
  show "rel_prod (rel_outcome (=)) (\<lambda>t1 t2. plain t1 = plain t2) (p (f s1) s1) (p (f s2) s2)"
    by (simp add: oblivious_def)
qed

lemma oblivious_queryWithType [oblivious_rules]:
  "oblivious (=) (queryWithType E ctx q) (queryWithType E ctx q)"
proof -
  let ?body = "bnd (ClassifyQuery E ctx (q_Query q) (q_TxID q)) (\<lambda>t. case t of
      Inl e \<Rightarrow> ret (Inl (Wrapped ''failed to detect query type'' e))
    | Inr queryType \<Rightarrow> executeClassifiedQuery E ctx q queryType)"
  let ?p = "\<lambda>v. case v of Some e \<Rightarrow> ret (Inl e) | None \<Rightarrow>
      if q_TxID q \<noteq> [] then bnd (touch E) (\<lambda>_. bnd ?body (\<lambda>r. bnd (touch E) (\<lambda>_. ret r))) else ?body"
  have eq: "queryWithType E ctx q = (\<lambda>s. ?p (validateTxID (q_TxID q) (q_TxOwner q) s) s)"
    by (rule ext) (simp add: queryWithType_def ret_def Let_def split: option.split)
  show ?thesis
    unfolding eq
  proof (rule oblivious_choice [where f = "validateTxID (q_TxID q) (q_TxOwner q)" and p = ?p], goal_cases)
    case (1 s1 s2)
    then show ?case using plain_fields [OF 1] by (simp add: validateTxID_def)
  qed (auto split: option.split sum.split intro!: oblivious_rules)
qed

text \<open>C6. The role that an earlier request left on a pooled connection has no influence on a later
  one. From two states that differ only in such roles, every query gives the same outcome and
  leaves states that again differ only in such roles: a request of a restricted role is not
  given the administrator's rights that the classification of another one left behind, and an
  administrator is not restricted.\<close>

theorem pooled_roles_irrelevant:
  assumes "plain s1 = plain s2"
  shows "fst (db_Query E ctx q s1) = fst (db_Query E ctx q s2) \<and>
    plain (snd (db_Query E ctx q s1)) = plain (snd (db_Query E ctx q s2))"
proof -
  have c: "oblivious (=) (\<lambda>s. if txID s \<noteq> [] then p s else p' s) (\<lambda>s. if txID s \<noteq> [] then p s else p' s)"
    if "oblivious (=) p p" "oblivious (=) p' p'" for p p' :: "('a, go_error + db_result) act"
    unfolding oblivious_def
  proof (intro allI impI)
    fix s1 s2 :: "'a DB"
    assume eq: "plain s1 = plain s2"
    then have "txID s1 = txID s2" using plain_fields [OF eq] by simp
    with that eq show "rel_prod (rel_outcome (=)) (\<lambda>t1 t2. plain t1 = plain t2)
        (if txID s1 \<noteq> [] then p s1 else p' s1) (if txID s2 \<noteq> [] then p s2 else p' s2)"
      by (simp add: oblivious_def)
  qed
  have "oblivious (=) (db_query E ctx q) (db_query E ctx q)"
    unfolding db_query_def by (auto split: sum.split intro!: oblivious_rules c)
  then have "oblivious (=) (db_Query E ctx q) (db_Query E ctx q)"
    unfolding db_Query_def by (auto split: sum.split intro!: oblivious_rules)
  then have "rel_prod (rel_outcome (=)) (\<lambda>t1 t2. plain t1 = plain t2) (db_Query E ctx q s1) (db_Query E ctx q s2)"
    using assms by (simp add: oblivious_def)
  then show ?thesis by (auto simp: rel_prod_sel outcome.rel_eq)
qed

theorem pooled_roles_irrelevant_witness:
  "fst (db_Query mini_env Background (mini_query [] ''INSERT'' 2) mini_db) =
   fst (db_Query mini_env Background (mini_query [] ''INSERT'' 2)
     (mini_db\<lparr>readWritePool := mini_pool\<lparr>p_free := [mini_as 1]\<rparr>\<rparr>))"
  using pooled_roles_irrelevant [of mini_db "mini_db\<lparr>readWritePool := mini_pool\<lparr>p_free := [mini_as 1]\<rparr>\<rparr>"]
  by (simp add: plain_def plain_pool_def plain_conn_def mini_db_def fresh_DB_def mini_pool_def mini_conn_def mini_as_def)

end
