(* ===== verification/Database_Open.thy ===== *)
theory Database_Open
  imports Role_Residue
begin

text \<open>
  Opening and closing the database: what \<open>NewDB\<close> checks and establishes, and that a closed
  database refuses every query without reaching SQLite.
\<close>

lemma close_all_pool: "SetMaxIdleConns api n p w = (p', w') \<Longrightarrow>
    p_numOpen p = length (p_free p) \<Longrightarrow>
    p_numOpen p' = length (p_free p') \<and> p_maxOpen p' = p_maxOpen p \<and> p_closed p' = p_closed p \<and>
    p_connector p' = p_connector p \<and> length (p_free p') \<le> maxIdleConns p' \<and>
    (0 < p_maxOpen p \<longrightarrow> maxIdleConns p' \<le> p_maxOpen p)"
  by (auto simp: SetMaxIdleConns_def Let_def maxIdleConns_def split: if_splits)

lemma open_pool_ok:
  assumes "open_pool E k n n msg w = (Done (Inr p), w')"
  shows "pool_ok p \<and> \<not> p_closed p \<and> p_maxOpen p = nat n \<and> p_connector p = k"
proof -
  obtain p0 w1 where ping: "pool_Ping (e_api E) (OpenDB k) w = (Done None, p0, w1)"
    using assms by (auto simp: open_pool_def split: prod.splits outcome.splits option.splits)
  have p0: "p_numOpen p0 = length (p_free p0)" "p_maxOpen p0 = 0" "\<not> p_closed p0" "p_connector p0 = k"
    "length (p_free p0) \<le> 1"
    using ping by (auto simp: pool_Ping_def pool_take_def OpenDB_def pool_put_def maxIdleConns_def
        split: prod.splits outcome.splits option.splits sum.splits)
  obtain p1 w2 where i: "SetMaxIdleConns (e_api E) n p0 w1 = (p1, w2)" by fastforce
  obtain p2 w3 where o: "SetMaxOpenConns (e_api E) n p1 w2 = (p2, w3)" by fastforce
  have p: "p = p2" using assms ping i o by (simp add: open_pool_def)
  have p1: "p_numOpen p1 = length (p_free p1)" "p_maxOpen p1 = 0" "\<not> p_closed p1" "p_connector p1 = k"
    "length (p_free p1) \<le> maxIdleConns p1"
    using close_all_pool [OF i p0(1)] p0 by auto
  have idle: "maxIdleConns p1 = (if n > 0 then nat n else 0)"
    using i p0 by (cases "0 < n") (auto simp: SetMaxIdleConns_def Let_def maxIdleConns_def)
  let ?p = "p1\<lparr>p_maxOpen := nat n\<rparr>"
  have "maxIdleConns ?p = maxIdleConns p1" by (simp add: maxIdleConns_def)
  with idle o have "p2 = ?p"
    by (auto simp: SetMaxOpenConns_def Let_def split: if_splits)
  with p p1 idle show ?thesis by (auto simp: pool_ok_def split: if_splits)
qed

lemma NewDB_opened:
  assumes "NewDB E mk st config w = (Done (Inr db), w')"
  shows "db_inv db \<and> isInitialized db \<and> txID db = [] \<and> db_Config db = config \<and> DataDir config \<noteq> [] \<and> 0 < TxIdleTimeout config \<and>
    p_maxOpen (readWritePool db) = 1 \<and> p_maxOpen (readOnlyPool db) = nat (MaxReadConns config) \<and>
    p_connector (readWritePool db) =
      newConnector (path_Join [DataDir config, ''database.sqlite'']) False (CacheSizeKB config) (BusyTimeout config) \<and>
    p_connector (readOnlyPool db) =
      newConnector (path_Join [DataDir config, ''database.sqlite'']) True (CacheSizeKB config) (BusyTimeout config)"
proof -
  let ?k = "\<lambda>ro. newConnector (path_Join [DataDir config, ''database.sqlite'']) ro (CacheSizeKB config) (BusyTimeout config)"
  obtain rw ro w1 w2 where rw: "open_pool E (?k False) 1 1 ''failed to ping write connection'' w = (Done (Inr rw), w1)"
    and ro: "open_pool E (?k True) (MaxReadConns config) (MaxReadConns config) ''failed to ping read connection'' w1 =
        (Done (Inr ro), w2)"
    and db: "db = fresh_DB config rw ro (time_Now E 0) st w2"
    and cfg: "DataDir config \<noteq> []" "0 < TxIdleTimeout config"
    using assms by (auto simp: NewDB_def Let_def split: if_splits option.splits prod.splits outcome.splits sum.splits)
  show ?thesis
    using open_pool_ok [OF rw] open_pool_ok [OF ro] cfg
    by (auto simp: db fresh_DB_def db_inv_def pools_ok_def)
qed

text \<open>A database object that \<open>NewDB\<close> returns is ready for queries: the configuration had a
  data directory and a positive idle timeout, no transaction is open and no mutex is held, the
  read-write pool never opens a second connection, the read-only pool is limited to
  \<open>MaxReadConns\<close> and opens its connections with \<open>QUERY_ONLY\<close>, and both open the same file.\<close>

lemma NewDB_ready:
  assumes "NewDB E mk st config w = (Done (Inr db), w')"
  shows "db_inv db \<and> isInitialized db \<and> DataDir config \<noteq> [] \<and> 0 < TxIdleTimeout (db_Config db) \<and>
    p_maxOpen (readWritePool db) = 1 \<and> p_maxOpen (readOnlyPool db) = nat (MaxReadConns config) \<and>
    ''PRAGMA QUERY_ONLY = true;'' \<in> set (postConnectQueries (p_connector (readOnlyPool db))) \<and>
    ''PRAGMA QUERY_ONLY = true;'' \<notin> set (postConnectQueries (p_connector (readWritePool db))) \<and>
    dsn (p_connector (readOnlyPool db)) = dsn (p_connector (readWritePool db))"
  using NewDB_opened [OF assms] by (auto simp: newConnector_def optimizations_def)

text \<open>The miniature engine accepts every pragma, so the miniature database opens.\<close>

lemma mini_pragma:
  "HasPrefix (CString q) ''PRAGMA'' \<Longrightarrow>
   conn_Query mini_api mini_conn q [] w = Some (Inr (mini_done w), w\<lparr>m_sent := False\<rparr>)"
proof -
  assume "HasPrefix (CString q) ''PRAGMA''"
  then have k: "mini_kind (CString q) = 6" by (auto simp: mini_kind_def HasPrefix_def)
  show ?thesis
    by (simp add: conn_Query_def Prepare_def run_stmt_def drain_step Step_def Finalize_def
        LastInsertRowID_def RowsAffected_def ColumnCount_def Let_def mini_api_def mini_prepare_def
        mini_step_def k mini_allowed_def callback_def cust_sqlite3_authorizer_def role_defs
        mini_conn_def AuthorizerRoleAdmin_def mini_done_def SQLITE_DONE_def SQLITE_ROW_def)
qed

lemma mini_post_connect:
  "list_all (\<lambda>q. HasPrefix (CString q) ''PRAGMA'') qs \<Longrightarrow>
   \<exists>w'. run_post_connect mini_api mini_conn qs w = Some (None, w')"
  by (induction qs arbitrary: w) (simp_all add: mini_pragma)

lemma CString_append: "CHR 0x00 \<notin> set a \<Longrightarrow> CString (a @ b) = a @ CString b"
  unfolding CString_def by (rule takeWhile_append2) auto

lemma mini_optimizations: "list_all (\<lambda>q. HasPrefix (CString q) ''PRAGMA'') (optimizations ro k t)"
  by (simp add: optimizations_def CString_def HasPrefix_def)

lemma mini_Open: "sqlite_Open mini_api f w = (Inr mini_conn, w)"
  by (simp add: sqlite_Open_def mini_api_def mini_conn_def role_defs Let_def
      cust_authorizer_ctx_new_def AuthorizerRoleAdmin_def)

lemma mini_open_pool:
  "\<exists>p w'. open_pool mini_env (newConnector f ro k t) 1 1 msg w = (Done (Inr p), w')"
proof -
  obtain w' where "run_post_connect mini_api mini_conn (optimizations ro k (Milliseconds t)) w = Some (None, w')"
    using mini_post_connect [OF mini_optimizations] by blast
  then have "Connect mini_api (newConnector f ro k t) w = Some (Inr mini_conn, w')"
    by (simp add: Connect_def newConn_def newConnector_def mini_Open)
  then show ?thesis
    by (simp add: open_pool_def pool_Ping_def pool_take_def OpenDB_def mini_env_def pool_put_def
        maxIdleConns_def SetMaxIdleConns_def SetMaxOpenConns_def Let_def)
qed

lemma NewDB_ready_witness:
  "\<exists>db w'. NewDB mini_env None (NewDBStats 0) mini_config mini0 = (Done (Inr db), w') \<and> db_inv db"
proof -
  obtain rw w1 where rw: "open_pool mini_env (newConnector (path_Join [''data'', ''database.sqlite'']) False 1 Second) 1 1
      ''failed to ping write connection'' mini0 = (Done (Inr rw), w1)"
    using mini_open_pool by blast
  obtain ro w2 where ro: "open_pool mini_env (newConnector (path_Join [''data'', ''database.sqlite'']) True 1 Second) 1 1
      ''failed to ping read connection'' w1 = (Done (Inr ro), w2)"
    using mini_open_pool by blast
  have "NewDB mini_env None (NewDBStats 0) mini_config mini0 =
      (Done (Inr (fresh_DB mini_config rw ro (time_Now mini_env 0) (NewDBStats 0) w2)), w2)"
    by (simp add: NewDB_def mini_config_def duration_defs rw [unfolded duration_defs] ro [unfolded duration_defs])
  from NewDB_ready [OF this] this show ?thesis by blast
qed

section \<open>Closing\<close>

lemma set_pool_same [simp]: "set_pool k (pool_of k s) s = s"
  by (cases k) simp_all

lemma with_conn_closed:
  "p_closed (pool_of k s) \<Longrightarrow>
   with_conn E ctx k msg body s =
     (Done (Inl (Wrapped msg (Wrapped ''failed to get connection from pool''
        (ErrorString ''sql: database is closed'')))), s\<lparr>ticks := Suc (ticks s)\<rparr>)"
  by (simp add: with_conn_def bnd_def getRawConn_def pool_take_def ret_def)

lemma withReadWriteConn_closed:
  assumes "p_closed (readWritePool t)" "\<not> writeMu t"
  shows "\<exists>e. withReadWriteConn E ctx r fn t = (Done (Inl e), t\<lparr>ticks := Suc (ticks t)\<rparr>)"
proof -
  have "p_closed (pool_of RW (t\<lparr>writeMu := True\<rparr>))" using assms(1) by simp
  moreover have "t\<lparr>writeMu := True, ticks := n, writeMu := False\<rparr> = t\<lparr>ticks := n\<rparr>" for n
    using assms(2) by (cases t) simp
  ultimately show ?thesis using assms(2)
    by (simp add: withReadWriteConn_def locked_def bnd_def Lock_def Unlock_def ret_def with_conn_closed)
qed

lemma wp_close_pool:
  assumes "pools_ok s"
    and "\<And>e p w. pool_ok p \<Longrightarrow> p_closed p \<Longrightarrow> Q e ((set_pool k p s)\<lparr>world := w\<rparr>)"
  shows "wp (close_pool E k) Q s"
proof -
  obtain e p w where c: "pool_Close (e_api E) (pool_of k s) (world s) = (e, p, w)" by (metis prod.exhaust)
  have "pool_ok (pool_of k s)" using assms(1) by (cases k) (auto simp: pools_ok_def)
  from pool_Close_ok [OF this c] c have "pool_ok p" "p_closed p"
    by (auto simp: pool_Close_def split: if_splits prod.splits)
  with assms(2) c show ?thesis by (simp add: wp_def close_pool_def)
qed

lemma wp_close_rollback:
  assumes "pools_ok t" "\<not> writeMu t" "txMu t \<longleftrightarrow> txID t \<noteq> []"
  shows "wp (\<lambda>s. if txID s \<noteq> [] then
      bnd (executeRollbackQuery E Background (txID s) AuthorizerRoleAdmin) (\<lambda>_. ret ()) s
    else (Done (), s))
    (\<lambda>_ s'. txOpMu s' = txOpMu t \<and> \<not> writeMu s' \<and> pools_ok s' \<and> (txMu s' \<longleftrightarrow> txID s' \<noteq> [])) t"
proof (cases "txID t = []")
  case True
  with assms show ?thesis by (simp add: wp_def)
next
  case False
  have "wp (executeRollbackQuery E Background (txID t) AuthorizerRoleAdmin) (served t) t"
    unfolding executeRollbackQuery_def by (rule wp_end_tx) (use assms False in auto)
  then have "wp (bnd (executeRollbackQuery E Background (txID t) AuthorizerRoleAdmin) (\<lambda>_. ret ()))
    (\<lambda>_ s'. txOpMu s' = txOpMu t \<and> \<not> writeMu s' \<and> pools_ok s' \<and> (txMu s' \<longleftrightarrow> txID s' \<noteq> [])) t"
    unfolding wp_bnd wp_ret
    by (rule wp_mono) (use assms in \<open>auto simp: served_def same_tx_def split: sum.splits if_splits\<close>)
  moreover have "(\<lambda>s. if txID s \<noteq> [] then
      bnd (executeRollbackQuery E Background (txID s) AuthorizerRoleAdmin) (\<lambda>_. ret ()) s
    else (Done (), s)) t = bnd (executeRollbackQuery E Background (txID t) AuthorizerRoleAdmin) (\<lambda>_. ret ()) t"
    using False by simp
  ultimately show ?thesis by (simp only: wp_def)
qed

lemma db_Close_state:
  assumes "db_inv s" "db_Close E s = (Done None, s')"
  shows "db_inv s' \<and> p_closed (readWritePool s') \<and> p_closed (readOnlyPool s')"
proof -
  let ?Q = "\<lambda>r s'. r = None \<longrightarrow> db_inv s' \<and> p_closed (readWritePool s') \<and> p_closed (readOnlyPool s')"
  let ?rest = "bnd (close_pool E RW) (\<lambda>e. case e of
         Some e \<Rightarrow> ret (Some (Wrapped ''failed to close write connection'' e))
       | None \<Rightarrow>
           bnd (close_pool E RO) (\<lambda>e. case e of
               Some e \<Rightarrow> ret (Some (Wrapped ''failed to close read connections'' e))
             | None \<Rightarrow> ret None))"
  have rest: "wp ?rest ?Q u" if "db_inv u" for u
    unfolding wp_bnd
    by (rule wp_close_pool) (use that in \<open>auto simp: db_inv_def pools_ok_def intro!: wp_close_pool split: option.splits\<close>)
  have "wp (db_Close E) ?Q s"
    unfolding db_Close_def wp_bnd [where f = "\<lambda>_. bnd _ _"] wp_upd wp_with_mutex
    by (intro conjI wp_mono [OF wp_close_rollback])
      (use assms(1) rest in \<open>auto simp: db_inv_def pools_ok_def\<close>)
  with assms(2) show ?thesis by (simp add: wp_def)
qed

text \<open>C24. Once \<open>Close\<close> has returned without error, both pools are closed and no query reaches
  SQLite any more: every one of them returns an error and leaves the engine's state as it is.
  (An open transaction is rolled back by \<open>Close\<close>; the hypothesis is that this succeeded.)\<close>

theorem closed_database_refuses:
  assumes "db_inv s" and "db_Close E s = (Done None, s1)" and "txID s1 = []"
  shows "p_closed (readWritePool s1) \<and> p_closed (readOnlyPool s1) \<and>
    (\<exists>e s2. db_query E ctx q s1 = (Done (Inl e), s2) \<and> world s2 = world s1)"
proof -
  note c = db_Close_state [OF assms(1,2)]
  then have mu: "\<not> writeMu s1" "\<not> txOpMu s1" "\<not> txMu s1" using assms(3) by (auto simp: db_inv_def)
  have ro: "p_closed (pool_of RO s1)" using c by simp
  have beg: "\<exists>e s2. executeBeginQuery E ctx [] r ow s1 = (Done (Inl e), s2) \<and> world s2 = world s1" for r ow
  proof -
    let ?t = "s1\<lparr>dbStats := IncQueuedBegins (dbStats s1), txMu := True\<rparr>"
    obtain e where "withReadWriteConn E ctx r (run_sql E ''BEGIN TRANSACTION'') ?t =
        (Done (Inl e), ?t\<lparr>ticks := Suc (ticks ?t)\<rparr>)"
      using withReadWriteConn_closed [of ?t E ctx r] c mu by auto
    with mu show ?thesis
      by (simp add: executeBeginQuery_def bnd_def gauge_def upd_def Lock_def Unlock_def ret_def)
  qed
  have keyword: "t = QueryTypeBegin \<or> t = QueryTypeCommit \<or> t = QueryTypeRollback"
    if "keyword_type (q_Query q) = Some t" for t
    using that by (auto simp: keyword_type_def Let_def split: if_splits)
  have "\<exists>e s2. db_query E ctx q s1 = (Done (Inl e), s2) \<and> world s2 = world s1"
  proof (cases "q_TxID q = []")
    case False
    have "queryWithType E ctx q (s1\<lparr>txOpMu := True\<rparr>) = (Done (Inl ErrTxNotFound), s1\<lparr>txOpMu := True\<rparr>)"
      using False assms(3) by (simp add: queryWithType_def validateTxID_def)
    with False mu show ?thesis by (simp add: db_query_def txop_mutex.locked_run)
  next
    case True
    show ?thesis
    proof (cases "keyword_type (q_Query q)")
      case (Some t)
      then have "db_query E ctx q s1 = executeClassifiedQuery E ctx q t s1"
        using True keyword [OF Some] by (auto simp: db_query_def bnd_def ClassifyQuery_def ret_def types_neq)
      with True keyword [OF Some] beg [of "q_Role q" "q_TxOwner q"] show ?thesis
        by (auto simp: executeClassifiedQuery_def types_neq executeCommitQuery_def
            executeRollbackQuery_def end_tx_def ret_def)
    next
      case None
      with True assms(3) show ?thesis
        by (simp add: db_query_def bnd_def ClassifyQuery_def classifyQueryOnReadOnlyConn_def
            with_conn_closed [OF ro] ret_def)
    qed
  qed
  with c show ?thesis by blast
qed

theorem closed_database_refuses_witness:
  "\<exists>s1 e s2. db_Close mini_env mini_db = (Done None, s1) \<and>
     db_query mini_env Background (mini_query [] ''SELECT'' 0) s1 = (Done (Inl e), s2)"
proof -
  have close: "drv_Close mini_api mini_conn w = ((None, mini_conn\<lparr>authorizerCtx := None, cDB := None\<rparr>), w)" for w
    by (simp add: drv_Close_def conn_Close_def mini_api_def mini_conn_def role_defs)
  have "fst (db_Close mini_env mini_db) = Done None \<and> txID (snd (db_Close mini_env mini_db)) = []"
    by (simp add: db_Close_def bnd_def upd_def locked_def Lock_def Unlock_def ret_def close_pool_def
        pool_Close_def mini_db_def fresh_DB_def mini_pool_def mini_env_def close)
  then obtain s1 where "db_Close mini_env mini_db = (Done None, s1)" "txID s1 = []"
    by (metis prod.collapse)
  with closed_database_refuses [OF mini_inv this, of Background "mini_query [] ''SELECT'' 0"] show ?thesis
    by blast
qed

end
