(* ===== verification/Query_Exec.thy ===== *)
theory Query_Exec
  imports Convert Database_Open
begin

text \<open>
  \<open>internal/server/query.go\<close>: a list of queries of one request, executed in order. The handlers
  touch the database object only, so they are actions on its state; the logger only prints. A
  \<open>requestProps\<close> carries the role and the identity that authentication found.
\<close>

record requestProps =
  rp_Role :: authRole
  rp_Principal :: string

text \<open>\<open>time.Now()\<close>; \<open>time.Since(t)\<close> is a later reading less \<open>t\<close>.\<close>

definition clock :: "'w env \<Rightarrow> ('w, time) act" where
  "clock E s = (Done (time_Now E (ticks s)), s\<lparr>ticks := ticks s + 1\<rparr>)"

definition error_result :: "'w env \<Rightarrow> time \<Rightarrow> string \<Rightarrow> ('w, vdl_QueryResult) act" where
  "error_result E started errorMessage =
     bnd (clock E) (\<lambda>now.
     ret (QueryResult_of QueryResultTypeError (now - started)\<lparr>vr_Error := Some errorMessage\<rparr>))"

definition db_query_of :: "requestProps \<Rightarrow> vdl_Query \<Rightarrow> QueryParam list \<Rightarrow> query" where
  "db_query_of props q params = \<lparr>q_TxID = Val [] (vq_TxId q), q_TxOwner = rp_Principal props,
     q_Query = vq_Query q, q_Params = params, q_Role = authorizerRoleForAuthRole (rp_Role props)\<rparr>"

definition executeRequestQuery ::
  "'w env \<Rightarrow> ctx \<Rightarrow> requestProps \<Rightarrow> vdl_Query \<Rightarrow> ('w, vdl_QueryResult) act" where
  "executeRequestQuery E ctx props q =
     bnd (clock E) (\<lambda>startedAt.
     if vq_Query q = [] then error_result E startedAt ''Empty query''
     else case sqliteParamsFromVDL (vq_Params q) of
       Inl e \<Rightarrow> error_result E startedAt (Error e)
     | Inr params \<Rightarrow>
         bnd (db_Query E ctx (db_query_of props q params)) (\<lambda>r. case r of
             Inl e \<Rightarrow> error_result E startedAt (Error e)
           | Inr result \<Rightarrow> bnd (clock E) (\<lambda>now. ret (queryResultFromDB (now - startedAt) result))))"

fun execute_all ::
  "'w env \<Rightarrow> ctx \<Rightarrow> requestProps \<Rightarrow> vdl_Query list \<Rightarrow> vdl_QueryResult list \<Rightarrow> ('w, vdl_QueryResult list) act"
  where
  "execute_all E ctx props [] results = ret results"
| "execute_all E ctx props (q # qs) results =
     bnd (executeRequestQuery E ctx props q) (\<lambda>result.
     execute_all E ctx props qs (results @ [result]))"

definition executeQueries ::
  "'w env \<Rightarrow> ctx \<Rightarrow> requestProps \<Rightarrow> vdl_Query list \<Rightarrow> ('w, DatabaseQueryOutput) act" where
  "executeQueries E ctx props queries =
     bnd (clock E) (\<lambda>allStartedAt.
     bnd (execute_all E ctx props queries []) (\<lambda>results.
     bnd (clock E) (\<lambda>now.
     ret \<lparr>o_Time = now - allStartedAt, o_Results = results\<rparr>)))"

section \<open>Which results the database gives\<close>

text \<open>\<open>yields p P\<close>: whatever the state, a value that \<open>p\<close> returns satisfies \<open>P\<close>.\<close>

definition yields :: "('s \<Rightarrow> 'a outcome \<times> 's) \<Rightarrow> ('a \<Rightarrow> bool) \<Rightarrow> bool" where
  "yields p P \<longleftrightarrow> (\<forall>s r s'. p s = (Done r, s') \<longrightarrow> P r)"

lemma yields_ret [simp]: "yields (ret a) P \<longleftrightarrow> P a"
  by (simp add: yields_def ret_def)

lemma bnd_Done: "bnd p f s = (Done b, s') \<longleftrightarrow> (\<exists>a s1. p s = (Done a, s1) \<and> f a s1 = (Done b, s'))"
  by (auto simp: bnd_def split: prod.splits outcome.splits)

lemma yields_bnd: "(\<And>a. yields (f a) P) \<Longrightarrow> yields (bnd p f) P"
  by (auto simp: yields_def bnd_Done)

lemma yields_seq:
  assumes "yields p R" "\<And>a. R a \<Longrightarrow> yields (f a) P"
  shows "yields (bnd p f) P"
  unfolding yields_def bnd_Done using assms unfolding yields_def by blast

lemma yields_if [intro]: "(b \<Longrightarrow> yields p P) \<Longrightarrow> (\<not> b \<Longrightarrow> yields p' P) \<Longrightarrow> yields (if b then p else p') P"
  by simp

lemma yields_locked:
  assumes "yields p P" shows "yields (locked held u m p) P"
  unfolding locked_def
  by (rule yields_bnd, rule yields_seq [OF assms], rule yields_bnd) simp

lemma yields_with_conn:
  assumes "\<And>e. P (Inl e)" and "\<And>c. yields (body c) (\<lambda>(v, c'). P v)"
  shows "yields (with_conn E ctx k msg body) P"
proof -
  have "yields (bnd (body c) (\<lambda>(v, c'). bnd (returnConn E k c') (\<lambda>_. ret v))) P" for c
    by (rule yields_seq [OF assms(2)]) (auto intro!: yields_bnd)
  then show ?thesis
    unfolding with_conn_def by (auto intro!: yields_bnd simp: assms(1) split: sum.split)
qed

lemma yields_withReadWrite:
  assumes "\<And>e. P (Inl e)" and "\<And>c. yields (fn c) P"
  shows "yields (withReadWriteConn E ctx r fn) P"
proof -
  have "yields (bnd (fn c) (\<lambda>v. ret (v, c))) (\<lambda>(v, c'). P v)" for c
    by (rule yields_seq [OF assms(2)]) simp
  then show ?thesis
    unfolding withReadWriteConn_def
    by (auto intro!: yields_locked yields_with_conn simp: assms(1) split: prod.split option.split)
qed

text \<open>
  A result of the database for the query \<open>q\<close>: of one of the five types, with an ID exactly for a
  \<open>begin\<close>; a begin only without an ID in the query, a commit or rollback only with one; and of the
  type that the first word says, when that decides. \<open>typed_as q t\<close> is the same once \<open>q\<close> is classified as \<open>t\<close>.
\<close>

definition typed_as :: "query \<Rightarrow> QueryType \<Rightarrow> go_error + db_result \<Rightarrow> bool" where
  "typed_as q t r \<longleftrightarrow> (case r of Inl e \<Rightarrow> True | Inr res \<Rightarrow>
     r_Type res = t \<and>
     t \<in> {QueryTypeRead, QueryTypeWrite, QueryTypeBegin, QueryTypeCommit, QueryTypeRollback} \<and>
     (r_TxID res \<noteq> [] \<longleftrightarrow> t = QueryTypeBegin) \<and>
     (t = QueryTypeBegin \<longrightarrow> q_TxID q = []) \<and>
     (t = QueryTypeCommit \<or> t = QueryTypeRollback \<longrightarrow> q_TxID q \<noteq> []))"

definition typed_result :: "query \<Rightarrow> go_error + db_result \<Rightarrow> bool" where
  "typed_result q r \<longleftrightarrow> (\<exists>t. typed_as q t r \<and> (\<forall>k. keyword_type (q_Query q) = Some k \<longrightarrow> t = k))"

lemma typed_as_error [simp]: "typed_as q t (Inl e)"
  by (simp add: typed_as_def)

lemma typed_error [simp]: "typed_result q (Inl e)"
  unfolding typed_result_def by (cases "keyword_type (q_Query q)") auto

lemma typed_read_write [simp]:
  "typed_as q QueryTypeRead (Inr (read_result res))" "typed_as q QueryTypeWrite (Inr (write_result res))"
  by (simp_all add: typed_as_def read_result_def write_result_def QueryResult0_def types_neq)

lemma yields_end_tx:
  assumes "qt = QueryTypeCommit \<or> qt = QueryTypeRollback"
  shows "yields (end_tx E ctx sql msg qt inc (q_TxID q) r) (typed_as q qt)"
  using assms unfolding end_tx_def
  by (auto intro!: yields_bnd split: sum.split simp: typed_as_def QueryResult0_def types_neq)

lemma yields_begin:
  assumes "\<forall>n. uuid_NewString E n \<noteq> []"
  shows "yields (executeBeginQuery E ctx (q_TxID q) r owner) (typed_as q QueryTypeBegin)"
proof (cases "q_TxID q = []")
  case True
  have new: "yields (\<lambda>s. (Done (uuid_NewString E (ticks s)), s\<lparr>ticks := ticks s + 1\<rparr>)) (\<lambda>i. i \<noteq> [])"
    using assms by (simp add: yields_def)
  have run: "yields (bnd (\<lambda>s. (Done (uuid_NewString E (ticks s)), s\<lparr>ticks := ticks s + 1\<rparr>)) (\<lambda>newID.
      bnd (upd (\<lambda>s. s\<lparr>txID := newID, txOwner := owner\<rparr>)) (\<lambda>_. bnd (touch E) (\<lambda>_.
      bnd (count E IncBegins) (\<lambda>_. bnd (gauge DecQueuedBegins) (\<lambda>_.
      ret (Inr (QueryResult0\<lparr>r_Type := QueryTypeBegin, r_TxID := newID\<rparr>)))))))) (typed_as q QueryTypeBegin)"
    by (rule yields_seq [OF new]) (auto intro!: yields_bnd simp: typed_as_def True types_neq)
  have cont: "yields (case v of
      Inl e \<Rightarrow> bnd unlock_txMu (\<lambda>_. bnd (gauge DecQueuedBegins) (\<lambda>_.
        ret (Inl (Wrapped ''failed to begin transaction'' e))))
    | Inr _ \<Rightarrow> bnd (\<lambda>s. (Done (uuid_NewString E (ticks s)), s\<lparr>ticks := ticks s + 1\<rparr>)) (\<lambda>newID.
      bnd (upd (\<lambda>s. s\<lparr>txID := newID, txOwner := owner\<rparr>)) (\<lambda>_. bnd (touch E) (\<lambda>_.
      bnd (count E IncBegins) (\<lambda>_. bnd (gauge DecQueuedBegins) (\<lambda>_.
      ret (Inr (QueryResult0\<lparr>r_Type := QueryTypeBegin, r_TxID := newID\<rparr>)))))))) (typed_as q QueryTypeBegin)"
    for v :: "go_error + db_result"
    by (cases v) (use run in \<open>simp_all add: yields_bnd\<close>)
  show ?thesis
    unfolding executeBeginQuery_def
    by (rule yields_if, simp, (rule yields_bnd)+, rule cont)
qed (simp add: executeBeginQuery_def)

lemma yields_read: "yields (executeReadQuery E ctx q) (typed_as q QueryTypeRead)"
proof -
  have rw: "yields (withReadWriteConn E ctx (q_Role q) (\<lambda>c.
      bnd (do_Query E c (q_Query q) (q_Params q)) (\<lambda>r. ret (case r of
        Inl e \<Rightarrow> Inl (Wrapped ''failed to execute read query'' e)
      | Inr res \<Rightarrow> Inr (read_result res))))) (typed_as q QueryTypeRead)"
    by (rule yields_withReadWrite) (auto intro!: yields_bnd split: sum.split)
  have tx: "yields (bnd (withReadWriteConn E ctx (q_Role q) (\<lambda>c.
      bnd (do_Query E c (q_Query q) (q_Params q)) (\<lambda>r. ret (case r of
        Inl e \<Rightarrow> Inl (Wrapped ''failed to execute read query'' e)
      | Inr res \<Rightarrow> Inr (read_result res))))) (\<lambda>v. case v of
          Inl e \<Rightarrow> ret (Inl e)
        | Inr res \<Rightarrow> bnd (count E IncReads) (\<lambda>_. ret (Inr res)))) (typed_as q QueryTypeRead)"
    by (rule yields_seq [OF rw]) (auto intro!: yields_bnd split: sum.split)
  show ?thesis
    unfolding executeReadQuery_def
    by (rule yields_if, rule yields_with_conn)
      (auto intro!: tx yields_bnd split: option.split prod.split sum.split)
qed

lemma yields_write: "yields (executeWriteQuery E ctx q) (typed_as q QueryTypeWrite)"
proof -
  have rw: "yields (withReadWriteConn E ctx (q_Role q) (\<lambda>c.
      bnd (do_Query E c (q_Query q) (q_Params q)) (\<lambda>r. ret (case r of
        Inl e \<Rightarrow> Inl (Wrapped ''failed to execute write query'' e)
      | Inr res \<Rightarrow> Inr (write_result res))))) (typed_as q QueryTypeWrite)"
    by (rule yields_withReadWrite) (auto intro!: yields_bnd split: sum.split)
  show ?thesis
    unfolding executeWriteQuery_def
    by (rule yields_bnd, rule yields_seq [OF rw]) (auto intro!: yields_bnd split: sum.split)
qed

lemma yields_classified:
  assumes "\<forall>n. uuid_NewString E n \<noteq> []"
  shows "yields (executeClassifiedQuery E ctx q qt) (typed_as q qt)"
  unfolding executeClassifiedQuery_def executeCommitQuery_def executeRollbackQuery_def
  by (auto intro: yields_begin [OF assms] yields_end_tx yields_read yields_write)

text \<open>The classification, then the execution.\<close>

lemma yields_Classify:
  "yields (ClassifyQuery E ctx query tx) (\<lambda>r. \<forall>k. keyword_type query = Some k \<longrightarrow> r = Inr k)"
  by (cases "keyword_type query") (simp_all add: ClassifyQuery_def, simp add: yields_def)

lemma yields_classify_execute:
  assumes "\<forall>n. uuid_NewString E n \<noteq> []"
    and "\<And>e. yields (f e) (typed_result q)"
    and "\<And>t. yields (executeClassifiedQuery E ctx q t) (typed_result q) \<Longrightarrow> yields (g t) (typed_result q)"
  shows "yields (bnd (ClassifyQuery E ctx (q_Query q) (q_TxID q)) (\<lambda>t. case t of
      Inl e \<Rightarrow> f e | Inr t \<Rightarrow> g t)) (typed_result q)"
proof (rule yields_seq [OF yields_Classify])
  fix r :: "go_error + QueryType" assume k: "\<forall>k. keyword_type (q_Query q) = Some k \<longrightarrow> r = Inr k"
  show "yields (case r of Inl e \<Rightarrow> f e | Inr t \<Rightarrow> g t) (typed_result q)"
  proof (cases r)
    case (Inr t)
    then have "yields (executeClassifiedQuery E ctx q t) (typed_result q)"
      using k yields_classified [OF assms(1), of ctx q t]
      unfolding yields_def typed_result_def by blast
    with Inr assms(3) show ?thesis by simp
  qed (simp add: assms(2))
qed

lemma yields_query:
  fixes E :: "'w env"
  assumes "\<forall>n. uuid_NewString E n \<noteq> []"
  shows "yields (db_Query E ctx q) (typed_result q)"
proof -
  let ?fail = "\<lambda>e. ret (Inl (Wrapped ''failed to detect query type'' e)) :: ('w, go_error + db_result) act"
  have body: "yields (bnd (ClassifyQuery E ctx (q_Query q) (q_TxID q)) (\<lambda>t. case t of
      Inl e \<Rightarrow> ?fail e | Inr t \<Rightarrow> executeClassifiedQuery E ctx q t)) (typed_result q)"
    by (rule yields_classify_execute [OF assms]) simp_all
  have retry: "yields (\<lambda>s. if txID s \<noteq> [] then with_txMu
        (bnd (ClassifyQuery E ctx (q_Query q) (q_TxID q)) (\<lambda>t. case t of
           Inr queryType \<Rightarrow> executeClassifiedQuery E ctx q queryType | Inl e \<Rightarrow> ?fail e)) s
      else ?fail e s) (typed_result q)" for e
    using yields_locked [OF body] by (auto simp: yields_def ret_def)
  have touched: "yields (bnd (touch E) (\<lambda>_. bnd (bnd (ClassifyQuery E ctx (q_Query q) (q_TxID q)) (\<lambda>t. case t of
      Inl e \<Rightarrow> ?fail e | Inr t \<Rightarrow> executeClassifiedQuery E ctx q t)) (\<lambda>r. bnd (touch E) (\<lambda>_. ret r))))
      (typed_result q)"
    by (rule yields_bnd, rule yields_seq [OF body], rule yields_bnd) simp
  have "typed_result q r" if "queryWithType E ctx q s = (Done r, s')" for s r s'
    using that body touched unfolding queryWithType_def Let_def yields_def
    by (auto split: option.splits if_splits) blast+
  then have typed: "yields (queryWithType E ctx q) (typed_result q)" by (auto simp: yields_def)
  have "yields (bnd (ClassifyQuery E ctx (q_Query q) (q_TxID q)) (\<lambda>t. case t of
      Inl e \<Rightarrow> (\<lambda>s. if txID s \<noteq> [] then with_txMu
        (bnd (ClassifyQuery E ctx (q_Query q) (q_TxID q)) (\<lambda>t. case t of
           Inr queryType \<Rightarrow> executeClassifiedQuery E ctx q queryType | Inl e \<Rightarrow> ?fail e)) s
        else ?fail e s)
    | Inr t \<Rightarrow> if t = QueryTypeWrite then with_txMu (executeClassifiedQuery E ctx q t)
        else executeClassifiedQuery E ctx q t)) (typed_result q)"
    by (rule yields_classify_execute [OF assms]) (auto intro: retry yields_locked)
  then have inner: "yields (db_query E ctx q) (typed_result q)"
    unfolding db_query_def using yields_locked [OF typed] by auto
  show ?thesis
    unfolding db_Query_def
    by (rule yields_seq [OF inner]) (auto intro!: yields_bnd split: sum.split)
qed

end
