(* ===== verification/Query_Props.thy ===== *)
theory Query_Props
  imports Query_Exec
begin

text \<open>
  What a batch of queries guarantees: one answer per query in order, whatever fails on the way, the
  invariant of the database object, and the confinement of the whole batch to the role of its
  sender.
\<close>

section \<open>One answer per query\<close>

text \<open>\<open>runs E ctx props qs rs s s'\<close>: from state \<open>s\<close> the queries \<open>qs\<close>, one after the other, are
  answered by \<open>rs\<close> and leave \<open>s'\<close>.\<close>

fun runs :: "'w env \<Rightarrow> ctx \<Rightarrow> requestProps \<Rightarrow> vdl_Query list \<Rightarrow> vdl_QueryResult list \<Rightarrow> 'w DB \<Rightarrow> 'w DB \<Rightarrow> bool"
  where
  "runs E ctx props [] [] s s' \<longleftrightarrow> s = s'"
| "runs E ctx props (q # qs) (r # rs) s s' \<longleftrightarrow>
     (\<exists>s1. executeRequestQuery E ctx props q s = (Done r, s1) \<and> runs E ctx props qs rs s1 s')"
| "runs E ctx props _ _ s s' \<longleftrightarrow> False"

lemma runs_length: "runs E ctx props qs rs s s' \<Longrightarrow> length rs = length qs"
  by (induction E ctx props qs rs s s' rule: runs.induct) auto

lemma db_inv_ticks: "db_inv (s\<lparr>ticks := n\<rparr>) = db_inv s"
  by (simp add: db_inv_def pools_ok_def)

lemma wp_clock [simp]: "wp (clock E) Q = (\<lambda>s. Q (time_Now E (ticks s)) (s\<lparr>ticks := ticks s + 1\<rparr>))"
  by (rule ext) (simp add: wp_def clock_def)

lemma wp_self: "wp p (\<lambda>r s'. p s = (Done r, s')) s" if "wp p Q s"
  using that by (auto simp: wp_def split: prod.splits outcome.splits)

lemma wp_conj: "wp p Q s \<Longrightarrow> wp p R s \<Longrightarrow> wp p (\<lambda>r s'. Q r s' \<and> R r s') s"
  by (auto simp: wp_def split: prod.splits outcome.splits)

lemma wp_yields: "yields p P \<Longrightarrow> wp p Q s \<Longrightarrow> wp p (\<lambda>r s'. P r \<and> Q r s') s"
  by (auto simp: wp_def yields_def split: prod.splits outcome.splits)

text \<open>What an answer says about the transaction.\<close>

definition answer_tx :: "vdl_Query \<Rightarrow> 'w DB \<Rightarrow> vdl_QueryResult \<Rightarrow> 'w DB \<Rightarrow> bool" where
  "answer_tx q s a s' \<longleftrightarrow>
     (if vr_Error a \<noteq> None then txID s' = txID s \<and> txOwner s' = txOwner s
      else if vr_Type a = QueryResultTypeBegin then
        Val [] (vq_TxId q) = [] \<and> txID s = [] \<and> txID s' \<noteq> [] \<and> vr_TxId a = Some (txID s')
      else if vr_Type a = QueryResultTypeCommit \<or> vr_Type a = QueryResultTypeRollback then
        Val [] (vq_TxId q) \<noteq> [] \<and> txID s \<noteq> [] \<and> txID s' = []
      else txID s' = txID s \<and> txOwner s' = txOwner s) \<and>
     (\<forall>k. vr_Error a = None \<and> keyword_type (vq_Query q) = Some k \<longrightarrow> vr_Type a = queryResultTypeFromDB k)"

lemma result_type_eval:
  "queryResultTypeFromDB QueryTypeRead = QueryResultTypeRead"
  "queryResultTypeFromDB QueryTypeWrite = QueryResultTypeWrite"
  "queryResultTypeFromDB QueryTypeBegin = QueryResultTypeBegin"
  "queryResultTypeFromDB QueryTypeCommit = QueryResultTypeCommit"
  "queryResultTypeFromDB QueryTypeRollback = QueryResultTypeRollback"
  by (simp_all add: queryResultTypeFromDB_def types_neq)

lemma result_types_distinct:
  "QueryResultTypeBegin \<noteq> QueryResultTypeRead" "QueryResultTypeBegin \<noteq> QueryResultTypeWrite"
  "QueryResultTypeBegin \<noteq> QueryResultTypeCommit" "QueryResultTypeBegin \<noteq> QueryResultTypeRollback"
  "QueryResultTypeCommit \<noteq> QueryResultTypeRead" "QueryResultTypeCommit \<noteq> QueryResultTypeWrite"
  "QueryResultTypeCommit \<noteq> QueryResultTypeRollback" "QueryResultTypeRollback \<noteq> QueryResultTypeRead"
  "QueryResultTypeRollback \<noteq> QueryResultTypeWrite" "QueryResultTypeError \<noteq> QueryResultTypeBegin"
  "QueryResultTypeError \<noteq> QueryResultTypeCommit" "QueryResultTypeError \<noteq> QueryResultTypeRollback"
  by (simp_all add: result_type_defs)

lemmas result_types_neq = result_types_distinct result_types_distinct [symmetric]

lemma answer_of_query:
  assumes "typed_result (db_query_of props q ps) (Inr res)" "tx_effect s (Inr res) s'"
  shows "answer_ok (queryResultFromDB time res) \<and> answer_tx q s (queryResultFromDB time res) s'"
proof -
  from assms(1) obtain t where t: "typed_as (db_query_of props q ps) t (Inr res)"
    "\<forall>k. keyword_type (vq_Query q) = Some k \<longrightarrow> t = k"
    by (auto simp: typed_result_def db_query_of_def)
  then have "answer_ok (queryResultFromDB time res)"
    by (intro answer_of_result) (auto simp: typed_as_def)
  moreover have "answer_tx q s (queryResultFromDB time res) s'"
  proof -
    have "r_Type res = t" "t \<in> {QueryTypeRead, QueryTypeWrite, QueryTypeBegin, QueryTypeCommit, QueryTypeRollback}"
      using t(1) by (simp_all add: typed_as_def)
    moreover have "\<forall>k. keyword_type (vq_Query q) = Some k \<longrightarrow> queryResultTypeFromDB t = queryResultTypeFromDB k"
      using t(2) by blast
    ultimately show ?thesis
      using t(1) assms(2) by (elim insertE emptyE)
        (simp_all add: answer_tx_def typed_as_def tx_effect_def queryResultFromDB_def result_type_eval
          result_types_neq types_neq db_query_of_def)
  qed
  ultimately show ?thesis ..
qed

lemma tx_effect_ticks: "tx_effect (s\<lparr>ticks := n\<rparr>) r s' = tx_effect s r s'"
  by (cases r) (simp_all add: tx_effect_def)

lemma answer_tx_error: "txID s' = txID s \<Longrightarrow> txOwner s' = txOwner s \<Longrightarrow>
  answer_tx q s (QueryResult_of QueryResultTypeError time\<lparr>vr_Error := Some m\<rparr>) s'"
  by (simp add: answer_tx_def)

lemma answer_tx_frame:
  "txID s1 = txID s \<Longrightarrow> txOwner s1 = txOwner s \<Longrightarrow> txID s2 = txID s' \<Longrightarrow> txOwner s2 = txOwner s' \<Longrightarrow>
   answer_tx q s1 a s2 = answer_tx q s a s'"
  by (simp add: answer_tx_def)

lemma request_query_inv:
  assumes "db_inv s" and "\<forall>n. uuid_NewString E n \<noteq> []"
  shows "wp (executeRequestQuery E ctx props q) (\<lambda>r s'. answer_ok r \<and> db_inv s' \<and> answer_tx q s r s') s"
proof -
  let ?s = "s\<lparr>ticks := Suc (ticks s)\<rparr>"
  have inv: "db_inv ?s" by (simp add: db_inv_ticks assms(1))
  show ?thesis
  proof (cases "vq_Query q = [] \<or> isl (sqliteParamsFromVDL (vq_Params q))")
    case True
    then show ?thesis
      using inv by (auto simp: executeRequestQuery_def error_result_def answer_of_error answer_tx_error
          db_inv_ticks [simplified] assms(1) split: sum.split)
  next
    case False
    then obtain ps where ps: "sqliteParamsFromVDL (vq_Params q) = Inr ps" "vq_Query q \<noteq> []"
      by (auto simp: isl_def) (metis sum.exhaust)
    let ?q = "db_query_of props q ps"
    have answered: "wp (case r of Inl e \<Rightarrow> error_result E t (Error e)
          | Inr result \<Rightarrow> bnd (clock E) (\<lambda>now. ret (queryResultFromDB (now - t) result)))
        (\<lambda>r s'. answer_ok r \<and> db_inv s' \<and> answer_tx q s r s') s1"
      if "typed_result ?q r" "db_inv s1" "tx_effect ?s r s1" for r t s1
    proof (cases r)
      case (Inl e)
      with that show ?thesis
        by (simp add: error_result_def answer_of_error answer_tx_error db_inv_ticks [simplified] tx_effect_def)
    next
      case (Inr res)
      with that have "answer_ok (queryResultFromDB u res) \<and> answer_tx q s (queryResultFromDB u res) s1" for u
        using answer_of_query [of props q ps res s s1 u] by (simp add: tx_effect_ticks)
      with Inr that show ?thesis
        by (simp add: db_inv_ticks [simplified] answer_tx_def)
    qed
    have "wp (db_Query E ctx ?q) (\<lambda>r s'. typed_result ?q r \<and> db_inv s' \<and> tx_effect ?s r s' \<and> count_effect ?s r s') ?s"
      by (intro wp_yields [OF yields_query [OF assms(2)]] wp_conj query_inv [OF inv assms(2)]
          wp_query_effect [OF inv assms(2)])
    with ps show ?thesis
      by (simp add: executeRequestQuery_def) (erule wp_mono, rule answered, auto)
  qed
qed

lemma execute_all_runs:
  assumes "db_inv s" and "\<forall>n. uuid_NewString E n \<noteq> []"
  shows "wp (execute_all E ctx props qs acc)
    (\<lambda>rs s'. \<exists>new. rs = acc @ new \<and> runs E ctx props qs new s s' \<and> list_all answer_ok new \<and> db_inv s') s"
  using assms(1)
proof (induction qs arbitrary: acc s)
  case Nil
  then show ?case by simp
next
  case (Cons q qs)
  note first = request_query_inv [OF Cons.prems assms(2), of ctx props q]
  have "wp (execute_all E ctx props qs (acc @ [r]))
      (\<lambda>rs s'. \<exists>new. rs = acc @ new \<and> runs E ctx props (q # qs) new s s' \<and> list_all answer_ok new \<and> db_inv s') s1"
    if "executeRequestQuery E ctx props q s = (Done r, s1)" "answer_ok r" "db_inv s1" for r s1
  proof (rule wp_mono [OF Cons.IH [OF that(3)]])
    fix rs s'
    assume "\<exists>new. rs = (acc @ [r]) @ new \<and> runs E ctx props qs new s1 s' \<and> list_all answer_ok new \<and> db_inv s'"
    then obtain new where n: "rs = acc @ r # new" "runs E ctx props qs new s1 s'" "list_all answer_ok new" "db_inv s'"
      by auto
    with that have "runs E ctx props (q # qs) (r # new) s s'" by auto
    with n that(2) show "\<exists>new. rs = acc @ new \<and> runs E ctx props (q # qs) new s s' \<and> list_all answer_ok new \<and> db_inv s'"
      by (intro exI [of _ "r # new"]) simp
  qed
  with wp_conj [OF wp_self [OF first] first] show ?case
    by (simp only: execute_all.simps wp_bnd) (erule wp_mono, blast)
qed

lemma executeQueries_runs:
  assumes "db_inv s" and "\<forall>n. uuid_NewString E n \<noteq> []"
  shows "wp (executeQueries E ctx props qs)
    (\<lambda>out s'. \<exists>s1. runs E ctx props qs (o_Results out) (s\<lparr>ticks := Suc (ticks s)\<rparr>) s1 \<and>
       s' = s1\<lparr>ticks := Suc (ticks s1)\<rparr> \<and> list_all answer_ok (o_Results out) \<and> db_inv s') s"
proof -
  have inv: "db_inv (s\<lparr>ticks := Suc (ticks s)\<rparr>)" by (simp add: db_inv_ticks assms(1))
  show ?thesis
    unfolding executeQueries_def wp_bnd wp_clock
    using execute_all_runs [OF inv assms(2), of ctx props qs "[]"]
    by (auto elim!: wp_mono simp: db_inv_ticks)
qed

text \<open>C16. A batch gives one answer per query, in their order, each computed from the state that the
  queries before it left: a failing query is answered with an error and the next one runs all the
  same. Every answer is well formed (valid enumerations, one field per value, an ID exactly for a
  begin, counts exactly for a write, a message exactly for an error). The database object keeps its
  invariant, and the batch waits for nothing but the end of an open transaction.\<close>

theorem batch_answers:
  assumes "db_inv s" and "\<forall>n. uuid_NewString E n \<noteq> []"
  shows "case executeQueries E ctx props qs s of
      (Done out, s') \<Rightarrow>
        length (o_Results out) = length qs \<and> list_all answer_ok (o_Results out) \<and> db_inv s' \<and>
        (\<exists>s1. runs E ctx props qs (o_Results out) (s\<lparr>ticks := Suc (ticks s)\<rparr>) s1 \<and>
              s' = s1\<lparr>ticks := Suc (ticks s1)\<rparr>)
    | (Blocked m, s') \<Rightarrow> m = OnTxMu \<and> txMu s' \<and> txID s' \<noteq> []
    | (Running, s') \<Rightarrow> True
    | (Fatal, s') \<Rightarrow> False"
  using executeQueries_runs [OF assms, of ctx props qs]
  by (auto simp: wp_def runs_length split: prod.splits outcome.splits)

definition plain_query :: "string \<Rightarrow> vdl_Query" where
  "plain_query sql = \<lparr>vq_TxId = None, vq_Query = sql, vq_Params = None\<rparr>"

definition admin_props :: requestProps where
  "admin_props = \<lparr>rp_Role = authRoleAdmin, rp_Principal = []\<rparr>"

theorem batch_answers_witness:
  "\<exists>out s'. executeQueries mini_env Background admin_props [plain_query '''', plain_query ''''] mini_db = (Done out, s') \<and>
     length (o_Results out) = 2 \<and> list_all answer_ok (o_Results out) \<and> db_inv s'"
proof -
  have "\<exists>out s'. executeQueries mini_env Background admin_props [plain_query '''', plain_query ''''] mini_db = (Done out, s')"
    by (simp add: executeQueries_def executeRequestQuery_def plain_query_def error_result_def bnd_def
        clock_def ret_def)
  then obtain out s' where
    e: "executeQueries mini_env Background admin_props [plain_query '''', plain_query ''''] mini_db = (Done out, s')"
    by blast
  with batch_answers [where s = mini_db and E = mini_env and ctx = Background and props = admin_props
      and qs = "[plain_query '''', plain_query '''']"]
  show ?thesis by (simp add: mini_uuid mini_inv)
qed

section \<open>A batch is confined to its role\<close>

lemma keeps_clock [keeps_rules]: "keeps ks I (clock E)"
  by (simp add: keeps_def guarded_def clock_def)

lemma keeps_error_result [keeps_rules]: "keeps ks I (error_result E t m)"
  unfolding error_result_def by (intro keeps_rules)

lemma keeps_request_query:
  assumes "confines (e_api E) ks (authorizerRoleForAuthRole (rp_Role props)) I ok"
    and "admin_compile_keeps (e_api E) {vq_Query q} I"
  shows "keeps ks I (executeRequestQuery E ctx props q)"
  unfolding executeRequestQuery_def
  by (auto split: sum.split intro!: keeps_rules keeps_db_Query simp: db_query_of_def)
    (use assms in blast)+

lemma keeps_execute_all:
  assumes "confines (e_api E) ks (authorizerRoleForAuthRole (rp_Role props)) I ok"
    and "admin_compile_keeps (e_api E) (vq_Query ` set qs) I"
  shows "keeps ks I (execute_all E ctx props qs acc)"
  using assms(2)
proof (induction qs arbitrary: acc)
  case (Cons q qs)
  then have "admin_compile_keeps (e_api E) {vq_Query q} I" "admin_compile_keeps (e_api E) (vq_Query ` set qs) I"
    by (auto elim!: admin_compile_mono)
  with Cons.IH show ?case by (auto intro!: keeps_rules keeps_request_query [OF assms(1)])
qed (auto intro!: keeps_rules)

lemma keeps_executeQueries:
  assumes "confines (e_api E) ks (authorizerRoleForAuthRole (rp_Role props)) I ok"
    and "admin_compile_keeps (e_api E) (vq_Query ` set qs) I"
  shows "keeps ks I (executeQueries E ctx props qs)"
  unfolding executeQueries_def by (intro keeps_rules keeps_execute_all [OF assms])

lemma confined_world:
  assumes "keeps ks I p" "I (world s)"
    and "p_connector (readWritePool s) \<in> ks" "p_connector (readOnlyPool s) \<in> ks"
  shows "I (world (snd (p s)))"
  using assms by (simp add: keeps_def guarded_def)

end
