(* ===== verification/Rpc.thy ===== *)
theory Rpc
  imports Vdl Database
begin

text \<open>
  The RPC server of \<open>internal/vdl/server.go\<close>: its state, the registrations that the program makes,
  and the life of a request to a procedure up to the response. A handler is a function from its
  context to an action on a state \<open>'s\<close>, with an error or an output; a Go \<open>any\<close> that passes
  through the server is an \<open>rpc_any\<close>. A context is passed by value: what a middleware writes into it
  reaches what it calls. The read-write lock guards the registrations, which the program makes
  before it serves. \<open>Rpc_Stream\<close> has the other registrations, the streams and the writing of responses.
\<close>

section \<open>Types\<close>

record OperationDefinition =
  od_RPCName :: string
  od_Name :: string
  od_Type :: string

definition OperationTypeProc :: string where "OperationTypeProc = ''proc''"
definition OperationTypeStream :: string where "OperationTypeStream = ''stream''"

definition VDLProcedures :: "OperationDefinition list" where
  "VDLProcedures =
     [\<lparr>od_RPCName = ''Database'', od_Name = ''query'', od_Type = OperationTypeProc\<rparr>,
      \<lparr>od_RPCName = ''System'', od_Name = ''health'', od_Type = OperationTypeProc\<rparr>,
      \<lparr>od_RPCName = ''System'', od_Name = ''session'', od_Type = OperationTypeProc\<rparr>,
      \<lparr>od_RPCName = ''System'', od_Name = ''status'', od_Type = OperationTypeProc\<rparr>]"

definition VDLStreams :: "OperationDefinition list" where
  "VDLStreams = []"

datatype rpc_any =
    AnyNil
  | RawMessage bytes
  | QueryInput "vdl_Query list"
  | VoidInput
  | QueryOutput DatabaseQueryOutput
  | HealthOutput SystemHealthOutput
  | SessionOutput AuthRole
  | StatusOutput SystemStatusOutput

text \<open>\<open>Category\<close>, \<open>Code\<close> and \<open>Details\<close> of an error are never set by this program.\<close>

record vdl_Error =
  e_Message :: string

record Response =
  rs_Ok :: bool
  rs_Output :: rpc_any
  rs_Error :: vdl_Error

definition Response0 :: Response where
  "Response0 = \<lparr>rs_Ok = False, rs_Output = AnyNil, rs_Error = \<lparr>e_Message = []\<rparr>\<rparr>"

definition ToError :: "go_error \<Rightarrow> vdl_Error" where
  "ToError e = \<lparr>e_Message = Error e\<rparr>"

record ('p, 'i) HandlerContext =
  hc_Props :: 'p
  hc_Input :: 'i
  hc_Context :: ctx
  hc_operation :: OperationDefinition

type_synonym ('s, 'p) handler = "('p, rpc_any) HandlerContext \<Rightarrow> 's \<Rightarrow> (go_error + rpc_any) outcome \<times> 's"
type_synonym ('s, 'p) middleware = "('s, 'p) handler \<Rightarrow> ('s, 'p) handler"
type_synonym deserializer = "bytes \<Rightarrow> go_error + rpc_any"
type_synonym 'p error_handler = "('p, rpc_any) HandlerContext \<Rightarrow> go_error \<Rightarrow> vdl_Error"

type_synonym ('s, 'p) emit_func =
  "('p, rpc_any) HandlerContext \<Rightarrow> rpc_any \<Rightarrow> 's \<Rightarrow> go_error option outcome \<times> 's"
type_synonym ('s, 'p) stream_handler =
  "('p, rpc_any) HandlerContext \<Rightarrow> ('s, 'p) emit_func \<Rightarrow> 's \<Rightarrow> go_error option outcome \<times> 's"
type_synonym ('s, 'p) stream_middleware = "('s, 'p) stream_handler \<Rightarrow> ('s, 'p) stream_handler"
type_synonym ('s, 'p) emit_middleware = "('s, 'p) emit_func \<Rightarrow> ('s, 'p) emit_func"

text \<open>Nanoseconds, as in \<open>time.Duration\<close>.\<close>

record StreamConfig =
  PingInterval :: int

text \<open>A map of maps distinguishes a missing inner map, which reads as empty and panics on a write. A
  missing list of middlewares is the empty one.\<close>

record ('s, 'p) internalServer =
  operationDefs :: "string \<rightharpoonup> (string \<rightharpoonup> OperationDefinition)"
  procHandlers :: "string \<rightharpoonup> (string \<rightharpoonup> ('s, 'p) handler)"
  globalMiddlewares :: "('s, 'p) middleware list"
  rpcMiddlewares :: "string \<Rightarrow> ('s, 'p) middleware list"
  procMiddlewares :: "string \<rightharpoonup> (string \<Rightarrow> ('s, 'p) middleware list)"
  procDeserializers :: "string \<rightharpoonup> (string \<rightharpoonup> deserializer)"
  streamHandlers :: "string \<rightharpoonup> (string \<rightharpoonup> ('s, 'p) stream_handler)"
  streamMiddlewares :: "string \<rightharpoonup> (string \<Rightarrow> ('s, 'p) stream_middleware list)"
  streamEmitMiddlewares :: "string \<rightharpoonup> (string \<Rightarrow> ('s, 'p) emit_middleware list)"
  streamDeserializers :: "string \<rightharpoonup> (string \<rightharpoonup> deserializer)"
  globalStreamConfig :: StreamConfig
  rpcStreamConfigs :: "string \<rightharpoonup> StreamConfig"
  streamConfigs :: "string \<rightharpoonup> (string \<rightharpoonup> StreamConfig)"
  globalErrorHandler :: "'p error_handler option"
  rpcErrorHandlers :: "string \<rightharpoonup> 'p error_handler"

text \<open>\<open>m[a][b]\<close> on nested maps: a missing or nil inner map has no entries.\<close>

definition lookup2 :: "('a \<rightharpoonup> ('b \<rightharpoonup> 'c)) \<Rightarrow> 'a \<Rightarrow> 'b \<Rightarrow> 'c option" where
  "lookup2 m a b = (case m a of None \<Rightarrow> None | Some n \<Rightarrow> n b)"

definition middlewares2 :: "('a \<rightharpoonup> ('b \<Rightarrow> 'c list)) \<Rightarrow> 'a \<Rightarrow> 'b \<Rightarrow> 'c list" where
  "middlewares2 m a b = (case m a of None \<Rightarrow> [] | Some n \<Rightarrow> n b)"

section \<open>Registration\<close>

definition ensureRPC :: "string \<Rightarrow> ('s, 'p) internalServer \<Rightarrow> ('s, 'p) internalServer" where
  "ensureRPC rpcName S =
     (if operationDefs S rpcName = None then
        S\<lparr>operationDefs := (operationDefs S)(rpcName \<mapsto> Map.empty),
          procHandlers := (procHandlers S)(rpcName \<mapsto> Map.empty),
          streamHandlers := (streamHandlers S)(rpcName \<mapsto> Map.empty),
          procMiddlewares := (procMiddlewares S)(rpcName \<mapsto> (\<lambda>_. [])),
          streamMiddlewares := (streamMiddlewares S)(rpcName \<mapsto> (\<lambda>_. [])),
          streamEmitMiddlewares := (streamEmitMiddlewares S)(rpcName \<mapsto> (\<lambda>_. [])),
          procDeserializers := (procDeserializers S)(rpcName \<mapsto> Map.empty),
          streamDeserializers := (streamDeserializers S)(rpcName \<mapsto> Map.empty),
          streamConfigs := (streamConfigs S)(rpcName \<mapsto> Map.empty)\<rparr>
      else S)"

definition add_operation :: "OperationDefinition \<Rightarrow> ('s, 'p) internalServer \<Rightarrow> ('s, 'p) internalServer" where
  "add_operation d S =
     (let S1 = ensureRPC (od_RPCName d) S;
          ops = (case operationDefs S1 (od_RPCName d) of None \<Rightarrow> Map.empty | Some ops \<Rightarrow> ops) in
      S1\<lparr>operationDefs := (operationDefs S1)(od_RPCName d \<mapsto> ops(od_Name d \<mapsto> d))\<rparr>)"

definition newInternalServer ::
  "OperationDefinition list \<Rightarrow> OperationDefinition list \<Rightarrow> ('s, 'p) internalServer" where
  "newInternalServer procDefs streamDefs =
     fold add_operation streamDefs (fold add_operation procDefs
       \<lparr>operationDefs = Map.empty, procHandlers = Map.empty, globalMiddlewares = [],
        rpcMiddlewares = (\<lambda>_. []), procMiddlewares = Map.empty, procDeserializers = Map.empty,
        streamHandlers = Map.empty, streamMiddlewares = Map.empty, streamEmitMiddlewares = Map.empty,
        streamDeserializers = Map.empty, globalStreamConfig = \<lparr>PingInterval = 30000000000\<rparr>,
        rpcStreamConfigs = Map.empty, streamConfigs = Map.empty,
        globalErrorHandler = None, rpcErrorHandlers = Map.empty\<rparr>)"

definition addGlobalMiddleware :: "('s, 'p) middleware \<Rightarrow> ('s, 'p) internalServer \<Rightarrow> ('s, 'p) internalServer" where
  "addGlobalMiddleware mw S = S\<lparr>globalMiddlewares := globalMiddlewares S @ [mw]\<rparr>"

definition addRPCMiddleware ::
  "string \<Rightarrow> ('s, 'p) middleware \<Rightarrow> ('s, 'p) internalServer \<Rightarrow> ('s, 'p) internalServer" where
  "addRPCMiddleware rpcName mw S =
     S\<lparr>rpcMiddlewares := (rpcMiddlewares S)(rpcName := rpcMiddlewares S rpcName @ [mw])\<rparr>"

definition setGlobalErrorHandler :: "'p error_handler \<Rightarrow> ('s, 'p) internalServer \<Rightarrow> ('s, 'p) internalServer" where
  "setGlobalErrorHandler h S = S\<lparr>globalErrorHandler := Some h\<rparr>"

definition setRPCErrorHandler ::
  "string \<Rightarrow> 'p error_handler \<Rightarrow> ('s, 'p) internalServer \<Rightarrow> ('s, 'p) internalServer" where
  "setRPCErrorHandler rpcName h S = S\<lparr>rpcErrorHandlers := (rpcErrorHandlers S)(rpcName \<mapsto> h)\<rparr>"

text \<open>\<open>None\<close> is a panic: a second registration, or an assignment to a nil map.\<close>

definition setProcHandler ::
  "string \<Rightarrow> string \<Rightarrow> ('s, 'p) handler \<Rightarrow> deserializer \<Rightarrow> ('s, 'p) internalServer \<Rightarrow> ('s, 'p) internalServer option"
  where
  "setProcHandler rpcName procName h d S =
     (case (procHandlers S rpcName, procDeserializers S rpcName) of
        (Some hs, Some ds) \<Rightarrow>
          if hs procName \<noteq> None then None
          else Some (S\<lparr>procHandlers := (procHandlers S)(rpcName \<mapsto> hs(procName \<mapsto> h)),
                       procDeserializers := (procDeserializers S)(rpcName \<mapsto> ds(procName \<mapsto> d))\<rparr>)
      | _ \<Rightarrow> None)"

definition NewServer_rpc :: "('s, 'p) internalServer" where
  "NewServer_rpc = newInternalServer VDLProcedures VDLStreams"

subsection \<open>The typed entries of the four procedures\<close>

definition typed_context :: "('p, rpc_any) HandlerContext \<Rightarrow> 'i \<Rightarrow> ('p, 'i) HandlerContext" where
  "typed_context c input = \<lparr>hc_Props = hc_Props c, hc_Input = input, hc_Context = hc_Context c,
     hc_operation = hc_operation c\<rparr>"

text \<open>\<open>adapted\<close> is the untyped handler around a typed one: \<open>cast\<close> is the type assertion on the
  input, with the zero value when it fails.\<close>

definition adapted ::
  "(rpc_any \<Rightarrow> 'i) \<Rightarrow> ('o \<Rightarrow> rpc_any) \<Rightarrow>
   (('p, 'i) HandlerContext \<Rightarrow> 's \<Rightarrow> (go_error + 'o) outcome \<times> 's) \<Rightarrow> ('s, 'p) handler" where
  "adapted cast wrap h c =
     bnd (h (typed_context c (cast (hc_Input c)))) (\<lambda>r. ret (map_sum id wrap r))"

fun as_queries :: "rpc_any \<Rightarrow> vdl_Query list" where
  "as_queries (QueryInput qs) = qs"
| "as_queries _ = []"

definition Handle_Database_query ::
  "(bytes \<Rightarrow> go_error + preDatabaseQueryInput) \<Rightarrow>
   (('p, vdl_Query list) HandlerContext \<Rightarrow> 's \<Rightarrow> (go_error + DatabaseQueryOutput) outcome \<times> 's) \<Rightarrow>
   ('s, 'p) internalServer \<Rightarrow> ('s, 'p) internalServer option" where
  "Handle_Database_query unmarshal h =
     setProcHandler ''Database'' ''query'' (adapted as_queries QueryOutput h)
       (\<lambda>raw. case UnmarshalJSON_DatabaseQueryInput unmarshal raw of
           Inl e \<Rightarrow> Inl (Wrapped ''failed to unmarshal Database.query input'' e)
         | Inr qs \<Rightarrow> Inr (QueryInput qs))"

definition Handle_System_health ::
  "(('p, unit) HandlerContext \<Rightarrow> 's \<Rightarrow> (go_error + SystemHealthOutput) outcome \<times> 's) \<Rightarrow>
   ('s, 'p) internalServer \<Rightarrow> ('s, 'p) internalServer option" where
  "Handle_System_health h =
     setProcHandler ''System'' ''health'' (adapted (\<lambda>_. ()) HealthOutput h) (\<lambda>raw. Inr VoidInput)"

definition Handle_System_session ::
  "(('p, unit) HandlerContext \<Rightarrow> 's \<Rightarrow> (go_error + AuthRole) outcome \<times> 's) \<Rightarrow>
   ('s, 'p) internalServer \<Rightarrow> ('s, 'p) internalServer option" where
  "Handle_System_session h =
     setProcHandler ''System'' ''session'' (adapted (\<lambda>_. ()) SessionOutput h) (\<lambda>raw. Inr VoidInput)"

definition Handle_System_status ::
  "(('p, unit) HandlerContext \<Rightarrow> 's \<Rightarrow> (go_error + SystemStatusOutput) outcome \<times> 's) \<Rightarrow>
   ('s, 'p) internalServer \<Rightarrow> ('s, 'p) internalServer option" where
  "Handle_System_status h =
     setProcHandler ''System'' ''status'' (adapted (\<lambda>_. ()) StatusOutput h) (\<lambda>raw. Inr VoidInput)"

section \<open>A request\<close>

definition resolveErrorHandler :: "('s, 'p) internalServer \<Rightarrow> string \<Rightarrow> 'p error_handler" where
  "resolveErrorHandler S rpcName =
     (case rpcErrorHandlers S rpcName of
        Some h \<Rightarrow> h
      | None \<Rightarrow> (case globalErrorHandler S of Some h \<Rightarrow> h | None \<Rightarrow> (\<lambda>c e. ToError e)))"

text \<open>\<open>for i := len(mws) - 1; i >= 0; i-- { f = mws[i](f) }\<close>\<close>

definition compose :: "('a \<Rightarrow> 'a) list \<Rightarrow> 'a \<Rightarrow> 'a" where
  "compose mws f = foldr (\<lambda>mw f. mw f) mws f"

definition handleProcRequest ::
  "('s, 'p) internalServer \<Rightarrow> ('p, rpc_any) HandlerContext \<Rightarrow> string \<Rightarrow> string \<Rightarrow> bytes
   \<Rightarrow> 's \<Rightarrow> ((go_error + rpc_any) \<times> ('p, rpc_any) HandlerContext) outcome \<times> 's" where
  "handleProcRequest S c rpcName procName rawInput =
     (case lookup2 (procHandlers S) rpcName procName of
        None \<Rightarrow>
          ret (Inl (ErrorString (rpcName @ ''.'' @ procName @ '' procedure not implemented'')), c)
      | Some baseHandler \<Rightarrow>
          (case lookup2 (procDeserializers S) rpcName procName of
             None \<Rightarrow>
               ret (Inl (ErrorString (rpcName @ ''.'' @ procName @
                   '' procedure deserializer not registered'')), c)
           | Some deserialize \<Rightarrow>
               (case deserialize rawInput of
                  Inl e \<Rightarrow> ret (Inl e, c)
                | Inr typedInput \<Rightarrow>
                    let c1 = c\<lparr>hc_Input := typedInput\<rparr>;
                        final = compose (middlewares2 (procMiddlewares S) rpcName procName) baseHandler;
                        exec = compose (rpcMiddlewares S rpcName) final;
                        exec1 = compose (globalMiddlewares S) exec in
                    bnd (exec1 c1) (\<lambda>r. ret (r, c1)))))"

text \<open>The last part of \<open>handleRequest\<close>: run the procedure and build the response that
  \<open>writeProcResponse\<close> sends as JSON.\<close>

definition procResponse ::
  "('s, 'p) internalServer \<Rightarrow> ('p, rpc_any) HandlerContext \<Rightarrow> string \<Rightarrow> string \<Rightarrow> bytes
   \<Rightarrow> 's \<Rightarrow> Response outcome \<times> 's" where
  "procResponse S c rpcName operationName rawInput =
     bnd (handleProcRequest S c rpcName operationName rawInput) (\<lambda>(r, c1).
     case r of
       Inl e \<Rightarrow> ret (Response0\<lparr>rs_Ok := False, rs_Error := resolveErrorHandler S rpcName c1 e\<rparr>)
     | Inr output \<Rightarrow> ret (Response0\<lparr>rs_Ok := True, rs_Output := output\<rparr>))"

text \<open>\<open>decode_raw\<close> reads one JSON value from the body, \<open>None\<close> when there is none or reading fails.\<close>

definition handleRequest ::
  "('s, 'p) internalServer \<Rightarrow> (bytes \<Rightarrow> bytes option) \<Rightarrow> ctx \<Rightarrow> 'p \<Rightarrow> string \<Rightarrow> string \<Rightarrow> bytes
   \<Rightarrow> 's \<Rightarrow> Response outcome \<times> 's" where
  "handleRequest S decode_raw ctx props rpcName operationName body =
     (case decode_raw body of
        None \<Rightarrow> ret (Response0\<lparr>rs_Error := \<lparr>e_Message = ''Invalid request body''\<rparr>\<rparr>)
      | Some rawInput \<Rightarrow>
          (case lookup2 (operationDefs S) rpcName operationName of
             None \<Rightarrow>
               ret (Response0\<lparr>rs_Error :=
                 \<lparr>e_Message = ''Invalid operation: '' @ rpcName @ ''.'' @ operationName\<rparr>\<rparr>)
           | Some operation \<Rightarrow>
               procResponse S
                 \<lparr>hc_Props = props, hc_Input = RawMessage rawInput, hc_Context = ctx,
                  hc_operation = operation\<rparr> rpcName operationName rawInput))"

section \<open>Lemmas\<close>

lemma bnd_assoc: "bnd (bnd p f) g = bnd p (\<lambda>a. bnd (f a) g)"
  by (rule ext) (auto simp: bnd_def split: prod.splits outcome.splits)

lemma bnd_ret [simp]: "bnd (ret a) f = f a"
  by (rule ext) (simp add: bnd_def ret_def)

lemma compose_simps [simp]: "compose [] f = f" "compose (m # ms) f = m (compose ms f)"
  by (simp_all add: compose_def)

lemma compose_append: "compose (ms @ ns) f = compose ms (compose ns f)"
  by (simp add: compose_def)

lemma lookup2_upd:
  "m a = Some n \<Longrightarrow> lookup2 (m(a \<mapsto> n(b \<mapsto> x))) c d = (if c = a \<and> d = b then Some x else lookup2 m c d)"
  by (auto simp: lookup2_def)

lemma setProcHandler_Some:
  assumes "setProcHandler r p h d S = Some S'"
  shows "lookup2 (procHandlers S') a b =
      (if a = r \<and> b = p then Some h else lookup2 (procHandlers S) a b)"
    and "lookup2 (procDeserializers S') a b =
      (if a = r \<and> b = p then Some d else lookup2 (procDeserializers S) a b)"
    and "operationDefs S' = operationDefs S" "globalMiddlewares S' = globalMiddlewares S"
    and "rpcMiddlewares S' = rpcMiddlewares S" "procMiddlewares S' = procMiddlewares S"
    and "globalErrorHandler S' = globalErrorHandler S" "rpcErrorHandlers S' = rpcErrorHandlers S"
  using assms
  by (auto simp: setProcHandler_def lookup2_upd split: option.splits if_splits)

text \<open>The catalogue has procedures only, and its operations are these four.\<close>

lemma catalogue:
  "lookup2 (operationDefs (NewServer_rpc :: ('s, 'p) internalServer)) r p =
   (if r = ''Database'' \<and> p = ''query'' \<or> r = ''System'' \<and> p \<in> {''health'', ''session'', ''status''}
    then Some \<lparr>od_RPCName = r, od_Name = p, od_Type = OperationTypeProc\<rparr> else None)"
  by (auto simp: NewServer_rpc_def newInternalServer_def VDLProcedures_def VDLStreams_def
      add_operation_def ensureRPC_def lookup2_def Let_def)

lemma fresh_rpc:
  "lookup2 (procHandlers (NewServer_rpc :: ('s, 'p) internalServer)) r p = None"
  "globalMiddlewares (NewServer_rpc :: ('s, 'p) internalServer) = []"
  "rpcMiddlewares (NewServer_rpc :: ('s, 'p) internalServer) r = []"
  "middlewares2 (procMiddlewares (NewServer_rpc :: ('s, 'p) internalServer)) r p = []"
  "globalErrorHandler (NewServer_rpc :: ('s, 'p) internalServer) = None"
  "rpcErrorHandlers (NewServer_rpc :: ('s, 'p) internalServer) r = None"
  "procHandlers (NewServer_rpc :: ('s, 'p) internalServer) ''Database'' \<noteq> None"
  "procHandlers (NewServer_rpc :: ('s, 'p) internalServer) ''System'' \<noteq> None"
  "procDeserializers (NewServer_rpc :: ('s, 'p) internalServer) ''Database'' \<noteq> None"
  "procDeserializers (NewServer_rpc :: ('s, 'p) internalServer) ''System'' \<noteq> None"
  by (auto simp: NewServer_rpc_def newInternalServer_def VDLProcedures_def VDLStreams_def
      add_operation_def ensureRPC_def lookup2_def middlewares2_def Let_def)

end
