(* ===== verification/Server.thy ===== *)
theory Server
  imports Query_Props Rpc
begin

text \<open>
  The HTTP server of \<open>internal/server\<close> without its rqlite half: requests and responses
  (\<open>util/httputil\<close>), \<open>server.go\<close>, \<open>middleware.go\<close>, \<open>errors.go\<close>, \<open>health.go\<close>, \<open>stats.go\<close> and
  \<open>rpc.go\<close>. The state is the database object, which holds the statistics that server and database
  share, and the authentication state. A response body stays structured: its JSON text is the
  work of the encoders. Writing a response is taken to succeed.
\<close>

section \<open>Requests and responses\<close>

text \<open>\<open>rq_Header\<close> is \<open>Header.Get\<close> and \<open>rq_Query\<close> the parsed query of the URL; \<open>rq_Limit\<close> is set by
  \<open>http.MaxBytesReader\<close>, which fails a read beyond it.\<close>

record http_request =
  rq_Method :: string
  rq_Path :: "string list"
  rq_Query :: "string \<rightharpoonup> string list"
  rq_Header :: "string \<Rightarrow> string"
  rq_Body :: bytes
  rq_Limit :: "nat option"
  rq_Context :: ctx
  rq_RemoteAddr :: string

datatype 'b http_body = Payload 'b | ErrorJSON (ej_id: string) (ej_error: string) (ej_message: string)
  | Text string

record 'b http_response =
  hr_Status :: nat
  hr_Body :: "'b http_body"

definition WriteJSON :: "nat \<Rightarrow> 'b http_body \<Rightarrow> 'b http_response" where
  "WriteJSON status v = \<lparr>hr_Status = status, hr_Body = v\<rparr>"

definition WriteString :: "nat \<Rightarrow> string \<Rightarrow> 'b http_response" where
  "WriteString status s = \<lparr>hr_Status = status, hr_Body = Text s\<rparr>"

definition ReadUserIP :: "http_request \<Rightarrow> string" where
  "ReadUserIP r =
     (let a = rq_Header r ''X-Real-Ip'';
          b = (if a = [] then rq_Header r ''X-Forwarded-For'' else a) in
      if b = [] then rq_RemoteAddr r else b)"

text \<open>What a reader of the body gets before the limit fails it, and \<open>io.ReadAll\<close>.\<close>

definition readable_body :: "http_request \<Rightarrow> bytes" where
  "readable_body r = (case rq_Limit r of None \<Rightarrow> rq_Body r | Some n \<Rightarrow> take n (rq_Body r))"

definition ReadAll :: "http_request \<Rightarrow> go_error + bytes" where
  "ReadAll r =
     (case rq_Limit r of
        Some n \<Rightarrow> if length (rq_Body r) > n then Inl (ErrorString ''http: request body too large'')
                  else Inr (rq_Body r)
      | None \<Rightarrow> Inr (rq_Body r))"

text \<open>\<open>CreateHandlerFuncBuilder\<close>: the handler inside its middlewares, and the error handler for
  what it returns.\<close>

type_synonym ('s, 'b) http_handler = "http_request \<Rightarrow> 's \<Rightarrow> (go_error + 'b http_response) outcome \<times> 's"

definition CreateHandlerFuncBuilder ::
  "(http_request \<Rightarrow> go_error \<Rightarrow> 's \<Rightarrow> 'b http_response outcome \<times> 's) \<Rightarrow> ('s, 'b) http_handler \<Rightarrow>
   (('s, 'b) http_handler \<Rightarrow> ('s, 'b) http_handler) list \<Rightarrow> http_request \<Rightarrow> 's \<Rightarrow> 'b http_response outcome \<times> 's"
  where
  "CreateHandlerFuncBuilder onError h mws r =
     bnd (compose mws h r) (\<lambda>v. case v of Inl e \<Rightarrow> onError r e | Inr resp \<Rightarrow> ret resp)"

section \<open>The server\<close>

record server_config =
  c_AuthTokens :: "string list"
  c_ReadWriteAuthTokens :: "string list"
  c_ReadOnlyAuthTokens :: "string list"
  c_ListenHost :: string
  c_ListenPort :: string
  c_MaxRequestSizeMB :: "64 word"
  c_IdleTimeout :: int

record 'w server =
  srv_Config :: server_config
  srv_DB :: "'w DB"
  srv_auth :: auth
  srv_isInitialized :: bool

type_synonym ('w, 'a) srv_act = "'w server \<Rightarrow> 'a outcome \<times> 'w server"

definition on_DB :: "('w, 'a) act \<Rightarrow> ('w, 'a) srv_act" where
  "on_DB p s = (case p (srv_DB s) of (r, d) \<Rightarrow> (r, s\<lparr>srv_DB := d\<rparr>))"

definition on_auth :: "(auth \<Rightarrow> 'a \<times> auth) \<Rightarrow> ('w, 'a) srv_act" where
  "on_auth f s = (case f (srv_auth s) of (r, a) \<Rightarrow> (Done r, s\<lparr>srv_auth := a\<rparr>))"

text \<open>\<open>salt\<close> is the answer of \<open>uuid.NewString()\<close>; the RPC server is \<open>newRPCServer\<close> below.\<close>

definition NewServer :: "server_config \<Rightarrow> string \<Rightarrow> 'w DB \<Rightarrow> 'w server" where
  "NewServer config salt db =
     (let config1 = (if c_ListenHost config = [] then config\<lparr>c_ListenHost := ''0.0.0.0''\<rparr> else config);
          config2 = (if c_ListenPort config1 = [] then config1\<lparr>c_ListenPort := ''9876''\<rparr> else config1) in
      \<lparr>srv_Config = config2, srv_DB = db,
       srv_auth = new_auth (c_AuthTokens config2) (c_ReadWriteAuthTokens config2)
                    (c_ReadOnlyAuthTokens config2) salt,
       srv_isInitialized = True\<rparr>)"

definition Start_addr :: "'w server \<Rightarrow> string" where
  "Start_addr s = c_ListenHost (srv_Config s) @ '':'' @ c_ListenPort (srv_Config s)"

text \<open>\<open>maxRequestSize\<close>, in 64-bit arithmetic.\<close>

definition maxRequestSize :: "server_config \<Rightarrow> 64 word" where
  "maxRequestSize config =
     (if sint (c_MaxRequestSizeMB config) \<le> 0 then 100 * 1024 * 1024
      else c_MaxRequestSizeMB config * 1024 * 1024)"

definition MaxBytesReader :: "64 word \<Rightarrow> http_request \<Rightarrow> http_request" where
  "MaxBytesReader n r = r\<lparr>rq_Limit := Some (nat (sint n))\<rparr>"

definition maxRequestBodyMiddleware ::
  "(http_request \<Rightarrow> 'w server \<Rightarrow> 'a) \<Rightarrow> http_request \<Rightarrow> 'w server \<Rightarrow> 'a" where
  "maxRequestBodyMiddleware next_handler r s = next_handler (MaxBytesReader (maxRequestSize (srv_Config s)) r) s"

text \<open>\<open>http.StatusText\<close> of the statuses that the program puts into errors.\<close>

definition StatusText :: "nat \<Rightarrow> string" where
  "StatusText st =
     (if st = 400 then ''Bad Request'' else if st = 401 then ''Unauthorized''
      else if st = 403 then ''Forbidden'' else if st = 500 then ''Internal Server Error'' else '''')"

definition new_uuid :: "'w env \<Rightarrow> ('w, string) act" where
  "new_uuid E s = (Done (uuid_NewString E (ticks s)), s\<lparr>ticks := ticks s + 1\<rparr>)"

definition errorHandler :: "'w env \<Rightarrow> http_request \<Rightarrow> go_error \<Rightarrow> ('w, 'b http_response) srv_act" where
  "errorHandler E r e =
     bnd (on_DB (new_uuid E)) (\<lambda>errorId. ret
       (case errors_As_JSON e of
          Some je \<Rightarrow>
            let statusText = StatusText (je_HTTPStatus je);
                safeMessage = (if je_SafeMessage je = [] then statusText else je_SafeMessage je) in
            WriteJSON (je_HTTPStatus je) (ErrorJSON errorId statusText safeMessage)
        | None \<Rightarrow> WriteString 500 (''Internal Server Error - '' @ errorId)))"

section \<open>Procedures\<close>

definition databaseQueryProc ::
  "'w env \<Rightarrow> (requestProps, vdl_Query list) HandlerContext \<Rightarrow> ('w, go_error + DatabaseQueryOutput) srv_act" where
  "databaseQueryProc E c =
     bnd (on_DB (executeQueries E (hc_Context c) (hc_Props c) (hc_Input c))) (\<lambda>out. ret (Inr out))"

definition health_query :: query where
  "health_query = \<lparr>q_TxID = [], q_TxOwner = [], q_Query = ''SELECT 1'', q_Params = [], q_Role = 0\<rparr>"

definition systemHealthProc ::
  "'w env \<Rightarrow> (requestProps, unit) HandlerContext \<Rightarrow> ('w, go_error + SystemHealthOutput) srv_act" where
  "systemHealthProc E c =
     bnd (on_DB (db_Query E (hc_Context c) health_query)) (\<lambda>r. ret (Inr
       (case r of
          Inl e \<Rightarrow> \<lparr>h_Healthy = False, h_Database = False, h_Message = ''Database unavailable''\<rparr>
        | Inr _ \<Rightarrow> \<lparr>h_Healthy = True, h_Database = True, h_Message = ''OK''\<rparr>)))"

definition authRoleToVDL :: "authRole \<Rightarrow> AuthRole" where
  "authRoleToVDL r =
     (if r = authRoleReadWrite then AuthRoleReadWrite
      else if r = authRoleReadOnly then AuthRoleReadOnly else AuthRoleAdmin)"

definition systemSessionProc ::
  "(requestProps, unit) HandlerContext \<Rightarrow> ('w, go_error + AuthRole) srv_act" where
  "systemSessionProc c = ret (Inr (authRoleToVDL (rp_Role (hc_Props c))))"

definition counters_to_VDL :: "minuteData \<Rightarrow> StatsTotalsCounters" where
  "counters_to_VDL m = \<lparr>vc_Reads = reads m, vc_Writes = writes m, vc_Begins = begins m,
     vc_Commits = commits m, vc_Rollbacks = rollbacks m, vc_Errors = errors m,
     vc_HttpRequests = httpRequests m\<rparr>"

text \<open>\<open>now\<close> is the reading of \<open>time.Since\<close>; the zero time is \<open>0\<close>.\<close>

definition loadedStatsToVDL :: "time \<Rightarrow> LoadedStats \<Rightarrow> vdl_Stats" where
  "loadedStatsToVDL now loaded =
     (let started = parse_or_zero (L_StartedAt loaded);
          minutes_map = foldl (\<lambda>m st. m(S_Minute st \<mapsto> counters_to_VDL (S_Counters st))) Map.empty (L_Stats loaded);
          t = L_Totals loaded in
      \<lparr>vs_StartedAt = started,
       vs_UptimeSeconds = (if started \<noteq> 0 then now - started else 0),
       vs_Totals = \<lparr>vc_Reads = T_Reads t, vc_Writes = T_Writes t, vc_Begins = T_Begins t,
         vc_Commits = T_Commits t, vc_Rollbacks = T_Rollbacks t, vc_Errors = T_Errors t,
         vc_HttpRequests = T_HTTPRequests t\<rparr>,
       vs_Queued = \<lparr>vk_Begins = L_QueuedBegins loaded, vk_Writes = L_QueuedWrites loaded,
         vk_HttpRequests = L_QueuedHTTPRequests loaded\<rparr>,
       vs_Minutes = minutes_map\<rparr>)"

definition Version :: string where
  "Version = TrimPrefix (TrimSpace ''0.0.0-dev'') ''v''"

definition systemStatusProc ::
  "'w env \<Rightarrow> (requestProps, unit) HandlerContext \<Rightarrow> ('w, go_error + SystemStatusOutput) srv_act" where
  "systemStatusProc E c =
     bnd (on_DB (clock E)) (\<lambda>t1.
     bnd (\<lambda>s. (Done (LoadStats t1 (dbStats (srv_DB s))), s)) (\<lambda>loaded.
     bnd (on_DB (clock E)) (\<lambda>t2.
     ret (Inr \<lparr>y_Name = ''NSQLite'', y_Version = Version, y_Stats = loadedStatsToVDL t2 loaded\<rparr>))))"

section \<open>rpc.go\<close>

definition safe_message :: "go_error \<Rightarrow> string" where
  "safe_message e =
     (case errors_As_JSON e of
        Some je \<Rightarrow> if je_SafeMessage je \<noteq> [] then je_SafeMessage je else Error e
      | None \<Rightarrow> Error e)"

definition rpcErrorHandler :: "requestProps error_handler" where
  "rpcErrorHandler c e = \<lparr>e_Message = safe_message e\<rparr>"

definition writeRPCError :: "go_error \<Rightarrow> Response http_response" where
  "writeRPCError e = WriteJSON 200 (Payload (Response0\<lparr>rs_Error := \<lparr>e_Message = safe_message e\<rparr>\<rparr>))"

definition newRPCServer ::
  "'w env \<Rightarrow> (bytes \<Rightarrow> go_error + preDatabaseQueryInput) \<Rightarrow> ('w server, requestProps) internalServer option"
  where
  "newRPCServer E unmarshal =
     Option.bind (Handle_Database_query unmarshal (databaseQueryProc E)
                    (setGlobalErrorHandler rpcErrorHandler NewServer_rpc)) (\<lambda>S1.
     Option.bind (Handle_System_health (systemHealthProc E) S1) (\<lambda>S2.
     Option.bind (Handle_System_session systemSessionProc S2) (\<lambda>S3.
     Handle_System_status (systemStatusProc E) S3)))"

definition authorizeRPCRequest ::
  "crypto \<Rightarrow> http_request \<Rightarrow> string \<Rightarrow> string \<Rightarrow> auth \<Rightarrow> (go_error + requestProps) \<times> auth" where
  "authorizeRPCRequest K r rpcName operationName a =
     (if rpcName = ''System'' \<and> operationName = ''health'' then
        (Inr \<lparr>rp_Role = authRoleAdmin, rp_Principal = []\<rparr>, a)
      else
        case authenticateRequest K (rq_Header r ''Authorization'') a of
          (Inl e, a1) \<Rightarrow> (Inl e, a1)
        | (Inr (rl, pal), a1) \<Rightarrow>
            (if rpcName = ''System'' \<and> operationName = ''status'' \<and> rl \<noteq> authRoleAdmin
             then Inl forbiddenError
             else Inr \<lparr>rp_Role = rl, rp_Principal = pal\<rparr>, a1))"

definition count_http :: "'w env \<Rightarrow> ('w, unit) srv_act" where
  "count_http E =
     bnd (on_DB (count E IncHTTPRequests)) (\<lambda>_. on_DB (gauge IncQueuedHTTPRequests))"

text \<open>\<open>S\<close> is the RPC server that \<open>newRPCServer\<close> built; \<open>rpc_serve\<close> is the part of the handler after
  the authorization.\<close>

definition rpc_serve ::
  "'w env \<Rightarrow> ('w server, requestProps) internalServer \<Rightarrow> (bytes \<Rightarrow> bytes option) \<Rightarrow>
   string \<Rightarrow> string \<Rightarrow> http_request \<Rightarrow> requestProps \<Rightarrow> ('w, go_error + Response http_response) srv_act" where
  "rpc_serve E S decode_raw rpcName operationName r props =
     (let handle = handleRequest S decode_raw (rq_Context r) props rpcName operationName (readable_body r);
          respond = (\<lambda>resp. ret (Inr \<lparr>hr_Status = 200, hr_Body = Payload resp\<rparr>)) in
      if rpcName = ''Database'' \<and> operationName = ''query'' then
        bnd (count_http E) (\<lambda>_.
        bnd handle (\<lambda>resp.
        bnd (on_DB (gauge DecQueuedHTTPRequests)) (\<lambda>_. respond resp)))
      else bnd handle respond)"

definition rpcHandler ::
  "'w env \<Rightarrow> crypto \<Rightarrow> ('w server, requestProps) internalServer \<Rightarrow> (bytes \<Rightarrow> bytes option) \<Rightarrow>
   string \<Rightarrow> string \<Rightarrow> ('w server, Response) http_handler" where
  "rpcHandler E K S decode_raw rpcName operationName r =
     bnd (on_auth (authorizeRPCRequest K r rpcName operationName)) (\<lambda>auth. case auth of
         Inl e \<Rightarrow> ret (Inr (writeRPCError e))
       | Inr props \<Rightarrow> rpc_serve E S decode_raw rpcName operationName r props)"

end
