(* ===== verification/Server_Props.thy ===== *)
theory Server_Props
  imports Server
begin

text \<open>
  The composed server: what an RPC request is answered with, who gets past authentication, and
  that neither a role nor a transaction can be used by anybody else.
\<close>

section \<open>The RPC table\<close>

lemma new_rpc_server:
  fixes E :: "'w env" and unmarshal
  defines "S \<equiv> the (newRPCServer E unmarshal)"
  shows "newRPCServer E unmarshal = Some S"
    and "operationDefs S = operationDefs (NewServer_rpc :: ('w server, requestProps) internalServer)"
    and "globalMiddlewares S = []" "rpcMiddlewares S r = []" "middlewares2 (procMiddlewares S) r p = []"
    and "globalErrorHandler S = Some rpcErrorHandler" "rpcErrorHandlers S r = None"
    and "lookup2 (procHandlers S) ''Database'' ''query'' = Some (adapted as_queries QueryOutput (databaseQueryProc E))"
    and "lookup2 (procHandlers S) ''System'' ''health'' = Some (adapted (\<lambda>_. ()) HealthOutput (systemHealthProc E))"
    and "lookup2 (procHandlers S) ''System'' ''session'' = Some (adapted (\<lambda>_. ()) SessionOutput systemSessionProc)"
    and "lookup2 (procHandlers S) ''System'' ''status'' = Some (adapted (\<lambda>_. ()) StatusOutput (systemStatusProc E))"
    and "lookup2 (procDeserializers S) ''Database'' ''query'' =
      Some (\<lambda>raw. case UnmarshalJSON_DatabaseQueryInput unmarshal raw of
           Inl e \<Rightarrow> Inl (Wrapped ''failed to unmarshal Database.query input'' e)
         | Inr qs \<Rightarrow> Inr (QueryInput qs))"
    and "lookup2 (procDeserializers S) ''System'' ''health'' = Some (\<lambda>raw. Inr VoidInput)"
    and "lookup2 (procDeserializers S) ''System'' ''session'' = Some (\<lambda>raw. Inr VoidInput)"
    and "lookup2 (procDeserializers S) ''System'' ''status'' = Some (\<lambda>raw. Inr VoidInput)"
  by (simp_all add: S_def newRPCServer_def Handle_Database_query_def Handle_System_health_def
        Handle_System_session_def Handle_System_status_def setProcHandler_def setGlobalErrorHandler_def
        NewServer_rpc_def newInternalServer_def VDLProcedures_def VDLStreams_def add_operation_def
        ensureRPC_def lookup2_def middlewares2_def Let_def)

definition rpc_failure :: "string \<Rightarrow> Response" where
  "rpc_failure m = Response0\<lparr>rs_Error := \<lparr>e_Message = m\<rparr>\<rparr>"

definition rpc_success :: "rpc_any \<Rightarrow> Response" where
  "rpc_success v = Response0\<lparr>rs_Ok := True, rs_Output := v\<rparr>"

text \<open>The table of the RPC server: what each operation does with a request of the given sender.\<close>

definition rpc_table ::
  "'w env \<Rightarrow> (bytes \<Rightarrow> go_error + preDatabaseQueryInput) \<Rightarrow> ctx \<Rightarrow> requestProps \<Rightarrow> string \<Rightarrow> string \<Rightarrow> bytes
   \<Rightarrow> ('w, Response) srv_act" where
  "rpc_table E unmarshal ctx props rpcName operationName raw =
     (let c = \<lparr>hc_Props = props, hc_Input = (), hc_Context = ctx, hc_operation =
            \<lparr>od_RPCName = rpcName, od_Name = operationName, od_Type = OperationTypeProc\<rparr>\<rparr> in
      if rpcName = ''Database'' \<and> operationName = ''query'' then
        (case UnmarshalJSON_DatabaseQueryInput unmarshal raw of
           Inl e \<Rightarrow> ret (rpc_failure (safe_message (Wrapped ''failed to unmarshal Database.query input'' e)))
         | Inr qs \<Rightarrow> bnd (on_DB (executeQueries E ctx props qs)) (\<lambda>out. ret (rpc_success (QueryOutput out))))
      else if rpcName = ''System'' \<and> operationName = ''health'' then
        bnd (systemHealthProc E c) (\<lambda>r. ret (case r of Inl e \<Rightarrow> rpc_failure (safe_message e)
                                                    | Inr v \<Rightarrow> rpc_success (HealthOutput v)))
      else if rpcName = ''System'' \<and> operationName = ''session'' then
        ret (rpc_success (SessionOutput (authRoleToVDL (rp_Role props))))
      else if rpcName = ''System'' \<and> operationName = ''status'' then
        bnd (systemStatusProc E c) (\<lambda>r. ret (case r of Inl e \<Rightarrow> rpc_failure (safe_message e)
                                                    | Inr v \<Rightarrow> rpc_success (StatusOutput v)))
      else ret (rpc_failure (''Invalid operation: '' @ rpcName @ ''.'' @ operationName)))"

lemma rpc_dispatch_lemma:
  assumes "newRPCServer E unmarshal = Some S"
  shows "handleRequest S decode_raw ctx props r p body =
      (case decode_raw body of
         None \<Rightarrow> ret (rpc_failure ''Invalid request body'')
       | Some raw \<Rightarrow> rpc_table E unmarshal ctx props r p raw)"
proof (cases "decode_raw body")
  case None
  then show ?thesis by (simp add: handleRequest_def rpc_failure_def)
next
  case (Some raw)
  have S: "the (newRPCServer E unmarshal) = S" using assms by simp
  note S' = new_rpc_server [of E unmarshal, unfolded S]
  have resp: "Response0\<lparr>rs_Ok := False, rs_Error := e\<rparr> = Response0\<lparr>rs_Error := e\<rparr>" for e
    by (simp add: Response0_def)
  have err: "resolveErrorHandler S a = rpcErrorHandler" for a
    using S' by (simp add: resolveErrorHandler_def)
  have sumc: "(case map_sum id f x of Inl e \<Rightarrow> g e | Inr v \<Rightarrow> h v) = (case x of Inl e \<Rightarrow> g e | Inr v \<Rightarrow> h (f v))"
    for f :: "'x \<Rightarrow> 'y" and g :: "go_error \<Rightarrow> 'z" and h x by (cases x) simp_all
  have sumr: "(case x of Inl e \<Rightarrow> ret (g e) | Inr v \<Rightarrow> ret (h v)) = ret (case x of Inl e \<Rightarrow> g e | Inr v \<Rightarrow> h v)"
    for g :: "go_error \<Rightarrow> Response" and h :: "'x \<Rightarrow> Response" and x by (cases x) simp_all
  note run = handleRequest_def procResponse_def Some handleProcRequest_def S' catalogue rpc_table_def Let_def err
    rpcErrorHandler_def rpc_failure_def rpc_success_def adapted_def bnd_assoc typed_context_def resp sumc sumr
  consider (q) "r = ''Database''" "p = ''query''" | (h) "r = ''System''" "p = ''health''"
    | (s) "r = ''System''" "p = ''session''" | (t) "r = ''System''" "p = ''status''"
    | (n) "\<not> (r = ''Database'' \<and> p = ''query'')" "\<not> (r = ''System'' \<and> p = ''health'')"
        "\<not> (r = ''System'' \<and> p = ''session'')" "\<not> (r = ''System'' \<and> p = ''status'')"
    by argo
  then show ?thesis
  proof cases
    case q
    then show ?thesis
      by (cases "UnmarshalJSON_DatabaseQueryInput unmarshal raw")
        (simp_all add: run databaseQueryProc_def)
  next
    case n
    then show ?thesis by (auto simp add: run)
  qed (simp_all add: run systemSessionProc_def cong: sum.case_cong)
qed

text \<open>C17. The RPC server is set up without a panic, and it answers every request: a body without a
  JSON value and an unknown operation with an error that says so; \<open>Database.query\<close> with the decoding
  error or the answers of its batch, run with the role and the identity of the sender; the three
  \<open>System\<close> operations with what their procedures return, whatever the body.\<close>

theorem rpc_dispatch:
  "\<exists>S. newRPCServer E unmarshal = Some S \<and>
     handleRequest S decode_raw ctx props r p body =
      (case decode_raw body of
         None \<Rightarrow> ret (rpc_failure ''Invalid request body'')
       | Some raw \<Rightarrow> rpc_table E unmarshal ctx props r p raw)"
  using new_rpc_server(1) [of E unmarshal] rpc_dispatch_lemma [of E unmarshal] by blast

section \<open>Authorization\<close>

text \<open>The situation of the properties below: a server with tokens that has checked the tokens
  \<open>sent\<close> before, all among \<open>T\<close>, whose salted hashes do not collide.\<close>

definition token_server ::
  "crypto \<Rightarrow> string set \<Rightarrow> string list \<Rightarrow> string list \<Rightarrow> string list \<Rightarrow> string \<Rightarrow> 'w server \<Rightarrow> bool" where
  "token_server K T as ws rs salt s \<longleftrightarrow>
     collision_free K salt T \<and> (as \<noteq> [] \<or> ws \<noteq> [] \<or> rs \<noteq> []) \<and>
     (\<exists>sent. set sent \<subseteq> T \<and> srv_auth s = after_checks K sent (new_auth as ws rs salt))"

lemma token_server_answer:
  assumes "token_server K T as ws rs salt s" "bearer_token h \<in> T"
  shows "fst (authenticateRequest K h (srv_auth s)) =
    (case granted K as ws rs (bearer_token h) of
       None \<Rightarrow> Inl unauthorizedError
     | Some r \<Rightarrow> Inr (r, principal_of K salt (bearer_token h)))"
  using assms authenticate_after [of K salt T _ h as ws rs] by (auto simp: token_server_def)

lemma rpc_authorization_cases:
  fixes s :: "'w server"
  assumes "token_server K T as ws rs salt s" "bearer_token (rq_Header r ''Authorization'') \<in> T"
    and "\<not> (rpc = ''System'' \<and> op = ''health'')"
  shows "\<exists>a. rpcHandler E K S decode_raw rpc op r s =
    (case granted K as ws rs (bearer_token (rq_Header r ''Authorization'')) of
       None \<Rightarrow> (Done (Inr (writeRPCError unauthorizedError)), s\<lparr>srv_auth := a\<rparr>)
     | Some rl \<Rightarrow>
         if rpc = ''System'' \<and> op = ''status'' \<and> rl \<noteq> authRoleAdmin
         then (Done (Inr (writeRPCError forbiddenError)), s\<lparr>srv_auth := a\<rparr>)
         else rpc_serve E S decode_raw rpc op r
                \<lparr>rp_Role = rl, rp_Principal = principal_of K salt (bearer_token (rq_Header r ''Authorization''))\<rparr>
                (s\<lparr>srv_auth := a\<rparr>))"
proof -
  let ?h = "rq_Header r ''Authorization''"
  let ?g = "granted K as ws rs (bearer_token ?h)"
  obtain a where a: "authenticateRequest K ?h (srv_auth s) =
      ((case ?g of None \<Rightarrow> Inl unauthorizedError | Some rl \<Rightarrow> Inr (rl, principal_of K salt (bearer_token ?h))), a)"
    using token_server_answer [OF assms(1,2)] by (metis prod.collapse)
  show ?thesis
    by (rule exI [of _ a], cases ?g)
      (use a assms(3) in \<open>auto simp: rpcHandler_def on_auth_def authorizeRPCRequest_def bnd_def ret_def\<close>)
qed

text \<open>C11. On a server with tokens a request gets past the authorization exactly when its token is
  granted a role, and \<open>System.status\<close> only for admins. The others are answered \<open>Unauthorized\<close> or
  \<open>Forbidden\<close> with the database object left alone. A request that gets past is served with the
  role that its token has and with the token's hash as its identity. Only \<open>System.health\<close> is open
  to all.\<close>

theorem rpc_authorization:
  assumes "token_server K T as ws rs salt s" "bearer_token (rq_Header r ''Authorization'') \<in> T"
    and "\<not> (rpc = ''System'' \<and> op = ''health'')"
  shows "\<exists>s1. srv_DB s1 = srv_DB s \<and> rpcHandler E K S decode_raw rpc op r s =
    (case granted K as ws rs (bearer_token (rq_Header r ''Authorization'')) of
       None \<Rightarrow> (Done (Inr \<lparr>hr_Status = 200, hr_Body = Payload (rpc_failure ''Unauthorized'')\<rparr>), s1)
     | Some rl \<Rightarrow>
         if rpc = ''System'' \<and> op = ''status'' \<and> rl \<noteq> authRoleAdmin
         then (Done (Inr \<lparr>hr_Status = 200, hr_Body = Payload (rpc_failure ''Forbidden'')\<rparr>), s1)
         else rpc_serve E S decode_raw rpc op r
                \<lparr>rp_Role = rl, rp_Principal = principal_of K salt (bearer_token (rq_Header r ''Authorization''))\<rparr> s1)"
proof -
  have "writeRPCError unauthorizedError = \<lparr>hr_Status = 200, hr_Body = Payload (rpc_failure ''Unauthorized'')\<rparr>"
    "writeRPCError forbiddenError = \<lparr>hr_Status = 200, hr_Body = Payload (rpc_failure ''Forbidden'')\<rparr>"
    by (simp_all add: writeRPCError_def WriteJSON_def rpc_failure_def safe_message_def
        unauthorizedError_def forbiddenError_def NewJSONError_def)
  then show ?thesis
    using rpc_authorization_cases [OF assms, of E S decode_raw]
    by (auto split: option.splits if_splits intro: exI [of _ "s\<lparr>srv_auth := _\<rparr>"])
qed

text \<open>A server with one admin and one read-only token on the miniature engine.\<close>

definition mini_server :: "mini server" where
  "mini_server = NewServer \<lparr>c_AuthTokens = [''root''], c_ReadWriteAuthTokens = [], c_ReadOnlyAuthTokens = [''view''],
     c_ListenHost = [], c_ListenPort = [], c_MaxRequestSizeMB = 0, c_IdleTimeout = 0\<rparr> ''salt'' mini_db"

definition mini_request :: "string \<Rightarrow> http_request" where
  "mini_request header = \<lparr>rq_Method = ''POST'', rq_Path = [], rq_Query = Map.empty,
     rq_Header = (\<lambda>k. if k = ''Authorization'' then header else []), rq_Body = [], rq_Limit = None,
     rq_Context = Background, rq_RemoteAddr = []\<rparr>"

lemma mini_token_server: "token_server id_crypto UNIV [''root''] [] [''view''] ''salt'' mini_server"
  by (auto simp: token_server_def mini_server_def NewServer_def Let_def collision_free_def id_crypto_def
      after_checks_def intro!: exI [of _ "[]"] inj_onI)

lemma bearer_eval [simp]:
  "bearer_token ''Bearer view'' = ''view''" "bearer_token ''Bearer guess'' = ''guess''"
  by (simp_all add: bearer_token_def TrimPrefix_def HasPrefix_def)

lemma granted_eval [simp]:
  "granted id_crypto [''root''] [] [''view''] ''view'' = Some authRoleReadOnly"
  "granted id_crypto [''root''] [] [''view''] ''guess'' = None"
  by (simp_all add: granted_def matches_def checkAuthToken_def GetHashAlgo_def HasPrefix_def hash_algo_defs)

theorem rpc_authorization_witness:
  "\<exists>s1. srv_DB s1 = mini_db \<and>
     rpcHandler mini_env id_crypto NewServer_rpc Some ''Database'' ''query'' (mini_request ''Bearer guess'') mini_server =
     (Done (Inr \<lparr>hr_Status = 200, hr_Body = Payload (rpc_failure ''Unauthorized'')\<rparr>), s1)"
  using rpc_authorization [OF mini_token_server, of "mini_request ''Bearer guess''" "''Database''" "''query''"
      mini_env NewServer_rpc Some]
  by (simp add: mini_request_def mini_server_def NewServer_def Let_def)

section \<open>Confinement\<close>

definition srv_keeps :: "connector set \<Rightarrow> ('w \<Rightarrow> bool) \<Rightarrow> ('w, 'a) srv_act \<Rightarrow> bool" where
  "srv_keeps ks I p \<longleftrightarrow> (\<forall>s. guarded ks I (srv_DB s) \<longrightarrow> guarded ks I (srv_DB (snd (p s))))"

named_theorems srv_keeps_rules

lemma srv_keeps_ret [srv_keeps_rules]: "srv_keeps ks I (ret a)"
  by (simp add: srv_keeps_def ret_def)

lemma srv_keeps_bnd [srv_keeps_rules]:
  "srv_keeps ks I p \<Longrightarrow> (\<And>a. srv_keeps ks I (f a)) \<Longrightarrow> srv_keeps ks I (bnd p f)"
  by (fastforce simp: srv_keeps_def bnd_def split: prod.splits outcome.splits)

lemma srv_keeps_on_DB [srv_keeps_rules]: "keeps ks I p \<Longrightarrow> srv_keeps ks I (on_DB p)"
  by (auto simp: srv_keeps_def keeps_def on_DB_def split: prod.splits)

lemma srv_keeps_on_auth [srv_keeps_rules]: "srv_keeps ks I (on_auth f)"
  by (auto simp: srv_keeps_def on_auth_def split: prod.splits)

lemma srv_keeps_read [srv_keeps_rules]: "srv_keeps ks I (\<lambda>s. (Done (h s), s))"
  by (simp add: srv_keeps_def)

lemma srv_keeps_count [srv_keeps_rules]: "srv_keeps ks I (count_http E)"
  unfolding count_http_def by (intro srv_keeps_rules keeps_rules)

lemma srv_keeps_table:
  assumes "confines (e_api E) ks (authorizerRoleForAuthRole (rp_Role props)) I ok" "admin_compile_keeps (e_api E) UNIV I"
    and "\<not> (r = ''System'' \<and> p = ''health'')"
  shows "srv_keeps ks I (rpc_table E unmarshal ctx props r p raw)"
proof -
  have q: "keeps ks I (executeQueries E ctx props qs)" for qs
    by (rule keeps_executeQueries [OF assms(1) admin_compile_mono [OF assms(2)]]) simp
  from assms(3) show ?thesis
    unfolding rpc_table_def Let_def systemStatusProc_def
    by (auto split: sum.split intro!: srv_keeps_rules keeps_rules q)
qed

lemma srv_keeps_serve:
  assumes "newRPCServer E unmarshal = Some S" "\<not> (rpc = ''System'' \<and> op = ''health'')"
    and "confines (e_api E) ks (authorizerRoleForAuthRole (rp_Role props)) I ok" "admin_compile_keeps (e_api E) UNIV I"
  shows "srv_keeps ks I (rpc_serve E S decode_raw rpc op r props)"
proof -
  have "srv_keeps ks I (case decode_raw b of
         None \<Rightarrow> ret (rpc_failure ''Invalid request body'')
       | Some raw \<Rightarrow> rpc_table E unmarshal (rq_Context r) props rpc op raw)" for b
    by (cases "decode_raw b") (simp_all add: srv_keeps_ret srv_keeps_table [OF assms(3,4,2)])
  then show ?thesis
    unfolding rpc_serve_def Let_def rpc_dispatch_lemma [OF assms(1)]
    by (auto intro!: srv_keeps_rules keeps_rules)
qed

lemma rpc_confined:
  assumes "token_server K T as ws rs salt s" "bearer_token (rq_Header r ''Authorization'') \<in> T"
    and "\<not> (rpc = ''System'' \<and> op = ''health'')" "newRPCServer E unmarshal = Some S"
    and "\<forall>rl. granted K as ws rs (bearer_token (rq_Header r ''Authorization'')) = Some rl \<longrightarrow>
           confines (e_api E) ks (authorizerRoleForAuthRole rl) I ok"
    and "guarded ks I (srv_DB s)" "admin_compile_keeps (e_api E) UNIV I"
  shows "guarded ks I (srv_DB (snd (rpcHandler E K S decode_raw rpc op r s)))"
proof -
  have "guarded ks I (srv_DB (snd (rpc_serve E S decode_raw rpc op r \<lparr>rp_Role = rl, rp_Principal = pal\<rparr>
      (s\<lparr>srv_auth := a\<rparr>))))"
    if "granted K as ws rs (bearer_token (rq_Header r ''Authorization'')) = Some rl" for rl pal a
    using srv_keeps_serve [OF assms(4,3), of ks "\<lparr>rp_Role = rl, rp_Principal = pal\<rparr>" I ok] that assms(5-7)
    by (simp add: srv_keeps_def)
  then show ?thesis
    using rpc_authorization_cases [OF assms(1-3), of E S decode_raw] assms(6)
    by (auto split: option.splits if_splits)
qed

section \<open>Transactions and tokens\<close>

text \<open>C13. A transaction belongs to the token that began it. While it is open, a query that another
  token sends for it is answered with an error, reaches neither SQLite nor the transaction, and
  leaves the owner in possession; knowing the transaction's ID does not help.\<close>

theorem transactions_belong_to_tokens:
  assumes "db_inv d" "txID d \<noteq> []" "txOwner d = principal_of K salt owner"
    and "collision_free K salt T" "owner \<in> T" "other \<in> T" "other \<noteq> owner" "\<forall>x. Sum256 K x \<noteq> []"
    and "vq_Query q \<noteq> []" "vq_TxId q = Some t" "t \<noteq> []" "sqliteParamsFromVDL (vq_Params q) = Inr ps"
  shows "\<exists>time d'. executeRequestQuery E ctx \<lparr>rp_Role = rl, rp_Principal = principal_of K salt other\<rparr> q d =
      (Done (QueryResult_of QueryResultTypeError time\<lparr>vr_Error :=
         Some ''transaction ID does not match the currently active transaction''\<rparr>), d') \<and>
    world d' = world d \<and> txID d' = txID d \<and> txOwner d' = txOwner d \<and> db_inv d'"
proof -
  let ?q = "db_query_of \<lparr>rp_Role = rl, rp_Principal = principal_of K salt other\<rparr> q ps"
  let ?d = "d\<lparr>ticks := Suc (ticks d)\<rparr>"
  have "hex_Encode x \<noteq> []" if "x \<noteq> []" for x using that by (cases x) simp_all
  then have "principal_of K salt other \<noteq> []" using assms(8) by (simp add: principal_of_def)
  moreover have "principal_of K salt other \<noteq> principal_of K salt owner"
    using principal_inject [OF assms(4)] assms(5-7) by blast
  ultimately have "db_query E ctx ?q ?d = (Done (Inl ErrTxNotMatch), ?d)"
    using assms(1-3,10,11)
    by (intro db_query_wrong_tx) (simp_all add: db_inv_ticks db_query_of_def Val_def)
  then show ?thesis
    using assms(1,9,12)
    by (intro exI [of _ "time_Now E (Suc (Suc (ticks d))) - time_Now E (ticks d)"])
      (simp add: executeRequestQuery_def bnd_def clock_def db_Query_def count_def at_now_def
        error_result_def ret_def ErrTxNotMatch_def, simp add: db_inv_def pools_ok_def)
qed

definition tagged_crypto :: crypto where
  "tagged_crypto = id_crypto\<lparr>Sum256 := (\<lambda>d. CHR ''#'' # d)\<rparr>"

theorem transactions_belong_to_tokens_witness:
  "\<exists>time d'. executeRequestQuery mini_env Background
       \<lparr>rp_Role = authRoleAdmin, rp_Principal = principal_of tagged_crypto ''salt'' ''eve''\<rparr>
       \<lparr>vq_TxId = Some ''id2'', vq_Query = ''COMMIT'', vq_Params = None\<rparr>
       (mini_tx\<lparr>txOwner := principal_of tagged_crypto ''salt'' ''root''\<rparr>) =
     (Done (QueryResult_of QueryResultTypeError time\<lparr>vr_Error :=
        Some ''transaction ID does not match the currently active transaction''\<rparr>), d') \<and>
     txID d' = ''id2''"
proof -
  have "db_inv (mini_tx\<lparr>txOwner := x\<rparr>)" for x
    using mini_tx_inv by (simp add: db_inv_def pools_ok_def)
  moreover have "collision_free tagged_crypto ''salt'' UNIV"
    by (auto simp: collision_free_def tagged_crypto_def intro: inj_onI)
  moreover have "\<forall>x. Sum256 tagged_crypto x \<noteq> []" by (simp add: tagged_crypto_def)
  ultimately show ?thesis
    using transactions_belong_to_tokens [where K = tagged_crypto and T = UNIV and owner = "''root''"
        and other = "''eve''" and t = "''id2''" and ps = "[]" and salt = "''salt''" and E = mini_env
        and d = "mini_tx\<lparr>txOwner := principal_of tagged_crypto ''salt'' ''root''\<rparr>"
        and q = "\<lparr>vq_TxId = Some ''id2'', vq_Query = ''COMMIT'', vq_Params = None\<rparr>"
        and ctx = Background and rl = authRoleAdmin]
    by (simp add: sqliteParamsFromVDL_def) blast
qed

section \<open>The limit on request bodies\<close>

text \<open>The configured number of megabytes in bytes, 100 megabytes when none is configured, below 2 to the 43.\<close>

lemma max_request_size:
  "sint (c_MaxRequestSizeMB cfg) \<le> 0 \<Longrightarrow> sint (maxRequestSize cfg) = 100 * 2 ^ 20"
  "0 < sint (c_MaxRequestSizeMB cfg) \<Longrightarrow> sint (c_MaxRequestSizeMB cfg) < 2 ^ 43 \<Longrightarrow>
     sint (maxRequestSize cfg) = sint (c_MaxRequestSizeMB cfg) * 2 ^ 20"
  "c_MaxRequestSizeMB cfg = 2 ^ 43 \<Longrightarrow> sint (maxRequestSize cfg) < 0"
proof -
  let ?m = "c_MaxRequestSizeMB cfg"
  show "sint (maxRequestSize cfg) = sint ?m * 2 ^ 20" if "0 < sint ?m" "sint ?m < 2 ^ 43"
  proof -
    have size: "maxRequestSize cfg = (word_of_int (sint ?m * 2 ^ 20) :: 64 word)"
      using that(1) by (simp add: maxRequestSize_def)
    have "0 < sint ?m * 2 ^ 20" "sint ?m * 2 ^ 20 < 2 ^ 63" using that by simp_all
    then show ?thesis
      unfolding size sint_sbintrunc' by (intro signed_take_bit_int_eq_self) simp_all
  qed
  show "sint (maxRequestSize cfg) < 0" if "?m = 2 ^ 43"
    using that by (simp add: maxRequestSize_def)
  show "sint (maxRequestSize cfg) = 100 * 2 ^ 20" if "sint ?m \<le> 0"
    using that by (simp add: maxRequestSize_def)
qed

end
