(* ===== verification/Rqlite.thy ===== *)
theory Rqlite
  imports Server_Props
begin

text \<open>
  The rqlite compatibility endpoints, \<open>internal/server/rqlite.go\<close>. The JSON text of a request is read
  by \<open>encoding/json\<close>: \<open>json_lib\<close> has its parser, which gives the first value of a text, its type
  errors and the conversion of a number to \<open>float64\<close>. A \<open>RawMessage\<close> is the value that its text
  spells, numbers as their literals. An object lists the entries of the Go map that it is decoded
  into, in the order in which \<open>range\<close> visits them.
\<close>

datatype json =
    JNull
  | JBool bool
  | JNumber string
  | JString string
  | JArray "json list"
  | JObject "(string \<times> json) list"

record json_lib =
  json_Decode :: "bytes \<Rightarrow> go_error + json"
  json_TypeError :: "json \<Rightarrow> string \<Rightarrow> go_error"
  json_Float64 :: "string \<Rightarrow> go_error + 64 word"

section \<open>Reading a request\<close>

type_synonym rqliteEndpointMode = string

definition rqliteModeQuery :: rqliteEndpointMode where "rqliteModeQuery = ''query''"
definition rqliteModeExecute :: rqliteEndpointMode where "rqliteModeExecute = ''execute''"
definition rqliteModeRequest :: rqliteEndpointMode where "rqliteModeRequest = ''request''"

lemmas rqlite_mode_defs = rqliteModeQuery_def rqliteModeExecute_def rqliteModeRequest_def

text \<open>\<open>json.Unmarshal\<close> into a \<open>string\<close> (a null leaves the zero value), into a slice of raw
  messages, and into \<open>[]byte\<close> from an array.\<close>

definition unmarshal_string :: "json_lib \<Rightarrow> json \<Rightarrow> go_error + string" where
  "unmarshal_string J v =
     (case v of JString s \<Rightarrow> Inr s | JNull \<Rightarrow> Inr [] | _ \<Rightarrow> Inl (json_TypeError J v ''string''))"

definition unmarshal_slice :: "json_lib \<Rightarrow> json \<Rightarrow> go_error + json list" where
  "unmarshal_slice J v =
     (case v of JArray vs \<Rightarrow> Inr vs | JNull \<Rightarrow> Inr []
      | _ \<Rightarrow> Inl (json_TypeError J v ''[]json.RawMessage''))"

fun uint8_of :: "json \<Rightarrow> char option" where
  "uint8_of JNull = Some (byte 0)"
| "uint8_of (JNumber s) =
     (if s \<noteq> [] \<and> list_all is_digit s \<and> read_digits 0 s < 256 then Some (byte (read_digits 0 s)) else None)"
| "uint8_of _ = None"

fun unmarshal_bytes :: "json list \<Rightarrow> bytes option" where
  "unmarshal_bytes [] = Some []"
| "unmarshal_bytes (v # vs) =
     (case (uint8_of v, unmarshal_bytes vs) of (Some b, Some bs) \<Rightarrow> Some (b # bs) | _ \<Rightarrow> None)"

text \<open>\<open>json.Number.Int64\<close>, \<open>strconv.ParseInt\<close> in base ten and 64 bits, on a number literal.\<close>

definition Number_Int64 :: "string \<Rightarrow> 64 word option" where
  "Number_Int64 s =
     (let neg = (s \<noteq> [] \<and> hd s = CHR ''-''); ds = (if neg then tl s else s); n = int (read_digits 0 ds) in
      if ds \<noteq> [] \<and> list_all is_digit ds \<and> (if neg then n \<le> 2 ^ 63 else n < 2 ^ 63)
      then Some (word_of_int (if neg then - n else n)) else None)"

definition encodeBlob :: "bytes \<Rightarrow> string" where
  "encodeBlob d = EncodeToString d"

definition decodeBlob :: "string \<Rightarrow> go_error + bytes" where
  "decodeBlob s = DecodeString s"

definition rqliteHexBlobString :: "string \<Rightarrow> string option" where
  "rqliteHexBlobString v =
     (let trimmed = TrimSpace v in
      if length trimmed < 3 \<or> trimmed ! 0 \<noteq> CHR ''x'' \<and> trimmed ! 0 \<noteq> CHR ''X'' \<or>
         trimmed ! 1 \<noteq> CHR 0x27 \<or> trimmed ! (length trimmed - 1) \<noteq> CHR 0x27
      then None
      else case hex_Decode (take (length trimmed - 3) (drop 2 trimmed)) of
        Inl _ \<Rightarrow> None
      | Inr d \<Rightarrow> Some (encodeBlob d))"

definition rqliteValueFromJSON :: "json_lib \<Rightarrow> json \<Rightarrow> go_error + SqliteValue" where
  "rqliteValueFromJSON J v =
     (case v of
        JNull \<Rightarrow> Inr (SqliteValue0\<lparr>sv_Null := Some True\<rparr>)
      | JArray vs \<Rightarrow>
          (case unmarshal_bytes vs of
             Some d \<Rightarrow> Inr (SqliteValue0\<lparr>sv_Blob := Some (encodeBlob d)\<rparr>)
           | None \<Rightarrow> Inl (ErrorString ''unsupported parameter value []interface {}''))
      | JBool b \<Rightarrow> Inr (SqliteValue0\<lparr>sv_Integer := Some (if b then 1 else 0)\<rparr>)
      | JNumber n \<Rightarrow>
          (case Number_Int64 n of
             Some i \<Rightarrow> Inr (SqliteValue0\<lparr>sv_Integer := Some i\<rparr>)
           | None \<Rightarrow>
               (case json_Float64 J n of
                  Inl e \<Rightarrow> Inl (Wrapped ''decode numeric parameter'' e)
                | Inr f \<Rightarrow> Inr (SqliteValue0\<lparr>sv_Real := Some f\<rparr>)))
      | JString s \<Rightarrow>
          (case rqliteHexBlobString s of
             Some blob \<Rightarrow> Inr (SqliteValue0\<lparr>sv_Blob := Some blob\<rparr>)
           | None \<Rightarrow> Inr (SqliteValue0\<lparr>sv_Text := Some s\<rparr>))
      | JObject _ \<Rightarrow> Inl (ErrorString ''unsupported parameter value map[string]interface {}''))"

fun params_from :: "json_lib \<Rightarrow> (string option \<times> json) list \<Rightarrow> go_error + vdl_QueryParam list" where
  "params_from J [] = Inr []"
| "params_from J ((name, raw) # rest) =
     (case rqliteValueFromJSON J raw of
        Inl e \<Rightarrow> Inl e
      | Inr v \<Rightarrow> map_sum id ((#) \<lparr>vp_Name = name, vp_Value = v\<rparr>) (params_from J rest))"

definition rqliteParamsFromJSON :: "json_lib \<Rightarrow> json list \<Rightarrow> go_error + vdl_QueryParam list option" where
  "rqliteParamsFromJSON J rawParams =
     (case rawParams of
        [] \<Rightarrow> Inr None
      | [JObject named] \<Rightarrow> map_sum id Some (params_from J (map (\<lambda>(name, v). (Some name, v)) named))
      | _ \<Rightarrow> map_sum id Some (params_from J (map (Pair None) rawParams)))"

definition rqliteQueryFromJSONStatement :: "json_lib \<Rightarrow> json \<Rightarrow> go_error + vdl_Query" where
  "rqliteQueryFromJSONStatement J statement =
     (case unmarshal_string J statement of
        Inr sql \<Rightarrow> Inr \<lparr>vq_TxId = None, vq_Query = sql, vq_Params = None\<rparr>
      | Inl _ \<Rightarrow>
          (case unmarshal_slice J statement of
             Inl e \<Rightarrow> Inl (Wrapped ''decode parameterized statement'' e)
           | Inr [] \<Rightarrow> Inl (ErrorString ''statement array must not be empty'')
           | Inr (part # parts) \<Rightarrow>
               (case unmarshal_string J part of
                  Inl _ \<Rightarrow> Inl (ErrorString ''statement array must start with a SQL string'')
                | Inr sql \<Rightarrow>
                    if TrimSpace sql = [] then
                      Inl (ErrorString ''statement array must start with a SQL string'')
                    else
                      map_sum id (\<lambda>ps. \<lparr>vq_TxId = None, vq_Query = sql, vq_Params = ps\<rparr>)
                        (rqliteParamsFromJSON J parts))))"

fun queries_from :: "json_lib \<Rightarrow> json list \<Rightarrow> go_error + vdl_Query list" where
  "queries_from J [] = Inr []"
| "queries_from J (st # sts) =
     (case rqliteQueryFromJSONStatement J st of
        Inl e \<Rightarrow> Inl e
      | Inr q \<Rightarrow> map_sum id ((#) q) (queries_from J sts))"

definition rqliteQueriesFromJSON :: "json_lib \<Rightarrow> bytes \<Rightarrow> go_error + vdl_Query list" where
  "rqliteQueriesFromJSON J body =
     (case json_Decode J body of
        Inl e \<Rightarrow> Inl (Wrapped ''decode JSON statements'' e)
      | Inr v \<Rightarrow>
          (case unmarshal_slice J v of
             Inl e \<Rightarrow> Inl (Wrapped ''decode JSON statements'' e)
           | Inr statements \<Rightarrow> queries_from J statements))"

definition media_type :: "string \<Rightarrow> string" where
  "media_type contentType = ToLower (TrimSpace (hd (split_on (CHR '';'') contentType)))"

definition rqliteQueriesFromRequest :: "json_lib \<Rightarrow> http_request \<Rightarrow> go_error + vdl_Query list" where
  "rqliteQueriesFromRequest J r =
     (if rq_Method r = ''GET'' then
        let values = Val [] (rq_Query r ''q'') in
        if values = [] then Inl (ErrorString ''missing q query parameter'')
        else Inr (map (\<lambda>v. \<lparr>vq_TxId = None, vq_Query = v, vq_Params = None\<rparr>) values)
      else case ReadAll r of
        Inl e \<Rightarrow> Inl (Wrapped ''read request body'' e)
      | Inr raw \<Rightarrow>
          let body = TrimSpace raw in
          if body = [] then Inl (ErrorString ''request body is required'')
          else if media_type (rq_Header r ''Content-Type'') = ''text/plain'' then
            Inr [\<lparr>vq_TxId = None, vq_Query = body, vq_Params = None\<rparr>]
          else rqliteQueriesFromJSON J body)"

section \<open>Authorization\<close>

text \<open>\<open>r.BasicAuth()\<close>: the password after the first colon of the decoded credentials.\<close>

fun cut_colon :: "string \<Rightarrow> (string \<times> string) option" where
  "cut_colon [] = None"
| "cut_colon (ch # cs) =
     (if ch = CHR '':'' then Some ([], cs)
      else map_option (\<lambda>(u, p). (ch # u, p)) (cut_colon cs))"

definition BasicAuth :: "string \<Rightarrow> (string \<times> string) option" where
  "BasicAuth header =
     (if ToLower (take 6 header) \<noteq> ''basic '' then None
      else case DecodeString (drop 6 header) of
        Inl e \<Rightarrow> None
      | Inr d \<Rightarrow> cut_colon d)"

definition authorizeRQLiteRequest :: "crypto \<Rightarrow> http_request \<Rightarrow> auth \<Rightarrow> (go_error + requestProps) \<times> auth" where
  "authorizeRQLiteRequest K r a =
     (if authIsDisabled a then (Inr \<lparr>rp_Role = authRoleAdmin, rp_Principal = []\<rparr>, a)
      else case BasicAuth (rq_Header r ''Authorization'') of
        Some (user, password) \<Rightarrow>
          (case checkAuthWithCache K password a of
             ((rl, pal, authenticated), a1) \<Rightarrow>
               (if \<not> authenticated then Inl unauthorizedError
                else Inr \<lparr>rp_Role = rl, rp_Principal = pal\<rparr>, a1))
      | None \<Rightarrow>
          (case authenticateRequest K (rq_Header r ''Authorization'') a of
             (Inl e, a1) \<Rightarrow> (Inl e, a1)
           | (Inr (rl, pal), a1) \<Rightarrow> (Inr \<lparr>rp_Role = rl, rp_Principal = pal\<rparr>, a1)))"

section \<open>Execution\<close>

definition tx_query :: "string \<Rightarrow> string \<Rightarrow> vdl_Query" where
  "tx_query t sql = \<lparr>vq_TxId = Some t, vq_Query = sql, vq_Params = None\<rparr>"

text \<open>The loop over the statements: the results, and whether one of them failed.\<close>

fun execute_in_tx ::
  "'w env \<Rightarrow> ctx \<Rightarrow> requestProps \<Rightarrow> string \<Rightarrow> vdl_Query list \<Rightarrow> vdl_QueryResult list
   \<Rightarrow> ('w, vdl_QueryResult list \<times> bool) act" where
  "execute_in_tx E ctx props t [] results = ret (results, False)"
| "execute_in_tx E ctx props t (q # qs) results =
     bnd (executeRequestQuery E ctx props (q\<lparr>vq_TxId := Some t\<rparr>)) (\<lambda>result.
     if vr_Error result \<noteq> None then
       bnd (executeRequestQuery E ctx props (tx_query t ''ROLLBACK'')) (\<lambda>_.
       ret (results @ [result], True))
     else execute_in_tx E ctx props t qs (results @ [result]))"

definition rqlite_output :: "'w env \<Rightarrow> time \<Rightarrow> vdl_QueryResult list \<Rightarrow> ('w, DatabaseQueryOutput) act" where
  "rqlite_output E started results =
     bnd (clock E) (\<lambda>now. ret \<lparr>o_Time = now - started, o_Results = results\<rparr>)"

text \<open>After the loop: nothing more when a statement failed, otherwise the commit.\<close>

definition rqlite_commit ::
  "'w env \<Rightarrow> ctx \<Rightarrow> requestProps \<Rightarrow> string \<Rightarrow> time \<Rightarrow> vdl_QueryResult list \<times> bool \<Rightarrow> ('w, DatabaseQueryOutput) act" where
  "rqlite_commit E ctx props t started = (\<lambda>(results, failed).
     if failed then rqlite_output E started results
     else
       bnd (executeRequestQuery E ctx props (tx_query t ''COMMIT'')) (\<lambda>commit.
       rqlite_output E started (results @ (if vr_Error commit \<noteq> None then [commit] else []))))"

definition executeRQLiteQueries ::
  "'w env \<Rightarrow> ctx \<Rightarrow> requestProps \<Rightarrow> vdl_Query list \<Rightarrow> bool \<Rightarrow> ('w, DatabaseQueryOutput) act" where
  "executeRQLiteQueries E ctx props queries transaction =
     (if \<not> transaction \<or> queries = [] then executeQueries E ctx props queries
      else
        bnd (clock E) (\<lambda>startedAt.
        bnd (executeRequestQuery E ctx props \<lparr>vq_TxId = None, vq_Query = ''BEGIN'', vq_Params = None\<rparr>) (\<lambda>start.
        case vr_TxId start of
          None \<Rightarrow> rqlite_output E startedAt [start]
        | Some t \<Rightarrow>
            if vr_Error start \<noteq> None then rqlite_output E startedAt [start]
            else bnd (execute_in_tx E ctx props t queries []) (rqlite_commit E ctx props t startedAt))))"

section \<open>Responses\<close>

datatype rqlite_value = RqNil | RqInt "64 word" | RqFloat "64 word" | RqString string
  | RqBytes "nat list option"

datatype rqlite_types = NoTypes | TypeList "string list" | TypeMap "string \<rightharpoonup> string"

record rqliteResult =
  rr_LastInsertID :: "64 word option"
  rr_RowsAffected :: "64 word option"
  rr_Columns :: "string list"
  rr_Types :: rqlite_types
  rr_Values :: "rqlite_value list list"
  rr_Rows :: "(string \<rightharpoonup> rqlite_value) list"
  rr_Error :: string
  rr_Time :: "int option"

record rqliteResponse =
  rs_Results :: "rqliteResult list"
  rs_Time :: "int option"

record rqliteResponseOptions =
  ro_associative :: bool
  ro_blobArray :: bool
  ro_timings :: bool

definition rqliteResult0 :: rqliteResult where
  "rqliteResult0 = \<lparr>rr_LastInsertID = None, rr_RowsAffected = None, rr_Columns = [], rr_Types = NoTypes,
     rr_Values = [], rr_Rows = [], rr_Error = [], rr_Time = None\<rparr>"

definition decodeBlobArray :: "string \<Rightarrow> nat list option" where
  "decodeBlobArray encoded =
     (case decodeBlob encoded of Inl e \<Rightarrow> None | Inr d \<Rightarrow> Some (map code d))"

definition rqliteValue :: "SqliteValue \<Rightarrow> rqliteResponseOptions \<Rightarrow> rqlite_value" where
  "rqliteValue v opts =
     (if sv_Null v = Some True then RqNil
      else case sv_Integer v of Some i \<Rightarrow> RqInt i | None \<Rightarrow>
        (case sv_Real v of Some f \<Rightarrow> RqFloat f | None \<Rightarrow>
        (case sv_Text v of Some s \<Rightarrow> RqString s | None \<Rightarrow>
        (case sv_Blob v of
           Some b \<Rightarrow> if ro_blobArray opts then RqBytes (decodeBlobArray b) else RqString b
         | None \<Rightarrow> RqNil))))"

definition rqliteTypes :: "SqliteStorageClass list \<Rightarrow> string list" where
  "rqliteTypes types = map ToLower types"

definition rqliteAssociativeTypes :: "string list \<Rightarrow> SqliteStorageClass list \<Rightarrow> (string \<rightharpoonup> string)" where
  "rqliteAssociativeTypes columns types =
     foldl (\<lambda>m (i, column). m(column \<mapsto> (if i < length types then ToLower (types ! i) else [])))
       Map.empty (enumerate 0 columns)"

definition rqliteValues :: "SqliteValue list list \<Rightarrow> rqliteResponseOptions \<Rightarrow> rqlite_value list list" where
  "rqliteValues rows opts = map (map (\<lambda>v. rqliteValue v opts)) rows"

definition associative_row :: "string list \<Rightarrow> rqliteResponseOptions \<Rightarrow> SqliteValue list \<Rightarrow> (string \<rightharpoonup> rqlite_value)" where
  "associative_row columns opts row =
     foldl (\<lambda>m (i, column). if i < length row then m(column \<mapsto> rqliteValue (row ! i) opts) else m)
       Map.empty (enumerate 0 columns)"

definition rqliteAssociativeRows ::
  "string list \<Rightarrow> SqliteValue list list \<Rightarrow> rqliteResponseOptions \<Rightarrow> (string \<rightharpoonup> rqlite_value) list" where
  "rqliteAssociativeRows columns rows opts = map (associative_row columns opts) rows"

definition rqliteResultFromVDL :: "vdl_QueryResult \<Rightarrow> rqliteResponseOptions \<Rightarrow> rqliteResult" where
  "rqliteResultFromVDL result opts =
     (let timed = rqliteResult0\<lparr>rr_Time := (if ro_timings opts then Some (vr_Time result) else None)\<rparr>;
          columns = Val [] (vr_Columns result);
          types = Val [] (vr_Types result);
          rows = Val [] (vr_Rows result) in
      case vr_Error result of
        Some e \<Rightarrow> timed\<lparr>rr_Error := e\<rparr>
      | None \<Rightarrow>
          let counted = timed\<lparr>rr_LastInsertID := vr_LastInsertId result,
                              rr_RowsAffected := vr_RowsAffected result\<rparr> in
          if length columns > 0 then
            if ro_associative opts then
              counted\<lparr>rr_Types := TypeMap (rqliteAssociativeTypes columns types),
                      rr_Rows := rqliteAssociativeRows columns rows opts\<rparr>
            else
              counted\<lparr>rr_Columns := columns, rr_Types := TypeList (rqliteTypes types),
                      rr_Values := rqliteValues rows opts\<rparr>
          else counted)"

definition rqliteResponseFromVDL :: "DatabaseQueryOutput \<Rightarrow> rqliteResponseOptions \<Rightarrow> int \<Rightarrow> rqliteResponse" where
  "rqliteResponseFromVDL output opts elapsed =
     \<lparr>rs_Results = map (\<lambda>r. rqliteResultFromVDL r opts) (o_Results output),
      rs_Time = (if ro_timings opts then Some (if o_Time output > 0 then o_Time output else elapsed)
                 else None)\<rparr>"

definition badRQLiteRequest :: "go_error \<Rightarrow> go_error" where
  "badRQLiteRequest e = NewJSONError 400 e ''Bad Request''"

section \<open>The handlers\<close>

definition has_param :: "http_request \<Rightarrow> string \<Rightarrow> bool" where
  "has_param r k \<longleftrightarrow> rq_Query r k \<noteq> None"

text \<open>The part of \<open>handleRQLite\<close> after authorization and parsing; \<open>pretty\<close> only changes the text.\<close>

definition rqlite_serve ::
  "'w env \<Rightarrow> http_request \<Rightarrow> requestProps \<Rightarrow> vdl_Query list \<Rightarrow> ('w, go_error + rqliteResponse http_response) srv_act" where
  "rqlite_serve E r props queries =
     bnd (count_http E) (\<lambda>_.
     bnd (on_DB (clock E)) (\<lambda>startedAt.
     bnd (on_DB (executeRQLiteQueries E (rq_Context r) props queries (has_param r ''transaction''))) (\<lambda>output.
     bnd (on_DB (clock E)) (\<lambda>now.
     bnd (on_DB (gauge DecQueuedHTTPRequests)) (\<lambda>_.
     let opts = \<lparr>ro_associative = has_param r ''associative'', ro_blobArray = has_param r ''blob_array'',
                 ro_timings = has_param r ''timings''\<rparr> in
     ret (Inr (WriteJSON 200 (Payload (rqliteResponseFromVDL output opts (now - startedAt))))))))))"

definition handleRQLite ::
  "'w env \<Rightarrow> crypto \<Rightarrow> json_lib \<Rightarrow> rqliteEndpointMode \<Rightarrow> ('w server, rqliteResponse) http_handler" where
  "handleRQLite E K J mode r =
     bnd (on_auth (authorizeRQLiteRequest K r)) (\<lambda>v. case v of
         Inl e \<Rightarrow> ret (Inl e)
       | Inr props \<Rightarrow>
           (case rqliteQueriesFromRequest J r of
              Inl e \<Rightarrow> ret (Inl (badRQLiteRequest e))
            | Inr queries \<Rightarrow>
                rqlite_serve E r
                  (if mode = rqliteModeQuery then props\<lparr>rp_Role := authRoleReadOnly\<rparr> else props) queries))"

definition rqliteQueryHandler ::
  "'w env \<Rightarrow> crypto \<Rightarrow> json_lib \<Rightarrow> ('w server, rqliteResponse) http_handler" where
  "rqliteQueryHandler E K J = handleRQLite E K J rqliteModeQuery"

definition rqliteExecuteHandler ::
  "'w env \<Rightarrow> crypto \<Rightarrow> json_lib \<Rightarrow> ('w server, rqliteResponse) http_handler" where
  "rqliteExecuteHandler E K J = handleRQLite E K J rqliteModeExecute"

definition rqliteRequestHandler ::
  "'w env \<Rightarrow> crypto \<Rightarrow> json_lib \<Rightarrow> ('w server, rqliteResponse) http_handler" where
  "rqliteRequestHandler E K J = handleRQLite E K J rqliteModeRequest"

end
