(* ===== verification/Rqlite_Props.thy ===== *)
theory Rqlite_Props
  imports Rqlite
begin

text \<open>
  Guarantees of the rqlite endpoints: the requests that a batch in a transaction sends and what it leaves behind.
\<close>

section \<open>A batch in a transaction\<close>

definition failed :: "vdl_QueryResult \<Rightarrow> bool" where
  "failed a \<longleftrightarrow> vr_Error a \<noteq> None"

definition ends_transaction :: "vdl_QueryResult \<Rightarrow> bool" where
  "ends_transaction a \<longleftrightarrow> vr_Type a = QueryResultTypeCommit \<or> vr_Type a = QueryResultTypeRollback"

text \<open>The requests that a handler has sent to the database, one after the other from the state \<open>s\<close>, with
  their answers: each starts in the state that the one before it left.\<close>

inductive sent ::
  "'w env \<Rightarrow> ctx \<Rightarrow> requestProps \<Rightarrow> 'w DB \<Rightarrow> (vdl_Query \<times> vdl_QueryResult) list \<Rightarrow> 'w DB \<Rightarrow> bool"
  for E ctx props where
  sent_none: "sent E ctx props s [] s"
| sent_more: "sent E ctx props s ((q, a) # tr) s'"
    if "executeRequestQuery E ctx props q s = (Done a, s1)" "sent E ctx props s1 tr s'"

lemma sent_append: "sent E ctx props s tr s1 \<Longrightarrow> sent E ctx props s1 tr' s' \<Longrightarrow> sent E ctx props s (tr @ tr') s'"
  by (induction rule: sent.induct) (auto intro: sent.intros)

lemma sent_one: "executeRequestQuery E ctx props q s = (Done a, s') \<Longrightarrow> sent E ctx props s [(q, a)] s'"
  by (auto intro: sent.intros)

text \<open>A whole run of the handler: the requests between its two readings of the clock.\<close>

definition runs ::
  "'w env \<Rightarrow> ctx \<Rightarrow> requestProps \<Rightarrow> 'w DB \<Rightarrow> (vdl_Query \<times> vdl_QueryResult) list \<Rightarrow> 'w DB \<Rightarrow> bool" where
  "runs E ctx props s tr s' \<longleftrightarrow>
     (\<exists>s1. sent E ctx props (s\<lparr>ticks := Suc (ticks s)\<rparr>) tr s1 \<and> s' = s1\<lparr>ticks := Suc (ticks s1)\<rparr>)"

abbreviation begin_query :: vdl_Query where
  "begin_query \<equiv> \<lparr>vq_TxId = None, vq_Query = ''BEGIN'', vq_Params = None\<rparr>"

text \<open>The first statements of a batch, sent for the transaction \<open>t\<close>, with their answers.\<close>

definition statements_of ::
  "string \<Rightarrow> vdl_Query list \<Rightarrow> (vdl_Query \<times> vdl_QueryResult) list \<Rightarrow> bool" where
  "statements_of t queries body \<longleftrightarrow>
     map fst body = map (\<lambda>q. q\<lparr>vq_TxId := Some t\<rparr>) (take (length body) queries)"

lemma statements_of_Nil [simp]: "statements_of t queries []"
  by (simp add: statements_of_def)

lemma statements_of_Cons [simp]:
  "statements_of t (q # queries) ((q', a) # body) \<longleftrightarrow> q' = q\<lparr>vq_TxId := Some t\<rparr> \<and> statements_of t queries body"
  by (auto simp: statements_of_def)

text \<open>After the statements \<open>qs\<close> were sent in the transaction \<open>t\<close> from state \<open>s\<close>, up to the first failure and the
  \<open>ROLLBACK\<close> that follows it.\<close>

definition in_tx ::
  "'w env \<Rightarrow> ctx \<Rightarrow> requestProps \<Rightarrow> string \<Rightarrow> vdl_Query list \<Rightarrow> 'w DB \<Rightarrow> vdl_QueryResult list \<Rightarrow> bool \<Rightarrow> 'w DB \<Rightarrow> bool"
  where
  "in_tx E ctx props t qs s rs broken s' \<longleftrightarrow>
     db_inv s' \<and> txID s' \<in> {t, []} \<and> list_all answer_ok rs \<and> list_all (\<lambda>r. vr_TxId r = None) rs \<and>
     (\<exists>body. map snd body = rs \<and> statements_of t qs body \<and>
       (if broken then
          rs \<noteq> [] \<and> failed (last rs) \<and> list_all (\<lambda>r. \<not> failed r) (butlast rs) \<and>
          (\<exists>b. sent E ctx props s (body @ [(tx_query t ''ROLLBACK'', b)]) s' \<and> (\<not> failed b \<longrightarrow> txID s' = []) \<and>
             (list_all (\<lambda>r. \<not> ends_transaction r) rs \<and> failed b \<and> txID s = t \<longrightarrow> txID s' = t))
        else list_all (\<lambda>r. \<not> failed r) rs \<and> length rs = length qs \<and> sent E ctx props s body s' \<and>
          (list_all (\<lambda>r. \<not> ends_transaction r) rs \<and> txID s = t \<longrightarrow> txID s' = t)))"

lemma answer_in_tx:
  assumes "answer_tx q s a s'" "answer_ok a" "Val [] (vq_TxId q) \<noteq> []" "txID s \<in> {t, []}"
  shows "txID s' \<in> {t, []}" "vr_TxId a = None" "\<not> ends_transaction a \<Longrightarrow> txID s' = txID s"
    "failed a \<Longrightarrow> txID s' = txID s"
  using assms by (auto simp: answer_tx_def answer_ok_def failed_def ends_transaction_def result_types_neq
      split: if_splits)

lemma rollback_keyword: "keyword_type ''ROLLBACK'' = Some QueryTypeRollback"
  "keyword_type ''COMMIT'' = Some QueryTypeCommit" "keyword_type ''BEGIN'' = Some QueryTypeBegin"
  by (simp_all add: keyword_eval)

lemma end_answer:
  assumes "answer_tx (tx_query t sql) s a s'" "keyword_type sql = Some k"
    and "k = QueryTypeCommit \<or> k = QueryTypeRollback" "\<not> failed a"
  shows "txID s' = []"
  using assms by (auto simp: answer_tx_def tx_query_def failed_def result_type_eval result_types_neq)

lemma in_tx_broken:
  assumes "answer_ok a" "answer_tx (q\<lparr>vq_TxId := Some t\<rparr>) s a s1" "failed a" "txID s \<in> {t, []}" "t \<noteq> []"
    and "executeRequestQuery E ctx props (q\<lparr>vq_TxId := Some t\<rparr>) s = (Done a, s1)"
    and "executeRequestQuery E ctx props (tx_query t ''ROLLBACK'') s1 = (Done b, s2)"
    and "answer_ok b" "db_inv s2" "answer_tx (tx_query t ''ROLLBACK'') s1 b s2"
  shows "in_tx E ctx props t (q # qs) s [a] True s2"
proof -
  have val: "Val [] (vq_TxId (q\<lparr>vq_TxId := Some t\<rparr>)) \<noteq> []" "Val [] (vq_TxId (tx_query t ''ROLLBACK'')) \<noteq> []"
    using assms(5) by (simp_all add: Val_def tx_query_def)
  note i = answer_in_tx [OF assms(2,1) val(1) assms(4)]
  note j = answer_in_tx [OF assms(10,8) val(2) i(1)]
  have "sent E ctx props s ([(q\<lparr>vq_TxId := Some t\<rparr>, a)] @ [(tx_query t ''ROLLBACK'', b)]) s2"
    using assms(6,7) by (intro sent_append [where ?s1.0 = s1] sent_one)
  moreover have "\<not> failed b \<Longrightarrow> txID s2 = []" using end_answer [OF assms(10) rollback_keyword(1)] by simp
  ultimately show ?thesis
    unfolding in_tx_def
    by (intro conjI exI [of _ "[(q\<lparr>vq_TxId := Some t\<rparr>, a)]"])
      (use assms(1,3,9) i j in \<open>auto intro!: exI [of _ b]\<close>)
qed

lemma in_tx_step:
  assumes "answer_ok a" "answer_tx (q\<lparr>vq_TxId := Some t\<rparr>) s a s1" "\<not> failed a" "txID s \<in> {t, []}" "t \<noteq> []"
    and "executeRequestQuery E ctx props (q\<lparr>vq_TxId := Some t\<rparr>) s = (Done a, s1)"
    and "in_tx E ctx props t qs s1 new broken s'"
  shows "in_tx E ctx props t (q # qs) s (a # new) broken s'"
proof -
  have val: "Val [] (vq_TxId (q\<lparr>vq_TxId := Some t\<rparr>)) \<noteq> []" using assms(5) by (simp add: Val_def)
  note i = answer_in_tx [OF assms(2,1) val assms(4)]
  from assms(7) obtain body where b: "map snd body = new" "statements_of t qs body"
    "if broken then
          new \<noteq> [] \<and> failed (last new) \<and> list_all (\<lambda>r. \<not> failed r) (butlast new) \<and>
          (\<exists>b. sent E ctx props s1 (body @ [(tx_query t ''ROLLBACK'', b)]) s' \<and> (\<not> failed b \<longrightarrow> txID s' = []) \<and>
             (list_all (\<lambda>r. \<not> ends_transaction r) new \<and> failed b \<and> txID s1 = t \<longrightarrow> txID s' = t))
        else list_all (\<lambda>r. \<not> failed r) new \<and> length new = length qs \<and> sent E ctx props s1 body s' \<and>
          (list_all (\<lambda>r. \<not> ends_transaction r) new \<and> txID s1 = t \<longrightarrow> txID s' = t)"
    unfolding in_tx_def by blast
  have "sent E ctx props s1 tr s' \<Longrightarrow> sent E ctx props s ((q\<lparr>vq_TxId := Some t\<rparr>, a) # tr) s'" for tr
    using assms(6) by (rule sent_more)
  with b assms(1,3,7) i show ?thesis
    unfolding in_tx_def
    by (intro conjI exI [of _ "(q\<lparr>vq_TxId := Some t\<rparr>, a) # body"]) (auto split: if_splits)
qed

lemma execute_in_tx_wp:
  assumes "\<forall>n. uuid_NewString E n \<noteq> []" "t \<noteq> []" "db_inv s" "txID s \<in> {t, []}"
  shows "wp (execute_in_tx E ctx props t qs acc)
    (\<lambda>(rs, broken) s'. \<exists>new. rs = acc @ new \<and> in_tx E ctx props t qs s new broken s') s"
  using assms(3,4)
proof (induction qs arbitrary: acc s)
  case Nil
  then show ?case by (auto simp: in_tx_def intro: sent_none)
next
  case (Cons q qs)
  let ?q = "q\<lparr>vq_TxId := Some t\<rparr>" and ?roll = "tx_query t ''ROLLBACK''"
  let ?post = "\<lambda>(rs, broken) s'. \<exists>new. rs = acc @ new \<and> in_tx E ctx props t (q # qs) s new broken s'"
  have val: "Val [] (vq_TxId ?q) \<noteq> []" using assms(2) by (simp add: Val_def)
  have broken: "wp (executeRequestQuery E ctx props ?roll) (\<lambda>_. wp (ret (acc @ [a], True)) ?post) s1"
    if a: "executeRequestQuery E ctx props ?q s = (Done a, s1)" "answer_ok a" "db_inv s1" "answer_tx ?q s a s1" "failed a"
    for a s1
  proof -
    note r = request_query_inv [OF a(3) assms(1), of ctx props ?roll]
    show ?thesis
      by (rule wp_mono [OF wp_conj [OF wp_self [OF r] r]])
        (use in_tx_broken [OF a(2,4,5) Cons.prems(2) assms(2) a(1)] in \<open>simp only: wp_ret, blast\<close>)
  qed
  have go: "wp (execute_in_tx E ctx props t qs (acc @ [a])) ?post s1"
    if a: "executeRequestQuery E ctx props ?q s = (Done a, s1)" "answer_ok a" "db_inv s1" "answer_tx ?q s a s1" "\<not> failed a"
    for a s1
  proof -
    note i = answer_in_tx [OF a(4,2) val Cons.prems(2)]
    show ?thesis
    proof (rule wp_mono [OF Cons.IH [OF a(3) i(1)]], safe)
      fix rs broken s' new
      assume "in_tx E ctx props t qs s1 new broken s'"
      from in_tx_step [OF a(2,4,5) Cons.prems(2) assms(2) a(1) this]
      show "\<exists>new'. (acc @ [a]) @ new = acc @ new' \<and> in_tx E ctx props t (q # qs) s new' broken s'"
        by (intro exI [of _ "a # new"]) simp
    qed
  qed
  note r = request_query_inv [OF Cons.prems(1) assms(1), of ctx props ?q]
  show ?case
    unfolding execute_in_tx.simps wp_bnd
    by (rule wp_mono [OF wp_conj [OF wp_self [OF r] r]]) (use broken go in \<open>auto simp: failed_def\<close>)
qed

text \<open>What the handler has done when it returns with the answers \<open>rs\<close>, by the requests \<open>tr\<close> that it sent: its
  \<open>BEGIN\<close> was refused; or it has opened a transaction \<open>t\<close>, sent the statements in it up to the first
  failure, and last a \<open>ROLLBACK\<close> if there was a failure and a \<open>COMMIT\<close> if not.\<close>

definition tx_outcome ::
  "vdl_Query list \<Rightarrow> 'w DB \<Rightarrow> (vdl_Query \<times> vdl_QueryResult) list \<Rightarrow> vdl_QueryResult list \<Rightarrow> 'w DB \<Rightarrow> bool" where
  "tx_outcome queries s tr rs s' \<longleftrightarrow>
     (\<exists>r. tr = [(begin_query, r)] \<and> rs = [r] \<and> failed r \<and> txID s' = txID s) \<or>
     (\<exists>a t body e r. tr = (begin_query, a) # body @ [(tx_query t e, r)] \<and>
        \<not> failed a \<and> vr_TxId a = Some t \<and> t \<noteq> [] \<and> txID s = [] \<and>
        statements_of t queries body \<and> list_all (\<lambda>x. \<not> failed (snd x)) (butlast body) \<and>
        (if body \<noteq> [] \<and> failed (snd (last body)) then e = ''ROLLBACK'' \<and> rs = map snd body
         else e = ''COMMIT'' \<and> length body = length queries \<and> rs = map snd body @ (if failed r then [r] else [])) \<and>
        list_all (\<lambda>r. vr_TxId r = None) rs \<and>
        txID s' \<in> {t, []} \<and> (\<not> failed r \<longrightarrow> txID s' = []) \<and>
        (failed r \<and> list_all (\<lambda>x. \<not> ends_transaction (snd x)) body \<longrightarrow> txID s' = t))"

lemma answer_tx_ticks: "answer_tx q (s\<lparr>ticks := n\<rparr>) a s' = answer_tx q s a s'"
  by (simp add: answer_tx_def)

definition rqlite_post ::
  "'w env \<Rightarrow> ctx \<Rightarrow> requestProps \<Rightarrow> vdl_Query list \<Rightarrow> 'w DB \<Rightarrow> DatabaseQueryOutput \<Rightarrow> 'w DB \<Rightarrow> bool" where
  "rqlite_post E ctx props queries s out s' \<longleftrightarrow>
     db_inv s' \<and> list_all answer_ok (o_Results out) \<and>
     (\<exists>tr. runs E ctx props s tr s' \<and> tx_outcome queries s tr (o_Results out) s')"

lemma wp_rqlite_output:
  assumes "db_inv s1" "list_all answer_ok rs" "sent E ctx props (s\<lparr>ticks := Suc (ticks s)\<rparr>) tr s1"
    and "tx_outcome queries s tr rs s1"
  shows "wp (rqlite_output E t0 rs) (rqlite_post E ctx props queries s) s1"
proof -
  have "runs E ctx props s tr (s1\<lparr>ticks := Suc (ticks s1)\<rparr>)" using assms(3) by (auto simp: runs_def)
  moreover have "tx_outcome queries s tr rs (s1\<lparr>ticks := Suc (ticks s1)\<rparr>)" using assms(4) by (simp add: tx_outcome_def)
  moreover have "db_inv (s1\<lparr>ticks := Suc (ticks s1)\<rparr>)" using assms(1) by (simp add: db_inv_def pools_ok_def)
  ultimately show ?thesis
    using assms(2) by (auto simp: rqlite_output_def rqlite_post_def clock_def wp_def bnd_def ret_def)
qed

lemma wp_rqlite_commit:
  assumes "\<forall>n. uuid_NewString E n \<noteq> []" "txID s = []" "t \<noteq> []" "txID s1 = t" "\<not> failed a" "vr_TxId a = Some t"
    and "executeRequestQuery E ctx props begin_query (s\<lparr>ticks := Suc (ticks s)\<rparr>) = (Done a, s1)"
    and i: "in_tx E ctx props t queries s1 rs broken s2"
  shows "wp (rqlite_commit E ctx props t t0 (rs, broken)) (rqlite_post E ctx props queries s) s2"
proof -
  have s2: "db_inv s2" "txID s2 \<in> {t, []}" and rs: "list_all answer_ok rs" "list_all (\<lambda>r. vr_TxId r = None) rs"
    using i by (simp_all add: in_tx_def)
  have start: "sent E ctx props (s\<lparr>ticks := Suc (ticks s)\<rparr>) ((begin_query, a) # tr) s'"
    if "sent E ctx props s1 tr s'" for tr s'
    using assms(7) that by (rule sent_more)
  show ?thesis
  proof (cases broken)
    case True
    with i obtain body b where b: "map snd body = rs" "statements_of t queries body" "rs \<noteq> []" "failed (last rs)"
      "list_all (\<lambda>r. \<not> failed r) (butlast rs)" "sent E ctx props s1 (body @ [(tx_query t ''ROLLBACK'', b)]) s2"
      "\<not> failed b \<longrightarrow> txID s2 = []" "list_all (\<lambda>r. \<not> ends_transaction r) rs \<and> failed b \<longrightarrow> txID s2 = t"
      using assms(4) by (auto simp: in_tx_def)
    have body: "body \<noteq> []" "snd (last body) = last rs" "list_all (\<lambda>x. \<not> failed (snd x)) (butlast body)"
      "list_all (\<lambda>x. \<not> ends_transaction (snd x)) body = list_all (\<lambda>r. \<not> ends_transaction r) rs"
      using b(3,5) unfolding b(1) [symmetric] by (auto simp: last_map list.pred_map comp_def map_butlast [symmetric])
    have "tx_outcome queries s ((begin_query, a) # body @ [(tx_query t ''ROLLBACK'', b)]) rs s2"
      unfolding tx_outcome_def
      by (rule disjI2, rule exI [of _ a], rule exI [of _ t], rule exI [of _ body], rule exI [of _ "''ROLLBACK''"], rule exI [of _ b], intro conjI)
        (use b(1,2,4,7,8) body assms(2,3,5,6) s2(2) rs(2) in simp_all)
    from True wp_rqlite_output [OF s2(1) rs(1) start [OF b(6)] this] show ?thesis
      by (simp add: rqlite_commit_def)
  next
    case False
    let ?q = "tx_query t ''COMMIT''"
    from False i obtain body where b: "map snd body = rs" "statements_of t queries body" "list_all (\<lambda>r. \<not> failed r) rs"
      "length rs = length queries" "sent E ctx props s1 body s2" "list_all (\<lambda>r. \<not> ends_transaction r) rs \<longrightarrow> txID s2 = t"
      using assms(4) by (auto simp: in_tx_def)
    have body: "body \<noteq> [] \<Longrightarrow> \<not> failed (snd (last body))" "list_all (\<lambda>x. \<not> failed (snd x)) (butlast body)"
      "list_all (\<lambda>x. \<not> ends_transaction (snd x)) body = list_all (\<lambda>r. \<not> ends_transaction r) rs" "length body = length queries"
      using b(3,4) unfolding b(1) [symmetric] by (auto simp: list_all_iff dest: in_set_butlastD)
    have val: "Val [] (vq_TxId ?q) \<noteq> []" using assms(3) by (simp add: tx_query_def Val_def)
    have step: "wp (rqlite_output E t0 (rs @ (if vr_Error c \<noteq> None then [c] else []))) (rqlite_post E ctx props queries s) s3"
      if c: "executeRequestQuery E ctx props ?q s2 = (Done c, s3)" "answer_tx ?q s2 c s3" "answer_ok c" "db_inv s3" for c s3
    proof -
      note j = answer_in_tx [OF c(2,3) val s2(2)]
      have k: "\<not> failed c \<Longrightarrow> txID s3 = []" using end_answer [OF c(2) rollback_keyword(2)] by simp
      have l: "txID s3 = t" if "failed c" "list_all (\<lambda>r. \<not> ends_transaction r) rs" using b(6) j(4) that by simp
      have m: "rs @ (if vr_Error c \<noteq> None then [c] else []) = map snd body @ (if failed c then [c] else [])"
        using b(1) by (simp add: failed_def)
      have "tx_outcome queries s ((begin_query, a) # body @ [(?q, c)]) (rs @ (if vr_Error c \<noteq> None then [c] else [])) s3"
        unfolding tx_outcome_def m
        by (rule disjI2, rule exI [of _ a], rule exI [of _ t], rule exI [of _ body], rule exI [of _ "''COMMIT''"], rule exI [of _ c], intro conjI)
          (use b(1,2) body(2-) body(1) assms(2,3,5,6) rs(2) j(1,2) k l in \<open>simp_all, blast?\<close>)
      moreover have "list_all answer_ok (rs @ (if vr_Error c \<noteq> None then [c] else []))" using rs(1) c(3) by simp
      ultimately show ?thesis
        using wp_rqlite_output [OF c(4) _ start [OF sent_append [OF b(5) sent_one [OF c(1)]]]] by blast
    qed
    note r = request_query_inv [OF s2(1) assms(1), of ctx props ?q]
    from False show ?thesis
      by (simp only: rqlite_commit_def prod.case if_False wp_bnd)
        (rule wp_mono [OF wp_conj [OF wp_self [OF r] r]], rule step, blast+)
  qed
qed

lemma wp_rqlite_begun:
  assumes "\<forall>n. uuid_NewString E n \<noteq> []" "db_inv s1" "answer_ok a" "answer_tx begin_query s a s1"
    and x: "executeRequestQuery E ctx props begin_query (s\<lparr>ticks := Suc (ticks s)\<rparr>) = (Done a, s1)"
  shows "wp (case vr_TxId a of
        None \<Rightarrow> rqlite_output E t0 [a]
      | Some t \<Rightarrow>
          if vr_Error a \<noteq> None then rqlite_output E t0 [a]
          else bnd (execute_in_tx E ctx props t queries []) (rqlite_commit E ctx props t t0))
    (rqlite_post E ctx props queries s) s1"
proof (cases "failed a")
  case True
  then have "tx_outcome queries s [(begin_query, a)] [a] s1"
    using assms(4) by (auto simp: tx_outcome_def answer_tx_def failed_def)
  with True assms(2,3) wp_rqlite_output [OF assms(2) _ sent_one [OF x] this] show ?thesis
    by (auto simp: failed_def split: option.split)
next
  case False
  with assms(4) have "vr_Type a = QueryResultTypeBegin"
    by (auto simp: answer_tx_def failed_def rollback_keyword result_type_eval)
  with False assms(4) have b: "txID s = []" "txID s1 \<noteq> []" "vr_TxId a = Some (txID s1)" "vr_Error a = None"
    by (auto simp: answer_tx_def failed_def)
  have step: "wp (rqlite_commit E ctx props (txID s1) t0 (rs, broken)) (rqlite_post E ctx props queries s) s2"
    if "in_tx E ctx props (txID s1) queries s1 rs broken s2" for rs broken s2
    using that wp_rqlite_commit [OF assms(1) b(1,2) refl False b(3) x] by auto
  from b(3,4) show ?thesis
    by (simp del: append.simps) (rule wp_mono [OF execute_in_tx_wp [OF assms(1) b(2) assms(2)]],
        use step [of "fst x" "snd x" for x] in \<open>simp_all add: case_prod_unfold\<close>)
qed

lemma rqlite_transaction_wp:
  assumes "db_inv s" "\<forall>n. uuid_NewString E n \<noteq> []" "queries \<noteq> []"
  shows "wp (executeRQLiteQueries E ctx props queries True) (rqlite_post E ctx props queries s) s"
proof -
  let ?s = "s\<lparr>ticks := Suc (ticks s)\<rparr>"
  have inv: "db_inv ?s" by (simp add: db_inv_ticks assms(1))
  have start: "answer_tx begin_query ?s a s1 = answer_tx begin_query s a s1" for a s1 by (simp add: answer_tx_def)
  note r = request_query_inv [OF inv assms(2), of ctx props begin_query]
  from assms(3) show ?thesis
    by (simp only: executeRQLiteQueries_def not_True_eq_False simp_thms if_False wp_bnd wp_clock
        wp_bnd [of "executeRequestQuery E ctx props begin_query"] Suc_eq_plus1 [symmetric])
      (rule wp_mono [OF wp_conj [OF wp_self [OF r] r]], rule wp_rqlite_begun [OF assms(2)],
        simp_all only: start)
qed

text \<open>C9. A batch that asks for a transaction gets one of its own. When the handler returns, the requests that
  it has sent to the database, each from the state that the one before left, are these. Either
  only a \<open>BEGIN\<close>, which was refused, and that one error is the answer and the transaction of nobody has
  changed. Or a \<open>BEGIN\<close> that opened a transaction where none was open, the statements of the batch in that transaction and in their order,
  up to the first that fails, and last a \<open>ROLLBACK\<close> when one failed and a \<open>COMMIT\<close> when none did. The
  answers are those of the statements, and of the \<open>COMMIT\<close> if that failed; they never carry a transaction ID.
  When the last request succeeded no transaction is open; when it was refused the
  transaction stays open, unless a statement of the batch had ended it. The answers are well formed, the object
  keeps its invariant, and the handler waits for nothing but an open transaction.\<close>

theorem rqlite_transaction:
  assumes "db_inv s" "\<forall>n. uuid_NewString E n \<noteq> []" "queries \<noteq> []"
  shows "case executeRQLiteQueries E ctx props queries True s of
      (Done out, s') \<Rightarrow>
        db_inv s' \<and> list_all answer_ok (o_Results out) \<and>
        (\<exists>tr. runs E ctx props s tr s' \<and> tx_outcome queries s tr (o_Results out) s')
    | (Blocked m, s') \<Rightarrow> m = OnTxMu \<and> txMu s' \<and> txID s' \<noteq> []
    | (Running, s') \<Rightarrow> True
    | (Fatal, s') \<Rightarrow> False"
  using rqlite_transaction_wp [OF assms, of ctx props] by (simp only: wp_def rqlite_post_def)

text \<open>A client that hangs up: the context of its request is cancelled from a moment on.\<close>

definition cancelled_at :: "nat \<Rightarrow> ctx" where
  "cancelled_at n t = (if n \<le> t then Some (ErrorString ''context canceled'') else None)"

definition mini_open :: "mini DB" where
  "mini_open = (after_rw [] (as_role 0 mini_conn) (mini0\<lparr>m_intx := True\<rparr>) mini_db)
     \<lparr>txMu := True, txID := ''id4'', txLastUsed := 5 * Second,
      dbStats := IncBegins (6 * Second) (NewDBStats 0), ticks := 8\<rparr>"

lemmas request_eval = executeRequestQuery_def clock_def bnd_def sqliteParamsFromVDL_def db_Query_def
  db_query_def db_query_of_def keyword_eval ClassifyQuery_def types_neq executeClassifiedQuery_def ret_def
  admin_props_def authorizerRoleForAuthRole_def auth_role_defs AuthorizerRoleAdmin_def Val_def

lemma mini_begin_request:
  "executeRequestQuery mini_env (cancelled_at 10) admin_props \<lparr>vq_TxId = None, vq_Query = ''BEGIN'', vq_Params = None\<rparr>
     (mini_db\<lparr>ticks := 2\<rparr>) =
   (Done (queryResultFromDB (5 * Second) (QueryResult0\<lparr>r_Type := QueryTypeBegin, r_TxID := ''id4''\<rparr>)), mini_open)"
proof -
  have u: "usable RW (mini_db\<lparr>ticks := 3\<rparr>) [] mini_conn" using mini_usable by simp
  have "executeBeginQuery mini_env (cancelled_at 10) [] 0 [] (mini_db\<lparr>ticks := 3\<rparr>) =
      (Done (Inr (QueryResult0\<lparr>r_Type := QueryTypeBegin, r_TxID := ''id4''\<rparr>)), mini_open\<lparr>ticks := 7\<rparr>)"
    by (subst executeBegin_run [OF u, where v = "Inr (mini_done mini0)" and w = "mini0\<lparr>m_intx := True\<rparr>"])
      (simp_all add: mini_env_def as_role_mini mini_tx_statements mini0_def isValid_def cancelled_at_def
        AuthorizerRoleAdmin_def Let_def show_nat_eval digit_eval after_rw_def
        digit_eval [unfolded numeral_2_eq_2] mini_open_def)
  then show ?thesis by (simp add: request_eval mini_env_def) (simp add: mini_open_def)
qed

lemma mini_rollback:
  "\<exists>a s'. executeRequestQuery mini_env (cancelled_at 10) admin_props (tx_query ''id4'' ''ROLLBACK'')
     (mini_open\<lparr>ticks := 10\<rparr>) = (Done a, s') \<and> txID s' = ''id4''"
proof -
  have p: "\<not> p_closed (readWritePool mini_open)" "txID mini_open = ''id4''" "\<not> txOpMu mini_open" "\<not> writeMu mini_open"
    by (simp_all add: mini_open_def after_rw_def mini_db_def fresh_DB_def mini_pool_def)
  then show ?thesis
    by (simp add: request_eval tx_query_def locked_def Lock_def Unlock_def queryWithType_def validateTxID_def
        at_now_def executeRollbackQuery_def end_tx_cancelled cancelled_at_def count_def error_result_def)
qed

text \<open>The miniature server runs a batch of one empty query in a transaction; the client hangs up
  after the \<open>BEGIN\<close>, so that the \<open>ROLLBACK\<close> fails.\<close>

lemma mini_abandoned:
  "\<exists>out s'. executeRQLiteQueries mini_env (cancelled_at 10) admin_props [plain_query []] True mini_db = (Done out, s') \<and>
     length (o_Results out) = 1 \<and> txID s' = ''id4''"
proof -
  obtain a s1 where r: "executeRequestQuery mini_env (cancelled_at 10) admin_props (tx_query ''id4'' ''ROLLBACK'')
     (mini_open\<lparr>ticks := 10\<rparr>) = (Done a, s1)" "txID s1 = ''id4''"
    using mini_rollback by blast
  have t: "ticks mini_open = 8" by (simp add: mini_open_def)
  have e: "executeRequestQuery mini_env (cancelled_at 10) admin_props (plain_query []\<lparr>vq_TxId := Some t\<rparr>) mini_open =
      (Done (QueryResult_of QueryResultTypeError Second\<lparr>vr_Error := Some ''Empty query''\<rparr>), mini_open\<lparr>ticks := 10\<rparr>)" for t
    using t by (simp add: executeRequestQuery_def clock_def bnd_def plain_query_def error_result_def ret_def mini_env_def)
  have start: "executeRequestQuery mini_env (cancelled_at 10) admin_props \<lparr>vq_TxId = None, vq_Query = ''BEGIN'', vq_Params = None\<rparr>
     (mini_db\<lparr>ticks := Suc (Suc 0)\<rparr>) = (Done (queryResultFromDB (5 * Second) (QueryResult0\<lparr>r_Type := QueryTypeBegin, r_TxID := ''id4''\<rparr>)), mini_open)"
    using mini_begin_request by (simp add: numeral_2_eq_2)
  show ?thesis
    by (simp add: executeRQLiteQueries_def clock_def bnd_def start queryResultFromDB_def e r rqlite_commit_def
        rqlite_output_def ret_def)
qed

theorem rqlite_transaction_witness:
  "\<exists>out s' tr. executeRQLiteQueries mini_env (cancelled_at 10) admin_props [plain_query []] True mini_db = (Done out, s') \<and>
     db_inv s' \<and> runs mini_env (cancelled_at 10) admin_props mini_db tr s' \<and>
     tx_outcome [plain_query []] mini_db tr (o_Results out) s'"
  using rqlite_transaction [OF mini_inv, of mini_env "[plain_query []]" "cancelled_at 10" admin_props] mini_abandoned
  by auto

text \<open>C10. A transaction that such a request leaves open is lost to everybody: it had an ID, but no
  answer carries it, so that nobody can end it, and until the idle monitor does, every \<open>BEGIN\<close> waits
  and a \<open>COMMIT\<close> or \<open>ROLLBACK\<close> without the ID is refused. This happens only in one way: the last request that
  the handler sent was the \<open>COMMIT\<close> of that transaction, or its \<open>ROLLBACK\<close> after a failed statement, and it was answered with
  an error, for instance because the client has hung up; nothing is sent after it, in
  particular no \<open>ROLLBACK\<close> after a failed \<open>COMMIT\<close>.\<close>

theorem rqlite_orphans_transaction:
  assumes "db_inv s" "\<forall>n. uuid_NewString E n \<noteq> []" "queries \<noteq> []"
    and "executeRQLiteQueries E ctx props queries True s = (Done out, s')" "txID s = []" "txID s' \<noteq> []"
  shows "txMu s' \<and> failed (last (o_Results out)) \<and> list_all (\<lambda>r. vr_TxId r = None) (o_Results out) \<and>
    (\<exists>a body e r. runs E ctx props s ((begin_query, a) # body @ [(tx_query (txID s') e, r)]) s' \<and> failed r \<and>
       statements_of (txID s') queries body \<and>
       e = (if body \<noteq> [] \<and> failed (snd (last body)) then ''ROLLBACK'' else ''COMMIT'')) \<and>
    (q_TxID q = [] \<and> keyword_type (q_Query q) = Some k \<longrightarrow>
      (if k = QueryTypeBegin then
         db_query E' ctx' q s' = (Blocked OnTxMu, s'\<lparr>dbStats := IncQueuedBegins (dbStats s')\<rparr>)
       else db_query E' ctx' q s' = (Done (Inl ErrTxIdRequired), s')))"
proof -
  from rqlite_transaction_wp [OF assms(1-3), of ctx props] assms(4)
  obtain tr where p: "db_inv s'" "runs E ctx props s tr s'" "tx_outcome queries s tr (o_Results out) s'"
    by (auto simp: wp_def rqlite_post_def)
  from p(3) assms(5,6) obtain a body e r where
    o: "tr = (begin_query, a) # body @ [(tx_query (txID s') e, r)]" "failed r" "statements_of (txID s') queries body"
      "if body \<noteq> [] \<and> failed (snd (last body)) then e = ''ROLLBACK'' \<and> o_Results out = map snd body
       else e = ''COMMIT'' \<and> o_Results out = map snd body @ [r]"
      "list_all (\<lambda>r. vr_TxId r = None) (o_Results out)"
    by (auto simp: tx_outcome_def split: if_splits)
  have "failed (last (o_Results out))" using o(2,4) by (auto simp: last_map split: if_splits)
  moreover have "txMu s'" using p(1) assms(6) by (simp add: db_inv_def)
  moreover have "\<exists>a body e r. runs E ctx props s ((begin_query, a) # body @ [(tx_query (txID s') e, r)]) s' \<and> failed r \<and>
       statements_of (txID s') queries body \<and> e = (if body \<noteq> [] \<and> failed (snd (last body)) then ''ROLLBACK'' else ''COMMIT'')"
    using p(2) o(2-4) unfolding o(1) by (intro exI [of _ a] exI [of _ body] exI [of _ e] exI [of _ r]) auto
  ultimately show ?thesis
    using o(5) db_query_keyword [OF p(1) assms(6), of q k E' ctx'] by simp
qed

theorem rqlite_orphans_transaction_witness:
  "\<exists>out s'. executeRQLiteQueries mini_env (cancelled_at 10) admin_props [plain_query []] True mini_db = (Done out, s') \<and>
     db_query mini_env Background (mini_query [] ''BEGIN'' 0) s' =
       (Blocked OnTxMu, s'\<lparr>dbStats := IncQueuedBegins (dbStats s')\<rparr>)"
proof -
  obtain out s' where r: "executeRQLiteQueries mini_env (cancelled_at 10) admin_props [plain_query []] True mini_db = (Done out, s')"
    "txID s' = ''id4''" using mini_abandoned by blast
  from rqlite_orphans_transaction [OF mini_inv _ _ r(1), where q = "mini_query [] ''BEGIN'' 0" and k = QueryTypeBegin
      and E' = mini_env and ctx' = Background] r
  show ?thesis by (simp add: mini_query_def keyword_eval)
qed

end
