(* ===== verification/Rqlite_Api.thy ===== *)
theory Rqlite_Api
  imports Rqlite
begin

text \<open>
  The interface of the rqlite endpoints: whom they let in, what the query endpoint may change, and
  how values cross the JSON of requests and responses.
\<close>

section \<open>Who gets in\<close>

text \<open>The token that the credentials of a request present.\<close>

definition credential :: "string \<Rightarrow> string" where
  "credential header = (case BasicAuth header of Some (user, password) \<Rightarrow> password | None \<Rightarrow> bearer_token header)"

lemma cut_colon_append: "CHR '':'' \<notin> set user \<Longrightarrow> cut_colon (user @ CHR '':'' # password) = Some (user, password)"
  by (induction user) auto

lemma basic_auth_eval:
  assumes "CHR '':'' \<notin> set user"
  shows "BasicAuth (''Basic '' @ EncodeToString (user @ CHR '':'' # password)) = Some (user, password)"
proof -
  have "ToLower ''Basic '' = ''basic ''" by (simp add: go_strings)
  then show ?thesis by (simp add: BasicAuth_def b64.dec_enc cut_colon_append [OF assms])
qed

lemma check_granted:
  assumes "token_server K T as ws rs salt s" "c \<in> T"
  shows "fst (checkAuthWithCache K c (srv_auth s)) =
    (case granted K as ws rs c of None \<Rightarrow> ('''', '''', False) | Some r \<Rightarrow> (r, principal_of K salt c, True))"
proof -
  obtain sent where sent: "collision_free K salt T" "set sent \<subseteq> T"
    "srv_auth s = after_checks K sent (new_auth as ws rs salt)"
    using assms(1) by (auto simp: token_server_def)
  have "cache_ok K salt (newAuthTokens as ws rs) T (srv_auth s)"
    unfolding sent(3) after_checks_def by (rule auth.inv_after [OF new_auth_ok [OF sent(1)] sent(2)])
  from auth.answers [OF this assms(2)] show ?thesis by (simp only: scan_granted)
qed

lemma token_server_enabled: "token_server K T as ws rs salt s \<Longrightarrow> \<not> authIsDisabled (srv_auth s)"
proof -
  assume t: "token_server K T as ws rs salt s"
  then obtain sent where sent: "collision_free K salt T" "set sent \<subseteq> T"
    "srv_auth s = after_checks K sent (new_auth as ws rs salt)" by (auto simp: token_server_def)
  have "cache_ok K salt (newAuthTokens as ws rs) T (srv_auth s)"
    unfolding sent(3) after_checks_def by (rule auth.inv_after [OF new_auth_ok [OF sent(1)] sent(2)])
  with t show ?thesis by (auto simp: token_server_def authIsDisabled_def cache_ok_def newAuthTokens_def)
qed

lemma rqlite_authorized:
  assumes "token_server K T as ws rs salt s" "credential (rq_Header r ''Authorization'') \<in> T"
  shows "fst (authorizeRQLiteRequest K r (srv_auth s)) =
    (case granted K as ws rs (credential (rq_Header r ''Authorization'')) of
       None \<Rightarrow> Inl unauthorizedError
     | Some rl \<Rightarrow> Inr \<lparr>rp_Role = rl,
         rp_Principal = principal_of K salt (credential (rq_Header r ''Authorization''))\<rparr>)"
proof (cases "BasicAuth (rq_Header r ''Authorization'')")
  case None
  then show ?thesis
    using token_server_answer [OF assms(1), of "rq_Header r ''Authorization''"] token_server_enabled [OF assms(1)] assms(2)
    by (auto simp: authorizeRQLiteRequest_def credential_def split: prod.splits option.splits sum.splits)
next
  case (Some up)
  then show ?thesis
    using check_granted [OF assms] token_server_enabled [OF assms(1)]
    by (cases up) (auto simp: authorizeRQLiteRequest_def credential_def split: prod.splits option.splits)
qed

text \<open>The rqlite endpoints let in the same clients as the RPC interface, in two ways: as a bearer
  token, or as the password of basic authentication with any user name. On a server with tokens
  the role and the identity are those of the token, and a request without a token that is granted
  a role is refused.\<close>

lemma rqlite_authorization:
  assumes "token_server K T as ws rs salt s" "credential (rq_Header r ''Authorization'') \<in> T"
  shows "fst (authorizeRQLiteRequest K r (srv_auth s)) =
    (case granted K as ws rs (credential (rq_Header r ''Authorization'')) of
       None \<Rightarrow> Inl unauthorizedError
     | Some rl \<Rightarrow> Inr \<lparr>rp_Role = rl,
         rp_Principal = principal_of K salt (credential (rq_Header r ''Authorization''))\<rparr>) \<and>
    (\<forall>user token. CHR '':'' \<notin> set user \<longrightarrow>
       credential (''Basic '' @ EncodeToString (user @ CHR '':'' # token)) = token)"
  using rqlite_authorized [OF assms] by (simp add: credential_def basic_auth_eval del: append.simps)

text \<open>\<open>root:view\<close> in base64.\<close>

lemma rqlite_authorization_witness:
  "fst (authorizeRQLiteRequest id_crypto (mini_request (''Basic '' @ EncodeToString ''root:view'')) (srv_auth mini_server)) =
     Inr \<lparr>rp_Role = authRoleReadOnly, rp_Principal = principal_of id_crypto ''salt'' ''view''\<rparr>"
proof -
  have "credential (''Basic '' @ EncodeToString ''root:view'') = ''view''"
    using basic_auth_eval [of "''root''" "''view''"] by (simp add: credential_def del: EncodeToString.simps)
  with rqlite_authorization [OF mini_token_server, of "mini_request (''Basic '' @ EncodeToString ''root:view'')"]
  show ?thesis by (simp add: mini_request_def del: EncodeToString.simps append.simps)
qed

section \<open>The query endpoint\<close>

lemma keeps_execute_in_tx:
  assumes "confines (e_api E) ks (authorizerRoleForAuthRole (rp_Role props)) I ok"
    and "admin_compile_keeps (e_api E) (vq_Query ` set qs) I"
  shows "keeps ks I (execute_in_tx E ctx props t qs acc)"
  using assms(2)
proof (induction qs arbitrary: acc)
  case (Cons q qs)
  then have "admin_compile_keeps (e_api E) {vq_Query (q\<lparr>vq_TxId := Some t\<rparr>)} I"
    "admin_compile_keeps (e_api E) (vq_Query ` set qs) I"
    by (auto elim!: admin_compile_mono)
  moreover have "admin_compile_keeps (e_api E) {vq_Query (tx_query t ''ROLLBACK'')} I"
    by (simp add: admin_compile_keeps_def tx_query_def keyword_eval)
  ultimately show ?case using Cons.IH by (auto intro!: keeps_rules keeps_request_query [OF assms(1)])
qed (auto intro!: keeps_rules)

lemma keeps_rqlite_output [keeps_rules]: "keeps ks I (rqlite_output E t rs)"
  unfolding rqlite_output_def by (intro keeps_rules)

lemma keeps_rqlite_queries:
  assumes "confines (e_api E) ks (authorizerRoleForAuthRole (rp_Role props)) I ok"
    and "admin_compile_keeps (e_api E) (vq_Query ` set qs) I"
  shows "keeps ks I (executeRQLiteQueries E ctx props qs tx)"
proof -
  have "admin_compile_keeps (e_api E) {''BEGIN''} I" "admin_compile_keeps (e_api E) {''COMMIT''} I"
    by (simp_all add: admin_compile_keeps_def keyword_eval)
  then show ?thesis
    unfolding executeRQLiteQueries_def rqlite_commit_def
    by (auto split: option.split prod.split intro!: keeps_rules keeps_executeQueries [OF assms]
        keeps_request_query [OF assms(1)] keeps_execute_in_tx [OF assms] simp: tx_query_def)
qed

lemma srv_keeps_rqlite_serve:
  assumes "confines (e_api E) ks (authorizerRoleForAuthRole (rp_Role props)) I ok"
    and "admin_compile_keeps (e_api E) (vq_Query ` set qs) I"
  shows "srv_keeps ks I (rqlite_serve E r props qs)"
  unfolding rqlite_serve_def Let_def
  by (intro srv_keeps_rules keeps_rules keeps_rqlite_queries [OF assms])

text \<open>The texts of the statements that a request sends.\<close>

definition request_texts :: "json_lib \<Rightarrow> http_request \<Rightarrow> string set" where
  "request_texts J r = (case rqliteQueriesFromRequest J r of Inl e \<Rightarrow> {} | Inr qs \<Rightarrow> vq_Query ` set qs)"

lemma srv_keeps_rqlite_query:
  assumes "confines (e_api E) ks AuthorizerRoleReadOnly I ok" "admin_compile_keeps (e_api E) (request_texts J r) I"
  shows "srv_keeps ks I (rqliteQueryHandler E K J r)"
proof -
  have "srv_keeps ks I (rqlite_serve E r (props\<lparr>rp_Role := authRoleReadOnly\<rparr>) qs)"
    if "rqliteQueriesFromRequest J r = Inr qs" for props qs
    by (rule srv_keeps_rqlite_serve [where ok = ok])
      (use assms that in \<open>simp_all add: authorizerRoleForAuthRole_def auth_role_defs request_texts_def\<close>)
  then show ?thesis
    unfolding rqliteQueryHandler_def handleRQLite_def
    by (auto split: sum.split intro!: srv_keeps_rules)
qed

text \<open>C14. The query endpoint is read-only for everybody, admins and servers without tokens
  included, whatever its statements, also in a transaction: a fact about the engine holds after any request
  to it when statements of the read-only role do not change it, neither compiled nor run, on one
  condition on the texts that the request sends. The classification compiles each text once as the administrator's,
  and those compilations must keep the fact too. They do for the contents of the database; a flag
  of the connection is kept only when no text of the request is a pragma that sets it, which the
  endpoint does not check.\<close>

theorem rqlite_query_read_only:
  assumes "confines (e_api E) ks AuthorizerRoleReadOnly I ok" "I (world (srv_DB s))"
    and "p_connector (readWritePool (srv_DB s)) \<in> ks" "p_connector (readOnlyPool (srv_DB s)) \<in> ks"
    and "admin_compile_keeps (e_api E) (request_texts J r) I"
  shows "I (world (srv_DB (snd (rqliteQueryHandler E K J r s))))"
  using srv_keeps_rqlite_query [OF assms(1,5), of K] assms(2-4) by (simp add: srv_keeps_def guarded_def)

text \<open>A JSON library whose texts are single strings and whose floats are the digits of their bits.\<close>

definition bits_json :: json_lib where
  "bits_json = \<lparr>json_Decode = (\<lambda>b. Inr (JString b)), json_TypeError = (\<lambda>v t. ErrorString t),
     json_Float64 = (\<lambda>s. Inr (word_of_nat (read_digits 0 s)))\<rparr>"

theorem rqlite_query_read_only_witness:
  "m_rows (world (srv_DB (snd (rqliteQueryHandler mini_env id_crypto bits_json
     ((mini_request ''Bearer root'')\<lparr>rq_Method := ''GET'', rq_Query := [''q'' \<mapsto> [''INSERT''], ''transaction'' \<mapsto> ['''']]\<rparr>)
     mini_server)))) = 0"
  by (rule rqlite_query_read_only [where ok = mini_reads and ks = "{\<lparr>dsn = ''db'', postConnectQueries = []\<rparr>}"])
    (use mini_confines in \<open>simp_all add: mini_admin_compile mini_server_def NewServer_def Let_def mini0_def mini_env_def\<close>,
      simp_all add: mini_db_def fresh_DB_def mini_pool_def)

section \<open>Values\<close>

text \<open>What a JSON parameter is bound as. A text is a blob when, without the blanks around it, it is a letter \<open>x\<close>, a
  quote, the hexadecimal digits of the bytes in either case, and a quote; an
  array of bytes is a blob, booleans are integers, an object and other arrays are nothing.\<close>

definition hex_literal :: "string \<Rightarrow> bytes \<Rightarrow> bool" where
  "hex_literal s d \<longleftrightarrow> (\<exists>x digits. TrimSpace s = [x, CHR 0x27] @ digits @ [CHR 0x27] \<and>
     (x = CHR ''x'' \<or> x = CHR ''X'') \<and> map lower_char digits = hex_Encode d)"

definition text_binds :: "string \<Rightarrow> go_any \<Rightarrow> bool" where
  "text_binds s a \<longleftrightarrow> (\<exists>d. hex_literal s d \<and> a = GBytes d) \<or> (\<nexists>d. hex_literal s d) \<and> a = GString s"

definition json_binds :: "json_lib \<Rightarrow> json \<Rightarrow> go_any \<Rightarrow> bool" where
  "json_binds J v a \<longleftrightarrow>
     (case v of
        JNull \<Rightarrow> a = GNil
      | JBool b \<Rightarrow> a = GInt64 (if b then 1 else 0)
      | JNumber n \<Rightarrow>
          (case Number_Int64 n of
             Some i \<Rightarrow> a = GInt64 i
           | None \<Rightarrow> (\<exists>f. json_Float64 J n = Inr f \<and> a = GFloat64 f))
      | JString s \<Rightarrow> text_binds s a
      | JArray vs \<Rightarrow> (\<exists>d. unmarshal_bytes vs = Some d \<and> a = GBytes d)
      | JObject m \<Rightarrow> False)"

text \<open>The code's decoder of hexadecimal texts against the specification.\<close>

lemma hex_val_lower: "hex_val ch = Some p \<longleftrightarrow> p < 16 \<and> lower_char ch = hex_digit p"
proof -
  have l: "lower_char ch = (if 65 \<le> code ch \<and> code ch \<le> 90 then byte (code ch + 32) else ch)"
    by (simp add: lower_char_def code_def byte_def)
  have c: "code (byte (code ch + 32)) = code ch + 32" if "code ch \<le> 90" using that by (simp add: code_def byte_def)
  have "hex_val (lower_char ch) = hex_val ch"
    using c by (auto simp: hex_val_def l)
  moreover have "p < 16 \<and> lower_char ch = hex_digit p" if p: "hex_val ch = Some p"
  proof -
    have b: "byte (code ch) = ch" by (simp add: code_def byte_def)
    from p consider "48 \<le> code ch" "code ch \<le> 57" "p + 48 = code ch" | "97 \<le> code ch" "code ch \<le> 102" "p + 87 = code ch"
      | "65 \<le> code ch" "code ch \<le> 70" "p + 87 = code ch + 32"
      by (auto simp: hex_val_def split: if_splits)
    then show ?thesis
    proof cases
      case 3
      then have "\<not> p < 10" "p < 16" by simp_all
      with 3 show ?thesis unfolding l hex_digit_def by (simp only: if_True if_False simp_thms) simp
    qed (use b in \<open>simp_all add: l hex_digit_def\<close>)
  qed
  ultimately show ?thesis using hex_val_digit by metis
qed

lemma hex_Decode_Cons:
  "hex_Decode (ch # dh # cs) = Inr (b # bs) \<longleftrightarrow>
     hex_val ch = Some (code b div 16) \<and> hex_val dh = Some (code b mod 16) \<and> hex_Decode cs = Inr bs"
proof -
  have "byte (p * 16 + q) = b \<longleftrightarrow> p = code b div 16 \<and> q = code b mod 16" if "p < 16" "q < 16" for p q
    using that by (auto simp: byte_def code_def)
  moreover have "p < 16" "q < 16" if "hex_val ch = Some p" "hex_val dh = Some q" for p q
    using that hex_val_lower by blast+
  moreover have "byte (code b div 16 * 16 + code b mod 16) = b" by (simp add: byte_def code_def)
  ultimately show ?thesis
    by (cases "hex_val ch"; cases "hex_val dh"; cases "hex_Decode cs") auto
qed

lemma hex_Decode_iff: "hex_Decode ds = Inr d \<longleftrightarrow> map lower_char ds = hex_Encode d"
proof (induction ds arbitrary: d rule: hex_Decode.induct)
  case 1
  show ?case by (cases d) auto
next
  case (2 ch)
  show ?case by (cases d) auto
next
  case (3 ch dh cs)
  show ?case
  proof (cases d)
    case Nil
    then show ?thesis
      by (cases "hex_val ch"; cases "hex_val dh"; cases "hex_Decode cs") auto
  next
    case (Cons b bs)
    have "hex_Decode cs = Inr bs \<longleftrightarrow> map lower_char cs = hex_Encode bs"
      if "hex_val ch = Some (code b div 16)" "hex_val dh = Some (code b mod 16)"
      using that by (intro "3.IH") auto
    then show ?thesis
      using hex_val_lower [of ch "code b div 16"] hex_val_lower [of dh "code b mod 16"] unfolding Cons hex_Decode_Cons by auto
  qed
qed

lemma hex_string_blob: "rqliteHexBlobString s = Some b \<longleftrightarrow> (\<exists>d. hex_literal s d \<and> b = encodeBlob d)"
proof -
  let ?t = "TrimSpace s"
  have shape: "\<not> (length ?t < 3 \<or> ?t ! 0 \<noteq> CHR ''x'' \<and> ?t ! 0 \<noteq> CHR ''X'' \<or>
      ?t ! 1 \<noteq> CHR 0x27 \<or> ?t ! (length ?t - 1) \<noteq> CHR 0x27) \<longleftrightarrow>
    (\<exists>x digits. ?t = [x, CHR 0x27] @ digits @ [CHR 0x27] \<and> (x = CHR ''x'' \<or> x = CHR ''X''))" (is "?l \<longleftrightarrow> ?r")
  proof
    assume l: ?l
    then obtain x y r where t: "?t = x # y # r" "r \<noteq> []"
      by (cases "?t"; cases "tl ?t") (auto simp: Suc_le_eq numeral_eq_Suc split: if_splits)
    then obtain digits z where "r = digits @ [z]" by (metis rev_exhaust)
    with l t show ?r by (auto simp: nth_append)
  qed (auto simp: nth_append)
  have mid: "take (length ?t - 3) (drop 2 ?t) = digits" if "?t = [x, CHR 0x27] @ digits @ [CHR 0x27]" for x digits
    using that by simp
  show ?thesis
  proof (cases ?l)
    case True
    then obtain x digits where t: "?t = [x, CHR 0x27] @ digits @ [CHR 0x27]" "x = CHR ''x'' \<or> x = CHR ''X''"
      using shape by blast
    have "rqliteHexBlobString s = (case hex_Decode digits of Inl _ \<Rightarrow> None | Inr d \<Rightarrow> Some (encodeBlob d))"
      using True mid [OF t(1)] by (simp only: rqliteHexBlobString_def Let_def if_False)
    moreover have "hex_literal s d \<longleftrightarrow> hex_Decode digits = Inr d" for d
      using t by (auto simp: hex_literal_def hex_Decode_iff)
    ultimately show ?thesis by (auto split: sum.splits)
  next
    case False
    then have "rqliteHexBlobString s = None" by (auto simp: rqliteHexBlobString_def Let_def)
    moreover have "\<not> hex_literal s d" for d using False shape by (auto simp: hex_literal_def)
    ultimately show ?thesis by simp
  qed
qed

lemma hex_string_none: "rqliteHexBlobString s = None \<longleftrightarrow> (\<nexists>d. hex_literal s d)"
  using hex_string_blob [of s] by (cases "rqliteHexBlobString s") auto

text \<open>The two conversions of a value, to the API's value and to the bound parameter, against the specification.\<close>

lemma value_param:
  "(case rqliteValueFromJSON J v of Inl e \<Rightarrow> \<nexists>a. json_binds J v a
    | Inr w \<Rightarrow> \<exists>a. json_binds J v a \<and> sqliteValueFromVDL w = Inr a)"
proof -
  have b: "DecodeString (encodeBlob d) = Inr d" for d by (simp add: encodeBlob_def b64.dec_enc)
  have t: "\<exists>a. text_binds s a \<and> sqliteValueFromVDL (case rqliteHexBlobString s of
      Some blob \<Rightarrow> SqliteValue0\<lparr>sv_Blob := Some blob\<rparr> | None \<Rightarrow> SqliteValue0\<lparr>sv_Text := Some s\<rparr>) = Inr a" for s
  proof (cases "rqliteHexBlobString s")
    case None
    then show ?thesis using hex_string_none [of s] by (simp add: sqliteValueFromVDL_def SqliteValue0_def text_binds_def)
  next
    case (Some x)
    then obtain d where "hex_literal s d" "x = encodeBlob d" using hex_string_blob by blast
    then show ?thesis
      by (intro exI [of _ "GBytes d"]) (auto simp: Some b sqliteValueFromVDL_def SqliteValue0_def text_binds_def)
  qed
  have s: "rqliteValueFromJSON J (JString s) = Inr (case rqliteHexBlobString s of
      Some blob \<Rightarrow> SqliteValue0\<lparr>sv_Blob := Some blob\<rparr> | None \<Rightarrow> SqliteValue0\<lparr>sv_Text := Some s\<rparr>)" for s
    by (simp add: rqliteValueFromJSON_def split: option.split)
  show ?thesis
  proof (cases v)
    case (JString x)
    with t [of x] show ?thesis by (simp add: s json_binds_def)
  qed (auto simp: rqliteValueFromJSON_def json_binds_def sqliteValueFromVDL_def SqliteValue0_def b
        split: option.splits sum.splits)
qed

text \<open>The parameters of a statement: an only object names them, otherwise they are positional.\<close>

definition raw_params :: "json list \<Rightarrow> (string \<times> json) list" where
  "raw_params raw = (case raw of [JObject named] \<Rightarrow> named | _ \<Rightarrow> map (Pair []) raw)"

definition param_binds :: "json_lib \<Rightarrow> QueryParam \<Rightarrow> string \<times> json \<Rightarrow> bool" where
  "param_binds J p nv \<longleftrightarrow> p_Name p = fst nv \<and> json_binds J (snd nv) (p_Value p)"

lemma params_from_bind:
  "(case params_from J raw of
      Inl e \<Rightarrow> \<exists>nv \<in> set raw. \<nexists>a. json_binds J (snd nv) a
    | Inr ps \<Rightarrow> \<exists>qs. convert_params ps = Inr qs \<and>
        list_all2 (param_binds J) qs (map (\<lambda>(name, v). (Val [] name, v)) raw))"
proof (induction raw)
  case Nil
  then show ?case by simp
next
  case (Cons nv raw)
  obtain name v where nv: "nv = (name, v)" by (cases nv)
  from value_param [of J v] Cons show ?case
    by (cases "rqliteValueFromJSON J v"; cases "params_from J raw") (auto simp: nv param_binds_def)
qed

lemma raw_params_from:
  "(case rqliteParamsFromJSON J raw of
      Inl e \<Rightarrow> \<exists>nv \<in> set (raw_params raw). \<nexists>a. json_binds J (snd nv) a
    | Inr ps \<Rightarrow> \<exists>qs. sqliteParamsFromVDL ps = Inr qs \<and> list_all2 (param_binds J) qs (raw_params raw))"
proof -
  have named: "case map_sum id Some (params_from J (map (\<lambda>(name, v). (Some name, v)) named)) of
      Inl e \<Rightarrow> \<exists>nv \<in> set named. \<nexists>a. json_binds J (snd nv) a
    | Inr ps \<Rightarrow> \<exists>qs. sqliteParamsFromVDL ps = Inr qs \<and> list_all2 (param_binds J) qs named" for named
    using params_from_bind [where J = J and raw = "map (\<lambda>(name, v). (Some name, v)) named"]
    by (auto simp: sqliteParamsFromVDL_def Val_def case_prod_unfold comp_def split: sum.splits)
  have positional: "case map_sum id Some (params_from J (map (Pair None) vs)) of
      Inl e \<Rightarrow> \<exists>nv \<in> set (map (Pair ([] :: string)) vs). \<nexists>a. json_binds J (snd nv) a
    | Inr ps \<Rightarrow> \<exists>qs. sqliteParamsFromVDL ps = Inr qs \<and> list_all2 (param_binds J) qs (map (Pair []) vs)" for vs
    using params_from_bind [where J = J and raw = "map (Pair None) vs"]
    by (auto simp: sqliteParamsFromVDL_def Val_def comp_def split: sum.splits)
  show ?thesis
  proof (cases "\<exists>named. raw = [JObject named]")
    case True
    then obtain named' where r: "raw = [JObject named']" by blast
    then have "raw_params raw = named'"
      "rqliteParamsFromJSON J raw = map_sum id Some (params_from J (map (\<lambda>(name, v). (Some name, v)) named'))"
      by (simp_all add: rqliteParamsFromJSON_def raw_params_def)
    with named [of named'] show ?thesis by (simp only:)
  next
    case False
    then have r: "raw_params raw = map (Pair []) raw"
      by (auto simp: raw_params_def split: list.splits json.splits)
    have p: "raw \<noteq> [] \<Longrightarrow> rqliteParamsFromJSON J raw = map_sum id Some (params_from J (map (Pair None) raw))"
      using False by (auto simp: rqliteParamsFromJSON_def simp del: params_from.simps list.map
          split: list.splits json.splits)
    show ?thesis
    proof (cases "raw = []")
      case True
      then show ?thesis by (simp add: rqliteParamsFromJSON_def sqliteParamsFromVDL_def raw_params_def)
    next
      case False
      show ?thesis unfolding p [OF False] r by (rule positional)
    qed
  qed
qed

text \<open>A statement of a request, and the query that it becomes: a text alone, or a list of a text that is
  not blank and parameters which all have a value to be bound.\<close>

definition statement_becomes :: "json_lib \<Rightarrow> json \<Rightarrow> vdl_Query \<Rightarrow> bool" where
  "statement_becomes J st q \<longleftrightarrow> vq_TxId q = None \<and>
     (case st of
        JString sql \<Rightarrow> vq_Query q = sql \<and> vq_Params q = None
      | JNull \<Rightarrow> vq_Query q = [] \<and> vq_Params q = None
      | JArray (JString sql # raw) \<Rightarrow> TrimSpace sql \<noteq> [] \<and> vq_Query q = sql \<and>
          (\<exists>ps. sqliteParamsFromVDL (vq_Params q) = Inr ps \<and> list_all2 (param_binds J) ps (raw_params raw))
      | _ \<Rightarrow> False)"

lemma statement_cases:
  "(case rqliteQueryFromJSONStatement J st of Inl e \<Rightarrow> \<nexists>q. statement_becomes J st q | Inr q \<Rightarrow> statement_becomes J st q)"
proof -
  have p: "case map_sum id (\<lambda>ps. \<lparr>vq_TxId = None, vq_Query = sql, vq_Params = ps\<rparr>) (rqliteParamsFromJSON J raw) of
      Inl e \<Rightarrow> \<nexists>q. statement_becomes J (JArray (JString sql # raw)) q
    | Inr q \<Rightarrow> statement_becomes J (JArray (JString sql # raw)) q" if "TrimSpace sql \<noteq> []" for sql raw
  proof (cases "rqliteParamsFromJSON J raw")
    case (Inl e)
    then obtain nv where "nv \<in> set (raw_params raw)" "\<nexists>a. json_binds J (snd nv) a"
      using raw_params_from [where J = J and raw = raw] by auto
    then have "\<not> list_all2 (param_binds J) ps (raw_params raw)" for ps
      by (auto simp: list_all2_conv_all_nth in_set_conv_nth param_binds_def)
    then show ?thesis by (simp add: Inl statement_becomes_def)
  next
    case (Inr ps)
    then show ?thesis using raw_params_from [where J = J and raw = raw] that by (simp add: statement_becomes_def)
  qed
  show ?thesis
  proof (cases st)
    case (JArray vs)
    then show ?thesis
    proof (cases vs)
      case (Cons v raw)
      with JArray p show ?thesis
        by (cases v) (auto simp: rqliteQueryFromJSONStatement_def unmarshal_string_def unmarshal_slice_def
            statement_becomes_def)
    qed (simp add: rqliteQueryFromJSONStatement_def unmarshal_string_def unmarshal_slice_def statement_becomes_def)
  qed (simp_all add: rqliteQueryFromJSONStatement_def unmarshal_string_def unmarshal_slice_def statement_becomes_def)
qed

lemma queries_from_cases:
  "(case queries_from J sts of Inl e \<Rightarrow> \<exists>st \<in> set sts. \<nexists>q. statement_becomes J st q
    | Inr qs \<Rightarrow> list_all2 (statement_becomes J) sts qs)"
proof (induction sts)
  case (Cons st sts)
  with statement_cases [of J st] show ?case
    by (cases "rqliteQueryFromJSONStatement J st"; cases "queries_from J sts") auto
qed simp

lemma unparsed_request:
  assumes "rqliteQueriesFromRequest J r = Inl e"
  shows "\<exists>e' s1. handleRQLite E K J mode r s = (Done (Inl e'), s1) \<and> srv_DB s1 = srv_DB s"
  using assms by (cases "authorizeRQLiteRequest K r (srv_auth s)"; cases "fst (authorizeRQLiteRequest K r (srv_auth s))")
    (simp_all add: handleRQLite_def on_auth_def bnd_def ret_def)

text \<open>C22. A request with a JSON body of statements is taken exactly when each of them is a text, or a list of a text that
  is not blank and parameters that all have a SQLite counterpart: NULL, a
  boolean, a number, a text, a blob as \<open>x'...'\<close> or as an array of bytes. If only one has none,
  the whole request is refused: it is answered with an error and the database object is left alone. A request that is taken gives one query per statement, bound
  to one parameter per value, in order, named exactly when they come in one object, with the value that JSON
  spells: integers that fit 64 bits exactly, other numbers as doubles, the bytes of a blob. No accepted parameter fails later,
  in the conversion that the query execution does.\<close>

theorem rqlite_params_bind:
  assumes "rq_Method r \<noteq> ''GET''" "media_type (rq_Header r ''Content-Type'') \<noteq> ''text/plain''"
    and "ReadAll r = Inr raw" "TrimSpace raw \<noteq> []" "json_Decode J (TrimSpace raw) = Inr (JArray sts)"
  shows "case rqliteQueriesFromRequest J r of
      Inl e \<Rightarrow> (\<exists>st \<in> set sts. \<nexists>q. statement_becomes J st q) \<and>
        (\<exists>e' s1. handleRQLite E K J mode r s = (Done (Inl e'), s1) \<and> srv_DB s1 = srv_DB s)
    | Inr qs \<Rightarrow> list_all2 (statement_becomes J) sts qs"
proof -
  have "rqliteQueriesFromRequest J r = queries_from J sts"
    using assms by (simp add: rqliteQueriesFromRequest_def Let_def rqliteQueriesFromJSON_def unmarshal_slice_def)
  with queries_from_cases [where J = J and sts = sts] unparsed_request [where J = J and r = r and E = E and K = K and mode = mode and s = s] show ?thesis
    by (auto split: sum.splits)
qed

text \<open>A statement with two parameters of which one is an object.\<close>

definition object_json :: json_lib where
  "object_json = \<lparr>json_Decode = (\<lambda>b. Inr (JArray [JArray [JString ''SELECT ?, ?'', JNull, JObject []]])),
     json_TypeError = (\<lambda>v t. ErrorString t), json_Float64 = (\<lambda>s. Inr 0)\<rparr>"

theorem rqlite_params_bind_witness:
  "\<exists>e s1. handleRQLite mini_env id_crypto object_json rqliteModeExecute
     ((mini_request ''Bearer root'')\<lparr>rq_Body := ''x''\<rparr>) mini_server = (Done (Inl e), s1) \<and> srv_DB s1 = srv_DB mini_server"
proof -
  have "TrimSpace ''x'' = ''x''" by (simp add: go_strings)
  moreover have "media_type [] = []" by (simp add: media_type_def go_strings)
  moreover have "\<not> statement_becomes object_json (JArray [JString ''SELECT ?, ?'', JNull, JObject []]) q" for q
    by (auto simp: statement_becomes_def raw_params_def param_binds_def json_binds_def list_all2_Cons2)
  ultimately show ?thesis
    using rqlite_params_bind [of "(mini_request ''Bearer root'')\<lparr>rq_Body := ''x''\<rparr>" "''x''" object_json
        "[JArray [JString ''SELECT ?, ?'', JNull, JObject []]]" mini_env id_crypto rqliteModeExecute mini_server]
    by (cases "rqliteQueriesFromRequest object_json ((mini_request ''Bearer root'')\<lparr>rq_Body := ''x''\<rparr>)")
      (simp_all add: mini_request_def ReadAll_def object_json_def list_all2_Cons1)
qed








text \<open>Rows in the associative form are the columns' names with their values; when two columns have
  the same name, the value of the last one is kept and the others are lost.\<close>

lemma rqlite_associative_rows:
  "associative_row columns opts row = map_of (rev (zip columns (map (\<lambda>v. rqliteValue v opts) row)))"
proof -
  have "foldl (\<lambda>m (i, column). if i < length row then m(column \<mapsto> rqliteValue (row ! i) opts) else m) m0
      (enumerate k cs) =
    m0 ++ map_of (rev (zip cs (map (\<lambda>v. rqliteValue v opts) (drop k row))))" for m0 k cs
  proof (induction cs arbitrary: m0 k)
    case Nil
    then show ?case by simp
  next
    case (Cons c cs)
    show ?case
    proof (cases "k < length row")
      case True
      then show ?thesis
        using Cons.IH [of "m0(c \<mapsto> rqliteValue (row ! k) opts)" "Suc k"]
        by (simp add: Cons_nth_drop_Suc [symmetric] map_add_upd_left del: fun_upd_apply)
    next
      case False
      then show ?thesis using Cons.IH [of m0 "Suc k"] by simp
    qed
  qed
  from this [of Map.empty 0 columns] show ?thesis by (simp add: associative_row_def)
qed

end
