(* ===== verification/Http.thy ===== *)
theory Http
  imports Rqlite_Api
begin

text \<open>
  The HTTP face of the server: \<open>createMux\<close> and the handler that \<open>Start\<close> installs, of
  \<open>internal/server/server.go\<close>, with what \<open>http.ServeMux\<close> does with the registered patterns.
  \<open>rq_Path\<close> has the segments of the escaped path, an empty last one for a trailing slash.
\<close>

section \<open>Routing\<close>

text \<open>\<open>url.PathUnescape\<close> of a segment; a segment that cannot be unescaped is taken as it is.\<close>

fun unescape_from :: "string \<Rightarrow> string option" where
  "unescape_from [] = Some []"
| "unescape_from (c # s) =
     (if c = CHR ''%'' then
        (case s of
           a # b # t \<Rightarrow>
             (case (hex_val a, hex_val b) of
                (Some x, Some y) \<Rightarrow> map_option (Cons (byte (16 * x + y))) (unescape_from t)
              | _ \<Rightarrow> None)
         | _ \<Rightarrow> None)
      else map_option (Cons c) (unescape_from s))"

definition pathUnescape :: "string \<Rightarrow> string" where
  "pathUnescape s = (case unescape_from s of Some t \<Rightarrow> t | None \<Rightarrow> s)"

text \<open>A path that is not clean (an empty segment before the last, a dot or two as a segment) is redirected to the
  clean one.\<close>

definition clean_path :: "string list \<Rightarrow> bool" where
  "clean_path p \<longleftrightarrow>
     list_all (\<lambda>x. x \<noteq> ''.'' \<and> x \<noteq> ''..'') p \<and> list_all (\<lambda>x. x \<noteq> []) (butlast p)"

datatype endpoint = Rpc_endpoint string string | Query_endpoint | Execute_endpoint | Request_endpoint

text \<open>The five registered patterns: the endpoint and the methods under which it is registered. A \<open>GET\<close>
  pattern also matches \<open>HEAD\<close>.\<close>

definition mux_pattern :: "string list \<Rightarrow> (endpoint \<times> string list) option" where
  "mux_pattern p =
     (case p of
        [a, b, c] \<Rightarrow> if a = ''rpc'' \<and> b \<noteq> [] \<and> c \<noteq> [] then Some (Rpc_endpoint b c, [''POST'']) else None
      | [a, b] \<Rightarrow>
          if a \<noteq> ''db'' then None
          else if b = ''query'' then Some (Query_endpoint, [''GET'', ''POST''])
          else if b = ''execute'' then Some (Execute_endpoint, [''POST''])
          else if b = ''request'' then Some (Request_endpoint, [''POST'']) else None
      | _ \<Rightarrow> None)"

datatype route = Redirected | Status nat | Routed endpoint

definition mux_route :: "http_request \<Rightarrow> route" where
  "mux_route r =
     (if rq_Method r \<noteq> ''CONNECT'' \<and> \<not> clean_path (rq_Path r) then Redirected
      else case mux_pattern (map pathUnescape (rq_Path r)) of
          None \<Rightarrow> Status 404
        | Some (e, methods) \<Rightarrow>
            if List.member methods (rq_Method r) \<or> List.member methods ''GET'' \<and> rq_Method r = ''HEAD''
            then Routed e else Status 405)"

section \<open>The handlers\<close>

datatype http_answer =
    FromMux route
  | FromRpc "Response http_response"
  | FromRqlite "rqliteResponse http_response"

definition createMux ::
  "'w env \<Rightarrow> crypto \<Rightarrow> ('w server, requestProps) internalServer \<Rightarrow> (bytes \<Rightarrow> bytes option) \<Rightarrow> json_lib \<Rightarrow>
   http_request \<Rightarrow> ('w, http_answer) srv_act" where
  "createMux E K S decode_raw J r =
     (case mux_route r of
        Routed (Rpc_endpoint rpcName operationName) \<Rightarrow>
          bnd (CreateHandlerFuncBuilder (errorHandler E) (rpcHandler E K S decode_raw rpcName operationName) [] r)
            (\<lambda>a. ret (FromRpc a))
      | Routed Query_endpoint \<Rightarrow>
          bnd (CreateHandlerFuncBuilder (errorHandler E) (rqliteQueryHandler E K J) [] r) (\<lambda>a. ret (FromRqlite a))
      | Routed Execute_endpoint \<Rightarrow>
          bnd (CreateHandlerFuncBuilder (errorHandler E) (rqliteExecuteHandler E K J) [] r) (\<lambda>a. ret (FromRqlite a))
      | Routed Request_endpoint \<Rightarrow>
          bnd (CreateHandlerFuncBuilder (errorHandler E) (rqliteRequestHandler E K J) [] r) (\<lambda>a. ret (FromRqlite a))
      | route \<Rightarrow> ret (FromMux route))"

text \<open>The handler of the HTTP server, as \<open>Start\<close> sets it up.\<close>

definition http_Handler ::
  "'w env \<Rightarrow> crypto \<Rightarrow> ('w server, requestProps) internalServer \<Rightarrow> (bytes \<Rightarrow> bytes option) \<Rightarrow> json_lib \<Rightarrow>
   http_request \<Rightarrow> ('w, http_answer) srv_act" where
  "http_Handler E K S decode_raw J = maxRequestBodyMiddleware (createMux E K S decode_raw J)"

section \<open>What a request may change\<close>

lemma srv_keeps_errorHandler [srv_keeps_rules]: "srv_keeps ks I (errorHandler E r e)"
  unfolding errorHandler_def
  by (intro srv_keeps_rules) (simp add: keeps_def new_uuid_def guarded_def)

text \<open>Keeping a fact in one run, and in the runs of what follows.\<close>

lemma guarded_bnd:
  assumes "guarded ks I (srv_DB (snd (p s)))" "\<And>a. srv_keeps ks I (f a)"
  shows "guarded ks I (srv_DB (snd (bnd p f s)))"
  using assms unfolding srv_keeps_def by (cases "p s"; cases "fst (p s)") (simp_all add: bnd_def)

lemma guarded_built:
  assumes "guarded ks I (srv_DB (snd (h r s)))"
  shows "guarded ks I (srv_DB (snd (bnd (CreateHandlerFuncBuilder (errorHandler E) h [] r) (\<lambda>a. ret (f a)) s)))"
  unfolding CreateHandlerFuncBuilder_def compose_def
  by (rule guarded_bnd, rule guarded_bnd)
    (use assms in \<open>auto split: sum.split intro!: srv_keeps_rules\<close>)

lemma rqlite_cases:
  assumes "token_server K T as ws rs salt s" "credential (rq_Header r ''Authorization'') \<in> T"
  shows "\<exists>a. handleRQLite E K J mode r s =
    (case granted K as ws rs (credential (rq_Header r ''Authorization'')) of
       None \<Rightarrow> (Done (Inl unauthorizedError), s\<lparr>srv_auth := a\<rparr>)
     | Some rl \<Rightarrow>
         (case rqliteQueriesFromRequest J r of
            Inl e \<Rightarrow> (Done (Inl (badRQLiteRequest e)), s\<lparr>srv_auth := a\<rparr>)
          | Inr qs \<Rightarrow> rqlite_serve E r
              \<lparr>rp_Role = if mode = rqliteModeQuery then authRoleReadOnly else rl,
               rp_Principal = principal_of K salt (credential (rq_Header r ''Authorization''))\<rparr> qs (s\<lparr>srv_auth := a\<rparr>)))"
proof -
  obtain v a where a: "authorizeRQLiteRequest K r (srv_auth s) = (v, a)" by fastforce
  with rqlite_authorized [OF assms] show ?thesis
    by (intro exI [of _ a])
      (auto simp: handleRQLite_def on_auth_def bnd_def ret_def split: sum.splits option.splits)
qed

text \<open>The token that a request presents to the endpoint it goes to, and the role that the queries of a granted
  request run under: the query endpoint lowers it to read-only.\<close>

definition http_token :: "http_request \<Rightarrow> string" where
  "http_token r = (case mux_route r of
     Routed (Rpc_endpoint a b) \<Rightarrow> bearer_token (rq_Header r ''Authorization'')
   | _ \<Rightarrow> credential (rq_Header r ''Authorization''))"

definition effective_role :: "http_request \<Rightarrow> authRole \<Rightarrow> AuthorizerRole" where
  "effective_role r rl = (if mux_route r = Routed Query_endpoint then AuthorizerRoleReadOnly
     else authorizerRoleForAuthRole rl)"

text \<open>Nothing of the database object changes but the clock's count of readings and the source of identifiers.\<close>

definition untouched :: "'w DB \<Rightarrow> 'w DB \<Rightarrow> bool" where
  "untouched d d' \<longleftrightarrow> (\<exists>n. d' = d\<lparr>ticks := n\<rparr>)"

lemma untouched_built:
  assumes "h r s = (Done v, s1)" "srv_DB s1 = srv_DB s"
  shows "untouched (srv_DB s) (srv_DB (snd (bnd (CreateHandlerFuncBuilder (errorHandler E) h [] r) (\<lambda>a. ret (f a)) s)))"
  using assms
  by (auto simp: CreateHandlerFuncBuilder_def compose_def bnd_def ret_def untouched_def errorHandler_def on_DB_def
      new_uuid_def split: sum.split intro: exI [of _ "ticks (srv_DB s)"])

lemma MaxBytesReader_request:
  "rq_Header (MaxBytesReader n r) = rq_Header r" "mux_route (MaxBytesReader n r) = mux_route r"
  by (simp_all add: MaxBytesReader_def mux_route_def split: option.split)

lemma createMux_untouched:
  assumes "\<And>a b. mux_route r = Routed (Rpc_endpoint a b) \<Longrightarrow>
      \<exists>v s1. rpcHandler E K S decode_raw a b r s = (Done v, s1) \<and> srv_DB s1 = srv_DB s"
    and "\<And>e mode. mux_route r = Routed e \<Longrightarrow> e \<in> {Query_endpoint, Execute_endpoint, Request_endpoint} \<Longrightarrow>
      \<exists>v s1. handleRQLite E K J mode r s = (Done v, s1) \<and> srv_DB s1 = srv_DB s"
  shows "untouched (srv_DB s) (srv_DB (snd (createMux E K S decode_raw J r s)))"
proof (cases "mux_route r")
  case (Routed e)
  show ?thesis
  proof (cases e)
    case (Rpc_endpoint a b)
    with assms(1) Routed show ?thesis by (auto simp: createMux_def intro: untouched_built)
  next
    case Query_endpoint
    with assms(2) [OF Routed, of rqliteModeQuery] Routed show ?thesis
      by (auto simp: createMux_def rqliteQueryHandler_def intro: untouched_built)
  next
    case Execute_endpoint
    with assms(2) [OF Routed, of rqliteModeExecute] Routed show ?thesis
      by (auto simp: createMux_def rqliteExecuteHandler_def intro: untouched_built)
  next
    case Request_endpoint
    with assms(2) [OF Routed, of rqliteModeRequest] Routed show ?thesis
      by (auto simp: createMux_def rqliteRequestHandler_def intro: untouched_built)
  qed
qed (simp_all add: createMux_def ret_def untouched_def exI [of _ "ticks (srv_DB s)"])

lemma ungranted_untouched:
  assumes "token_server K T as ws rs salt s" "http_token r \<in> T" "granted K as ws rs (http_token r) = None"
    and "mux_route r \<noteq> Routed (Rpc_endpoint ''System'' ''health'')"
  shows "untouched (srv_DB s) (srv_DB (snd (http_Handler E K S decode_raw J r s)))"
proof -
  define r' where "r' = MaxBytesReader (maxRequestSize (srv_Config s)) r"
  have h: "rq_Header r' = rq_Header r" "mux_route r' = mux_route r" by (simp_all add: r'_def MaxBytesReader_request)
  have "untouched (srv_DB s) (srv_DB (snd (createMux E K S decode_raw J r' s)))"
  proof (rule createMux_untouched)
    show "\<exists>v s1. rpcHandler E K S decode_raw a b r' s = (Done v, s1) \<and> srv_DB s1 = srv_DB s"
      if "mux_route r' = Routed (Rpc_endpoint a b)" for a b
      using rpc_authorization_cases [OF assms(1), of r' a b E S decode_raw] assms(2-4) that
      by (auto simp: h http_token_def)
    show "\<exists>v s1. handleRQLite E K J mode r' s = (Done v, s1) \<and> srv_DB s1 = srv_DB s"
      if "mux_route r' = Routed e" "e \<in> {Query_endpoint, Execute_endpoint, Request_endpoint}" for e mode
      using rqlite_cases [OF assms(1), of r' E J mode] assms(2,3) that by (auto simp: h http_token_def)
  qed
  then show ?thesis by (simp add: http_Handler_def maxRequestBodyMiddleware_def r'_def)
qed

lemma rqlite_confined:
  assumes "token_server K T as ws rs salt s" "credential (rq_Header r ''Authorization'') \<in> T"
    and "granted K as ws rs (credential (rq_Header r ''Authorization'')) = Some rl"
    and "confines (e_api E) ks (authorizerRoleForAuthRole (if mode = rqliteModeQuery then authRoleReadOnly else rl)) I ok"
    and "guarded ks I (srv_DB s)" "admin_compile_keeps (e_api E) UNIV I"
  shows "guarded ks I (srv_DB (snd (handleRQLite E K J mode r s)))"
proof -
  let ?p = "\<lparr>rp_Role = if mode = rqliteModeQuery then authRoleReadOnly else rl,
    rp_Principal = principal_of K salt (credential (rq_Header r ''Authorization''))\<rparr>"
  have "srv_keeps ks I (rqlite_serve E r ?p qs)" for qs
    by (rule srv_keeps_rqlite_serve [where ok = ok]) (use assms(4) admin_compile_mono [OF assms(6)] in simp_all)
  moreover obtain a where "handleRQLite E K J mode r s = (case rqliteQueriesFromRequest J r of
      Inl e \<Rightarrow> (Done (Inl (badRQLiteRequest e)), s\<lparr>srv_auth := a\<rparr>)
    | Inr qs \<Rightarrow> rqlite_serve E r ?p qs (s\<lparr>srv_auth := a\<rparr>))"
    using rqlite_cases [OF assms(1,2), of E J mode] assms(3) by auto
  ultimately show ?thesis
    using assms(5) by (cases "rqliteQueriesFromRequest J r") (simp_all add: srv_keeps_def)
qed

lemma granted_confined:
  assumes "token_server K T as ws rs salt s" "newRPCServer E unmarshal = Some S"
    and "http_token r \<in> T" "granted K as ws rs (http_token r) = Some rl"
    and "mux_route r \<noteq> Routed (Rpc_endpoint ''System'' ''health'')"
    and "confines (e_api E) ks (effective_role r rl) I ok" "admin_compile_keeps (e_api E) UNIV I"
    and "guarded ks I (srv_DB s)"
  shows "guarded ks I (srv_DB (snd (http_Handler E K S decode_raw J r s)))"
proof -
  define r' where "r' = MaxBytesReader (maxRequestSize (srv_Config s)) r"
  have r': "rq_Header r' = rq_Header r" "mux_route r' = mux_route r" by (simp_all add: r'_def MaxBytesReader_request)
  have "guarded ks I (srv_DB (snd (createMux E K S decode_raw J r' s)))"
  proof (cases "mux_route r")
    case (Routed e)
    show ?thesis
    proof (cases e)
      case (Rpc_endpoint a b)
      have "guarded ks I (srv_DB (snd (rpcHandler E K S decode_raw a b r' s)))"
        by (rule rpc_confined [OF assms(1) _ _ assms(2), where ok = ok])
          (use assms Routed Rpc_endpoint r' in \<open>auto simp: http_token_def effective_role_def\<close>)
      with Routed Rpc_endpoint show ?thesis by (simp add: createMux_def r' guarded_built)
    next
      case Query_endpoint
      have "guarded ks I (srv_DB (snd (rqliteQueryHandler E K J r' s)))"
        unfolding rqliteQueryHandler_def
        by (rule rqlite_confined [OF assms(1), where ok = ok and rl = rl])
          (use assms Routed Query_endpoint r' in \<open>auto simp: http_token_def effective_role_def authorizerRoleForAuthRole_def auth_role_defs\<close>)
      with Routed Query_endpoint show ?thesis by (simp add: createMux_def r' guarded_built)
    next
      case Execute_endpoint
      have "guarded ks I (srv_DB (snd (rqliteExecuteHandler E K J r' s)))"
        unfolding rqliteExecuteHandler_def
        by (rule rqlite_confined [OF assms(1), where ok = ok and rl = rl])
          (use assms Routed Execute_endpoint r' in \<open>auto simp: http_token_def effective_role_def rqlite_mode_defs\<close>)
      with Routed Execute_endpoint show ?thesis by (simp add: createMux_def r' guarded_built)
    next
      case Request_endpoint
      have "guarded ks I (srv_DB (snd (rqliteRequestHandler E K J r' s)))"
        unfolding rqliteRequestHandler_def
        by (rule rqlite_confined [OF assms(1), where ok = ok and rl = rl])
          (use assms Routed Request_endpoint r' in \<open>auto simp: http_token_def effective_role_def rqlite_mode_defs\<close>)
      with Routed Request_endpoint show ?thesis by (simp add: createMux_def r' guarded_built)
    qed
  qed (use assms(8) in \<open>simp_all add: createMux_def r' ret_def\<close>)
  then show ?thesis by (simp add: http_Handler_def maxRequestBodyMiddleware_def r'_def)
qed

text \<open>C12. What an HTTP request may change on a server with tokens, whatever its method, path, body, batch of
  statements or transaction. If the token that it presents to its endpoint is granted nothing, the
  request changes nothing: the database object with its transaction, locks, pools and counters, and the engine
  below it, are as before (only an identifier for an error may have been drawn). If the token is granted a
  role, every fact about the engine is kept that statements of that role do not change (of the
  read-only role on the query endpoint), provided that no compilation as the administrator changes it, which is how
  the classification compiles every text; the contents of the database are such facts, the flags of
  a connection are not. Only the health check, which is open to all and runs a fixed query under the admin role, is not covered.\<close>

theorem http_requests_confined:
  assumes "token_server K T as ws rs salt s" "newRPCServer E unmarshal = Some S"
    and "http_token r \<in> T" "mux_route r \<noteq> Routed (Rpc_endpoint ''System'' ''health'')"
  shows "case granted K as ws rs (http_token r) of
      None \<Rightarrow> untouched (srv_DB s) (srv_DB (snd (http_Handler E K S decode_raw J r s)))
    | Some rl \<Rightarrow> \<forall>I ok ks.
        confines (e_api E) ks (effective_role r rl) I ok \<and> admin_compile_keeps (e_api E) UNIV I \<and>
        p_connector (readWritePool (srv_DB s)) \<in> ks \<and> p_connector (readOnlyPool (srv_DB s)) \<in> ks \<and>
        I (world (srv_DB s)) \<longrightarrow> I (world (srv_DB (snd (http_Handler E K S decode_raw J r s))))"
  using ungranted_untouched [OF assms(1,3) _ assms(4)] granted_confined [OF assms(1-3) _ assms(4)]
  by (auto split: option.split simp: guarded_def) blast

definition mini_insert :: http_request where
  "mini_insert = (mini_request ''Bearer view'')\<lparr>rq_Path := [''rpc'', ''Database'', ''query''], rq_Body := ''INSERT''\<rparr>"

definition mini_unmarshal :: "bytes \<Rightarrow> go_error + preDatabaseQueryInput" where
  "mini_unmarshal d = Inr \<lparr>pi_Queries = Some [\<lparr>pq_TxId = None, pq_Query = Some d, pq_Params = None\<rparr>]\<rparr>"

definition mini_guess :: http_request where
  "mini_guess = (mini_request ''Bearer guess'')\<lparr>rq_Path := [''rpc'', ''Database'', ''query''], rq_Body := ''INSERT''\<rparr>"

lemma mini_insert_eval:
  "rq_Header mini_insert ''Authorization'' = ''Bearer view''" "credential ''Bearer view'' = ''view''"
  "mux_route mini_insert = Routed (Rpc_endpoint ''Database'' ''query'')"
  "rq_Header mini_guess ''Authorization'' = ''Bearer guess''"
  "mux_route mini_guess = Routed (Rpc_endpoint ''Database'' ''query'')"
  by (simp_all add: mini_insert_def mini_guess_def mini_request_def credential_def BasicAuth_def go_strings
      mux_route_def clean_path_def mux_pattern_def pathUnescape_def)

text \<open>A read-only token does not change the rows, and no token at all nothing.\<close>

theorem http_requests_confined_witness:
  "m_rows (world (srv_DB (snd (http_Handler mini_env id_crypto (the (newRPCServer mini_env mini_unmarshal))
     Some bits_json mini_insert mini_server)))) = 0 \<and>
   untouched (srv_DB mini_server) (srv_DB (snd (http_Handler mini_env id_crypto
     (the (newRPCServer mini_env mini_unmarshal)) Some bits_json mini_guess mini_server)))"
proof -
  let ?ks = "{\<lparr>dsn = ''db'', postConnectQueries = []\<rparr>}"
  note c = http_requests_confined [OF mini_token_server new_rpc_server(1) UNIV_I]
  have "confines (e_api mini_env) ?ks (effective_role mini_insert authRoleReadOnly) (\<lambda>w. m_rows w = 0) mini_reads"
    using mini_confines
    by (simp add: mini_insert_eval mini_env_def effective_role_def authorizerRoleForAuthRole_def auth_role_defs)
  moreover have "p_connector (readWritePool (srv_DB mini_server)) \<in> ?ks" "p_connector (readOnlyPool (srv_DB mini_server)) \<in> ?ks"
    "m_rows (world (srv_DB mini_server)) = 0" "admin_compile_keeps (e_api mini_env) UNIV (\<lambda>w. m_rows w = 0)"
    by (simp_all add: mini_server_def NewServer_def Let_def mini0_def mini_env_def mini_admin_compile)
      (simp_all add: mini_db_def fresh_DB_def mini_pool_def)
  ultimately show ?thesis
    using c [where r = mini_insert and decode_raw = Some and J = bits_json]
      c [where r = mini_guess and decode_raw = Some and J = bits_json]
    by (simp add: mini_insert_eval http_token_def) blast
qed

section \<open>The limit on request bodies\<close>




end
