(* ===== verification/Config.thy ===== *)
theory Config
  imports Gotime
begin

text \<open>
  The configuration, \<open>internal/config/config.go\<close>, with the checks of \<open>internal/validate\<close>. Flags,
  environment variables and defaults are read by the library \<open>go-arg\<close>: its constructor and its
  \<open>Parse\<close> are parameters. Regular expressions are modelled by the strings that they leave over.
\<close>

section \<open>Regular expressions\<close>

text \<open>A class of characters, the end of the text, and the ways to combine expressions.\<close>

datatype regex = Class "char \<Rightarrow> bool" | Eot | Empty | Cat regex regex | Alt regex regex

fun exactly :: "nat \<Rightarrow> regex \<Rightarrow> regex" where
  "exactly 0 r = Empty"
| "exactly (Suc n) r = Cat r (exactly n r)"

fun at_most :: "nat \<Rightarrow> regex \<Rightarrow> regex" where
  "at_most 0 r = Empty"
| "at_most (Suc n) r = Alt (Cat r (at_most n r)) Empty"

definition between :: "nat \<Rightarrow> nat \<Rightarrow> regex \<Rightarrow> regex" where
  "between m n r = Cat (exactly m r) (at_most (n - m) r)"

abbreviation Lit :: "char \<Rightarrow> regex" where
  "Lit c \<equiv> Class (\<lambda>x. x = c)"

text \<open>What a match at the start of a string can leave over.\<close>

primrec residuals :: "regex \<Rightarrow> string \<Rightarrow> string list" where
  "residuals (Class P) s = (case s of [] \<Rightarrow> [] | c # s' \<Rightarrow> if P c then [s'] else [])"
| "residuals Eot s = (if s = [] then [[]] else [])"
| "residuals Empty s = [s]"
| "residuals (Cat r1 r2) s = concat (map (residuals r2) (residuals r1 s))"
| "residuals (Alt r1 r2) s = residuals r1 s @ residuals r2 s"

text \<open>\<open>MatchString\<close> of an expression that starts with \<open>^\<close>.\<close>

definition MatchString :: "regex \<Rightarrow> string \<Rightarrow> bool" where
  "MatchString r s \<longleftrightarrow> residuals r s \<noteq> []"

lemma in_exactly:
  "s' \<in> set (residuals (exactly n (Class P)) s) \<longleftrightarrow> (\<exists>p. s = p @ s' \<and> length p = n \<and> list_all P p)"
proof (induction n arbitrary: s)
  case (Suc n)
  then show ?case by (cases s) (auto simp: length_Suc_conv)
qed auto

lemma in_at_most:
  "s' \<in> set (residuals (at_most n (Class P)) s) \<longleftrightarrow> (\<exists>p. s = p @ s' \<and> length p \<le> n \<and> list_all P p)"
proof (induction n arbitrary: s)
  case (Suc n)
  show ?case
  proof
    assume "s' \<in> set (residuals (at_most (Suc n) (Class P)) s)"
    then consider "s = s'" | c t where "s = c # t" "P c" "s' \<in> set (residuals (at_most n (Class P)) t)"
      by (cases s) (auto split: if_splits)
    then show "\<exists>p. s = p @ s' \<and> length p \<le> Suc n \<and> list_all P p"
    proof cases
      case 2
      with Suc obtain p where "t = p @ s'" "length p \<le> n" "list_all P p" by blast
      with 2 show ?thesis by (intro exI [of _ "c # p"]) simp
    qed simp
  next
    assume "\<exists>p. s = p @ s' \<and> length p \<le> Suc n \<and> list_all P p"
    then obtain p where p: "s = p @ s'" "length p \<le> Suc n" "list_all P p" by blast
    with Suc show "s' \<in> set (residuals (at_most (Suc n) (Class P)) s)" by (cases p) auto
  qed
qed auto

lemma in_between:
  assumes "m \<le> n"
  shows "s' \<in> set (residuals (between m n (Class P)) s) \<longleftrightarrow>
    (\<exists>p. s = p @ s' \<and> m \<le> length p \<and> length p \<le> n \<and> list_all P p)"
proof
  assume "s' \<in> set (residuals (between m n (Class P)) s)"
  then obtain p q where "s = p @ q @ s'" "length p = m" "list_all P p" "length q \<le> n - m" "list_all P q"
    by (auto simp: between_def in_exactly in_at_most)
  with assms show "\<exists>p. s = p @ s' \<and> m \<le> length p \<and> length p \<le> n \<and> list_all P p"
    by (intro exI [of _ "p @ q"]) auto
next
  assume "\<exists>p. s = p @ s' \<and> m \<le> length p \<and> length p \<le> n \<and> list_all P p"
  then obtain p where p: "s = p @ s'" "m \<le> length p" "length p \<le> n" "list_all P p" by blast
  have "drop m p @ s' \<in> set (residuals (exactly m (Class P)) s)"
    unfolding in_exactly
    by (rule exI [of _ "take m p"]) (use p in \<open>auto simp: list_all_iff dest: in_set_takeD\<close>)
  moreover have "s' \<in> set (residuals (at_most (n - m) (Class P)) (drop m p @ s'))"
    unfolding in_at_most by (rule exI [of _ "drop m p"]) (use p in \<open>auto simp: list_all_iff dest: in_set_dropD\<close>)
  ultimately show "s' \<in> set (residuals (between m n (Class P)) s)"
    by (auto simp: between_def)
qed

section \<open>Validation\<close>

text \<open>\<open>^([0-9]{1,3}\.){3}[0-9]{1,3}($|/[0-9]{2})$\<close>\<close>

definition listenHostRe :: regex where
  "listenHostRe =
     Cat (exactly 3 (Cat (between 1 3 (Class is_digit)) (Lit (CHR ''.''))))
       (Cat (between 1 3 (Class is_digit))
         (Cat (Alt Eot (Cat (Lit (CHR ''/'')) (exactly 2 (Class is_digit)))) Eot))"

definition ListenHost :: "string \<Rightarrow> bool" where
  "ListenHost addr = MatchString listenHostRe addr"

text \<open>\<open>^\d{1,5}$\<close>\<close>

definition portRe :: regex where
  "portRe = Cat (between 1 5 (Class is_digit)) Eot"

text \<open>\<open>strconv.Atoi\<close> of a string of at most eighteen digits.\<close>

definition Atoi_digits :: "string \<Rightarrow> int option" where
  "Atoi_digits s = (if s \<noteq> [] \<and> list_all is_digit s then Some (int (read_digits 0 s)) else None)"

definition Port :: "string \<Rightarrow> bool" where
  "Port port =
     (if \<not> MatchString portRe port then False
      else case Atoi_digits port of
          None \<Rightarrow> False
        | Some portInt \<Rightarrow> if portInt < 1 \<or> portInt > 65535 then False else True)"

type_synonym contentType = string

definition ContentTypePlainText :: contentType where "ContentTypePlainText = ''text/plain''"
definition ContentTypeJSON :: contentType where "ContentTypeJSON = ''application/json''"
definition ContentTypeXML :: contentType where "ContentTypeXML = ''application/xml''"
definition ContentTypeHTML :: contentType where "ContentTypeHTML = ''text/html''"
definition ContentTypeForm :: contentType where "ContentTypeForm = ''application/x-www-form-urlencoded''"
definition ContentTypeMultipart :: contentType where "ContentTypeMultipart = ''multipart/form-data''"

fun ContentType :: "string \<Rightarrow> contentType list \<Rightarrow> bool" where
  "ContentType target [] = False"
| "ContentType target (t # ts) = (if target = t then True else ContentType target ts)"

lemma in_Cat: "s' \<in> set (residuals (Cat r1 r2) s) \<longleftrightarrow>
    (\<exists>t. t \<in> set (residuals r1 s) \<and> s' \<in> set (residuals r2 t))"
  by auto

lemma in_Lit: "s' \<in> set (residuals (Lit c) s) \<longleftrightarrow> s = c # s'"
  by (cases s) auto

text \<open>An expression that ends with the end of the text leaves nothing over.\<close>

lemma match_to_end:
  assumes "residuals (Cat r (Cat r' (Cat r'' Eot))) s = ls"
  shows "ls \<noteq> [] \<longleftrightarrow> [] \<in> set ls"
proof -
  have "t = []" if "t \<in> set ls" for t
    using that unfolding assms [symmetric] in_Cat by (auto split: if_splits)
  then show ?thesis by (cases ls) auto
qed

definition octet :: "string \<Rightarrow> bool" where
  "octet n \<longleftrightarrow> 1 \<le> length n \<and> length n \<le> 3 \<and> list_all is_digit n"

lemma in_octet: "s' \<in> set (residuals (between 1 3 (Class is_digit)) s) \<longleftrightarrow> (\<exists>n. s = n @ s' \<and> octet n)"
  by (simp add: in_between octet_def)

lemma in_octet_dot:
  "s' \<in> set (residuals (Cat (between 1 3 (Class is_digit)) (Lit (CHR ''.''))) s) \<longleftrightarrow>
   (\<exists>n. s = n @ ''.'' @ s' \<and> octet n)"
  unfolding in_Cat in_octet in_Lit by auto

lemma ListenHost_iff:
  "ListenHost addr \<longleftrightarrow> (\<exists>a b c d suffix.
     addr = a @ ''.'' @ b @ ''.'' @ c @ ''.'' @ d @ suffix \<and> octet a \<and> octet b \<and> octet c \<and> octet d \<and>
     (suffix = [] \<or> (\<exists>m. suffix = ''/'' @ m \<and> length m = 2 \<and> list_all is_digit m)))"
proof -
  have "t \<in> set (residuals (Alt Eot (Cat (Lit (CHR ''/'')) (exactly 2 (Class is_digit)))) s) \<longleftrightarrow>
      s = [] \<and> t = [] \<or> (\<exists>m. s = ''/'' @ m @ t \<and> length m = 2 \<and> list_all is_digit m)" for s t
    unfolding residuals.simps(5) set_append Un_iff in_Cat in_exactly in_Lit by auto
  then have tail: "[] \<in> set (residuals (Cat (Alt Eot (Cat (Lit (CHR ''/'')) (exactly 2 (Class is_digit)))) Eot) s) \<longleftrightarrow>
      s = [] \<or> (\<exists>m. s = ''/'' @ m \<and> length m = 2 \<and> list_all is_digit m)" for s
    unfolding in_Cat by (auto split: if_splits)
  have "ListenHost addr \<longleftrightarrow> [] \<in> set (residuals listenHostRe addr)"
    unfolding ListenHost_def MatchString_def listenHostRe_def by (rule match_to_end) (rule refl)
  also have "\<dots> \<longleftrightarrow> (\<exists>t1 t2 t3 t4. (\<exists>a. addr = a @ ''.'' @ t1 \<and> octet a) \<and> (\<exists>b. t1 = b @ ''.'' @ t2 \<and> octet b) \<and>
      (\<exists>c. t2 = c @ ''.'' @ t3 \<and> octet c) \<and> (\<exists>d. t3 = d @ t4 \<and> octet d) \<and>
      (t4 = [] \<or> (\<exists>m. t4 = ''/'' @ m \<and> length m = 2 \<and> list_all is_digit m)))"
    unfolding listenHostRe_def numeral_3_eq_3 exactly.simps in_Cat [of _ "between 1 (Suc (Suc (Suc 0))) (Class is_digit)" "Cat _ Eot"]
      in_Cat [of _ "Cat _ _" "Cat _ _"] in_octet_dot [unfolded numeral_3_eq_3]
    by (simp only: in_Cat [of _ "Cat _ _" Empty] in_octet_dot [unfolded numeral_3_eq_3] in_octet [unfolded numeral_3_eq_3] tail
        residuals.simps(3)) (auto, blast+)
  also have "\<dots> \<longleftrightarrow> (\<exists>a b c d suffix.
     addr = a @ ''.'' @ b @ ''.'' @ c @ ''.'' @ d @ suffix \<and> octet a \<and> octet b \<and> octet c \<and> octet d \<and>
     (suffix = [] \<or> (\<exists>m. suffix = ''/'' @ m \<and> length m = 2 \<and> list_all is_digit m)))"
    by blast
  finally show ?thesis .
qed

lemma Port_iff:
  "Port port \<longleftrightarrow> length port \<le> 5 \<and> port \<noteq> [] \<and> list_all is_digit port \<and>
     1 \<le> read_digits 0 port \<and> read_digits 0 port \<le> 65535"
proof -
  have "MatchString portRe port \<longleftrightarrow> [] \<in> set (residuals (between 1 5 (Class is_digit)) port)"
    by (auto simp: MatchString_def portRe_def concat_eq_Nil_conv split: if_splits)
  also have "\<dots> \<longleftrightarrow> 1 \<le> length port \<and> length port \<le> 5 \<and> list_all is_digit port"
    by (subst in_between) auto
  finally show ?thesis by (auto simp: Port_def Atoi_digits_def Suc_le_eq)
qed

section \<open>The configuration\<close>

record Config =
  cfg_AuthToken :: string
  cfg_AuthTokenRW :: string
  cfg_AuthTokenRO :: string
  cfg_DataDir :: string
  cfg_ListenHost :: string
  cfg_ListenPort :: string
  cfg_TxIdleTimeout :: duration
  cfg_MaxReadConns :: int
  cfg_CacheSizeKB :: int
  cfg_BusyTimeout :: duration
  cfg_MaxRequestSizeMB :: int

text \<open>The defaults of the struct tags, which \<open>go-arg\<close> applies to what neither the command line nor the
  environment gives.\<close>

definition default_Config :: Config where
  "default_Config = \<lparr>cfg_AuthToken = [], cfg_AuthTokenRW = [], cfg_AuthTokenRO = [], cfg_DataDir = ''/data'',
     cfg_ListenHost = ''0.0.0.0'', cfg_ListenPort = ''9876'', cfg_TxIdleTimeout = 10 * Second, cfg_MaxReadConns = 10,
     cfg_CacheSizeKB = 20000, cfg_BusyTimeout = 5 * Second, cfg_MaxRequestSizeMB = 100\<rparr>"

text \<open>\<open>time.Duration.String\<close>: \<open>fmtFrac\<close> prints a fraction without its trailing zeros; below a second the
  unit is smaller, and the micro sign takes two bytes.\<close>

definition fmtFrac :: "nat \<Rightarrow> nat \<Rightarrow> string" where
  "fmtFrac v prec =
     (let ds = rev (dropWhile (\<lambda>c. c = CHR ''0'') (rev (pad prec (v mod 10 ^ prec)))) in
      if ds = [] then [] else CHR ''.'' # ds)"

definition Duration_String :: "duration \<Rightarrow> string" where
  "Duration_String d =
     (let u = nat \<bar>d\<bar>;
          small = (\<lambda>prec u_name. show_nat (u div 10 ^ prec) @ fmtFrac u prec @ u_name);
          secs = u div 10 ^ 9; mins = secs div 60; hours = mins div 60;
          body =
            (if u < 10 ^ 9 then
               if u = 0 then ''0s''
               else if u < 10 ^ 3 then small 0 ''ns''
               else if u < 10 ^ 6 then small 3 [CHR 0xC2, CHR 0xB5, CHR ''s'']
               else small 6 ''ms''
             else
               (if mins > 0 then (if hours > 0 then show_nat hours @ ''h'' else []) @ show_nat (mins mod 60) @ ''m''
                else []) @
               show_nat (secs mod 60) @ fmtFrac u 9 @ ''s'') in
      if d < 0 then CHR ''-'' # body else body)"

definition ToArgs :: "Config \<Rightarrow> string list" where
  "ToArgs c =
     (if cfg_AuthToken c \<noteq> [] then [''--auth-token'', cfg_AuthToken c] else []) @
     (if cfg_AuthTokenRW c \<noteq> [] then [''--auth-token-rw'', cfg_AuthTokenRW c] else []) @
     (if cfg_AuthTokenRO c \<noteq> [] then [''--auth-token-ro'', cfg_AuthTokenRO c] else []) @
     (if cfg_DataDir c \<noteq> [] then [''--data-dir'', cfg_DataDir c] else []) @
     (if cfg_ListenHost c \<noteq> [] then [''--listen-host'', cfg_ListenHost c] else []) @
     (if cfg_ListenPort c \<noteq> [] then [''--listen-port'', cfg_ListenPort c] else []) @
     (if cfg_TxIdleTimeout c \<noteq> 0 then [''--tx-idle-timeout'', Duration_String (cfg_TxIdleTimeout c)] else []) @
     (if cfg_MaxReadConns c \<noteq> 0 then [''--max-read-conns'', show_int (cfg_MaxReadConns c)] else []) @
     (if cfg_CacheSizeKB c \<noteq> 0 then [''--cache-size-kb'', show_int (cfg_CacheSizeKB c)] else []) @
     (if cfg_BusyTimeout c \<noteq> 0 then [''--busy-timeout'', Duration_String (cfg_BusyTimeout c)] else []) @
     (if cfg_MaxRequestSizeMB c \<noteq> 0 then [''--max-request-size-mb'', show_int (cfg_MaxRequestSizeMB c)] else [])"

definition validateTransactionTimeout :: "duration \<Rightarrow> go_error option" where
  "validateTransactionTimeout timeout =
     (if timeout \<le> 0 then
        Some (ErrorString (''invalid transaction timeout '' @ Duration_String timeout @ '', must be greater than zero''))
      else None)"

definition validateBusyTimeout :: "duration \<Rightarrow> go_error option" where
  "validateBusyTimeout timeout =
     (if timeout \<le> 0 then
        Some (ErrorString (''invalid busy timeout '' @ Duration_String timeout @ '', must be greater than zero''))
      else None)"

definition validateCacheSize :: "int \<Rightarrow> go_error option" where
  "validateCacheSize kb =
     (if kb \<le> 0 then
        Some (ErrorString (''invalid cache size '' @ show_int kb @ '' KB, must be greater than zero''))
      else None)"

text \<open>\<open>newParser\<close> is the error of \<open>arg.NewParser\<close>, \<open>parse\<close> the configuration that the parser reads from the
  arguments and the environment.\<close>

definition config_Parse :: "go_error option \<Rightarrow> (string list \<Rightarrow> go_error + Config) \<Rightarrow> string list \<Rightarrow> go_error + Config" where
  "config_Parse newParser parse args =
     (case newParser of Some e \<Rightarrow> Inl e | None \<Rightarrow>
      (case parse args of Inl e \<Rightarrow> Inl e | Inr cfg \<Rightarrow>
       if \<not> ListenHost (cfg_ListenHost cfg) then
         Inl (ErrorString (''invalid listen address '' @ cfg_ListenHost cfg))
       else if \<not> Port (cfg_ListenPort cfg) then
         Inl (ErrorString (''invalid listen port '' @ cfg_ListenPort cfg @ '', valid values are 1-65535''))
       else
         (case validateTransactionTimeout (cfg_TxIdleTimeout cfg) of Some e \<Rightarrow> Inl e | None \<Rightarrow>
         (case validateBusyTimeout (cfg_BusyTimeout cfg) of Some e \<Rightarrow> Inl e | None \<Rightarrow>
         (case validateCacheSize (cfg_CacheSizeKB cfg) of Some e \<Rightarrow> Inl e | None \<Rightarrow> Inr cfg)))))"

definition splitAuthTokens :: "string \<Rightarrow> string list" where
  "splitAuthTokens v = (if v = [] then [] else Fields v)"

definition cfg_AuthTokens :: "Config \<Rightarrow> string list" where
  "cfg_AuthTokens c = splitAuthTokens (cfg_AuthToken c)"

definition cfg_ReadWriteAuthTokens :: "Config \<Rightarrow> string list" where
  "cfg_ReadWriteAuthTokens c = splitAuthTokens (cfg_AuthTokenRW c)"

definition cfg_ReadOnlyAuthTokens :: "Config \<Rightarrow> string list" where
  "cfg_ReadOnlyAuthTokens c = splitAuthTokens (cfg_AuthTokenRO c)"

section \<open>What is accepted\<close>

text \<open>A well-formed configuration, without reference to the checks of the code.\<close>

definition dotted_quad :: "string \<Rightarrow> bool" where
  "dotted_quad addr \<longleftrightarrow> (\<exists>a b c d. addr = a @ ''.'' @ b @ ''.'' @ c @ ''.'' @ d \<and> octet a \<and> octet b \<and> octet c \<and> octet d)"

definition port_number :: "string \<Rightarrow> nat \<Rightarrow> bool" where
  "port_number port n \<longleftrightarrow>
     list_all is_digit port \<and> length port \<le> 5 \<and> read_digits 0 port = n \<and> 0 < n \<and> n < 2 ^ 16"

definition wf_config :: "Config \<Rightarrow> bool" where
  "wf_config c \<longleftrightarrow>
     (\<exists>quad mask. cfg_ListenHost c = quad @ mask \<and> dotted_quad quad \<and>
        (mask = [] \<or> (\<exists>m. mask = CHR ''/'' # m \<and> length m = 2 \<and> list_all is_digit m))) \<and>
     (\<exists>n. port_number (cfg_ListenPort c) n) \<and>
     0 < cfg_TxIdleTimeout c \<and> 0 < cfg_BusyTimeout c \<and> 0 < cfg_CacheSizeKB c"

lemma ListenHost_quad:
  "ListenHost addr \<longleftrightarrow> (\<exists>quad mask. addr = quad @ mask \<and> dotted_quad quad \<and>
     (mask = [] \<or> (\<exists>m. mask = CHR ''/'' # m \<and> length m = 2 \<and> list_all is_digit m)))"
  unfolding ListenHost_iff
proof (intro iffI; elim exE conjE)
  fix a b c d suffix
  assume "addr = a @ ''.'' @ b @ ''.'' @ c @ ''.'' @ d @ suffix" "octet a" "octet b" "octet c" "octet d"
    "suffix = [] \<or> (\<exists>m. suffix = ''/'' @ m \<and> length m = 2 \<and> list_all is_digit m)"
  then show "\<exists>quad mask. addr = quad @ mask \<and> dotted_quad quad \<and>
      (mask = [] \<or> (\<exists>m. mask = CHR ''/'' # m \<and> length m = 2 \<and> list_all is_digit m))"
    unfolding dotted_quad_def
    by (intro exI [of _ "a @ ''.'' @ b @ ''.'' @ c @ ''.'' @ d"] exI [of _ suffix]) auto
next
  fix quad mask
  assume mask: "addr = quad @ mask" "mask = [] \<or> (\<exists>m. mask = CHR ''/'' # m \<and> length m = 2 \<and> list_all is_digit m)"
  assume "dotted_quad quad"
  then obtain a b c d where "quad = a @ ''.'' @ b @ ''.'' @ c @ ''.'' @ d" "octet a" "octet b" "octet c" "octet d"
    by (auto simp: dotted_quad_def)
  with mask show "\<exists>a b c d suffix. addr = a @ ''.'' @ b @ ''.'' @ c @ ''.'' @ d @ suffix \<and>
      octet a \<and> octet b \<and> octet c \<and> octet d \<and>
      (suffix = [] \<or> (\<exists>m. suffix = ''/'' @ m \<and> length m = 2 \<and> list_all is_digit m))"
    by (intro exI [of _ a] exI [of _ b] exI [of _ c] exI [of _ d] exI [of _ mask]) auto
qed

lemma Port_number: "Port port \<longleftrightarrow> (\<exists>n. port_number port n)"
  by (cases port) (auto simp: Port_iff port_number_def)

lemma config_Parse_iff:
  "config_Parse newParser parse args = Inr c \<longleftrightarrow> newParser = None \<and> parse args = Inr c \<and> wf_config c"
  by (auto simp: config_Parse_def wf_config_def ListenHost_quad [symmetric] Port_number [symmetric]
      validateTransactionTimeout_def validateBusyTimeout_def validateCacheSize_def
      split: option.splits sum.splits if_splits)

lemma wf_config_default: "wf_config (default_Config\<lparr>cfg_MaxReadConns := n\<rparr>)"
proof -
  have "ListenHost ''0.0.0.0''" "Port ''9876''" by code_simp+
  then show ?thesis
    by (simp add: wf_config_def ListenHost_quad [symmetric] Port_number [symmetric] default_Config_def Second_def)
qed

lemma wf_config_address: "wf_config c \<Longrightarrow> cfg_ListenHost c \<noteq> [] \<and> cfg_ListenPort c \<noteq> []"
  by (auto simp: wf_config_def dotted_quad_def port_number_def)

text \<open>C33. A configuration is accepted exactly when the command line could be read and the result is
  well formed: a dotted quad, with an optional two-digit mask, to listen on; a port from 1 to 65535; timeouts and cache
  size above zero. It is then returned as it was read. No other field is looked at.\<close>

theorem config_accepted:
  "config_Parse newParser parse args = Inr c \<longleftrightarrow> newParser = None \<and> parse args = Inr c \<and> wf_config c"
  by (rule config_Parse_iff)

end
