(* ===== verification/Entrypoint.thy ===== *)
theory Entrypoint
  imports Prelude
begin

text \<open>
  The entry point of the container, \<open>cmd/entrypoint/main.go\<close>: from the environment and the arguments
  to the program that replaces it, NSQLite itself or Litestream with NSQLite as its command. A process
  environment is a list of entries, \<open>environment\<close> the map that it is read into. Parameters: the
  printer of the YAML library, the verb \<open>%q\<close> (\<open>Quote\<close>), the answers of the operating system, and
  the order in which Go visits a map.
\<close>

type_synonym environment = "string \<rightharpoonup> string"

definition nsqliteBinary :: string where "nsqliteBinary = ''/usr/local/bin/nsqlite''"
definition litestreamBinary :: string where "litestreamBinary = ''/usr/local/bin/litestream''"
definition defaultDataDir :: string where "defaultDataDir = ''/data''"
definition defaultDatabaseName :: string where "defaultDatabaseName = ''database.sqlite''"
definition defaultLitestreamConfigPath :: string where "defaultLitestreamConfigPath = ''/tmp/litestream.yml''"
definition defaultLogLevel :: string where "defaultLogLevel = ''info''"
definition defaultLogFormat :: string where "defaultLogFormat = ''text''"
definition defaultSnapshotInterval :: string where "defaultSnapshotInterval = ''24h''"
definition defaultSnapshotRetention :: string where "defaultSnapshotRetention = ''168h''"
definition defaultSyncInterval :: string where "defaultSyncInterval = ''1s''"
definition defaultValidationInterval :: string where "defaultValidationInterval = ''5m''"

record entrypointPlan =
  ep_Path :: string
  ep_Args :: "string list"
  ep_DatabasePath :: string
  ep_ConfigPath :: string
  ep_ConfigBytes :: bytes
  ep_ExtraEnv :: "(string \<times> string) list"

record litestreamSettings =
  ls_Bucket :: string
  ls_Path :: string
  ls_Endpoint :: string
  ls_Region :: string
  ls_AccessKeyID :: string
  ls_SecretAccessKey :: string
  ls_SessionToken :: string
  ls_ConfigPath :: string
  ls_LogLevel :: string
  ls_LogFormat :: string
  ls_SnapshotInterval :: string
  ls_SnapshotRetention :: string
  ls_SyncInterval :: string
  ls_ValidationInterval :: string

record litestreamLogging =
  ll_Level :: string
  ll_Type :: string

record litestreamSnapshot =
  lsn_Interval :: string
  lsn_Retention :: string

record litestreamReplica =
  lr_Type :: string
  lr_Bucket :: string
  lr_Path :: string
  lr_Endpoint :: string
  lr_Region :: string
  lr_SyncInterval :: string
  lr_ValidationInterval :: string

record litestreamDB =
  ld_Path :: string
  ld_Replica :: litestreamReplica

record litestreamConfig =
  lc_Logging :: litestreamLogging
  lc_Snapshot :: litestreamSnapshot
  lc_DBs :: "litestreamDB list"

section \<open>The environment\<close>

text \<open>\<open>env[key]\<close>: the zero value when the key is missing.\<close>

definition env_get :: "environment \<Rightarrow> string \<Rightarrow> string" where
  "env_get env key = (case env key of Some v \<Rightarrow> v | None \<Rightarrow> [])"

definition env_required :: "environment \<Rightarrow> string \<Rightarrow> go_error + string" where
  "env_required env key =
     (let v = TrimSpace (env_get env key) in
      if v = [] then
        Inl (ErrorString (''litestream requires '' @ key @ '' when NSQLITE_LITESTREAM_ENABLED=true''))
      else Inr v)"

definition env_defaultValue :: "environment \<Rightarrow> string \<Rightarrow> string \<Rightarrow> string" where
  "env_defaultValue env key fallback =
     (let v = TrimSpace (env_get env key) in if v = [] then fallback else v)"

definition parseBool :: "(string \<Rightarrow> string) \<Rightarrow> string \<Rightarrow> go_error + bool" where
  "parseBool Quote v =
     (let w = ToLower (TrimSpace v) in
      if w = ''1'' \<or> w = ''true'' \<or> w = ''yes'' \<or> w = ''on'' then Inr True
      else if w = ''0'' \<or> w = ''false'' \<or> w = ''no'' \<or> w = ''off'' then Inr False
      else Inl (ErrorString (''invalid boolean value '' @ Quote v)))"

definition env_bool :: "(string \<Rightarrow> string) \<Rightarrow> environment \<Rightarrow> string \<Rightarrow> bool \<Rightarrow> go_error + bool" where
  "env_bool Quote env key fallback =
     (let v = TrimSpace (env_get env key) in if v = [] then Inr fallback else parseBool Quote v)"

definition loadEnvironment :: "string list \<Rightarrow> environment" where
  "loadEnvironment entries =
     foldl (\<lambda>env entry. case Cut entry (CHR ''='') of Some (key, v) \<Rightarrow> env(key \<mapsto> v) | None \<Rightarrow> env)
       Map.empty entries"

text \<open>\<open>keys\<close> lists the keys of the merged map in the order in which \<open>range\<close> visits them.\<close>

definition merged_env :: "string list \<Rightarrow> (string \<times> string) list \<Rightarrow> environment" where
  "merged_env base overrides = foldl (\<lambda>env (key, v). env(key \<mapsto> v)) (loadEnvironment base) overrides"

definition mergeExecEnvironment :: "string list \<Rightarrow> (string \<times> string) list \<Rightarrow> string list \<Rightarrow> string list" where
  "mergeExecEnvironment base overrides keys =
     map (\<lambda>key. key @ ''='' @ env_get (merged_env base overrides) key) keys"

section \<open>The command line\<close>

definition shellQuote :: "string \<Rightarrow> string" where
  "shellQuote v =
     (if v \<noteq> [] \<and> \<not> ContainsAny v ('' '' @ [CHR 0x09, CHR 0x0A, CHR 0x0D, CHR 0x27, CHR 0x22, CHR 0x5C] @
            ''$`!#&()*;<>?[]{}|~'')
      then v
      else [CHR 0x27] @ ReplaceAll v (CHR 0x27) [CHR 0x27, CHR 0x5C, CHR 0x27, CHR 0x27] @ [CHR 0x27])"

definition shellJoin :: "string list \<Rightarrow> string" where
  "shellJoin args = Join (map shellQuote args) '' ''"

definition resolveDatabasePath :: "string \<Rightarrow> string" where
  "resolveDatabasePath dataDir =
     (let cleanDataDir = TrimRight dataDir (CHR ''/'');
          dir = (if cleanDataDir = [] then defaultDataDir else cleanDataDir) in
      path_Join [dir, defaultDatabaseName])"

section \<open>The plan\<close>

text \<open>The six required variables are read in the order of the code; the first error ends it.\<close>

definition loadLitestreamSettings :: "environment \<Rightarrow> go_error + litestreamSettings" where
  "loadLitestreamSettings env =
     (case env_required env ''NSQLITE_LITESTREAM_S3_BUCKET'' of Inl e \<Rightarrow> Inl e | Inr bucket \<Rightarrow>
     (case env_required env ''NSQLITE_LITESTREAM_S3_PATH'' of Inl e \<Rightarrow> Inl e | Inr path \<Rightarrow>
     (case env_required env ''NSQLITE_LITESTREAM_S3_ENDPOINT'' of Inl e \<Rightarrow> Inl e | Inr endpoint \<Rightarrow>
     (case env_required env ''NSQLITE_LITESTREAM_S3_REGION'' of Inl e \<Rightarrow> Inl e | Inr region \<Rightarrow>
     (case env_required env ''NSQLITE_LITESTREAM_S3_ACCESS_KEY_ID'' of Inl e \<Rightarrow> Inl e | Inr accessKeyID \<Rightarrow>
     (case env_required env ''NSQLITE_LITESTREAM_S3_SECRET_ACCESS_KEY'' of Inl e \<Rightarrow> Inl e | Inr secretAccessKey \<Rightarrow>
      Inr \<lparr>ls_Bucket = bucket, ls_Path = TrimLeft path (CHR ''/''), ls_Endpoint = endpoint, ls_Region = region,
        ls_AccessKeyID = accessKeyID, ls_SecretAccessKey = secretAccessKey,
        ls_SessionToken = TrimSpace (env_get env ''NSQLITE_LITESTREAM_S3_SESSION_TOKEN''),
        ls_ConfigPath = env_defaultValue env ''NSQLITE_LITESTREAM_CONFIG_PATH'' defaultLitestreamConfigPath,
        ls_LogLevel = env_defaultValue env ''NSQLITE_LITESTREAM_LOG_LEVEL'' defaultLogLevel,
        ls_LogFormat = env_defaultValue env ''NSQLITE_LITESTREAM_LOG_FORMAT'' defaultLogFormat,
        ls_SnapshotInterval = env_defaultValue env ''NSQLITE_LITESTREAM_SNAPSHOT_INTERVAL'' defaultSnapshotInterval,
        ls_SnapshotRetention = env_defaultValue env ''NSQLITE_LITESTREAM_SNAPSHOT_RETENTION'' defaultSnapshotRetention,
        ls_SyncInterval = env_defaultValue env ''NSQLITE_LITESTREAM_SYNC_INTERVAL'' defaultSyncInterval,
        ls_ValidationInterval = env_defaultValue env ''NSQLITE_LITESTREAM_VALIDATION_INTERVAL'' defaultValidationInterval\<rparr>))))))"

definition execEnvironment :: "litestreamSettings \<Rightarrow> (string \<times> string) list" where
  "execEnvironment settings =
     [(''AWS_ACCESS_KEY_ID'', ls_AccessKeyID settings), (''AWS_SECRET_ACCESS_KEY'', ls_SecretAccessKey settings)] @
     (if ls_SessionToken settings \<noteq> [] then [(''AWS_SESSION_TOKEN'', ls_SessionToken settings)] else [])"

definition renderLitestreamConfig ::
  "(litestreamConfig \<Rightarrow> go_error + bytes) \<Rightarrow> string \<Rightarrow> litestreamSettings \<Rightarrow> go_error + bytes" where
  "renderLitestreamConfig yaml_Marshal databasePath settings =
     (case yaml_Marshal
        \<lparr>lc_Logging = \<lparr>ll_Level = ls_LogLevel settings, ll_Type = ls_LogFormat settings\<rparr>,
         lc_Snapshot = \<lparr>lsn_Interval = ls_SnapshotInterval settings, lsn_Retention = ls_SnapshotRetention settings\<rparr>,
         lc_DBs = [\<lparr>ld_Path = databasePath, ld_Replica =
            \<lparr>lr_Type = ''s3'', lr_Bucket = ls_Bucket settings, lr_Path = ls_Path settings,
             lr_Endpoint = ls_Endpoint settings, lr_Region = ls_Region settings,
             lr_SyncInterval = ls_SyncInterval settings, lr_ValidationInterval = ls_ValidationInterval settings\<rparr>\<rparr>]\<rparr> of
        Inl e \<Rightarrow> Inl (Wrapped ''marshal Litestream config'' e)
      | Inr d \<Rightarrow> Inr d)"

definition buildEntrypointPlan ::
  "(string \<Rightarrow> string) \<Rightarrow> (litestreamConfig \<Rightarrow> go_error + bytes) \<Rightarrow> environment \<Rightarrow> string list
   \<Rightarrow> go_error + entrypointPlan" where
  "buildEntrypointPlan Quote yaml_Marshal env args =
     (let nsqliteArgs = nsqliteBinary # args in
      case env_bool Quote env ''NSQLITE_LITESTREAM_ENABLED'' False of
        Inl e \<Rightarrow> Inl (Wrapped ''NSQLITE_LITESTREAM_ENABLED'' e)
      | Inr enabled \<Rightarrow>
          if \<not> enabled then
            Inr \<lparr>ep_Path = nsqliteBinary, ep_Args = nsqliteArgs, ep_DatabasePath = [], ep_ConfigPath = [],
                 ep_ConfigBytes = [], ep_ExtraEnv = []\<rparr>
          else case loadLitestreamSettings env of
            Inl e \<Rightarrow> Inl e
          | Inr settings \<Rightarrow>
              let databasePath = resolveDatabasePath (env_defaultValue env ''NSQLITE_DATA_DIR'' defaultDataDir) in
              (case renderLitestreamConfig yaml_Marshal databasePath settings of
                 Inl e \<Rightarrow> Inl e
               | Inr configBytes \<Rightarrow>
                   Inr \<lparr>ep_Path = litestreamBinary,
                        ep_Args = [litestreamBinary, ''replicate'', ''-config'', ls_ConfigPath settings, ''-exec'',
                          shellJoin nsqliteArgs],
                        ep_DatabasePath = databasePath, ep_ConfigPath = ls_ConfigPath settings,
                        ep_ConfigBytes = configBytes, ep_ExtraEnv = execEnvironment settings\<rparr>))"

section \<open>The main function\<close>

text \<open>\<open>filepath.Dir\<close>: the path up to its last slash, cleaned.\<close>

definition path_Dir :: "string \<Rightarrow> string" where
  "path_Dir p = path_Clean (rev (dropWhile (\<lambda>c. c \<noteq> CHR ''/'') (rev p)))"

definition prepareRuntimePaths ::
  "(string \<Rightarrow> go_error option) \<Rightarrow> (string \<Rightarrow> bytes \<Rightarrow> go_error option) \<Rightarrow> string \<Rightarrow> string \<Rightarrow> bytes
   \<Rightarrow> go_error option" where
  "prepareRuntimePaths mkdirAll writeFile configPath databasePath configBytes =
     (case mkdirAll (path_Dir databasePath) of
        Some e \<Rightarrow> Some (Wrapped ''create database directory'' e)
      | None \<Rightarrow>
          (case mkdirAll (path_Dir configPath) of
             Some e \<Rightarrow> Some (Wrapped ''create Litestream config directory'' e)
           | None \<Rightarrow>
               (case writeFile configPath configBytes of
                  Some e \<Rightarrow> Some (Wrapped ''write Litestream config file'' e)
                | None \<Rightarrow> None)))"

text \<open>How the process ends when \<open>exec\<close> is accepted: with a status, or replaced by a program.\<close>

datatype process_end = ExitStatus nat | Exec string "string list" "string list"

definition entrypoint_main ::
  "(string \<Rightarrow> string) \<Rightarrow> (litestreamConfig \<Rightarrow> go_error + bytes) \<Rightarrow> (string \<Rightarrow> go_error option) \<Rightarrow>
   (string \<Rightarrow> bytes \<Rightarrow> go_error option) \<Rightarrow> (environment \<Rightarrow> string list) \<Rightarrow> string list \<Rightarrow> string list \<Rightarrow> process_end" where
  "entrypoint_main Quote yaml_Marshal mkdirAll writeFile range_order osEnviron osArgs =
     (case buildEntrypointPlan Quote yaml_Marshal (loadEnvironment osEnviron) osArgs of
        Inl e \<Rightarrow> ExitStatus 1
      | Inr plan \<Rightarrow>
          if length (ep_ConfigBytes plan) > 0 \<and>
             prepareRuntimePaths mkdirAll writeFile (ep_ConfigPath plan) (ep_DatabasePath plan) (ep_ConfigBytes plan) \<noteq> None
          then ExitStatus 1
          else Exec (ep_Path plan) (ep_Args plan)
            (mergeExecEnvironment osEnviron (ep_ExtraEnv plan)
               (range_order (merged_env osEnviron (ep_ExtraEnv plan)))))"

end
