(* ===== verification/Entrypoint_Props.thy ===== *)
theory Entrypoint_Props
  imports Entrypoint "HOL-Library.List_Lexorder" "HOL-Library.Char_ord"
begin

text \<open>
  Guarantees of the container's entry point: the command line that it hands over is split into
  the arguments that it was given, the plan depends on the environment as documented, Litestream
  replicates the file that the server opens, and the new process sees the old environment with
  the credentials added.
\<close>

section \<open>Words of a shell command\<close>

definition is_blank :: "char \<Rightarrow> bool" where
  "is_blank ch \<longleftrightarrow> ch = CHR '' '' \<or> ch = CHR 0x09"

text \<open>What a shell does not take literally outside quotes, besides blanks, the quote and the backslash.\<close>

definition is_special :: "char \<Rightarrow> bool" where
  "is_special ch \<longleftrightarrow> ch \<in> set ([CHR 0x0A, CHR 0x22] @ ''$`!#&()*;<>?[]{}|~'')"

text \<open>The words of a command in which nothing is expanded or executed, \<open>None\<close> for any other:
  \<open>quoted\<close> is the state inside single quotes, \<open>word\<close> the current word.\<close>

fun sh_words :: "bool \<Rightarrow> string option \<Rightarrow> string \<Rightarrow> string list option" where
  "sh_words quoted word [] =
     (if quoted then None else Some (case word of None \<Rightarrow> [] | Some w \<Rightarrow> [w]))"
| "sh_words quoted word (ch # cs) =
     (let w = (case word of None \<Rightarrow> [] | Some w \<Rightarrow> w) in
      if quoted then sh_words (ch \<noteq> CHR 0x27) (Some (if ch = CHR 0x27 then w else w @ [ch])) cs
      else if is_blank ch then
        (case word of None \<Rightarrow> sh_words False None cs | Some w \<Rightarrow> map_option ((#) w) (sh_words False None cs))
      else if ch = CHR 0x27 then sh_words True (Some w) cs
      else if ch = CHR 0x5C then (case cs of [] \<Rightarrow> None | d # ds \<Rightarrow> sh_words False (Some (w @ [d])) ds)
      else if is_special ch then None
      else sh_words False (Some (w @ [ch])) cs)"

definition plain_char :: "char \<Rightarrow> bool" where
  "plain_char ch \<longleftrightarrow> \<not> is_blank ch \<and> ch \<noteq> CHR 0x27 \<and> ch \<noteq> CHR 0x5C \<and> \<not> is_special ch"

lemma sh_plain:
  "list_all plain_char v \<Longrightarrow> sh_words False (Some w) (v @ rest) = sh_words False (Some (w @ v)) rest"
  by (induction v arbitrary: w) (simp_all add: plain_char_def)

lemma sh_plain_start:
  assumes "list_all plain_char v" "v \<noteq> []"
  shows "sh_words False None (v @ rest) = sh_words False (Some v) rest"
  using assms sh_plain [of "tl v" "[hd v]" rest] by (cases v) (simp_all add: plain_char_def)

lemma sh_quoted:
  "sh_words True (Some w) (ReplaceAll v (CHR 0x27) [CHR 0x27, CHR 0x5C, CHR 0x27, CHR 0x27] @ CHR 0x27 # rest) =
   sh_words False (Some (w @ v)) rest"
proof (induction v arbitrary: w)
  case Nil
  then show ?case by (simp add: ReplaceAll_def)
next
  case (Cons ch v)
  show ?case
  proof (cases "ch = CHR 0x27")
    case True
    then show ?thesis using Cons [of "w @ [CHR 0x27]"] by (simp add: ReplaceAll_def is_blank_def)
  next
    case False
    then show ?thesis using Cons [of "w @ [ch]"] by (simp add: ReplaceAll_def)
  qed
qed

lemma shellQuote_word: "sh_words False None (shellQuote v @ rest) = sh_words False (Some v) rest"
proof (cases "v \<noteq> [] \<and> \<not> ContainsAny v ('' '' @ [CHR 0x09, CHR 0x0A, CHR 0x0D, CHR 0x27, CHR 0x22, CHR 0x5C] @
            ''$`!#&()*;<>?[]{}|~'')")
  case True
  then have "list_all plain_char v"
    by (auto simp: ContainsAny_def list_ex_iff list_all_iff plain_char_def is_blank_def is_special_def)
  with True sh_plain_start [of v rest] show ?thesis by (simp add: shellQuote_def)
next
  case False
  then have "shellQuote v = CHR 0x27 # ReplaceAll v (CHR 0x27) [CHR 0x27, CHR 0x5C, CHR 0x27, CHR 0x27] @ [CHR 0x27]"
    by (simp only: shellQuote_def if_False append.simps)
  then show ?thesis using sh_quoted [of "[]" v rest] by (simp add: is_blank_def)
qed

lemma shell_words_join: "sh_words False None (shellJoin args) = Some args"
proof (induction args)
  case Nil
  then show ?case by (simp add: shellJoin_def)
next
  case (Cons arg args)
  show ?case
  proof (cases args)
    case Nil
    then show ?thesis using shellQuote_word [of arg "[]"] by (simp add: shellJoin_def)
  next
    case more: (Cons b bs)
    have "shellJoin (arg # args) = shellQuote arg @ '' '' @ shellJoin args" by (simp add: shellJoin_def more)
    then show ?thesis using Cons by (simp add: shellQuote_word is_blank_def)
  qed
qed

text \<open>C34. The command that Litestream is told to run is split by a shell into exactly NSQLite's binary and
  the arguments of the container, one word each, whatever bytes they consist of; no part of an
  argument is expanded, taken for a separator or executed.\<close>

theorem shell_join_safe: "sh_words False None (shellJoin (nsqliteBinary # args)) = Some (nsqliteBinary # args)"
  by (rule shell_words_join)

section \<open>The replicated file\<close>

lemma TrimRight_decomp: "\<exists>n. s = TrimRight s c @ replicate n c"
proof -
  have "takeWhile (\<lambda>x. x = c) (rev s) = replicate (length (takeWhile (\<lambda>x. x = c) (rev s))) c"
    by (rule replicate_length_same [symmetric]) (auto dest: set_takeWhileD)
  moreover have "s = rev (dropWhile (\<lambda>x. x = c) (rev s)) @ rev (takeWhile (\<lambda>x. x = c) (rev s))"
    by (metis rev_append rev_rev_ident takeWhile_dropWhile_id)
  ultimately show ?thesis unfolding TrimRight_def by (metis rev_replicate)
qed

lemma split_on_ne: "split_on c s \<noteq> []"
  by (induction s) (auto split: list.split)

lemma split_on_append: "split_on c (s @ c # t) = split_on c s @ split_on c t"
proof (induction s)
  case Nil
  then show ?case by simp
next
  case (Cons d s)
  then show ?case using split_on_ne [of c s] by (cases "split_on c s") auto
qed

lemma split_on_slashes: "split_on c (s @ replicate n c @ c # t) = split_on c s @ replicate n [] @ split_on c t"
proof -
  have r: "split_on c (replicate n c @ c # t) = replicate n [] @ [] # split_on c t" for n
    by (induction n) simp_all
  show ?thesis
  proof (cases n)
    case 0
    then show ?thesis by (simp add: split_on_append)
  next
    case (Suc k)
    with split_on_append [of c s "replicate k c @ c # t"] show ?thesis
      by (simp add: r replicate_append_same)
  qed
qed

lemma clean_elems_empty: "clean_elems rooted st (xs @ replicate n [] @ ys) = clean_elems rooted st (xs @ ys)"
proof (induction rooted st xs rule: clean_elems.induct)
  case (1 rooted st)
  then show ?case by (induction n) simp_all
next
  case (2 rooted st e es)
  then show ?case by auto
qed

lemma Clean_slashes:
  assumes "d \<noteq> []"
  shows "path_Clean (d @ replicate n (CHR ''/'') @ CHR ''/'' # t) = path_Clean (d @ CHR ''/'' # t)"
proof -
  have "HasPrefix (d @ replicate n (CHR ''/'') @ CHR ''/'' # t) ''/'' = HasPrefix (d @ CHR ''/'' # t) ''/''"
    using assms by (cases d) (simp_all add: HasPrefix_def)
  moreover have "clean_elems r [] (split_on (CHR ''/'') (d @ replicate n (CHR ''/'') @ CHR ''/'' # t)) =
      clean_elems r [] (split_on (CHR ''/'') (d @ CHR ''/'' # t))" for r
    by (simp only: split_on_slashes split_on_append clean_elems_empty)
  ultimately show ?thesis by (simp only: path_Clean_def)
qed

lemma Join_name: "d \<noteq> [] \<Longrightarrow> path_Join [d, ''database.sqlite''] = path_Clean (d @ CHR ''/'' # ''database.sqlite'')"
  by (simp add: path_Join_def)

lemma database_path:
  "resolveDatabasePath d =
   (if TrimRight d (CHR ''/'') = [] then ''/data/database.sqlite'' else path_Join [d, ''database.sqlite''])"
proof (cases "TrimRight d (CHR ''/'') = []")
  case True
  then show ?thesis
    by (simp add: resolveDatabasePath_def defaultDataDir_def defaultDatabaseName_def path_Join_def path_Clean_def
        HasPrefix_def)
next
  case False
  obtain t n where t: "t = TrimRight d (CHR ''/'')" and d: "d = t @ replicate n (CHR ''/'')"
    using TrimRight_decomp by blast
  from False t have "t \<noteq> []" by simp
  then have "path_Join [d, ''database.sqlite''] = path_Clean (t @ replicate n (CHR ''/'') @ CHR ''/'' # ''database.sqlite'')"
    using Join_name [of d] unfolding d by simp
  also have "\<dots> = path_Clean (t @ CHR ''/'' # ''database.sqlite'')"
    by (rule Clean_slashes [OF \<open>t \<noteq> []\<close>])
  also have "\<dots> = resolveDatabasePath d"
    using \<open>t \<noteq> []\<close> Join_name [of t] by (simp add: resolveDatabasePath_def defaultDatabaseName_def t)
  finally show ?thesis using False by simp
qed

section \<open>The environment of the new process\<close>

lemma load_append: "loadEnvironment (es @ [e]) =
  (case Cut e (CHR ''='') of Some (k, v) \<Rightarrow> (loadEnvironment es)(k \<mapsto> v) | None \<Rightarrow> loadEnvironment es)"
  unfolding loadEnvironment_def by simp

lemma load_keys: "loadEnvironment es k = Some v \<Longrightarrow> CHR ''='' \<notin> set k"
proof (induction es arbitrary: k v rule: rev_induct)
  case Nil
  then show ?case by (simp add: loadEnvironment_def)
next
  case (snoc e es)
  then show ?case
    by (cases "Cut e (CHR ''='')") (auto simp: load_append split: if_splits dest: Cut_Some)
qed

lemma merged_map: "merged_env base ov = loadEnvironment base ++ map_of (rev ov)"
proof -
  have "foldl (\<lambda>env (key, v). env(key \<mapsto> v)) m ov = m ++ map_of (rev ov)" for m :: environment
    by (induction ov arbitrary: m) auto
  then show ?thesis by (simp add: merged_env_def)
qed

lemma load_entries:
  assumes "\<forall>k \<in> set ks. CHR ''='' \<notin> set k"
  shows "loadEnvironment (map (\<lambda>k. k @ ''='' @ f k) ks) = (\<lambda>k. if k \<in> set ks then Some (f k) else None)"
  using assms
proof (induction ks rule: rev_induct)
  case Nil
  then show ?case by (simp add: loadEnvironment_def)
next
  case (snoc k ks)
  then show ?case using Cut_append [of "CHR ''=''" k "f k"] by (simp add: load_append fun_eq_iff)
qed

lemma merged_load:
  assumes "set keys = dom (merged_env base ov)" "\<forall>(k, v) \<in> set ov. CHR ''='' \<notin> set k"
  shows "loadEnvironment (mergeExecEnvironment base ov keys) = loadEnvironment base ++ map_of (rev ov)"
proof -
  have "CHR ''='' \<notin> set k" if "k \<in> set keys" for k
    using that assms load_keys [of base k] by (auto simp: merged_map map_of_eq_None_iff dest!: map_of_SomeD)
  then have "loadEnvironment (mergeExecEnvironment base ov keys) =
      (\<lambda>k. if k \<in> set keys then Some (env_get (merged_env base ov) k) else None)"
    by (simp add: mergeExecEnvironment_def load_entries del: append.simps)
  also have "\<dots> = merged_env base ov"
    by (auto simp: fun_eq_iff assms(1) env_get_def split: option.split)
  finally show ?thesis by (simp add: merged_map)
qed

section \<open>The plan\<close>

definition required_vars :: "string list" where
  "required_vars = [''NSQLITE_LITESTREAM_S3_BUCKET'', ''NSQLITE_LITESTREAM_S3_PATH'', ''NSQLITE_LITESTREAM_S3_ENDPOINT'',
     ''NSQLITE_LITESTREAM_S3_REGION'', ''NSQLITE_LITESTREAM_S3_ACCESS_KEY_ID'', ''NSQLITE_LITESTREAM_S3_SECRET_ACCESS_KEY'']"

lemma settings_find:
  "case List.find (\<lambda>k. TrimSpace (env_get env k) = []) required_vars of
     Some k \<Rightarrow> loadLitestreamSettings env =
       Inl (ErrorString (''litestream requires '' @ k @ '' when NSQLITE_LITESTREAM_ENABLED=true''))
   | None \<Rightarrow> \<exists>settings. loadLitestreamSettings env = Inr settings \<and>
       ls_AccessKeyID settings = TrimSpace (env_get env ''NSQLITE_LITESTREAM_S3_ACCESS_KEY_ID'') \<and>
       ls_SecretAccessKey settings = TrimSpace (env_get env ''NSQLITE_LITESTREAM_S3_SECRET_ACCESS_KEY'') \<and>
       ls_SessionToken settings = TrimSpace (env_get env ''NSQLITE_LITESTREAM_S3_SESSION_TOKEN'')"
  by (simp add: required_vars_def loadLitestreamSettings_def env_required_def Let_def)

definition credentials :: "environment \<Rightarrow> environment" where
  "credentials env =
     [''AWS_ACCESS_KEY_ID'' \<mapsto> TrimSpace (env_get env ''NSQLITE_LITESTREAM_S3_ACCESS_KEY_ID''),
      ''AWS_SECRET_ACCESS_KEY'' \<mapsto> TrimSpace (env_get env ''NSQLITE_LITESTREAM_S3_SECRET_ACCESS_KEY'')] ++
     (let t = TrimSpace (env_get env ''NSQLITE_LITESTREAM_S3_SESSION_TOKEN'') in
      if t = [] then Map.empty else [''AWS_SESSION_TOKEN'' \<mapsto> t])"

lemma credentials_env:
  assumes "ls_AccessKeyID settings = TrimSpace (env_get env ''NSQLITE_LITESTREAM_S3_ACCESS_KEY_ID'')"
    and "ls_SecretAccessKey settings = TrimSpace (env_get env ''NSQLITE_LITESTREAM_S3_SECRET_ACCESS_KEY'')"
    and "ls_SessionToken settings = TrimSpace (env_get env ''NSQLITE_LITESTREAM_S3_SESSION_TOKEN'')"
  shows "map_of (rev (execEnvironment settings)) = credentials env"
  by (rule ext) (simp add: execEnvironment_def credentials_def assms Let_def)

lemma exec_keys: "(k, v) \<in> set (execEnvironment settings) \<Longrightarrow> CHR ''='' \<notin> set k"
  by (auto simp: execEnvironment_def split: if_splits)

lemma plan_disabled:
  assumes "env_bool Quote env ''NSQLITE_LITESTREAM_ENABLED'' False = Inr False"
  shows "buildEntrypointPlan Quote yaml env args =
    Inr \<lparr>ep_Path = nsqliteBinary, ep_Args = nsqliteBinary # args, ep_DatabasePath = [], ep_ConfigPath = [],
         ep_ConfigBytes = [], ep_ExtraEnv = []\<rparr>"
  using assms by (simp add: buildEntrypointPlan_def)

lemma plan_enabled:
  assumes "env_bool Quote env ''NSQLITE_LITESTREAM_ENABLED'' False = Inr True"
  shows "buildEntrypointPlan Quote yaml env args =
    (case loadLitestreamSettings env of
       Inl e \<Rightarrow> Inl e
     | Inr settings \<Rightarrow>
         let p = resolveDatabasePath (env_defaultValue env ''NSQLITE_DATA_DIR'' defaultDataDir) in
         (case renderLitestreamConfig yaml p settings of
            Inl e \<Rightarrow> Inl e
          | Inr d \<Rightarrow> Inr \<lparr>ep_Path = litestreamBinary,
              ep_Args = [litestreamBinary, ''replicate'', ''-config'', ls_ConfigPath settings, ''-exec'',
                shellJoin (nsqliteBinary # args)],
              ep_DatabasePath = p, ep_ConfigPath = ls_ConfigPath settings, ep_ConfigBytes = d,
              ep_ExtraEnv = execEnvironment settings\<rparr>))"
  using assms by (simp add: buildEntrypointPlan_def Let_def cong: sum.case_cong)

text \<open>What replaces the process, for a given value of the switch.\<close>

definition starts_nsqlite :: "string list \<Rightarrow> string list \<Rightarrow> process_end \<Rightarrow> bool" where
  "starts_nsqlite osEnviron args e \<longleftrightarrow>
     (\<exists>env'. e = Exec nsqliteBinary (nsqliteBinary # args) env' \<and> loadEnvironment env' = loadEnvironment osEnviron)"

definition starts_litestream :: "string list \<Rightarrow> string list \<Rightarrow> string \<Rightarrow> process_end \<Rightarrow> bool" where
  "starts_litestream osEnviron args config e \<longleftrightarrow>
     (\<exists>command env'.
        e = Exec litestreamBinary [litestreamBinary, ''replicate'', ''-config'', config, ''-exec'', command] env' \<and>
        sh_words False None command = Some (nsqliteBinary # args) \<and>
        loadEnvironment env' = loadEnvironment osEnviron ++ credentials (loadEnvironment osEnviron))"

text \<open>The files and the configuration of Litestream by the environment, without the intermediate records of the
  code: a variable's value without blanks around it, or its default.\<close>

definition setting :: "environment \<Rightarrow> string \<Rightarrow> string \<Rightarrow> string" where
  "setting env k fallback = (if TrimSpace (env_get env k) = [] then fallback else TrimSpace (env_get env k))"

definition config_file :: "environment \<Rightarrow> string" where
  "config_file env = setting env ''NSQLITE_LITESTREAM_CONFIG_PATH'' ''/tmp/litestream.yml''"

definition database_file :: "environment \<Rightarrow> string" where
  "database_file env =
     (let d = setting env ''NSQLITE_DATA_DIR'' ''/data'' in
      if set d \<subseteq> {CHR ''/''} then ''/data/database.sqlite'' else path_Join [d, ''database.sqlite''])"

definition replica_config :: "environment \<Rightarrow> litestreamConfig" where
  "replica_config env =
     \<lparr>lc_Logging = \<lparr>ll_Level = setting env ''NSQLITE_LITESTREAM_LOG_LEVEL'' ''info'',
        ll_Type = setting env ''NSQLITE_LITESTREAM_LOG_FORMAT'' ''text''\<rparr>,
      lc_Snapshot = \<lparr>lsn_Interval = setting env ''NSQLITE_LITESTREAM_SNAPSHOT_INTERVAL'' ''24h'',
        lsn_Retention = setting env ''NSQLITE_LITESTREAM_SNAPSHOT_RETENTION'' ''168h''\<rparr>,
      lc_DBs = [\<lparr>ld_Path = database_file env, ld_Replica =
        \<lparr>lr_Type = ''s3'', lr_Bucket = TrimSpace (env_get env ''NSQLITE_LITESTREAM_S3_BUCKET''),
         lr_Path = dropWhile (\<lambda>c. c = CHR ''/'') (TrimSpace (env_get env ''NSQLITE_LITESTREAM_S3_PATH'')),
         lr_Endpoint = TrimSpace (env_get env ''NSQLITE_LITESTREAM_S3_ENDPOINT''),
         lr_Region = TrimSpace (env_get env ''NSQLITE_LITESTREAM_S3_REGION''),
         lr_SyncInterval = setting env ''NSQLITE_LITESTREAM_SYNC_INTERVAL'' ''1s'',
         lr_ValidationInterval = setting env ''NSQLITE_LITESTREAM_VALIDATION_INTERVAL'' ''5m''\<rparr>\<rparr>]\<rparr>"

lemma setting_default: "env_defaultValue env k fallback = setting env k fallback"
  by (simp add: env_defaultValue_def setting_def Let_def)

lemma TrimRight_slashes: "TrimRight d (CHR ''/'') = [] \<longleftrightarrow> set d \<subseteq> {CHR ''/''}"
  by (auto simp: TrimRight_def dropWhile_eq_Nil_conv)

lemma resolved_file: "resolveDatabasePath (env_defaultValue env ''NSQLITE_DATA_DIR'' defaultDataDir) = database_file env"
  by (simp add: database_path database_file_def setting_default defaultDataDir_def TrimRight_slashes)

lemma settings_config:
  assumes "List.find (\<lambda>k. TrimSpace (env_get env k) = []) required_vars = None"
  shows "\<exists>settings. loadLitestreamSettings env = Inr settings \<and> map_of (rev (execEnvironment settings)) = credentials env \<and>
    ls_ConfigPath settings = config_file env \<and>
    (\<forall>yaml. renderLitestreamConfig yaml (database_file env) settings =
       (case yaml (replica_config env) of Inl e \<Rightarrow> Inl (Wrapped ''marshal Litestream config'' e) | Inr d \<Rightarrow> Inr d))"
proof -
  from assms have ne: "TrimSpace (env_get env k) \<noteq> []" if "k \<in> set required_vars" for k
    using that by (auto simp: find_None_iff)
  obtain settings where s: "loadLitestreamSettings env = Inr settings"
    using settings_find [of env] assms by auto
  have eq: "settings = \<lparr>ls_Bucket = TrimSpace (env_get env ''NSQLITE_LITESTREAM_S3_BUCKET''),
      ls_Path = TrimLeft (TrimSpace (env_get env ''NSQLITE_LITESTREAM_S3_PATH'')) (CHR ''/''),
      ls_Endpoint = TrimSpace (env_get env ''NSQLITE_LITESTREAM_S3_ENDPOINT''),
      ls_Region = TrimSpace (env_get env ''NSQLITE_LITESTREAM_S3_REGION''),
      ls_AccessKeyID = TrimSpace (env_get env ''NSQLITE_LITESTREAM_S3_ACCESS_KEY_ID''),
      ls_SecretAccessKey = TrimSpace (env_get env ''NSQLITE_LITESTREAM_S3_SECRET_ACCESS_KEY''),
      ls_SessionToken = TrimSpace (env_get env ''NSQLITE_LITESTREAM_S3_SESSION_TOKEN''),
      ls_ConfigPath = config_file env,
      ls_LogLevel = setting env ''NSQLITE_LITESTREAM_LOG_LEVEL'' ''info'',
      ls_LogFormat = setting env ''NSQLITE_LITESTREAM_LOG_FORMAT'' ''text'',
      ls_SnapshotInterval = setting env ''NSQLITE_LITESTREAM_SNAPSHOT_INTERVAL'' ''24h'',
      ls_SnapshotRetention = setting env ''NSQLITE_LITESTREAM_SNAPSHOT_RETENTION'' ''168h'',
      ls_SyncInterval = setting env ''NSQLITE_LITESTREAM_SYNC_INTERVAL'' ''1s'',
      ls_ValidationInterval = setting env ''NSQLITE_LITESTREAM_VALIDATION_INTERVAL'' ''5m''\<rparr>"
    using s ne by (simp add: loadLitestreamSettings_def env_required_def Let_def required_vars_def setting_default
        config_file_def defaultLitestreamConfigPath_def defaultLogLevel_def defaultLogFormat_def defaultSnapshotInterval_def
        defaultSnapshotRetention_def defaultSyncInterval_def defaultValidationInterval_def)
  have "renderLitestreamConfig yaml (database_file env) settings =
      (case yaml (replica_config env) of Inl e \<Rightarrow> Inl (Wrapped ''marshal Litestream config'' e) | Inr d \<Rightarrow> Inr d)" for yaml
    unfolding eq by (simp add: renderLitestreamConfig_def replica_config_def TrimLeft_def)
  moreover have "map_of (rev (execEnvironment settings)) = credentials env"
    by (rule credentials_env) (simp_all add: eq)
  ultimately show ?thesis using s by (simp add: eq)
qed

lemma finite_load: "finite (dom (loadEnvironment es))"
proof (induction es rule: rev_induct)
  case Nil
  then show ?case by (simp add: loadEnvironment_def)
next
  case (snoc e es)
  then show ?case by (simp add: load_append split: option.split prod.split)
qed

lemma exec_env:
  assumes "\<forall>m :: environment. finite (dom m) \<longrightarrow> set (range_order m) = dom m" "\<forall>(k, v) \<in> set ov. CHR ''='' \<notin> set k"
  shows "loadEnvironment (mergeExecEnvironment base ov (range_order (merged_env base ov))) =
    loadEnvironment base ++ map_of (rev ov)"
  by (rule merged_load) (use assms finite_load in \<open>simp_all add: merged_map finite_dom_map_of\<close>)

text \<open>The end of the entry point with the switch on and the required variables present.\<close>

definition litestream_outcome ::
  "(litestreamConfig \<Rightarrow> go_error + bytes) \<Rightarrow> (string \<Rightarrow> go_error option) \<Rightarrow> (string \<Rightarrow> bytes \<Rightarrow> go_error option) \<Rightarrow>
   string list \<Rightarrow> string list \<Rightarrow> process_end \<Rightarrow> bool" where
  "litestream_outcome yaml mkdirAll writeFile osEnviron args e \<longleftrightarrow>
     (let env = loadEnvironment osEnviron in
      case yaml (replica_config env) of
        Inl _ \<Rightarrow> e = ExitStatus 1
      | Inr d \<Rightarrow>
          if d \<noteq> [] \<and> (mkdirAll (path_Dir (database_file env)) \<noteq> None \<or> mkdirAll (path_Dir (config_file env)) \<noteq> None \<or>
            writeFile (config_file env) d \<noteq> None)
          then e = ExitStatus 1
          else starts_litestream osEnviron args (config_file env) e)"

lemma prepare_fails:
  "prepareRuntimePaths mkdirAll writeFile cp dp d \<noteq> None \<longleftrightarrow>
   mkdirAll (path_Dir dp) \<noteq> None \<or> mkdirAll (path_Dir cp) \<noteq> None \<or> writeFile cp d \<noteq> None"
  by (auto simp: prepareRuntimePaths_def split: option.split)

lemma litestream_started:
  assumes order: "\<forall>m :: environment. finite (dom m) \<longrightarrow> set (range_order m) = dom m"
    and "env_bool Quote (loadEnvironment osEnviron) ''NSQLITE_LITESTREAM_ENABLED'' False = Inr True"
    and "List.find (\<lambda>k. TrimSpace (env_get (loadEnvironment osEnviron) k) = []) required_vars = None"
  shows "litestream_outcome yaml mkdirAll writeFile osEnviron args
    (entrypoint_main Quote yaml mkdirAll writeFile range_order osEnviron args)"
proof -
  let ?env = "loadEnvironment osEnviron"
  from settings_config [OF assms(3)] obtain settings where s: "loadLitestreamSettings ?env = Inr settings"
    "map_of (rev (execEnvironment settings)) = credentials ?env" "ls_ConfigPath settings = config_file ?env"
    "\<And>yaml. renderLitestreamConfig yaml (database_file ?env) settings =
       (case yaml (replica_config ?env) of Inl e \<Rightarrow> Inl (Wrapped ''marshal Litestream config'' e) | Inr d \<Rightarrow> Inr d)"
    by blast
  let ?run = "Exec litestreamBinary
      [litestreamBinary, ''replicate'', ''-config'', config_file ?env, ''-exec'', shellJoin (nsqliteBinary # args)]
      (mergeExecEnvironment osEnviron (execEnvironment settings) (range_order (merged_env osEnviron (execEnvironment settings))))"
  have started: "starts_litestream osEnviron args (config_file ?env) ?run"
    using exec_env [OF order, of "execEnvironment settings" osEnviron] s(2) exec_keys [of _ _ settings]
    by (auto simp: starts_litestream_def shell_words_join)
  show ?thesis
  proof (cases "yaml (replica_config ?env)")
    case (Inl e)
    then show ?thesis
      by (simp add: litestream_outcome_def entrypoint_main_def plan_enabled [OF assms(2)] s(1,4) Let_def resolved_file)
  next
    case (Inr d)
    then have "entrypoint_main Quote yaml mkdirAll writeFile range_order osEnviron args =
      (if d \<noteq> [] \<and> prepareRuntimePaths mkdirAll writeFile (config_file ?env) (database_file ?env) d \<noteq> None
       then ExitStatus 1 else ?run)"
      by (simp add: entrypoint_main_def plan_enabled [OF assms(2)] s(1,3,4) Let_def resolved_file)
    with Inr started show ?thesis unfolding prepare_fails by (simp add: litestream_outcome_def Let_def)
  qed
qed

text \<open>C35. With the switch off or blank the container becomes NSQLite with its own arguments and
  environment, whatever else the environment holds. Any value of the switch that is not a boolean stops it with status 1. With the switch on it stops with status 1 when a required
  variable is missing or blank, when the YAML library refuses the configuration that the environment describes, or when, with a
  configuration that is not empty, creating the directory of the database, creating the directory of the configuration file or writing that
  file fails. Otherwise it becomes Litestream with that file as its configuration, which runs NSQLite with the same
  arguments and sees the environment with the credentials under the names of AWS. The configuration
  replicates the database file in the data directory, which is \<open>/data\<close> when the variable is blank or only slashes.\<close>

theorem entrypoint_outcome:
  assumes "\<forall>m :: environment. finite (dom m) \<longrightarrow> set (range_order m) = dom m"
  shows "let env = loadEnvironment osEnviron;
      e = entrypoint_main Quote yaml mkdirAll writeFile range_order osEnviron args in
    case env_bool Quote env ''NSQLITE_LITESTREAM_ENABLED'' False of
      Inl _ \<Rightarrow> e = ExitStatus 1
    | Inr on \<Rightarrow>
        if \<not> on then starts_nsqlite osEnviron args e
        else if list_ex (\<lambda>k. TrimSpace (env_get env k) = []) required_vars then e = ExitStatus 1
        else litestream_outcome yaml mkdirAll writeFile osEnviron args e"
proof -
  let ?env = "loadEnvironment osEnviron"
  let ?e = "entrypoint_main Quote yaml mkdirAll writeFile range_order osEnviron args"
  show ?thesis
  proof (cases "env_bool Quote ?env ''NSQLITE_LITESTREAM_ENABLED'' False")
    case (Inl e)
    then show ?thesis by (simp add: entrypoint_main_def buildEntrypointPlan_def)
  next
    case (Inr on)
    show ?thesis
    proof (cases on)
      case False
      with Inr exec_env [OF assms, of "[]" osEnviron] show ?thesis
        by (simp add: entrypoint_main_def plan_disabled starts_nsqlite_def)
    next
      case True
      with Inr have on: "env_bool Quote ?env ''NSQLITE_LITESTREAM_ENABLED'' False = Inr True" by simp
      show ?thesis
      proof (cases "List.find (\<lambda>k. TrimSpace (env_get ?env k) = []) required_vars")
        case None
        then have "\<not> list_ex (\<lambda>k. TrimSpace (env_get ?env k) = []) required_vars"
          by (simp add: find_None_iff list_ex_iff)
        with litestream_started [OF assms on None] on show ?thesis by (simp add: Let_def)
      next
        case (Some k)
        then have "list_ex (\<lambda>k. TrimSpace (env_get ?env k) = []) required_vars"
          by (auto simp: find_Some_iff list_ex_iff)
        moreover from Some settings_find [of ?env] have "?e = ExitStatus 1"
          by (simp add: entrypoint_main_def plan_enabled [OF on])
        ultimately show ?thesis using on by simp
      qed
    qed
  qed
qed

definition switched_on :: "string list" where
  "switched_on = map (\<lambda>k. k @ ''=x'') required_vars @ [''NSQLITE_LITESTREAM_ENABLED=yes'']"

definition sorted_keys :: "environment \<Rightarrow> string list" where
  "sorted_keys m = sorted_list_of_set (dom m)"

lemma switched_on_env:
  "loadEnvironment switched_on = (\<lambda>k. if k = ''NSQLITE_LITESTREAM_ENABLED'' then Some ''yes''
     else if k \<in> set required_vars then Some ''x'' else None)"
proof -
  have keys: "\<forall>k \<in> set (required_vars @ [''NSQLITE_LITESTREAM_ENABLED'']). CHR ''='' \<notin> set k"
    by (simp add: required_vars_def)
  have "loadEnvironment switched_on = loadEnvironment (map (\<lambda>k. k @ ''='' @ (if k = ''NSQLITE_LITESTREAM_ENABLED'' then ''yes'' else ''x''))
      (required_vars @ [''NSQLITE_LITESTREAM_ENABLED'']))"
    by (simp add: switched_on_def required_vars_def)
  also note load_entries [OF keys]
  finally show ?thesis by (auto simp: fun_eq_iff required_vars_def)
qed

theorem entrypoint_outcome_witness:
  "starts_litestream switched_on [''--data-dir'', ''/my data''] ''/tmp/litestream.yml''
     (entrypoint_main id (\<lambda>c. Inr ''yaml'') (\<lambda>p. None) (\<lambda>p d. None) sorted_keys switched_on [''--data-dir'', ''/my data'']) \<and>
   entrypoint_main id (\<lambda>c. Inr ''yaml'') (\<lambda>p. None) (\<lambda>p d. Some (ErrorString ''disk full'')) sorted_keys switched_on [] = ExitStatus 1"
proof -
  have order: "\<forall>m :: environment. finite (dom m) \<longrightarrow> set (sorted_keys m) = dom m"
    by (simp add: sorted_keys_def)
  have trim: "TrimSpace ''yes'' = ''yes''" "TrimSpace ''x'' = ''x''" "parseBool id ''yes'' = Inr True"
    by (simp_all add: go_strings parseBool_def Let_def)
  have on: "env_bool id (loadEnvironment switched_on) ''NSQLITE_LITESTREAM_ENABLED'' False = Inr True"
    by (simp add: switched_on_env env_bool_def env_get_def trim)
  have req: "\<not> list_ex (\<lambda>k. TrimSpace (env_get (loadEnvironment switched_on) k) = []) required_vars"
    by (auto simp: switched_on_env env_get_def trim list_ex_iff)
  have "config_file (loadEnvironment switched_on) = ''/tmp/litestream.yml''"
    by (simp add: config_file_def setting_def switched_on_env env_get_def required_vars_def)
  with entrypoint_outcome [OF order, where Quote = id and osEnviron = switched_on and yaml = "\<lambda>c. Inr ''yaml''"
      and mkdirAll = "\<lambda>p. None" and writeFile = "\<lambda>p d. None" and args = "[''--data-dir'', ''/my data'']"]
    entrypoint_outcome [OF order, where Quote = id and osEnviron = switched_on and yaml = "\<lambda>c. Inr ''yaml''"
      and mkdirAll = "\<lambda>p. None" and writeFile = "\<lambda>p d. Some (ErrorString ''disk full'')" and args = "[]"]
  show ?thesis using req by (simp add: on Let_def litestream_outcome_def)
qed

end
