(* ===== verification/Startup.thy ===== *)
theory Startup
  imports Http Config Database_Open Entrypoint_Props
begin

text \<open>
  The main program, \<open>cmd/nsqlite/main.go\<close>: from the arguments to a server that is ready to
  listen. Parameters: what \<open>Config\<close> leaves to \<open>go-arg\<close>, the answer of \<open>os.MkdirAll\<close>, the clock of the
  statistics and the salt that \<open>NewServer\<close> draws. Listening and the end are in \<open>Shutdown\<close>; the log is not modelled.
\<close>

datatype 'w run_end = LogFatal go_error | RunError go_error | Up "'w server" | Stuck

definition run ::
  "'w env \<Rightarrow> go_error option \<Rightarrow> go_error option \<Rightarrow> (string list \<Rightarrow> go_error + Config) \<Rightarrow> time \<Rightarrow> string \<Rightarrow>
   string list \<Rightarrow> 'w \<Rightarrow> 'w run_end \<times> 'w" where
  "run E mkdirAll newParser parse now salt args w =
     (case config_Parse newParser parse args of
        Inl e \<Rightarrow> (LogFatal e, w)
      | Inr conf \<Rightarrow>
          (case NewDB E mkdirAll (NewDBStats now)
              \<lparr>DataDir = cfg_DataDir conf, TxIdleTimeout = cfg_TxIdleTimeout conf, MaxReadConns = cfg_MaxReadConns conf,
               CacheSizeKB = cfg_CacheSizeKB conf, BusyTimeout = cfg_BusyTimeout conf\<rparr> w of
             (Done (Inl e), w1) \<Rightarrow> (RunError (Wrapped ''error starting database'' e), w1)
           | (Done (Inr dbInstance), w1) \<Rightarrow>
               (Up (NewServer
                  \<lparr>c_AuthTokens = cfg_AuthTokens conf, c_ReadWriteAuthTokens = cfg_ReadWriteAuthTokens conf,
                   c_ReadOnlyAuthTokens = cfg_ReadOnlyAuthTokens conf, c_ListenHost = cfg_ListenHost conf,
                   c_ListenPort = cfg_ListenPort conf, c_MaxRequestSizeMB = word_of_int (cfg_MaxRequestSizeMB conf),
                   c_IdleTimeout = 120 * Second\<rparr> salt dbInstance), w1)
           | (_, w1) \<Rightarrow> (Stuck, w1)))"

section \<open>Tokens\<close>

definition blank :: "string \<Rightarrow> bool" where
  "blank s \<longleftrightarrow> trim_left s = []"

lemma fields_from_word: "acc \<noteq> [] \<Longrightarrow> fields_from acc s \<noteq> []"
  by (induction acc s rule: fields_from.induct) (subst fields_from.simps, auto)

lemma fields_blank_from: "fields_from [] s = [] \<longleftrightarrow> trim_left s = []"
proof (induction s rule: trim_left.induct)
  case (1 s)
  show ?case
  proof (cases "space_len s = 0")
    case True
    then have "fields_from [] s = (if s = [] then [] else fields_from [hd s] (tl s))"
      by (simp add: fields_from.simps [of "[]" s])
    with True fields_from_word [of "[hd s]" "tl s"] show ?thesis by simp
  next
    case False
    then have "s \<noteq> []" using space_len_pos [of s] by auto
    with False 1 show ?thesis by (simp add: fields_from.simps [of "[]" s] trim_left.simps [of s])
  qed
qed

lemma fields_blank: "Fields s = [] \<longleftrightarrow> blank s"
  by (simp add: Fields_def blank_def fields_blank_from)

lemma splitAuthTokens_Fields: "splitAuthTokens v = Fields v"
  by (simp add: splitAuthTokens_def Fields_def fields_from.simps [of _ "[]"])

lemmas cfg_token_defs = cfg_AuthTokens_def cfg_ReadWriteAuthTokens_def cfg_ReadOnlyAuthTokens_def splitAuthTokens_Fields

section \<open>A server that comes up\<close>

text \<open>C32. When the program gets to listening, its configuration was well formed and named a data directory; the
  database object is ready, with no transaction open, and both pools open \<open>database.sqlite\<close> in that directory; the server listens where the
  configuration says; authentication is off exactly when the three token settings are nothing
  but white space, and otherwise the server is one with the tokens that the settings list, as the
  properties about requests want it.\<close>

theorem startup_serves:
  assumes "run E mkdirAll newParser parse now salt args w = (Up s, w')"
  shows "\<exists>c. parse args = Inr c \<and> wf_config c \<and> cfg_DataDir c \<noteq> [] \<and>
    db_inv (srv_DB s) \<and> txID (srv_DB s) = [] \<and>
    dsn (p_connector (readWritePool (srv_DB s))) = path_Join [cfg_DataDir c, ''database.sqlite''] \<and>
    dsn (p_connector (readOnlyPool (srv_DB s))) = path_Join [cfg_DataDir c, ''database.sqlite''] \<and>
    Start_addr s = cfg_ListenHost c @ '':'' @ cfg_ListenPort c \<and>
    (authIsDisabled (srv_auth s) \<longleftrightarrow> blank (cfg_AuthToken c) \<and> blank (cfg_AuthTokenRW c) \<and> blank (cfg_AuthTokenRO c)) \<and>
    (\<forall>K T. collision_free K salt T \<and> \<not> authIsDisabled (srv_auth s) \<longrightarrow>
       token_server K T (Fields (cfg_AuthToken c)) (Fields (cfg_AuthTokenRW c)) (Fields (cfg_AuthTokenRO c)) salt s)"
proof -
  obtain c where c: "config_Parse newParser parse args = Inr c"
    using assms by (auto simp: run_def split: sum.splits)
  obtain db where db: "NewDB E mkdirAll (NewDBStats now)
        \<lparr>DataDir = cfg_DataDir c, TxIdleTimeout = cfg_TxIdleTimeout c, MaxReadConns = cfg_MaxReadConns c,
         CacheSizeKB = cfg_CacheSizeKB c, BusyTimeout = cfg_BusyTimeout c\<rparr> w = (Done (Inr db), w')"
    and s: "s = NewServer
        \<lparr>c_AuthTokens = cfg_AuthTokens c, c_ReadWriteAuthTokens = cfg_ReadWriteAuthTokens c,
         c_ReadOnlyAuthTokens = cfg_ReadOnlyAuthTokens c, c_ListenHost = cfg_ListenHost c,
         c_ListenPort = cfg_ListenPort c, c_MaxRequestSizeMB = word_of_int (cfg_MaxRequestSizeMB c),
         c_IdleTimeout = 120 * Second\<rparr> salt db"
    using assms c by (auto simp: run_def split: outcome.splits sum.splits prod.splits)
  have wf: "parse args = Inr c" "wf_config c" using c by (simp_all add: config_Parse_iff)
  have auth: "srv_auth s = new_auth (Fields (cfg_AuthToken c)) (Fields (cfg_AuthTokenRW c)) (Fields (cfg_AuthTokenRO c)) salt"
    using wf_config_address [OF wf(2)] by (simp add: s NewServer_def cfg_token_defs)
  then have disabled: "authIsDisabled (srv_auth s) \<longleftrightarrow>
      Fields (cfg_AuthToken c) = [] \<and> Fields (cfg_AuthTokenRW c) = [] \<and> Fields (cfg_AuthTokenRO c) = []"
    by (auto simp: authIsDisabled_def new_auth_def newAuthTokens_def)
  have "token_server K T (Fields (cfg_AuthToken c)) (Fields (cfg_AuthTokenRW c)) (Fields (cfg_AuthTokenRO c)) salt s"
    if "collision_free K salt T" "\<not> authIsDisabled (srv_auth s)" for K T
    using that auth disabled
    by (auto simp: token_server_def after_checks_def intro!: exI [of _ "[]"])
  moreover have "srv_DB s = db" "Start_addr s = cfg_ListenHost c @ '':'' @ cfg_ListenPort c"
    using wf_config_address [OF wf(2)] by (simp_all add: s NewServer_def Start_addr_def)
  ultimately show ?thesis
    using NewDB_opened [OF db] wf disabled
    by (intro exI [of _ c]) (auto simp: fields_blank newConnector_def)
qed

text \<open>On the miniature engine the default configuration comes up, without authentication.\<close>

lemma mini_run_up:
  "\<exists>s w'. run mini_env None None (\<lambda>_. Inr (default_Config\<lparr>cfg_MaxReadConns := 1\<rparr>)) 0 ''salt'' [] mini0 = (Up s, w')"
proof -
  let ?c = "default_Config\<lparr>cfg_MaxReadConns := 1\<rparr>"
  let ?k = "\<lambda>ro. newConnector (path_Join [''/data'', ''database.sqlite'']) ro 20000 (5 * Second)"
  obtain rw w1 where rw: "open_pool mini_env (?k False) 1 1 ''failed to ping write connection'' mini0 = (Done (Inr rw), w1)"
    using mini_open_pool by blast
  obtain ro w2 where ro: "open_pool mini_env (?k True) 1 1 ''failed to ping read connection'' w1 = (Done (Inr ro), w2)"
    using mini_open_pool by blast
  have "config_Parse None (\<lambda>_. Inr ?c) [] = Inr ?c" by (simp add: config_Parse_iff wf_config_default)
  then show ?thesis
    using rw ro by (simp add: run_def NewDB_def default_Config_def Second_def)
qed

theorem startup_serves_witness:
  "\<exists>s w'. run mini_env None None (\<lambda>_. Inr (default_Config\<lparr>cfg_MaxReadConns := 1\<rparr>)) 0 ''salt'' [] mini0 = (Up s, w') \<and>
    db_inv (srv_DB s) \<and> authIsDisabled (srv_auth s)"
proof -
  obtain s w' where s: "run mini_env None None (\<lambda>_. Inr (default_Config\<lparr>cfg_MaxReadConns := 1\<rparr>)) 0 ''salt'' [] mini0 = (Up s, w')"
    using mini_run_up by blast
  have "blank []" by (simp add: blank_def space_len_def)
  with startup_serves [OF s] s show ?thesis by (auto simp: default_Config_def)
qed

section \<open>The replica\<close>

text \<open>In a container, Litestream copies the file that NSQLite opens when both take the data
  directory from the same variable and it is not all slashes.\<close>

lemma replica_is_database:
  assumes "cfg_DataDir c = env_defaultValue env ''NSQLITE_DATA_DIR'' defaultDataDir"
    and "TrimRight (cfg_DataDir c) (CHR ''/'') \<noteq> []"
  shows "resolveDatabasePath (env_defaultValue env ''NSQLITE_DATA_DIR'' defaultDataDir) =
    path_Join [cfg_DataDir c, ''database.sqlite'']"
  using assms by (simp add: database_path)

end
