(* ===== verification/Shutdown.thy ===== *)
theory Shutdown
  imports Startup
begin

text \<open>
  The rest of \<open>cmd/nsqlite/main.go\<close> and of \<open>internal/server/server.go\<close>: listening, the end of the program and its exit
  status. Parameters: \<open>ListenAndServe\<close>, which returns only with an error, and what the requests that are served until the
  end leave of the server's state. \<open>Stop\<close> waits for the running requests and has no effect on the state; its error and the one of
  closing the database are only logged.
\<close>

section \<open>Listening\<close>





definition IsInitialized :: "'w server \<Rightarrow> bool" where
  "IsInitialized s = srv_isInitialized s"

section \<open>The end\<close>





section \<open>How the program ends\<close>














end
