(* ===== verification/Tx_Machine.thy ===== *)
theory Tx_Machine
  imports Database_Tx
begin

text \<open>
  The lock protocol of \<open>internal/db/db.go\<close> under concurrency: any number of goroutines, each at a
  point of \<open>query\<close>, \<open>executeBeginQuery\<close>, \<open>executeCommitQuery\<close>, \<open>executeRollbackQuery\<close> or of the idle
  monitor, whose steps interleave at every lock, unlock and atomic load or store of the transaction. A section under \<open>writeMu\<close>, which
  takes no other lock, is one step, in which SQLite accepts or refuses; after a refused \<open>BEGIN\<close> and after a write
  this step also releases \<open>txMu\<close>. What SQLite runs for a
  client may begin or end a transaction behind the server's back, so such a step leaves it open whether
  SQLite is in one afterwards.
\<close>

section \<open>Goroutines\<close>

datatype kind = Statement | Commit | Rollback

text \<open>Where a goroutine is. The flag of the \<open>End\<close> points says that the idle monitor is ending the
  transaction.\<close>

datatype pc =
    Idle
  | Begin_lock string
  | Begin_sql string
  | Begin_store string
  | Begin_owner string string
  | Begin_touch string string
  | Write_lock
  | Write_sql
  | Tx_lock string string kind
  | Tx_check string string kind
  | Tx_owner string string kind
  | Tx_touch string kind
  | Tx_sql string kind
  | End_store string bool
  | End_owner bool
  | End_touch bool
  | End_unlock bool
  | Tx_touch_again
  | Tx_unlock
  | Mon_lock
  | Mon_load
  | Mon_check string
  | Mon_sql string

text \<open>The shared state, and what SQLite and the clock say. \<open>begun\<close> records the owners and IDs of the
  transactions whose \<open>BEGIN\<close> has been answered.\<close>

record shared =
  sh_txMu :: bool
  sh_txOpMu :: bool
  sh_txID :: string
  sh_txOwner :: string
  sh_txLastUsed :: time
  sh_sql :: bool
  sh_now :: time
  sh_begun :: "(string \<times> string) list"

abbreviation valid_for :: "shared \<Rightarrow> string \<Rightarrow> string \<Rightarrow> bool" where
  "valid_for h t owner \<equiv> sh_txID h \<noteq> [] \<and> t = sh_txID h \<and> (owner = [] \<or> owner = sh_txOwner h)"

text \<open>The next step of one goroutine; \<open>T\<close> is the idle timeout.\<close>

inductive move :: "duration \<Rightarrow> shared \<Rightarrow> pc \<Rightarrow> shared \<Rightarrow> pc \<Rightarrow> bool" for T where
  start_begin: "move T h Idle h (Begin_lock owner)"
| begin_lock: "\<not> sh_txMu h \<Longrightarrow> move T h (Begin_lock owner) (h\<lparr>sh_txMu := True\<rparr>) (Begin_sql owner)"
| begin_ok: "\<not> sh_sql h \<Longrightarrow> move T h (Begin_sql owner) (h\<lparr>sh_sql := True\<rparr>) (Begin_store owner)"
| begin_fail: "move T h (Begin_sql owner) (h\<lparr>sh_txMu := False\<rparr>) Idle"
| begin_store: "t \<noteq> [] \<Longrightarrow> move T h (Begin_store owner) (h\<lparr>sh_txID := t\<rparr>) (Begin_owner owner t)"
| begin_owner: "move T h (Begin_owner owner t) (h\<lparr>sh_txOwner := owner\<rparr>) (Begin_touch owner t)"
| begin_touch: "move T h (Begin_touch owner t)
    (h\<lparr>sh_txLastUsed := sh_now h, sh_begun := (owner, t) # sh_begun h\<rparr>) Idle"
| start_write: "move T h Idle h Write_lock"
| write_lock: "\<not> sh_txMu h \<Longrightarrow> move T h Write_lock (h\<lparr>sh_txMu := True\<rparr>) Write_sql"
| write_sql: "move T h Write_sql (h\<lparr>sh_sql := b, sh_txMu := False\<rparr>) Idle"
| start_tx: "t \<noteq> [] \<Longrightarrow> move T h Idle h (Tx_lock t owner k)"
| tx_lock: "\<not> sh_txOpMu h \<Longrightarrow> move T h (Tx_lock t owner k) (h\<lparr>sh_txOpMu := True\<rparr>) (Tx_check t owner k)"
| tx_found: "sh_txID h \<noteq> [] \<Longrightarrow> t = sh_txID h \<Longrightarrow> move T h (Tx_check t owner k) h (Tx_owner t owner k)"
| tx_wrong: "sh_txID h = [] \<or> t \<noteq> sh_txID h \<Longrightarrow> move T h (Tx_check t owner k) h Tx_unlock"
| tx_valid: "owner = [] \<or> owner = sh_txOwner h \<Longrightarrow> move T h (Tx_owner t owner k) h (Tx_touch t k)"
| tx_invalid: "owner \<noteq> [] \<Longrightarrow> owner \<noteq> sh_txOwner h \<Longrightarrow> move T h (Tx_owner t owner k) h Tx_unlock"
| tx_touch: "move T h (Tx_touch t k) (h\<lparr>sh_txLastUsed := sh_now h\<rparr>) (Tx_sql t k)"
| tx_statement: "move T h (Tx_sql t Statement) (h\<lparr>sh_sql := b\<rparr>) Tx_touch_again"
| tx_end: "k \<noteq> Statement \<Longrightarrow> sh_sql h \<Longrightarrow> move T h (Tx_sql t k) (h\<lparr>sh_sql := False\<rparr>) (End_store t False)"
| tx_end_fail: "k \<noteq> Statement \<Longrightarrow> move T h (Tx_sql t k) h Tx_touch_again"
| end_store: "move T h (End_store t m) (h\<lparr>sh_txID := []\<rparr>) (End_owner m)"
| end_owner: "move T h (End_owner m) (h\<lparr>sh_txOwner := []\<rparr>) (End_touch m)"
| end_touch: "move T h (End_touch m) (h\<lparr>sh_txLastUsed := sh_now h\<rparr>) (End_unlock m)"
| end_unlock: "move T h (End_unlock m) (h\<lparr>sh_txMu := False\<rparr>) (if m then Tx_unlock else Tx_touch_again)"
| tx_touch_again: "move T h Tx_touch_again (h\<lparr>sh_txLastUsed := sh_now h\<rparr>) Tx_unlock"
| tx_unlock: "move T h Tx_unlock (h\<lparr>sh_txOpMu := False\<rparr>) Idle"
| start_monitor: "move T h Idle h Mon_lock"
| mon_lock: "\<not> sh_txOpMu h \<Longrightarrow> move T h Mon_lock (h\<lparr>sh_txOpMu := True\<rparr>) Mon_load"
| mon_found: "sh_txID h \<noteq> [] \<Longrightarrow> move T h Mon_load h (Mon_check (sh_txID h))"
| mon_none: "sh_txID h = [] \<Longrightarrow> move T h Mon_load h Tx_unlock"
| mon_overdue: "sh_now h - sh_txLastUsed h > T \<Longrightarrow> move T h (Mon_check t) h (Mon_sql t)"
| mon_pass: "sh_now h - sh_txLastUsed h \<le> T \<Longrightarrow> move T h (Mon_check t) h Tx_unlock"
| mon_ok: "sh_sql h \<Longrightarrow> move T h (Mon_sql t) (h\<lparr>sh_sql := False\<rparr>) (End_store t True)"
| mon_fail: "move T h (Mon_sql t) h Tx_unlock"

record machine =
  shm :: shared
  pcs :: "nat \<Rightarrow> pc"

inductive step :: "duration \<Rightarrow> machine \<Rightarrow> machine \<Rightarrow> bool" for T where
  go: "move T (shm s) (pcs s p) h c \<Longrightarrow> step T s \<lparr>shm = h, pcs = (pcs s)(p := c)\<rparr>"

text \<open>The clock may move between two steps.\<close>

inductive tick :: "machine \<Rightarrow> machine \<Rightarrow> bool" where
  pass: "sh_now (shm s) \<le> n \<Longrightarrow> tick s (s\<lparr>shm := (shm s)\<lparr>sh_now := n\<rparr>\<rparr>)"

definition start :: "time \<Rightarrow> machine" where
  "start now = \<lparr>shm = \<lparr>sh_txMu = False, sh_txOpMu = False, sh_txID = [], sh_txOwner = [], sh_txLastUsed = now,
     sh_sql = False, sh_now = now, sh_begun = []\<rparr>, pcs = (\<lambda>_. Idle)\<rparr>"

inductive reach :: "duration \<Rightarrow> machine \<Rightarrow> bool" for T where
  init: "reach T (start now)"
| step: "reach T s \<Longrightarrow> step T s s' \<Longrightarrow> reach T s'"
| tick: "reach T s \<Longrightarrow> tick s s' \<Longrightarrow> reach T s'"

inductive_cases move_elims [elim!]:
  "move T h Idle h' c'" "move T h (Begin_lock owner) h' c'" "move T h (Begin_sql owner) h' c'"
  "move T h (Begin_store owner) h' c'" "move T h (Begin_owner owner t) h' c'" "move T h (Begin_touch owner t) h' c'"
  "move T h Write_lock h' c'" "move T h Write_sql h' c'" "move T h (Tx_lock t owner k) h' c'"
  "move T h (Tx_check t owner k) h' c'" "move T h (Tx_owner t owner k) h' c'" "move T h (Tx_touch t k) h' c'" "move T h (Tx_sql t k) h' c'"
  "move T h (End_store t m) h' c'" "move T h (End_owner m) h' c'" "move T h (End_touch m) h' c'"
  "move T h (End_unlock m) h' c'" "move T h Tx_touch_again h' c'" "move T h Tx_unlock h' c'"
  "move T h Mon_lock h' c'" "move T h Mon_load h' c'" "move T h (Mon_check t) h' c'" "move T h (Mon_sql t) h' c'"

section \<open>Who holds what\<close>

text \<open>The sections under \<open>txOpMu\<close>; those under \<open>txMu\<close> before a transaction is published and after
  it has been cleared; the points at which a transaction has been validated.\<close>

fun in_op :: "pc \<Rightarrow> bool" where
  "in_op (Tx_check t owner k) = True"
| "in_op (Tx_owner t owner k) = True"
| "in_op (Tx_touch t k) = True"
| "in_op (Tx_sql t k) = True"
| "in_op (End_store t m) = True"
| "in_op (End_owner m) = True"
| "in_op (End_touch m) = True"
| "in_op (End_unlock m) = True"
| "in_op Tx_touch_again = True"
| "in_op Tx_unlock = True"
| "in_op Mon_load = True"
| "in_op (Mon_check t) = True"
| "in_op (Mon_sql t) = True"
| "in_op _ = False"

fun in_tx :: "pc \<Rightarrow> bool" where
  "in_tx (Begin_sql owner) = True"
| "in_tx (Begin_store owner) = True"
| "in_tx Write_sql = True"
| "in_tx (End_owner m) = True"
| "in_tx (End_touch m) = True"
| "in_tx (End_unlock m) = True"
| "in_tx _ = False"

fun validated :: "pc \<Rightarrow> string option" where
  "validated (Tx_owner t owner k) = Some t"
| "validated (Tx_touch t k) = Some t"
| "validated (Tx_sql t k) = Some t"
| "validated (End_store t m) = Some t"
| "validated (Mon_check t) = Some t"
| "validated (Mon_sql t) = Some t"
| "validated _ = None"

definition lock_inv :: "machine \<Rightarrow> bool" where
  "lock_inv s \<longleftrightarrow>
     (sh_txOpMu (shm s) \<longleftrightarrow> (\<exists>p. in_op (pcs s p))) \<and>
     (\<forall>p q. in_op (pcs s p) \<and> in_op (pcs s q) \<longrightarrow> p = q) \<and>
     (sh_txMu (shm s) \<longleftrightarrow> sh_txID (shm s) \<noteq> [] \<or> (\<exists>p. in_tx (pcs s p))) \<and>
     (\<forall>p q. in_tx (pcs s p) \<and> in_tx (pcs s q) \<longrightarrow> p = q) \<and>
     (\<forall>p. in_tx (pcs s p) \<longrightarrow> sh_txID (shm s) = []) \<and>
     (\<forall>p t. validated (pcs s p) = Some t \<longrightarrow> t \<noteq> [] \<and> sh_txID (shm s) = t)"

lemma validated_op: "validated c = Some t \<Longrightarrow> in_op c"
  by (cases c) auto

lemma lock_inv_start: "lock_inv (start now)"
  by (simp add: lock_inv_def start_def)

text \<open>The invariant as seen from one goroutine: whether another one is in a section, and what the
  others have validated.\<close>

definition others :: "(nat \<Rightarrow> pc) \<Rightarrow> nat \<Rightarrow> (pc \<Rightarrow> bool) \<Rightarrow> bool" where
  "others f p P \<longleftrightarrow> (\<exists>q. q \<noteq> p \<and> P (f q))"

definition unique_others :: "(nat \<Rightarrow> pc) \<Rightarrow> nat \<Rightarrow> (pc \<Rightarrow> bool) \<Rightarrow> bool" where
  "unique_others f p P \<longleftrightarrow> (\<forall>q r. q \<noteq> p \<and> r \<noteq> p \<and> P (f q) \<and> P (f r) \<longrightarrow> q = r)"

definition seen_by :: "(nat \<Rightarrow> pc) \<Rightarrow> nat \<Rightarrow> string set" where
  "seen_by f p = {t. \<exists>q. q \<noteq> p \<and> validated (f q) = Some t}"

lemma exists_upd: "(\<exists>q. P ((f(p := c)) q)) \<longleftrightarrow> P c \<or> others f p P"
  by (auto simp: others_def)

lemma unique_upd:
  "(\<forall>q r. P ((f(p := c)) q) \<and> P ((f(p := c)) r) \<longrightarrow> q = r) \<longleftrightarrow>
   unique_others f p P \<and> \<not> (P c \<and> others f p P)"
  by (auto simp: others_def unique_others_def split: if_splits)

lemma all_upd: "(\<forall>q. P ((f(p := c)) q) \<longrightarrow> X) \<longleftrightarrow> (P c \<or> others f p P \<longrightarrow> X)"
  by (auto simp: others_def)

lemma validated_upd:
  "(\<forall>q t. validated ((f(p := c)) q) = Some t \<longrightarrow> t \<noteq> [] \<and> i = t) \<longleftrightarrow>
   (\<forall>t. validated c = Some t \<longrightarrow> t \<noteq> [] \<and> i = t) \<and> seen_by f p \<subseteq> {t. t \<noteq> [] \<and> i = t}"
  by (auto simp: seen_by_def)

lemma lock_inv_local:
  "lock_inv \<lparr>shm = h, pcs = f(p := c)\<rparr> \<longleftrightarrow>
     (sh_txOpMu h \<longleftrightarrow> in_op c \<or> others f p in_op) \<and> unique_others f p in_op \<and> \<not> (in_op c \<and> others f p in_op) \<and>
     (sh_txMu h \<longleftrightarrow> sh_txID h \<noteq> [] \<or> in_tx c \<or> others f p in_tx) \<and>
     unique_others f p in_tx \<and> \<not> (in_tx c \<and> others f p in_tx) \<and>
     (in_tx c \<or> others f p in_tx \<longrightarrow> sh_txID h = []) \<and>
     (\<forall>t. validated c = Some t \<longrightarrow> t \<noteq> [] \<and> sh_txID h = t) \<and>
     seen_by f p \<subseteq> {t. t \<noteq> [] \<and> sh_txID h = t}"
  unfolding lock_inv_def machine.simps exists_upd unique_upd all_upd validated_upd by blast

lemma seen_op: "seen_by f p \<noteq> {} \<Longrightarrow> others f p in_op"
  by (auto simp: seen_by_def others_def dest: validated_op)

lemma lock_inv_move:
  assumes "lock_inv \<lparr>shm = h, pcs = f(p := c)\<rparr>" "move T h c h' c'"
  shows "lock_inv \<lparr>shm = h', pcs = f(p := c')\<rparr>"
proof -
  note s = seen_op [of f p]
  show ?thesis
    using assms(2,1) unfolding lock_inv_local
    by (cases rule: move.cases) (use s in auto)
qed

lemma lock_inv_reach: "reach T s \<Longrightarrow> lock_inv s"
proof (induction rule: reach.induct)
  case (init now)
  then show ?case by (rule lock_inv_start)
next
  case (step s s')
  from step.hyps(2) show ?case
  proof cases
    case (go p h c)
    have "lock_inv \<lparr>shm = shm s, pcs = (pcs s)(p := pcs s p)\<rparr>"
      using step.IH by (cases s) simp
    from lock_inv_move [OF this go(2)] go(1) show ?thesis by simp
  qed
next
  case (tick s s')
  from tick.hyps(2) tick.IH show ?case by cases (simp add: lock_inv_def)
qed

definition at_unlock :: "pc \<Rightarrow> bool" where
  "at_unlock c \<longleftrightarrow> (\<exists>owner. c = Begin_sql owner) \<or> c = Write_sql \<or> (\<exists>m. c = End_unlock m)"

text \<open>C29. However the goroutines interleave: \<open>txMu\<close> and \<open>txOpMu\<close> are each held by at most one of them;
  a \<open>BEGIN\<close> or a write runs only while no transaction is open; a query that has passed the check
  of its transaction ID keeps that transaction, which nobody ends or replaces before it is done; and a
  mutex is released only by who holds it, so the process never aborts on an unlock.\<close>

theorem locks_exclude:
  assumes "reach T s" "p \<noteq> q"
  shows "\<not> (in_op (pcs s p) \<and> in_op (pcs s q)) \<and> \<not> (in_tx (pcs s p) \<and> in_tx (pcs s q)) \<and>
    (in_tx (pcs s p) \<longrightarrow> sh_txMu (shm s) \<and> sh_txID (shm s) = []) \<and>
    (\<forall>t. validated (pcs s p) = Some t \<longrightarrow> sh_txMu (shm s) \<and> sh_txID (shm s) = t \<and>
       (\<forall>h c. move T (shm s) (pcs s q) h c \<longrightarrow> sh_txID h = t)) \<and>
    (at_unlock (pcs s p) \<longrightarrow> sh_txMu (shm s)) \<and> (pcs s p = Tx_unlock \<longrightarrow> sh_txOpMu (shm s))"
proof -
  note inv = lock_inv_reach [OF assms(1), unfolded lock_inv_def]
  have keeps: "sh_txID h = t" if v: "validated (pcs s p) = Some t" and m: "move T (shm s) (pcs s q) h c" for t h c
  proof -
    have t: "t \<noteq> []" "sh_txID (shm s) = t" using inv v by blast+
    have q: "\<not> in_op (pcs s q)" "\<not> in_tx (pcs s q)"
      using inv assms(2) t validated_op [OF v] by blast+
    from m t q show ?thesis by (cases rule: move.cases) auto
  qed
  have "at_unlock c \<Longrightarrow> in_tx c" for c by (auto simp: at_unlock_def)
  moreover have "in_op Tx_unlock" by simp
  ultimately show ?thesis using inv assms(2) keeps by (metis (no_types, lifting))
qed

definition moves :: "duration \<Rightarrow> machine \<Rightarrow> nat \<Rightarrow> bool" where
  "moves T s p \<longleftrightarrow> (\<exists>h c. move T (shm s) (pcs s p) h c)"

lemma movesI: "move T (shm s) (pcs s p) h c \<Longrightarrow> moves T s p"
  by (auto simp: moves_def)

lemma moves_free:
  "moves T s p \<or> (\<exists>owner. pcs s p = Begin_lock owner) \<or> pcs s p = Write_lock \<or>
   (\<exists>t owner k. pcs s p = Tx_lock t owner k) \<or> pcs s p = Mon_lock"
proof (cases "pcs s p")
  case (Begin_store owner)
  then show ?thesis using begin_store [of "''id''" T "shm s" owner] movesI [of T s p] by simp
next
  case (Tx_check t owner k)
  then show ?thesis by (cases "sh_txID (shm s) = [] \<or> t \<noteq> sh_txID (shm s)") (auto simp: moves_def intro: move.intros)
next
  case (Tx_owner t owner k)
  then show ?thesis by (cases "owner = [] \<or> owner = sh_txOwner (shm s)") (auto simp: moves_def intro: move.intros)
next
  case (Tx_sql t k)
  then show ?thesis by (cases k) (auto simp: moves_def intro: move.intros)
next
  case Mon_load
  then show ?thesis by (cases "sh_txID (shm s) = []") (metis movesI mon_none mon_found)+
next
  case (Mon_check t)
  then show ?thesis
    by (cases "sh_now (shm s) - sh_txLastUsed (shm s) \<le> T") (metis movesI mon_pass mon_overdue not_le)+
qed (auto simp: moves_def intro: move.intros)

text \<open>Who waits for which mutex: a query with a transaction ID and the monitor for \<open>txOpMu\<close>, a \<open>BEGIN\<close> and a
  write without an ID for \<open>txMu\<close>, all of them before they hold anything.\<close>

definition waits_op :: "pc \<Rightarrow> bool" where
  "waits_op c \<longleftrightarrow> (\<exists>t owner k. c = Tx_lock t owner k) \<or> c = Mon_lock"

definition waits_tx :: "pc \<Rightarrow> bool" where
  "waits_tx c \<longleftrightarrow> (\<exists>owner. c = Begin_lock owner) \<or> c = Write_lock"

text \<open>C30. There is no deadlock. Whatever point a goroutine has reached, it can go on, with three exceptions: a query with a
  transaction ID or the monitor, at its start, waits for \<open>txOpMu\<close>, and the goroutine that holds it can go
  on; a \<open>BEGIN\<close> or a write without an ID, at its start, waits for \<open>txMu\<close>, and the goroutine that holds it can go on;
  or it waits for the end of an open transaction, and then either a goroutine that works on that transaction can go on or
  \<open>txOpMu\<close> is free for one that commits or rolls back. In particular a statement inside the open transaction, its
  commit and its rollback never wait for \<open>txMu\<close>, and no holder of one of the mutexes waits for the other.\<close>

theorem no_deadlock:
  assumes "reach T s"
  shows "moves T s p \<or>
    waits_op (pcs s p) \<and> sh_txOpMu (shm s) \<and> (\<exists>q. in_op (pcs s q) \<and> moves T s q) \<or>
    waits_tx (pcs s p) \<and> sh_txMu (shm s) \<and>
      ((\<exists>q. in_tx (pcs s q) \<and> moves T s q) \<or>
       sh_txID (shm s) \<noteq> [] \<and> (\<not> sh_txOpMu (shm s) \<or> (\<exists>q. in_op (pcs s q) \<and> moves T s q)))"
proof -
  note inv = lock_inv_reach [OF assms, unfolded lock_inv_def]
  have op: "in_op (pcs s q) \<Longrightarrow> moves T s q" and tx: "in_tx (pcs s q) \<Longrightarrow> moves T s q" for q
    using moves_free [of T s q] by auto
  consider "moves T s p" | (tx) "\<not> moves T s p" "waits_tx (pcs s p)" | (op) "\<not> moves T s p" "waits_op (pcs s p)"
    using moves_free [of T s p] unfolding waits_tx_def waits_op_def by blast
  then show ?thesis
  proof cases
    case tx
    then have "sh_txMu (shm s)" unfolding waits_tx_def by (metis begin_lock write_lock movesI)
    then show ?thesis using inv tx(2) op \<open>\<And>q. in_tx (pcs s q) \<Longrightarrow> moves T s q\<close> by blast
  next
    case op
    then have "sh_txOpMu (shm s)" unfolding waits_op_def by (metis tx_lock mon_lock movesI)
    then show ?thesis using inv op(2) \<open>\<And>q. in_op (pcs s q) \<Longrightarrow> moves T s q\<close> by blast
  qed blast
qed

section \<open>Undisturbed runs\<close>

text \<open>Steps of one goroutine with no other in between.\<close>

inductive alone :: "duration \<Rightarrow> shared \<Rightarrow> pc \<Rightarrow> shared \<Rightarrow> pc \<Rightarrow> bool" for T where
  stay: "alone T h c h c"
| also_move: "move T h c h1 c1 \<Longrightarrow> alone T h1 c1 h' c' \<Longrightarrow> alone T h c h' c'"

lemma alone_trans: "alone T h c h1 c1 \<Longrightarrow> alone T h1 c1 h' c' \<Longrightarrow> alone T h c h' c'"
  by (induction rule: alone.induct) (auto intro: alone.intros)

lemma alone_steps:
  "alone T h c h' c' \<Longrightarrow> (step T)\<^sup>*\<^sup>* \<lparr>shm = h, pcs = f(p := c)\<rparr> \<lparr>shm = h', pcs = f(p := c')\<rparr>"
proof (induction rule: alone.induct)
  case (also_move h c h1 c1 h' c')
  from go [of T "\<lparr>shm = h, pcs = f(p := c)\<rparr>" p h1 c1] also_move(1)
  have "step T \<lparr>shm = h, pcs = f(p := c)\<rparr> \<lparr>shm = h1, pcs = f(p := c1)\<rparr>" by simp
  with also_move.IH show ?case by (rule converse_rtranclp_into_rtranclp [rotated])
qed simp

lemma stop: "h = h' \<Longrightarrow> c = c' \<Longrightarrow> alone T h c h' c'"
  by (simp add: stay)

lemma alone_begin:
  assumes "\<not> sh_txMu h" "\<not> sh_sql h" "t \<noteq> []"
  shows "alone T h Idle (h\<lparr>sh_txMu := True, sh_sql := True, sh_txID := t\<rparr>) (Begin_owner owner t)"
  using assms
  by (intro also_move [OF start_begin] also_move [OF begin_lock] also_move [OF begin_ok]
      also_move [OF begin_store] stop) simp_all

lemma alone_publish:
  "alone T h (Begin_owner owner t)
     (h\<lparr>sh_txOwner := owner, sh_txLastUsed := sh_now h, sh_begun := (owner, t) # sh_begun h\<rparr>) Idle"
  by (intro also_move [OF begin_owner] also_move [OF begin_touch] stop) simp_all

definition cleared :: "shared \<Rightarrow> shared" where
  "cleared h = h\<lparr>sh_sql := False, sh_txID := [], sh_txOwner := [], sh_txLastUsed := sh_now h, sh_txMu := False\<rparr>"

lemma alone_clear:
  assumes "\<not> sh_sql h"
  shows "alone T h (End_store t m) (cleared h) (if m then Tx_unlock else Tx_touch_again)"
  by (intro also_move [OF end_store] also_move [OF end_owner] also_move [OF end_touch]
      also_move [OF end_unlock] stop) (use assms in \<open>cases h, simp_all add: cleared_def\<close>)

lemma alone_monitor:
  assumes "\<not> sh_txOpMu h" "sh_txID h \<noteq> []" "sh_now h - sh_txLastUsed h > T" "sh_sql h"
  shows "alone T h Idle (cleared h) Idle"
proof -
  let ?h = "h\<lparr>sh_txOpMu := True, sh_sql := False\<rparr>"
  have "alone T h Idle ?h (End_store (sh_txID h) True)"
    by (intro also_move [OF start_monitor] also_move [OF mon_lock] also_move [OF mon_found]
        also_move [OF mon_overdue] also_move [OF mon_ok] stop) (use assms in simp_all)
  moreover have "alone T ?h (End_store (sh_txID h) True) (cleared ?h) Tx_unlock"
    using alone_clear [of ?h T "sh_txID h" True] by simp
  moreover have "alone T (cleared ?h) Tx_unlock (cleared h) Idle"
    by (intro also_move [OF tx_unlock] stop) (use assms(1) in \<open>cases h, simp_all add: cleared_def\<close>)
  ultimately show ?thesis by (blast intro: alone_trans)
qed

lemma alone_end:
  assumes "\<not> sh_txOpMu h" "sh_txID h \<noteq> []" "sh_sql h" "valid_for h t owner" "k \<noteq> Statement"
  shows "alone T h Idle (cleared h) Idle"
proof -
  let ?h = "h\<lparr>sh_txOpMu := True, sh_txLastUsed := sh_now h, sh_sql := False\<rparr>"
  have "alone T h Idle ?h (End_store t False)"
    by (intro also_move [OF start_tx [of t T h owner k]] also_move [OF tx_lock] also_move [OF tx_found] also_move [OF tx_valid]
        also_move [OF tx_touch] also_move [OF tx_end] stop) (use assms in simp_all)
  moreover have "alone T ?h (End_store t False) (cleared ?h) Tx_touch_again"
    using alone_clear [of ?h T t False] by simp
  moreover have "alone T (cleared ?h) Tx_touch_again (cleared h) Idle"
    by (intro also_move [OF tx_touch_again] also_move [OF tx_unlock] stop)
      (use assms(1) in \<open>cases h, simp_all add: cleared_def\<close>)
  ultimately show ?thesis by (blast intro: alone_trans)
qed

text \<open>C31. A \<open>BEGIN\<close> stores the new ID before its owner and its time of last use, and holds no \<open>txOpMu\<close>
  meanwhile. On a server that has been idle for longer than the timeout, the monitor that comes in
  between finds the new transaction overdue and rolls it back; another client can then begin, and the first \<open>BEGIN\<close>, when
  it goes on, overwrites that client's ownership. Both clients have been told that their transaction has begun; neither's
  is accepted, and the second one's is open, with SQLite's, for nobody to end but the monitor.\<close>

theorem overtaken_begin:
  assumes "0 < T" "t1 \<noteq> []" "t2 \<noteq> []" "t1 \<noteq> t2" "o1 \<noteq> o2" "o2 \<noteq> []"
  shows "\<exists>s s'. reach T s \<and> pcs s = (\<lambda>_. Idle) \<and> (step T)\<^sup>*\<^sup>* s s' \<and> pcs s' = (\<lambda>_. Idle) \<and>
    sh_begun (shm s') = [(o1, t1), (o2, t2)] \<and> sh_txID (shm s') = t2 \<and> sh_sql (shm s') \<and> sh_txMu (shm s') \<and>
    \<not> valid_for (shm s') t1 o1 \<and> \<not> valid_for (shm s') t2 o2"
proof -
  let ?idle = "\<lambda>_::nat. Idle" and ?f = "(\<lambda>_::nat. Idle)(0 := Begin_owner o1 t1)"
  define h0 where "h0 = (shm (start 0))\<lparr>sh_now := T + 1\<rparr>"
  define h1 where "h1 = h0\<lparr>sh_txMu := True, sh_sql := True, sh_txID := t1\<rparr>"
  define h2 where "h2 = cleared h1"
  define h3 where "h3 = h2\<lparr>sh_txMu := True, sh_sql := True, sh_txID := t2\<rparr>"
  define h4 where "h4 = h3\<lparr>sh_txOwner := o2, sh_txLastUsed := sh_now h3, sh_begun := (o2, t2) # sh_begun h3\<rparr>"
  define h5 where "h5 = h4\<lparr>sh_txOwner := o1, sh_txLastUsed := sh_now h4, sh_begun := (o1, t1) # sh_begun h4\<rparr>"
  have idle: "?idle(p := Idle) = ?idle" "?f(1 := Idle) = ?f" "?f(2 := Idle) = ?f" for p
    by auto
  have r: "reach T \<lparr>shm = h0, pcs = ?idle\<rparr>"
    using reach.tick [OF reach.init [of T 0] tick.pass [of "start 0" "T + 1"]] assms(1)
    by (simp add: start_def h0_def)
  have "alone T h0 Idle h1 (Begin_owner o1 t1)"
    unfolding h1_def by (rule alone_begin) (simp_all add: h0_def start_def assms)
  from alone_steps [OF this, of ?idle 0]
  have s1: "(step T)\<^sup>*\<^sup>* \<lparr>shm = h0, pcs = ?idle\<rparr> \<lparr>shm = h1, pcs = ?f\<rparr>" by (simp only: idle)
  have "alone T h1 Idle h2 Idle"
    unfolding h2_def by (rule alone_monitor) (simp_all add: h1_def h0_def start_def assms)
  from alone_steps [OF this, of ?f 1]
  have s2: "(step T)\<^sup>*\<^sup>* \<lparr>shm = h1, pcs = ?f\<rparr> \<lparr>shm = h2, pcs = ?f\<rparr>" by (simp only: idle)
  have "alone T h2 Idle h3 (Begin_owner o2 t2)"
    unfolding h3_def by (rule alone_begin) (simp_all add: h2_def cleared_def assms)
  then have "alone T h2 Idle h4 Idle" unfolding h4_def by (rule alone_trans) (rule alone_publish)
  from alone_steps [OF this, of ?f 2]
  have s3: "(step T)\<^sup>*\<^sup>* \<lparr>shm = h2, pcs = ?f\<rparr> \<lparr>shm = h4, pcs = ?f\<rparr>" by (simp only: idle)
  have "alone T h4 (Begin_owner o1 t1) h5 Idle" unfolding h5_def by (rule alone_publish)
  from alone_steps [OF this, of ?idle 0]
  have s4: "(step T)\<^sup>*\<^sup>* \<lparr>shm = h4, pcs = ?f\<rparr> \<lparr>shm = h5, pcs = ?idle\<rparr>" by (simp only: idle)
  have "(step T)\<^sup>*\<^sup>* \<lparr>shm = h0, pcs = ?idle\<rparr> \<lparr>shm = h5, pcs = ?idle\<rparr>"
    by (rule rtranclp_trans [OF s1 rtranclp_trans [OF s2 rtranclp_trans [OF s3 s4]]])
  moreover have "sh_begun h5 = [(o1, t1), (o2, t2)]" "sh_txID h5 = t2" "sh_txOwner h5 = o1" "sh_sql h5" "sh_txMu h5"
    by (simp_all add: h5_def h4_def h3_def h2_def h1_def h0_def cleared_def start_def)
  ultimately show ?thesis
    using assms r by (intro exI [of _ "\<lparr>shm = h0, pcs = ?idle\<rparr>"] exI [of _ "\<lparr>shm = h5, pcs = ?idle\<rparr>"]) simp
qed

theorem overtaken_begin_witness:
  "\<exists>s s'. reach 5 s \<and> (step 5)\<^sup>*\<^sup>* s s' \<and> pcs s' = (\<lambda>_. Idle) \<and> sh_txID (shm s') = ''b'' \<and>
    sh_begun (shm s') = [(''alice'', ''a''), (''bob'', ''b'')] \<and> \<not> valid_for (shm s') ''b'' ''bob''"
  using overtaken_begin [of 5 "''a''" "''b''" "''alice''" "''bob''"] by auto

section \<open>The calls of \<open>DB.Query\<close> as runs of the machine\<close>

definition represents :: "shared \<Rightarrow> 'w DB \<Rightarrow> bool" where
  "represents h s \<longleftrightarrow> sh_txMu h = txMu s \<and> sh_txOpMu h = txOpMu s \<and>
     sh_txID h = txID s \<and> sh_txOwner h = txOwner s \<and> sh_sql h = (txID s \<noteq> [])"

lemma valid_for_validateTxID:
  "represents h s \<Longrightarrow> tx \<noteq> [] \<Longrightarrow> valid_for h tx owner \<longleftrightarrow> validateTxID tx owner s = None"
  by (auto simp: represents_def validateTxID_def Let_def)

text \<open>A call of \<open>DB.Query\<close>, as \<open>Database\<close> has it in full, is a run of one goroutine of this machine
  from \<open>Idle\<close> to \<open>Idle\<close> with the same locks, transaction and owner at both ends; it counts as a begun transaction
  exactly when its result is a \<open>begin\<close>, under the ID that was returned.\<close>

lemma calls_refine_machine:
  assumes "db_inv s" "\<forall>n. uuid_NewString E n \<noteq> []"
    and "db_Query E ctx q s = (Done r, s')" "represents h s"
  shows "\<exists>h'. alone T h Idle h' Idle \<and> represents h' s' \<and>
    sh_begun h' = (case r of
        Inl e \<Rightarrow> sh_begun h
      | Inr res \<Rightarrow> if r_Type res = QueryTypeBegin then (txOwner s', r_TxID res) # sh_begun h else sh_begun h)"
proof -
  have inv: "db_inv s'" and eff: "tx_effect s r s'"
    using query_inv [OF assms(1,2), of ctx q] wp_query_effect [OF assms(1,2), of ctx q] assms(3)
    by (auto simp: wp_def)
  note rep = assms(4) assms(1) inv
  consider (same) "txID s' = txID s" "txOwner s' = txOwner s" "\<And>res. r = Inr res \<Longrightarrow> r_Type res \<noteq> QueryTypeBegin"
    | (began) res where "r = Inr res" "r_Type res = QueryTypeBegin" "txID s = []" "txID s' = r_TxID res" "txID s' \<noteq> []"
    | (ended) "txID s \<noteq> []" "txID s' = []" "txOwner s' = []" "\<And>res. r = Inr res \<Longrightarrow> r_Type res \<noteq> QueryTypeBegin"
    using eff by (cases r) (auto simp: tx_effect_def types_neq split: if_splits)
  then show ?thesis
  proof cases
    case same
    with rep show ?thesis
      by (intro exI [of _ h]) (auto simp: represents_def db_inv_def stay split: sum.splits)
  next
    case began
    let ?h = "h\<lparr>sh_txMu := True, sh_sql := True, sh_txID := txID s'\<rparr>" and ?o = "txOwner s'"
    have "alone T h Idle ?h (Begin_owner ?o (txID s'))"
      by (rule alone_begin) (use rep began in \<open>auto simp: represents_def db_inv_def\<close>)
    from alone_trans [OF this alone_publish] show ?thesis
      using rep began
      by (intro exI [of _ "?h\<lparr>sh_txOwner := ?o, sh_txLastUsed := sh_now ?h, sh_begun := (?o, txID s') # sh_begun ?h\<rparr>"])
        (simp add: represents_def db_inv_def)
  next
    case ended
    have "alone T h Idle (cleared h) Idle"
      by (rule alone_end [of _ "sh_txID h" "[]" Commit]) (use rep ended in \<open>auto simp: represents_def db_inv_def\<close>)
    with rep ended show ?thesis
      by (intro exI [of _ "cleared h"]) (auto simp: represents_def db_inv_def cleared_def split: sum.splits)
  qed
qed

lemma calls_refine_machine_witness:
  "\<exists>h. alone 5 (shm (start 0)) Idle h Idle \<and> sh_txID h = ''id2'' \<and> sh_begun h = [([], ''id2'')]"
  using calls_refine_machine [OF mini_inv _ mini_begin, of "shm (start 0)" 5]
  by (auto simp: represents_def start_def mini_db_def fresh_DB_def mini_tx_def QueryResult0_def)

text \<open>A reachable state for the witnesses: one goroutine runs a statement of its transaction, another one
  waits to begin.\<close>

lemma reach_steps: "(step T)\<^sup>*\<^sup>* s s' \<Longrightarrow> reach T s \<Longrightarrow> reach T s'"
  by (induction rule: rtranclp_induct) (auto intro: reach.step)

lemma busy_state:
  "\<exists>s. reach 5 s \<and> pcs s 0 = Tx_sql ''a'' Statement \<and> pcs s 1 = Begin_lock []"
proof -
  let ?f = "(\<lambda>_::nat. Idle)(1 := Begin_lock [])" and ?h0 = "shm (start 0)"
  define h1 where "h1 = ?h0\<lparr>sh_txMu := True, sh_sql := True, sh_txID := ''a''\<rparr>"
  define h2 where "h2 = h1\<lparr>sh_txOwner := [], sh_txLastUsed := sh_now h1, sh_begun := ([], ''a'') # sh_begun h1\<rparr>"
  have w: "alone 5 ?h0 Idle ?h0 (Begin_lock [])"
    by (intro also_move [OF start_begin] stop) simp_all
  have "alone 5 ?h0 Idle h1 (Begin_owner [] ''a'')"
    unfolding h1_def by (rule alone_begin) (simp_all add: start_def)
  then have "alone 5 ?h0 Idle h2 Idle" unfolding h2_def by (rule alone_trans) (rule alone_publish)
  moreover have "alone 5 h2 Idle (h2\<lparr>sh_txOpMu := True, sh_txLastUsed := sh_now h2\<rparr>) (Tx_sql ''a'' Statement)"
    by (intro also_move [OF start_tx [of _ _ _ "[]"]] also_move [OF tx_lock] also_move [OF tx_found] also_move [OF tx_valid] also_move [OF tx_touch] stop)
      (simp_all add: h2_def h1_def start_def)
  ultimately have t: "alone 5 ?h0 Idle (h2\<lparr>sh_txOpMu := True, sh_txLastUsed := sh_now h2\<rparr>) (Tx_sql ''a'' Statement)"
    by (rule alone_trans)
  have idle: "(\<lambda>_. Idle)(1 := Idle) = (\<lambda>_::nat. Idle)" "?f(0 := Idle) = ?f" by auto
  have "reach 5 \<lparr>shm = ?h0, pcs = \<lambda>_. Idle\<rparr>" using reach.init [of 5 0] by (simp add: start_def)
  from reach_steps [OF alone_steps [OF w, of "\<lambda>_. Idle" 1, unfolded idle] this]
  have "reach 5 \<lparr>shm = ?h0, pcs = ?f\<rparr>" .
  from reach_steps [OF alone_steps [OF t, of ?f 0, unfolded idle] this]
  have "reach 5 \<lparr>shm = h2\<lparr>sh_txOpMu := True, sh_txLastUsed := sh_now h2\<rparr>, pcs = ?f(0 := Tx_sql ''a'' Statement)\<rparr>" .
  then show ?thesis
    by (intro exI [of _ "\<lparr>shm = h2\<lparr>sh_txOpMu := True, sh_txLastUsed := sh_now h2\<rparr>, pcs = ?f(0 := Tx_sql ''a'' Statement)\<rparr>"]) simp
qed

theorem locks_exclude_witness:
  "\<exists>s. reach 5 s \<and> pcs s 0 = Tx_sql ''a'' Statement \<and> sh_txID (shm s) = ''a'' \<and> sh_txMu (shm s) \<and>
    \<not> (\<exists>h c. move 5 (shm s) (pcs s 1) h c \<and> sh_txID h \<noteq> ''a'')"
proof -
  from busy_state obtain s where s: "reach 5 s" "pcs s 0 = Tx_sql ''a'' Statement" by blast
  with locks_exclude [OF s(1), of 0 1] show ?thesis by (intro exI [of _ s]) auto
qed

theorem no_deadlock_witness:
  "\<exists>s. reach 5 s \<and> pcs s 1 = Begin_lock [] \<and> pcs s 0 = Tx_sql ''a'' Statement \<and> moves 5 s 0 \<and> (moves 5 s 1 \<or> sh_txMu (shm s))"
proof -
  from busy_state obtain s where s: "reach 5 s" "pcs s 0 = Tx_sql ''a'' Statement" "pcs s 1 = Begin_lock []" by blast
  with no_deadlock [OF s(1), of 0] no_deadlock [OF s(1), of 1] show ?thesis
    by (intro exI [of _ s]) (auto simp: waits_op_def waits_tx_def)
qed

end
