(* ===== verification/Sqlite_Props.thy ===== *)
theory Sqlite_Props
  imports Mini_Engine
begin

text \<open>
  \<open>Conn.Query\<close> of \<open>internal/sqlite/sqlite.go\<close> returns when SQLite's statement comes to an end, and the
  shape of what it returns.
\<close>

definition rectangular :: "nat \<Rightarrow> nat \<Rightarrow> sq_result \<Rightarrow> bool" where
  "rectangular n k res \<longleftrightarrow>
     length (sr_Columns res) = k \<and> length (sr_Types res) = k \<and> list_all (\<lambda>row. length row = k) (sr_Rows res) \<and>
     length (sr_Rows res) = (if k = 0 then 0 else n)"

lemma run_stmt_returns:
  assumes "bind_params api st 0 ps w = (None, w1)" "rows_from api c st n w1"
  shows "\<exists>r w'. run_stmt api c st ps w = Some (r, w') \<and>
    (case r of Inl e \<Rightarrow> True | Inr res \<Rightarrow> rectangular n (ColumnCount api st w) res)"
proof (cases "ColumnCount api st w = 0")
  case True
  obtain r w2 where r: "drain api c st w1 = Some (r, w2)"
    using drain_returns [OF assms(2)] by fastforce
  with True assms(1) show ?thesis
    by (cases r) (simp_all add: run_stmt_def rectangular_def)
next
  case False
  let ?k = "ColumnCount api st w"
  let ?types = "map (\<lambda>i. ColumnDecltype api st i w1) [0..<?k]"
  obtain r w2 where r: "collect api c st ?k True ?types [] w1 = Some (r, w2)"
    using collect_returns [OF assms(2)] by fastforce
  show ?thesis
  proof (cases r)
    case (Inl e)
    with False r assms(1) show ?thesis by (simp add: run_stmt_def Let_def)
  next
    case (Inr tr)
    obtain types rows where tr: "tr = (types, rows)" by fastforce
    from collect_shape [OF assms(2), of ?k True ?types "[]" types rows w2] r Inr tr
    have "length types = ?k" "length rows = n" "\<forall>row \<in> set rows. length row = ?k" by auto
    with False r Inr tr assms(1) show ?thesis
      by (auto simp: run_stmt_def Let_def rectangular_def list_all_iff)
  qed
qed

text \<open>C19. A query whose parameters are accepted returns as soon as its statement comes to an end after some
  number of rows, with SQLite's last word or with an error in between. The statement has then been finalized. A result is a
  table: as many names, types and values per row as the statement has columns, one row for each that SQLite delivered, and
  no rows when the statement has no columns.\<close>

theorem query_returns:
  assumes "Prepare api c query w = (Inr st, w1)" "bind_params api st 0 ps w1 = (None, w2)"
    and "rows_from api c st n w2"
  shows "\<exists>r w3. conn_Query api c query ps w = Some (r, snd (Finalize api c st w3)) \<and>
    (case r of Inl e \<Rightarrow> True | Inr res \<Rightarrow> rectangular n (ColumnCount api st w1) res)"
  using run_stmt_returns [OF assms(2,3)] assms(1) by (auto simp: conn_Query_def)

text \<open>A \<open>SELECT\<close> of the miniature engine: one row of one column.\<close>

theorem query_returns_witness:
  "\<exists>r w. conn_Query mini_api mini_conn ''SELECT'' [] mini0 = Some (r, w) \<and>
    (case r of Inl e \<Rightarrow> True | Inr res \<Rightarrow> rectangular 1 1 res)"
proof -
  let ?w = "mini0\<lparr>m_sent := False\<rparr>"
  have p: "Prepare mini_api mini_conn ''SELECT'' mini0 = (Inr (Some 5), ?w)"
    by (simp add: Prepare_def CString_eval mini_defs mini_conn_def Let_def AuthorizerRoleAdmin_def)
  have b: "bind_params mini_api (Some 5) 0 [] ?w = (None, ?w)" by simp
  have r: "rows_from mini_api mini_conn (Some 5) (Suc 0) ?w"
    by (simp add: mini_api_def mini_step_def)
  have k: "ColumnCount mini_api (Some 5) ?w = Suc 0" by (simp add: ColumnCount_def mini_api_def)
  from query_returns [OF p b r] show ?thesis unfolding k One_nat_def by blast
qed

end
