(* ===== verification/Stats_Machine.thy ===== *)
theory Stats_Machine
  imports Stats
begin

text \<open>
  The counters of \<open>internal/stats/stats.go\<close> under concurrency: any number of goroutines count, and the cleanup
  worker deletes minutes, with every operation on the \<open>sync.Map\<close> and every atomic addition a step of its own. The map
  has pointers to counters as its values, so the counters are objects in a store.
\<close>

datatype counter = Reads | Writes | Begins | Commits | Rollbacks | Errors | HTTPRequests

fun bump :: "counter \<Rightarrow> minuteData \<Rightarrow> minuteData" where
  "bump Reads md = md\<lparr>reads := reads md + 1\<rparr>"
| "bump Writes md = md\<lparr>writes := writes md + 1\<rparr>"
| "bump Begins md = md\<lparr>begins := begins md + 1\<rparr>"
| "bump Commits md = md\<lparr>commits := commits md + 1\<rparr>"
| "bump Rollbacks md = md\<lparr>rollbacks := rollbacks md + 1\<rparr>"
| "bump Errors md = md\<lparr>errors := errors md + 1\<rparr>"
| "bump HTTPRequests md = md\<lparr>httpRequests := httpRequests md + 1\<rparr>"

fun the_counter :: "counter \<Rightarrow> minuteData \<Rightarrow> 64 word" where
  "the_counter Reads md = reads md"
| "the_counter Writes md = writes md"
| "the_counter Begins md = begins md"
| "the_counter Commits md = commits md"
| "the_counter Rollbacks md = rollbacks md"
| "the_counter Errors md = errors md"
| "the_counter HTTPRequests md = httpRequests md"

lemma the_counter_bump: "the_counter c (bump c' md) = the_counter c md + (if c = c' then 1 else 0)"
  by (cases c; cases c') simp_all

lemma the_counter_zero [simp]: "the_counter c zero_minute = 0"
  by (cases c) (simp_all add: zero_minute_def)

lemma bump_IncReads:
  "IncReads = count_in (bump Reads)" "IncWrites = count_in (bump Writes)" "IncBegins = count_in (bump Begins)"
  "IncCommits = count_in (bump Commits)" "IncRollbacks = count_in (bump Rollbacks)"
  "IncErrors = count_in (bump Errors)" "IncHTTPRequests = count_in (bump HTTPRequests)"
  unfolding stat_defs by (rule arg_cong [of _ _ count_in], simp add: fun_eq_iff)+

text \<open>Where a goroutine is in an increment: before the \<open>Load\<close> of its minute, before the \<open>LoadOrStore\<close>, before the
  addition to the counters that it was given.\<close>

datatype inc_pc =
    Resting
  | At_load string counter
  | At_store string counter
  | At_add nat string counter

text \<open>\<open>counted\<close> records the increments that have been done, \<open>dropped\<close> the minutes that the cleanup has
  deleted.\<close>

record counting =
  objects :: "nat \<Rightarrow> minuteData"
  fresh :: nat
  table :: "string \<rightharpoonup> nat"
  counted :: "(string \<times> counter) list"
  dropped :: "string set"
  incs :: "nat \<Rightarrow> inc_pc"

inductive inc_step :: "counting \<Rightarrow> counting \<Rightarrow> bool" where
  inc_start: "incs s p = Resting \<Longrightarrow> inc_step s (s\<lparr>incs := (incs s)(p := At_load k c)\<rparr>)"
| inc_hit: "incs s p = At_load k c \<Longrightarrow> table s k = Some a \<Longrightarrow> inc_step s (s\<lparr>incs := (incs s)(p := At_add a k c)\<rparr>)"
| inc_miss: "incs s p = At_load k c \<Longrightarrow> table s k = None \<Longrightarrow> inc_step s (s\<lparr>incs := (incs s)(p := At_store k c)\<rparr>)"
| inc_loaded: "incs s p = At_store k c \<Longrightarrow> table s k = Some a \<Longrightarrow>
    inc_step s (s\<lparr>incs := (incs s)(p := At_add a k c)\<rparr>)"
| inc_stored: "incs s p = At_store k c \<Longrightarrow> table s k = None \<Longrightarrow>
    inc_step s (s\<lparr>objects := (objects s)(fresh s := zero_minute), fresh := Suc (fresh s),
      table := (table s)(k \<mapsto> fresh s), incs := (incs s)(p := At_add (fresh s) k c)\<rparr>)"
| inc_add: "incs s p = At_add a k c \<Longrightarrow>
    inc_step s (s\<lparr>objects := (objects s)(a := bump c (objects s a)), counted := (k, c) # counted s,
      incs := (incs s)(p := Resting)\<rparr>)"
| inc_cleanup: "inc_step s (s\<lparr>table := (table s)(k := None), dropped := insert k (dropped s)\<rparr>)"

definition inc_start_state :: counting where
  "inc_start_state = \<lparr>objects = (\<lambda>_. zero_minute), fresh = 0, table = Map.empty, counted = [], dropped = {},
     incs = (\<lambda>_. Resting)\<rparr>"

abbreviation inc_reach :: "counting \<Rightarrow> bool" where
  "inc_reach s \<equiv> inc_step\<^sup>*\<^sup>* inc_start_state s"

section \<open>No increment is lost\<close>

definition shown :: "counting \<Rightarrow> string \<Rightarrow> counter \<Rightarrow> 64 word" where
  "shown s k c = (case table s k of None \<Rightarrow> 0 | Some a \<Rightarrow> the_counter c (objects s a))"

definition table_ok :: "counting \<Rightarrow> bool" where
  "table_ok s \<longleftrightarrow>
     (\<forall>k a. table s k = Some a \<longrightarrow> a < fresh s) \<and>
     (\<forall>k k' a. table s k = Some a \<and> table s k' = Some a \<longrightarrow> k = k')"

definition adding_ok :: "counting \<Rightarrow> bool" where
  "adding_ok s \<longleftrightarrow> (\<forall>p a k c. incs s p = At_add a k c \<longrightarrow>
     a < fresh s \<and> (k \<notin> dropped s \<longrightarrow> table s k = Some a) \<and> (\<forall>k'. table s k' = Some a \<longrightarrow> k' = k))"

definition counts_ok :: "counting \<Rightarrow> bool" where
  "counts_ok s \<longleftrightarrow> (\<forall>k c. k \<notin> dropped s \<longrightarrow> shown s k c = of_nat (count_list (counted s) (k, c)))"

lemma table_ok_step: "inc_step s s' \<Longrightarrow> table_ok s \<Longrightarrow> table_ok s'"
proof (induction rule: inc_step.induct)
  case (inc_stored s p k c)
  then have "table s k' \<noteq> Some (fresh s)" for k' by (auto simp: table_ok_def)
  with inc_stored show ?case by (auto simp: table_ok_def less_Suc_eq split: if_splits)
qed (auto simp: table_ok_def split: if_splits)

lemma adding_ok_step: "inc_step s s' \<Longrightarrow> table_ok s \<Longrightarrow> adding_ok s \<Longrightarrow> adding_ok s'"
proof (induction rule: inc_step.induct)
  case (inc_stored s p k c)
  have "k \<in> dropped s" if "incs s q = At_add a k c'" for q a c'
    using inc_stored.hyps(2) inc_stored.prems(2) that unfolding adding_ok_def by (metis option.distinct(1))
  moreover have "a < fresh s" if "incs s q = At_add a k' c'" for q a k' c'
    using inc_stored.prems(2) that unfolding adding_ok_def by metis
  moreover have "table s k' \<noteq> Some (fresh s)" for k' using inc_stored.prems(1) by (auto simp: table_ok_def)
  ultimately show ?case
    using inc_stored.prems(2) unfolding adding_ok_def by (auto simp: less_Suc_eq split: if_splits) (metis less_irrefl)+
qed (auto simp: table_ok_def adding_ok_def split: if_splits)

lemma counts_ok_step: "inc_step s s' \<Longrightarrow> table_ok s \<Longrightarrow> adding_ok s \<Longrightarrow> counts_ok s \<Longrightarrow> counts_ok s'"
proof (induction rule: inc_step.induct)
  case (inc_stored s p k c)
  then have "table s k' \<noteq> Some (fresh s)" for k' by (auto simp: table_ok_def)
  with inc_stored show ?case by (auto simp: counts_ok_def shown_def split: option.splits)
next
  case (inc_add s p a k c)
  show ?case
    unfolding counts_ok_def
  proof (intro allI impI)
    fix k' c'
    let ?s = "s\<lparr>objects := (objects s)(a := bump c (objects s a)), counted := (k, c) # counted s, incs := (incs s)(p := Resting)\<rparr>"
    assume d: "k' \<notin> dropped ?s"
    have a: "k' = k \<Longrightarrow> table s k' = Some a" "table s k' = Some a \<Longrightarrow> k' = k"
      using inc_add d by (auto simp: adding_ok_def)
    have "shown s k' c' = of_nat (count_list (counted s) (k', c'))"
      using inc_add d by (simp add: counts_ok_def)
    then show "shown ?s k' c' = of_nat (count_list (counted ?s) (k', c'))"
      using a by (cases "table s k'") (auto simp: shown_def the_counter_bump)
  qed
qed (auto simp: counts_ok_def shown_def split: option.splits)

lemma counting_reach: "inc_reach s \<Longrightarrow> table_ok s \<and> adding_ok s \<and> counts_ok s"
proof (induction rule: rtranclp_induct)
  case base
  show ?case
    by (simp add: inc_start_state_def table_ok_def adding_ok_def counts_ok_def shown_def)
next
  case (step s s')
  then show ?case using table_ok_step adding_ok_step counts_ok_step by blast
qed

text \<open>C27. However the goroutines interleave, no increment is lost and none counts twice: the counters
  that the table shows for a minute are the numbers of increments that have been done in it, one by one (modulo 2 to the 64), also
  when two goroutines create the minute at the same time. Only what is counted in a minute that the cleanup has deleted
  may be missing.\<close>

theorem increments_not_lost:
  assumes "inc_reach s" "k \<notin> dropped s"
  shows "shown s k c = of_nat (count_list (counted s) (k, c)) \<and>
    (\<forall>p a c'. incs s p = At_add a k c' \<longrightarrow> table s k = Some a)"
  using counting_reach [OF assms(1)] assms(2) by (auto simp: counts_ok_def adding_ok_def)

text \<open>Two goroutines that both find no entry for a minute: the second one adds to the first one's counters.\<close>

theorem increments_not_lost_witness:
  "\<exists>s. inc_reach s \<and> counted s = [(''m'', Reads), (''m'', Reads)] \<and> shown s ''m'' Reads = 2"
proof -
  let ?m = "''m''"
  let ?s1 = "inc_start_state\<lparr>incs := (\<lambda>_. Resting)(0 := At_load ?m Reads)\<rparr>"
  let ?s2 = "?s1\<lparr>incs := (incs ?s1)(1 := At_load ?m Reads)\<rparr>"
  let ?s3 = "?s2\<lparr>incs := (incs ?s2)(0 := At_store ?m Reads)\<rparr>"
  let ?s4 = "?s3\<lparr>incs := (incs ?s3)(1 := At_store ?m Reads)\<rparr>"
  let ?s5 = "?s4\<lparr>objects := (objects ?s4)(0 := zero_minute), fresh := Suc 0,
      table := [?m \<mapsto> 0], incs := (incs ?s4)(0 := At_add 0 ?m Reads)\<rparr>"
  let ?s6 = "?s5\<lparr>incs := (incs ?s5)(1 := At_add 0 ?m Reads)\<rparr>"
  let ?s7 = "?s6\<lparr>objects := (objects ?s6)(0 := bump Reads (objects ?s6 0)), counted := [(?m, Reads)],
      incs := (incs ?s6)(0 := Resting)\<rparr>"
  let ?s8 = "?s7\<lparr>objects := (objects ?s7)(0 := bump Reads (objects ?s7 0)), counted := [(?m, Reads), (?m, Reads)],
      incs := (incs ?s7)(1 := Resting)\<rparr>"
  have "inc_step inc_start_state ?s1" using inc_start [of inc_start_state 0 ?m Reads] by (simp add: inc_start_state_def)
  moreover have "inc_step ?s1 ?s2" using inc_start [of ?s1 1 ?m Reads] by (simp add: inc_start_state_def)
  moreover have "inc_step ?s2 ?s3" using inc_miss [of ?s2 0 ?m Reads] by (simp add: inc_start_state_def)
  moreover have "inc_step ?s3 ?s4" using inc_miss [of ?s3 1 ?m Reads] by (simp add: inc_start_state_def)
  moreover have "inc_step ?s4 ?s5" using inc_stored [of ?s4 0 ?m Reads] by (simp add: inc_start_state_def)
  moreover have "inc_step ?s5 ?s6" using inc_loaded [of ?s5 1 ?m Reads 0] by (simp add: inc_start_state_def)
  moreover have "inc_step ?s6 ?s7" using inc_add [of ?s6 0 0 ?m Reads] by (simp add: inc_start_state_def)
  moreover have "inc_step ?s7 ?s8" using inc_add [of ?s7 1 0 ?m Reads] by (simp add: inc_start_state_def)
  ultimately have r: "inc_reach ?s8"
    by (meson converse_rtranclp_into_rtranclp rtranclp.rtrancl_refl)
  have "?m \<notin> dropped ?s8" "counted ?s8 = [(?m, Reads), (?m, Reads)]" by (simp_all add: inc_start_state_def)
  with increments_not_lost [OF r, of ?m Reads] r show ?thesis by (intro exI [of _ ?s8]) simp
qed

end
