(* ===== verification/Vdl_Output.thy ===== *)
theory Vdl_Output
  imports Vdl
begin

text \<open>
  The other half of \<open>internal/vdl/types.go\<close> and \<open>enums.go\<close>: strict decoding of the outputs, as a client of
  the generated package does it, and of the objects that describe the schema; encoding and decoding
  of the enumerations. As for requests, the JSON package fills the \<open>pre\<close> structures. A JSON
  object that is decoded into a map is the list of its entries in the order in which Go visits them.
\<close>

section \<open>Enumerations\<close>

definition AuthRoleList :: "AuthRole list" where
  "AuthRoleList = [AuthRoleAdmin, AuthRoleReadWrite, AuthRoleReadOnly]"

definition SqliteStorageClassList :: "SqliteStorageClass list" where
  "SqliteStorageClassList = [SqliteStorageClassNull, SqliteStorageClassInteger, SqliteStorageClassReal,
     SqliteStorageClassText, SqliteStorageClassBlob]"

text \<open>\<open>Marshal\<close> and \<open>unmarshal\<close> of a string are the JSON package's, \<open>Quote\<close> is the verb \<open>%q\<close>.\<close>

definition marshal_enum ::
  "(string \<Rightarrow> bool) \<Rightarrow> string \<Rightarrow> (string \<Rightarrow> string) \<Rightarrow> (string \<Rightarrow> go_error + bytes) \<Rightarrow> string \<Rightarrow> go_error + bytes" where
  "marshal_enum valid name Quote marshal e =
     (if \<not> valid e then
        Inl (ErrorString (''cannot marshal invalid value '' @ Quote e @ '' for '' @ name @ '' enum''))
      else marshal e)"

definition unmarshal_enum ::
  "(string \<Rightarrow> bool) \<Rightarrow> string \<Rightarrow> (string \<Rightarrow> string) \<Rightarrow> (bytes \<Rightarrow> go_error + string) \<Rightarrow> bytes \<Rightarrow> go_error + string" where
  "unmarshal_enum valid name Quote unmarshal d =
     (case unmarshal d of
        Inl e \<Rightarrow> Inl e
      | Inr v \<Rightarrow> if \<not> valid v then Inl (ErrorString (''invalid value '' @ Quote v @ '' for '' @ name @ '' enum'')) else Inr v)"

definition MarshalJSON_AuthRole where
  "MarshalJSON_AuthRole = marshal_enum AuthRole_IsValid ''AuthRole''"
definition UnmarshalJSON_AuthRole where
  "UnmarshalJSON_AuthRole = unmarshal_enum AuthRole_IsValid ''AuthRole''"
definition MarshalJSON_QueryResultType where
  "MarshalJSON_QueryResultType = marshal_enum QueryResultType_IsValid ''QueryResultType''"
definition UnmarshalJSON_QueryResultType where
  "UnmarshalJSON_QueryResultType = unmarshal_enum QueryResultType_IsValid ''QueryResultType''"
definition MarshalJSON_SqliteStorageClass where
  "MarshalJSON_SqliteStorageClass = marshal_enum SqliteStorageClass_IsValid ''SqliteStorageClass''"
definition UnmarshalJSON_SqliteStorageClass where
  "UnmarshalJSON_SqliteStorageClass = unmarshal_enum SqliteStorageClass_IsValid ''SqliteStorageClass''"

text \<open>An enumeration as its list, its check and its two encodings; what is encoded is decoded to itself, and nothing else is.\<close>

locale enumeration =
  fixes members :: "string list" and valid :: "string \<Rightarrow> bool" and name :: string
  assumes valid_members: "valid e \<longleftrightarrow> e \<in> set members"
begin

lemma members_encoded:
  assumes "\<And>s. \<exists>d. marshal s = Inr d \<and> unmarshal d = Inr s"
  shows "(\<exists>d. marshal_enum valid name Quote marshal e = Inr d \<and> unmarshal_enum valid name Quote unmarshal d = Inr e) \<longleftrightarrow>
    e \<in> set members"
  using assms [of e] by (auto simp: marshal_enum_def unmarshal_enum_def valid_members)

lemma decoded_member:
  "unmarshal_enum valid name Quote unmarshal d = Inr e \<Longrightarrow> e \<in> set members"
  by (auto simp: unmarshal_enum_def valid_members split: sum.splits if_splits)

end

interpretation auth_role: enumeration AuthRoleList AuthRole_IsValid "''AuthRole''"
  by unfold_locales (auto simp: AuthRoleList_def AuthRole_IsValid_def)

interpretation query_result_type: enumeration QueryResultTypeList QueryResultType_IsValid "''QueryResultType''"
  by unfold_locales (auto simp: QueryResultTypeList_def QueryResultType_IsValid_def)

interpretation storage_class: enumeration SqliteStorageClassList SqliteStorageClass_IsValid "''SqliteStorageClass''"
  by unfold_locales (auto simp: SqliteStorageClassList_def SqliteStorageClass_IsValid_def)

section \<open>Validation\<close>

text \<open>\<open>need\<close> is the check of a required field, \<open>need_valid\<close> that of a required field with a \<open>validate\<close> of its
  own; \<open>first_error\<close> runs checks up to the first that fails.\<close>

definition need :: "'a option \<Rightarrow> string \<Rightarrow> string \<Rightarrow> go_error option" where
  "need v parentPath name = (if v = None then Some (required (field parentPath name)) else None)"

definition need_valid :: "('a \<Rightarrow> string \<Rightarrow> go_error option) \<Rightarrow> 'a option \<Rightarrow> string \<Rightarrow> string \<Rightarrow> go_error option" where
  "need_valid validate v parentPath name =
     (case v of None \<Rightarrow> Some (required (field parentPath name)) | Some x \<Rightarrow> validate x (field parentPath name))"

fun first_error :: "go_error option list \<Rightarrow> go_error option" where
  "first_error [] = None"
| "first_error (None # es) = first_error es"
| "first_error (Some e # es) = Some e"

text \<open>\<open>UnmarshalJSON\<close> of an object: \<open>unmarshal\<close> fills its \<open>pre\<close> structure.\<close>

definition UnmarshalJSON ::
  "('p \<Rightarrow> string \<Rightarrow> go_error option) \<Rightarrow> ('p \<Rightarrow> 'x) \<Rightarrow> (bytes \<Rightarrow> go_error + 'p) \<Rightarrow> bytes \<Rightarrow> go_error + 'x" where
  "UnmarshalJSON validate transform unmarshal d =
     (case unmarshal d of
        Inl e \<Rightarrow> Inl e
      | Inr pre \<Rightarrow> (case validate pre [] of Some e \<Rightarrow> Inl e | None \<Rightarrow> Inr (transform pre)))"

section \<open>The outputs\<close>

record preQueryResult =
  pr_Type :: "QueryResultType option"
  pr_Time :: "int option"
  pr_Error :: "string option"
  pr_TxId :: "string option"
  pr_LastInsertId :: "64 word option"
  pr_RowsAffected :: "64 word option"
  pr_Columns :: "string list option"
  pr_Types :: "SqliteStorageClass list option"
  pr_Rows :: "SqliteValue list list option"

definition validate_preQueryResult :: "preQueryResult \<Rightarrow> string \<Rightarrow> go_error option" where
  "validate_preQueryResult p path = first_error [need (pr_Type p) path ''type'', need (pr_Time p) path ''time'']"

definition transform_preQueryResult :: "preQueryResult \<Rightarrow> vdl_QueryResult" where
  "transform_preQueryResult p =
     \<lparr>vr_Type = the (pr_Type p), vr_Time = the (pr_Time p), vr_Error = pr_Error p, vr_TxId = pr_TxId p,
      vr_LastInsertId = pr_LastInsertId p, vr_RowsAffected = pr_RowsAffected p, vr_Columns = pr_Columns p,
      vr_Types = pr_Types p, vr_Rows = pr_Rows p\<rparr>"

record preDatabaseQueryOutput =
  po_Time :: "int option"
  po_Results :: "preQueryResult list option"

definition validate_preDatabaseQueryOutput :: "preDatabaseQueryOutput \<Rightarrow> string \<Rightarrow> go_error option" where
  "validate_preDatabaseQueryOutput p path = first_error
     [need (po_Time p) path ''time'',
      need_valid (\<lambda>rs path. validate_items validate_preQueryResult path 0 rs) (po_Results p) path ''results'']"

definition transform_preDatabaseQueryOutput :: "preDatabaseQueryOutput \<Rightarrow> DatabaseQueryOutput" where
  "transform_preDatabaseQueryOutput p =
     \<lparr>o_Time = the (po_Time p), o_Results = map transform_preQueryResult (the (po_Results p))\<rparr>"

record preStatsTotalsCounters =
  pc_Reads :: "64 word option"
  pc_Writes :: "64 word option"
  pc_Begins :: "64 word option"
  pc_Commits :: "64 word option"
  pc_Rollbacks :: "64 word option"
  pc_Errors :: "64 word option"
  pc_HttpRequests :: "64 word option"

definition validate_preStatsTotalsCounters :: "preStatsTotalsCounters \<Rightarrow> string \<Rightarrow> go_error option" where
  "validate_preStatsTotalsCounters p path = first_error
     [need (pc_Reads p) path ''reads'', need (pc_Writes p) path ''writes'', need (pc_Begins p) path ''begins'',
      need (pc_Commits p) path ''commits'', need (pc_Rollbacks p) path ''rollbacks'', need (pc_Errors p) path ''errors'',
      need (pc_HttpRequests p) path ''httpRequests'']"

definition transform_preStatsTotalsCounters :: "preStatsTotalsCounters \<Rightarrow> StatsTotalsCounters" where
  "transform_preStatsTotalsCounters p =
     \<lparr>vc_Reads = the (pc_Reads p), vc_Writes = the (pc_Writes p), vc_Begins = the (pc_Begins p),
      vc_Commits = the (pc_Commits p), vc_Rollbacks = the (pc_Rollbacks p), vc_Errors = the (pc_Errors p),
      vc_HttpRequests = the (pc_HttpRequests p)\<rparr>"

record preStatsQueuedCounters =
  pk_Begins :: "64 word option"
  pk_Writes :: "64 word option"
  pk_HttpRequests :: "64 word option"

definition validate_preStatsQueuedCounters :: "preStatsQueuedCounters \<Rightarrow> string \<Rightarrow> go_error option" where
  "validate_preStatsQueuedCounters p path = first_error
     [need (pk_Begins p) path ''begins'', need (pk_Writes p) path ''writes'',
      need (pk_HttpRequests p) path ''httpRequests'']"

definition transform_preStatsQueuedCounters :: "preStatsQueuedCounters \<Rightarrow> StatsQueuedCounters" where
  "transform_preStatsQueuedCounters p =
     \<lparr>vk_Begins = the (pk_Begins p), vk_Writes = the (pk_Writes p), vk_HttpRequests = the (pk_HttpRequests p)\<rparr>"

record preStats =
  ps_StartedAt :: "int option"
  ps_UptimeSeconds :: "int option"
  ps_Totals :: "preStatsTotalsCounters option"
  ps_Queued :: "preStatsQueuedCounters option"
  ps_Minutes :: "(string \<times> preStatsTotalsCounters) list option"

text \<open>\<open>for key, value := range m { if err := value.validate(path["key"]); err != nil { return err } }\<close>\<close>

definition validate_entries ::
  "(string \<Rightarrow> string) \<Rightarrow> ('a \<Rightarrow> string \<Rightarrow> go_error option) \<Rightarrow> (string \<times> 'a) list \<Rightarrow> string \<Rightarrow> go_error option" where
  "validate_entries Quote v m path = first_error (map (\<lambda>(key, x). v x (path @ ''['' @ Quote key @ '']'')) m)"

definition validate_preStats :: "(string \<Rightarrow> string) \<Rightarrow> preStats \<Rightarrow> string \<Rightarrow> go_error option" where
  "validate_preStats Quote p path = first_error
     [need (ps_StartedAt p) path ''startedAt'', need (ps_UptimeSeconds p) path ''uptimeSeconds'',
      need_valid validate_preStatsTotalsCounters (ps_Totals p) path ''totals'',
      need_valid validate_preStatsQueuedCounters (ps_Queued p) path ''queued'',
      need_valid (validate_entries Quote validate_preStatsTotalsCounters) (ps_Minutes p) path ''minutes'']"

definition transform_preStats :: "preStats \<Rightarrow> vdl_Stats" where
  "transform_preStats p =
     \<lparr>vs_StartedAt = the (ps_StartedAt p), vs_UptimeSeconds = the (ps_UptimeSeconds p),
      vs_Totals = transform_preStatsTotalsCounters (the (ps_Totals p)),
      vs_Queued = transform_preStatsQueuedCounters (the (ps_Queued p)),
      vs_Minutes = foldl (\<lambda>m (key, x). m(key \<mapsto> transform_preStatsTotalsCounters x)) Map.empty (the (ps_Minutes p))\<rparr>"

record preSystemHealthOutput =
  ph_Healthy :: "bool option"
  ph_Database :: "bool option"
  ph_Message :: "string option"

definition validate_preSystemHealthOutput :: "preSystemHealthOutput \<Rightarrow> string \<Rightarrow> go_error option" where
  "validate_preSystemHealthOutput p path = first_error
     [need (ph_Healthy p) path ''healthy'', need (ph_Database p) path ''database'', need (ph_Message p) path ''message'']"

definition transform_preSystemHealthOutput :: "preSystemHealthOutput \<Rightarrow> SystemHealthOutput" where
  "transform_preSystemHealthOutput p =
     \<lparr>h_Healthy = the (ph_Healthy p), h_Database = the (ph_Database p), h_Message = the (ph_Message p)\<rparr>"

text \<open>\<open>SystemSessionOutput\<close> has one field, the role, and is modelled by it.\<close>

record preSystemSessionOutput =
  pn_Role :: "AuthRole option"

definition validate_preSystemSessionOutput :: "preSystemSessionOutput \<Rightarrow> string \<Rightarrow> go_error option" where
  "validate_preSystemSessionOutput p path = first_error [need (pn_Role p) path ''role'']"

definition transform_preSystemSessionOutput :: "preSystemSessionOutput \<Rightarrow> AuthRole" where
  "transform_preSystemSessionOutput p = the (pn_Role p)"

record preSystemStatusOutput =
  py_Name :: "string option"
  py_Version :: "string option"
  py_Stats :: "preStats option"

definition validate_preSystemStatusOutput ::
  "(string \<Rightarrow> string) \<Rightarrow> preSystemStatusOutput \<Rightarrow> string \<Rightarrow> go_error option" where
  "validate_preSystemStatusOutput Quote p path = first_error
     [need (py_Name p) path ''name'', need (py_Version p) path ''version'',
      need_valid (validate_preStats Quote) (py_Stats p) path ''stats'']"

definition transform_preSystemStatusOutput :: "preSystemStatusOutput \<Rightarrow> SystemStatusOutput" where
  "transform_preSystemStatusOutput p =
     \<lparr>y_Name = the (py_Name p), y_Version = the (py_Version p), y_Stats = transform_preStats (the (py_Stats p))\<rparr>"

definition UnmarshalJSON_QueryResult where
  "UnmarshalJSON_QueryResult = UnmarshalJSON validate_preQueryResult transform_preQueryResult"
definition UnmarshalJSON_DatabaseQueryOutput where
  "UnmarshalJSON_DatabaseQueryOutput = UnmarshalJSON validate_preDatabaseQueryOutput transform_preDatabaseQueryOutput"
definition UnmarshalJSON_Query where
  "UnmarshalJSON_Query = UnmarshalJSON validate_preQuery transform_preQuery"
definition UnmarshalJSON_QueryParam where
  "UnmarshalJSON_QueryParam = UnmarshalJSON validate_preQueryParam transform_preQueryParam"
definition UnmarshalJSON_StatsTotalsCounters where
  "UnmarshalJSON_StatsTotalsCounters = UnmarshalJSON validate_preStatsTotalsCounters transform_preStatsTotalsCounters"
definition UnmarshalJSON_StatsQueuedCounters where
  "UnmarshalJSON_StatsQueuedCounters = UnmarshalJSON validate_preStatsQueuedCounters transform_preStatsQueuedCounters"
definition UnmarshalJSON_Stats where
  "UnmarshalJSON_Stats Quote = UnmarshalJSON (validate_preStats Quote) transform_preStats"
definition UnmarshalJSON_SystemHealthOutput where
  "UnmarshalJSON_SystemHealthOutput = UnmarshalJSON validate_preSystemHealthOutput transform_preSystemHealthOutput"
definition UnmarshalJSON_SystemSessionOutput where
  "UnmarshalJSON_SystemSessionOutput = UnmarshalJSON validate_preSystemSessionOutput transform_preSystemSessionOutput"
definition UnmarshalJSON_SystemStatusOutput where
  "UnmarshalJSON_SystemStatusOutput Quote = UnmarshalJSON (validate_preSystemStatusOutput Quote) transform_preSystemStatusOutput"

section \<open>What a structure spells\<close>

text \<open>When the fields that a JSON object had, or did not have, spell an output: every required field is
  there with its value, every optional one exactly when the output has it.\<close>

definition spells_result :: "preQueryResult \<Rightarrow> vdl_QueryResult \<Rightarrow> bool" where
  "spells_result p x \<longleftrightarrow>
     p = \<lparr>pr_Type = Some (vr_Type x), pr_Time = Some (vr_Time x), pr_Error = vr_Error x, pr_TxId = vr_TxId x,
          pr_LastInsertId = vr_LastInsertId x, pr_RowsAffected = vr_RowsAffected x, pr_Columns = vr_Columns x,
          pr_Types = vr_Types x, pr_Rows = vr_Rows x\<rparr>"

definition spells_output :: "preDatabaseQueryOutput \<Rightarrow> DatabaseQueryOutput \<Rightarrow> bool" where
  "spells_output p x \<longleftrightarrow> po_Time p = Some (o_Time x) \<and>
     (\<exists>rs. po_Results p = Some rs \<and> list_all2 spells_result rs (o_Results x))"

definition spells_totals :: "preStatsTotalsCounters \<Rightarrow> StatsTotalsCounters \<Rightarrow> bool" where
  "spells_totals p x \<longleftrightarrow>
     p = \<lparr>pc_Reads = Some (vc_Reads x), pc_Writes = Some (vc_Writes x), pc_Begins = Some (vc_Begins x),
          pc_Commits = Some (vc_Commits x), pc_Rollbacks = Some (vc_Rollbacks x), pc_Errors = Some (vc_Errors x),
          pc_HttpRequests = Some (vc_HttpRequests x)\<rparr>"

definition spells_queued :: "preStatsQueuedCounters \<Rightarrow> StatsQueuedCounters \<Rightarrow> bool" where
  "spells_queued p x \<longleftrightarrow>
     p = \<lparr>pk_Begins = Some (vk_Begins x), pk_Writes = Some (vk_Writes x), pk_HttpRequests = Some (vk_HttpRequests x)\<rparr>"

definition spells_minutes :: "(string \<times> preStatsTotalsCounters) list \<Rightarrow> (string \<rightharpoonup> StatsTotalsCounters) \<Rightarrow> bool" where
  "spells_minutes ms m \<longleftrightarrow> (\<exists>xs. m = map_of (rev xs) \<and>
     list_all2 (\<lambda>(key, p) (key', x). key = key' \<and> spells_totals p x) ms xs)"

definition spells_stats :: "preStats \<Rightarrow> vdl_Stats \<Rightarrow> bool" where
  "spells_stats p x \<longleftrightarrow> ps_StartedAt p = Some (vs_StartedAt x) \<and> ps_UptimeSeconds p = Some (vs_UptimeSeconds x) \<and>
     (\<exists>t. ps_Totals p = Some t \<and> spells_totals t (vs_Totals x)) \<and>
     (\<exists>k. ps_Queued p = Some k \<and> spells_queued k (vs_Queued x)) \<and>
     (\<exists>ms. ps_Minutes p = Some ms \<and> spells_minutes ms (vs_Minutes x))"

definition spells_health :: "preSystemHealthOutput \<Rightarrow> SystemHealthOutput \<Rightarrow> bool" where
  "spells_health p x \<longleftrightarrow>
     p = \<lparr>ph_Healthy = Some (h_Healthy x), ph_Database = Some (h_Database x), ph_Message = Some (h_Message x)\<rparr>"

definition spells_session :: "preSystemSessionOutput \<Rightarrow> AuthRole \<Rightarrow> bool" where
  "spells_session p x \<longleftrightarrow> pn_Role p = Some x"

definition spells_status :: "preSystemStatusOutput \<Rightarrow> SystemStatusOutput \<Rightarrow> bool" where
  "spells_status p x \<longleftrightarrow> py_Name p = Some (y_Name x) \<and> py_Version p = Some (y_Version x) \<and>
     (\<exists>st. py_Stats p = Some st \<and> spells_stats st (y_Stats x))"

section \<open>Decoding gives back what was sent\<close>

lemma first_error_None: "first_error es = None \<longleftrightarrow> (\<forall>e \<in> set es. e = None)"
  by (induction es rule: first_error.induct) auto

lemma need_None [simp]: "need v path name = None \<longleftrightarrow> v \<noteq> None"
  by (simp add: need_def)

text \<open>The contract of a generated object: its validation and its transformation together read the output that the
  structure spells, and refuse every structure that spells none.\<close>

locale strict_object =
  fixes validate :: "'p \<Rightarrow> string \<Rightarrow> go_error option" and transform :: "'p \<Rightarrow> 'x" and spells :: "'p \<Rightarrow> 'x \<Rightarrow> bool"
  assumes reads: "validate p path = None \<and> transform p = x \<longleftrightarrow> spells p x"
begin

lemma decodes: "UnmarshalJSON validate transform unmarshal d = Inr x \<longleftrightarrow> (\<exists>p. unmarshal d = Inr p \<and> spells p x)"
  unfolding reads [of _ "[]", symmetric]
  by (auto simp: UnmarshalJSON_def split: sum.splits option.splits)

lemma required_field:
  "need_valid validate v path name = None \<and> transform (the v) = x \<longleftrightarrow> (\<exists>p. v = Some p \<and> spells p x)"
  using reads [of _ "field path name" x] by (cases v) (auto simp: need_valid_def)

lemma accepted: "validate p path = None \<longleftrightarrow> spells p (transform p)"
  using reads by blast

lemma items:
  "validate_items validate path i ps = None \<and> map transform ps = xs \<longleftrightarrow> list_all2 spells ps xs"
proof -
  have "validate_items validate path i ps = None \<longleftrightarrow> list_all (\<lambda>p. spells p (transform p)) ps"
    by (simp add: validate_items_None accepted list_all_length)
  moreover have "list_all2 spells ps xs \<longleftrightarrow> list_all (\<lambda>p. spells p (transform p)) ps \<and> map transform ps = xs"
    unfolding reads [of _ "[]", symmetric] by (induction ps arbitrary: xs) (auto simp: list_all2_Cons1)
  ultimately show ?thesis by blast
qed

end

interpretation result: strict_object validate_preQueryResult transform_preQueryResult spells_result
  by unfold_locales
    (auto simp: validate_preQueryResult_def transform_preQueryResult_def spells_result_def first_error_None)

interpretation totals: strict_object validate_preStatsTotalsCounters transform_preStatsTotalsCounters spells_totals
  by unfold_locales
    (auto simp: validate_preStatsTotalsCounters_def transform_preStatsTotalsCounters_def spells_totals_def first_error_None)

interpretation queued: strict_object validate_preStatsQueuedCounters transform_preStatsQueuedCounters spells_queued
  by unfold_locales
    (auto simp: validate_preStatsQueuedCounters_def transform_preStatsQueuedCounters_def spells_queued_def first_error_None)

interpretation health: strict_object validate_preSystemHealthOutput transform_preSystemHealthOutput spells_health
  by unfold_locales
    (auto simp: validate_preSystemHealthOutput_def transform_preSystemHealthOutput_def spells_health_def first_error_None)

interpretation session: strict_object validate_preSystemSessionOutput transform_preSystemSessionOutput spells_session
  by unfold_locales
    (auto simp: validate_preSystemSessionOutput_def transform_preSystemSessionOutput_def spells_session_def first_error_None)

interpretation query_output: strict_object validate_preDatabaseQueryOutput transform_preDatabaseQueryOutput spells_output
proof
  fix p :: preDatabaseQueryOutput and path and x :: DatabaseQueryOutput
  let ?v = "\<lambda>rs path. validate_items validate_preQueryResult path 0 rs"
  have "need_valid ?v (po_Results p) path ''results'' = None \<and>
      map transform_preQueryResult (the (po_Results p)) = o_Results x \<longleftrightarrow>
      (\<exists>rs. po_Results p = Some rs \<and> list_all2 spells_result rs (o_Results x))"
    using result.items [of "field path ''results''" 0] by (cases "po_Results p") (auto simp: need_valid_def)
  then show "validate_preDatabaseQueryOutput p path = None \<and> transform_preDatabaseQueryOutput p = x \<longleftrightarrow> spells_output p x"
    by (cases x) (auto simp: validate_preDatabaseQueryOutput_def transform_preDatabaseQueryOutput_def spells_output_def
        first_error_None)
qed

lemma minutes_transform:
  "foldl (\<lambda>m (key, x). m(key \<mapsto> transform_preStatsTotalsCounters x)) m0 ms =
   m0 ++ map_of (rev (map (map_prod id transform_preStatsTotalsCounters) ms))"
  by (induction ms arbitrary: m0) (auto simp: map_add_def fun_eq_iff split: option.splits)

lemma minutes_read:
  "validate_entries Quote validate_preStatsTotalsCounters ms path = None \<longleftrightarrow>
   list_all2 (\<lambda>(key, p) (key', x). key = key' \<and> spells_totals p x) ms
     (map (map_prod id transform_preStatsTotalsCounters) ms)"
  by (induction ms) (auto simp: validate_entries_def first_error_None totals.accepted)

lemma minutes_only:
  "list_all2 (\<lambda>(key, p) (key', x). key = key' \<and> spells_totals p x) ms xs \<Longrightarrow>
   xs = map (map_prod id transform_preStatsTotalsCounters) ms"
  by (induction ms xs rule: list_all2_induct) (auto simp: totals.reads [of _ "[]", symmetric])

lemma minutes_spell:
  "spells_minutes ms m \<longleftrightarrow> validate_entries Quote validate_preStatsTotalsCounters ms path = None \<and>
     m = map_of (rev (map (map_prod id transform_preStatsTotalsCounters) ms))"
  unfolding minutes_read spells_minutes_def using minutes_only by blast

interpretation stats: strict_object "validate_preStats Quote" transform_preStats spells_stats for Quote
proof
  fix p :: preStats and path and x :: vdl_Stats
  have "need_valid (validate_entries Quote validate_preStatsTotalsCounters) (ps_Minutes p) path ''minutes'' = None \<and>
      foldl (\<lambda>m (key, x). m(key \<mapsto> transform_preStatsTotalsCounters x)) Map.empty (the (ps_Minutes p)) = vs_Minutes x \<longleftrightarrow>
      (\<exists>ms. ps_Minutes p = Some ms \<and> spells_minutes ms (vs_Minutes x))"
    unfolding minutes_transform
    by (cases "ps_Minutes p") (auto simp: need_valid_def minutes_spell [of _ _ Quote "field path ''minutes''"])
  moreover have "validate_preStats Quote p path = None \<longleftrightarrow> ps_StartedAt p \<noteq> None \<and> ps_UptimeSeconds p \<noteq> None \<and>
      need_valid validate_preStatsTotalsCounters (ps_Totals p) path ''totals'' = None \<and>
      need_valid validate_preStatsQueuedCounters (ps_Queued p) path ''queued'' = None \<and>
      need_valid (validate_entries Quote validate_preStatsTotalsCounters) (ps_Minutes p) path ''minutes'' = None"
    by (auto simp: validate_preStats_def first_error_None)
  ultimately show "validate_preStats Quote p path = None \<and> transform_preStats p = x \<longleftrightarrow> spells_stats p x"
    using totals.required_field [of "ps_Totals p" path "''totals''" "vs_Totals x"]
      queued.required_field [of "ps_Queued p" path "''queued''" "vs_Queued x"]
    by (cases x) (auto simp: transform_preStats_def spells_stats_def)
qed

interpretation status: strict_object "validate_preSystemStatusOutput Quote" transform_preSystemStatusOutput spells_status
  for Quote
proof
  fix p :: preSystemStatusOutput and path and x :: SystemStatusOutput
  show "validate_preSystemStatusOutput Quote p path = None \<and> transform_preSystemStatusOutput p = x \<longleftrightarrow> spells_status p x"
    using stats.required_field [of Quote "py_Stats p" path "''stats''" "y_Stats x"]
    by (cases x) (auto simp: validate_preSystemStatusOutput_def transform_preSystemStatusOutput_def spells_status_def
        first_error_None)
qed

text \<open>C20. A client that decodes an answer of the four operations gets the output that the answer spells, field by field, and
  from a structure that spells no output an error: a required field that is missing at any depth is never
  replaced by a zero value, and an optional one is there exactly when it was sent.\<close>

theorem outputs_decode_back:
  "(UnmarshalJSON_DatabaseQueryOutput unmarshal1 d = Inr result \<longleftrightarrow>
      (\<exists>p. unmarshal1 d = Inr p \<and> spells_output p result)) \<and>
   (UnmarshalJSON_SystemHealthOutput unmarshal2 d = Inr healthy \<longleftrightarrow>
      (\<exists>p. unmarshal2 d = Inr p \<and> spells_health p healthy)) \<and>
   (UnmarshalJSON_SystemSessionOutput unmarshal3 d = Inr r \<longleftrightarrow>
      (\<exists>p. unmarshal3 d = Inr p \<and> spells_session p r)) \<and>
   (UnmarshalJSON_SystemStatusOutput Quote unmarshal4 d = Inr server_status \<longleftrightarrow>
      (\<exists>p. unmarshal4 d = Inr p \<and> spells_status p server_status))"
  unfolding UnmarshalJSON_DatabaseQueryOutput_def UnmarshalJSON_SystemHealthOutput_def
    UnmarshalJSON_SystemSessionOutput_def UnmarshalJSON_SystemStatusOutput_def
  by (intro conjI query_output.decodes health.decodes session.decodes status.decodes)

end
