(* ===== verification/Vdl_Schema.thy ===== *)
theory Vdl_Schema
  imports Vdl_Output
begin

text \<open>
  The rest of \<open>internal/vdl/types.go\<close> and \<open>pointers.go\<close>: the objects that describe the two services as a whole,
  with their strict decoding, and the getters of all objects. A receiver that may be nil is an \<open>option\<close>. As in
  \<open>Vdl\<close>, \<open>DatabaseQueryInput\<close> is the list of its queries and \<open>SystemSessionOutput\<close> its role.
\<close>

section \<open>The objects of the services\<close>

record vdl_DatabaseQuery =
  dq_Input :: "vdl_Query list"
  dq_Output :: DatabaseQueryOutput

record vdl_Database =
  db_Query_field :: vdl_DatabaseQuery

record vdl_SystemHealth =
  sh_Output :: SystemHealthOutput

record vdl_SystemSession =
  se_Output :: AuthRole

record vdl_SystemStatus =
  su_Output :: SystemStatusOutput

record vdl_System =
  sy_Health :: vdl_SystemHealth
  sy_Session :: vdl_SystemSession
  sy_Status :: vdl_SystemStatus

record preDatabaseQuery =
  pdq_Input :: "preDatabaseQueryInput option"
  pdq_Output :: "preDatabaseQueryOutput option"

record preDatabase =
  pdb_Query :: "preDatabaseQuery option"

record preSystemHealth =
  psh_Output :: "preSystemHealthOutput option"

record preSystemSession =
  pse_Output :: "preSystemSessionOutput option"

record preSystemStatus =
  psu_Output :: "preSystemStatusOutput option"

record preSystem =
  psy_Health :: "preSystemHealth option"
  psy_Session :: "preSystemSession option"
  psy_Status :: "preSystemStatus option"

definition validate_preDatabaseQuery :: "preDatabaseQuery \<Rightarrow> string \<Rightarrow> go_error option" where
  "validate_preDatabaseQuery p path = first_error
     [need_valid validate_preDatabaseQueryInput (pdq_Input p) path ''input'',
      need_valid validate_preDatabaseQueryOutput (pdq_Output p) path ''output'']"

definition transform_preDatabaseQuery :: "preDatabaseQuery \<Rightarrow> vdl_DatabaseQuery" where
  "transform_preDatabaseQuery p =
     \<lparr>dq_Input = transform_preDatabaseQueryInput (the (pdq_Input p)),
      dq_Output = transform_preDatabaseQueryOutput (the (pdq_Output p))\<rparr>"

definition validate_preDatabase :: "preDatabase \<Rightarrow> string \<Rightarrow> go_error option" where
  "validate_preDatabase p path = first_error [need_valid validate_preDatabaseQuery (pdb_Query p) path ''query'']"

definition transform_preDatabase :: "preDatabase \<Rightarrow> vdl_Database" where
  "transform_preDatabase p = \<lparr>db_Query_field = transform_preDatabaseQuery (the (pdb_Query p))\<rparr>"

definition validate_preSystemHealth :: "preSystemHealth \<Rightarrow> string \<Rightarrow> go_error option" where
  "validate_preSystemHealth p path = first_error [need_valid validate_preSystemHealthOutput (psh_Output p) path ''output'']"

definition transform_preSystemHealth :: "preSystemHealth \<Rightarrow> vdl_SystemHealth" where
  "transform_preSystemHealth p = \<lparr>sh_Output = transform_preSystemHealthOutput (the (psh_Output p))\<rparr>"

definition validate_preSystemSession :: "preSystemSession \<Rightarrow> string \<Rightarrow> go_error option" where
  "validate_preSystemSession p path = first_error [need_valid validate_preSystemSessionOutput (pse_Output p) path ''output'']"

definition transform_preSystemSession :: "preSystemSession \<Rightarrow> vdl_SystemSession" where
  "transform_preSystemSession p = \<lparr>se_Output = transform_preSystemSessionOutput (the (pse_Output p))\<rparr>"

definition validate_preSystemStatus :: "(string \<Rightarrow> string) \<Rightarrow> preSystemStatus \<Rightarrow> string \<Rightarrow> go_error option" where
  "validate_preSystemStatus Quote p path = first_error
     [need_valid (validate_preSystemStatusOutput Quote) (psu_Output p) path ''output'']"

definition transform_preSystemStatus :: "preSystemStatus \<Rightarrow> vdl_SystemStatus" where
  "transform_preSystemStatus p = \<lparr>su_Output = transform_preSystemStatusOutput (the (psu_Output p))\<rparr>"

definition validate_preSystem :: "(string \<Rightarrow> string) \<Rightarrow> preSystem \<Rightarrow> string \<Rightarrow> go_error option" where
  "validate_preSystem Quote p path = first_error
     [need_valid validate_preSystemHealth (psy_Health p) path ''health'',
      need_valid validate_preSystemSession (psy_Session p) path ''session'',
      need_valid (validate_preSystemStatus Quote) (psy_Status p) path ''status'']"

definition transform_preSystem :: "preSystem \<Rightarrow> vdl_System" where
  "transform_preSystem p =
     \<lparr>sy_Health = transform_preSystemHealth (the (psy_Health p)),
      sy_Session = transform_preSystemSession (the (psy_Session p)),
      sy_Status = transform_preSystemStatus (the (psy_Status p))\<rparr>"

definition UnmarshalJSON_Database where
  "UnmarshalJSON_Database = UnmarshalJSON validate_preDatabase transform_preDatabase"
definition UnmarshalJSON_DatabaseQuery where
  "UnmarshalJSON_DatabaseQuery = UnmarshalJSON validate_preDatabaseQuery transform_preDatabaseQuery"
definition UnmarshalJSON_System where
  "UnmarshalJSON_System Quote = UnmarshalJSON (validate_preSystem Quote) transform_preSystem"
definition UnmarshalJSON_SystemHealth where
  "UnmarshalJSON_SystemHealth = UnmarshalJSON validate_preSystemHealth transform_preSystemHealth"
definition UnmarshalJSON_SystemSession where
  "UnmarshalJSON_SystemSession = UnmarshalJSON validate_preSystemSession transform_preSystemSession"
definition UnmarshalJSON_SystemStatus where
  "UnmarshalJSON_SystemStatus Quote = UnmarshalJSON (validate_preSystemStatus Quote) transform_preSystemStatus"

section \<open>Getters\<close>

text \<open>\<open>getter\<close> reads a required field and \<open>getter_opt\<close> an optional one, with the value for a nil receiver or field.\<close>

definition getter :: "('x \<Rightarrow> 'a) \<Rightarrow> 'a \<Rightarrow> 'x option \<Rightarrow> 'a" where
  "getter f d x = (case x of None \<Rightarrow> d | Some v \<Rightarrow> f v)"

definition getter_opt :: "('x \<Rightarrow> 'a option) \<Rightarrow> 'a \<Rightarrow> 'x option \<Rightarrow> 'a" where
  "getter_opt f d x = (case x of None \<Rightarrow> d | Some v \<Rightarrow> (case f v of None \<Rightarrow> d | Some a \<Rightarrow> a))"

definition Ptr :: "'a \<Rightarrow> 'a option" where
  "Ptr v = Some v"

definition Or :: "'a option \<Rightarrow> 'a \<Rightarrow> 'a" where
  "Or pointer d = (case pointer of None \<Rightarrow> d | Some v \<Rightarrow> v)"

subsection \<open>Zero values\<close>

definition zero_DatabaseQueryOutput :: DatabaseQueryOutput where
  "zero_DatabaseQueryOutput = \<lparr>o_Time = 0, o_Results = []\<rparr>"

definition zero_DatabaseQuery :: vdl_DatabaseQuery where
  "zero_DatabaseQuery = \<lparr>dq_Input = [], dq_Output = zero_DatabaseQueryOutput\<rparr>"

definition zero_StatsTotalsCounters :: StatsTotalsCounters where
  "zero_StatsTotalsCounters = \<lparr>vc_Reads = 0, vc_Writes = 0, vc_Begins = 0, vc_Commits = 0, vc_Rollbacks = 0,
     vc_Errors = 0, vc_HttpRequests = 0\<rparr>"

definition zero_StatsQueuedCounters :: StatsQueuedCounters where
  "zero_StatsQueuedCounters = \<lparr>vk_Begins = 0, vk_Writes = 0, vk_HttpRequests = 0\<rparr>"

definition zero_Stats :: vdl_Stats where
  "zero_Stats = \<lparr>vs_StartedAt = 0, vs_UptimeSeconds = 0, vs_Totals = zero_StatsTotalsCounters,
     vs_Queued = zero_StatsQueuedCounters, vs_Minutes = Map.empty\<rparr>"

definition zero_SystemHealthOutput :: SystemHealthOutput where
  "zero_SystemHealthOutput = \<lparr>h_Healthy = False, h_Database = False, h_Message = []\<rparr>"

definition zero_SystemStatusOutput :: SystemStatusOutput where
  "zero_SystemStatusOutput = \<lparr>y_Name = [], y_Version = [], y_Stats = zero_Stats\<rparr>"

subsection \<open>The getters of each object\<close>

definition Database_GetQuery :: "vdl_Database option \<Rightarrow> vdl_DatabaseQuery" where
  "Database_GetQuery x = getter db_Query_field zero_DatabaseQuery x"
definition Database_GetQueryOr :: "vdl_DatabaseQuery \<Rightarrow> vdl_Database option \<Rightarrow> vdl_DatabaseQuery" where
  "Database_GetQueryOr defaultValue x = getter db_Query_field defaultValue x"

definition DatabaseQuery_GetInput :: "vdl_DatabaseQuery option \<Rightarrow> vdl_Query list" where
  "DatabaseQuery_GetInput x = getter dq_Input [] x"
definition DatabaseQuery_GetInputOr :: "vdl_Query list \<Rightarrow> vdl_DatabaseQuery option \<Rightarrow> vdl_Query list" where
  "DatabaseQuery_GetInputOr defaultValue x = getter dq_Input defaultValue x"

definition DatabaseQuery_GetOutput :: "vdl_DatabaseQuery option \<Rightarrow> DatabaseQueryOutput" where
  "DatabaseQuery_GetOutput x = getter dq_Output zero_DatabaseQueryOutput x"
definition DatabaseQuery_GetOutputOr :: "DatabaseQueryOutput \<Rightarrow> vdl_DatabaseQuery option \<Rightarrow> DatabaseQueryOutput" where
  "DatabaseQuery_GetOutputOr defaultValue x = getter dq_Output defaultValue x"

definition DatabaseQueryInput_GetQueries :: "vdl_Query list option \<Rightarrow> vdl_Query list" where
  "DatabaseQueryInput_GetQueries x = getter (\<lambda>qs. qs) [] x"
definition DatabaseQueryInput_GetQueriesOr :: "vdl_Query list \<Rightarrow> vdl_Query list option \<Rightarrow> vdl_Query list" where
  "DatabaseQueryInput_GetQueriesOr defaultValue x = getter (\<lambda>qs. qs) defaultValue x"

definition DatabaseQueryOutput_GetTime :: "DatabaseQueryOutput option \<Rightarrow> int" where
  "DatabaseQueryOutput_GetTime x = getter o_Time 0 x"
definition DatabaseQueryOutput_GetTimeOr :: "int \<Rightarrow> DatabaseQueryOutput option \<Rightarrow> int" where
  "DatabaseQueryOutput_GetTimeOr defaultValue x = getter o_Time defaultValue x"

definition DatabaseQueryOutput_GetResults :: "DatabaseQueryOutput option \<Rightarrow> vdl_QueryResult list" where
  "DatabaseQueryOutput_GetResults x = getter o_Results [] x"
definition DatabaseQueryOutput_GetResultsOr :: "vdl_QueryResult list \<Rightarrow> DatabaseQueryOutput option \<Rightarrow> vdl_QueryResult list" where
  "DatabaseQueryOutput_GetResultsOr defaultValue x = getter o_Results defaultValue x"

definition Query_GetTxId :: "vdl_Query option \<Rightarrow> string" where
  "Query_GetTxId x = getter_opt vq_TxId [] x"
definition Query_GetTxIdOr :: "string \<Rightarrow> vdl_Query option \<Rightarrow> string" where
  "Query_GetTxIdOr defaultValue x = getter_opt vq_TxId defaultValue x"

definition Query_GetQuery :: "vdl_Query option \<Rightarrow> string" where
  "Query_GetQuery x = getter vq_Query [] x"
definition Query_GetQueryOr :: "string \<Rightarrow> vdl_Query option \<Rightarrow> string" where
  "Query_GetQueryOr defaultValue x = getter vq_Query defaultValue x"

definition Query_GetParams :: "vdl_Query option \<Rightarrow> vdl_QueryParam list" where
  "Query_GetParams x = getter_opt vq_Params [] x"
definition Query_GetParamsOr :: "vdl_QueryParam list \<Rightarrow> vdl_Query option \<Rightarrow> vdl_QueryParam list" where
  "Query_GetParamsOr defaultValue x = getter_opt vq_Params defaultValue x"

definition QueryParam_GetName :: "vdl_QueryParam option \<Rightarrow> string" where
  "QueryParam_GetName x = getter_opt vp_Name [] x"
definition QueryParam_GetNameOr :: "string \<Rightarrow> vdl_QueryParam option \<Rightarrow> string" where
  "QueryParam_GetNameOr defaultValue x = getter_opt vp_Name defaultValue x"

definition QueryParam_GetValue :: "vdl_QueryParam option \<Rightarrow> SqliteValue" where
  "QueryParam_GetValue x = getter vp_Value SqliteValue0 x"
definition QueryParam_GetValueOr :: "SqliteValue \<Rightarrow> vdl_QueryParam option \<Rightarrow> SqliteValue" where
  "QueryParam_GetValueOr defaultValue x = getter vp_Value defaultValue x"

definition QueryResult_GetType :: "vdl_QueryResult option \<Rightarrow> QueryResultType" where
  "QueryResult_GetType x = getter vr_Type [] x"
definition QueryResult_GetTypeOr :: "QueryResultType \<Rightarrow> vdl_QueryResult option \<Rightarrow> QueryResultType" where
  "QueryResult_GetTypeOr defaultValue x = getter vr_Type defaultValue x"

definition QueryResult_GetTime :: "vdl_QueryResult option \<Rightarrow> int" where
  "QueryResult_GetTime x = getter vr_Time 0 x"
definition QueryResult_GetTimeOr :: "int \<Rightarrow> vdl_QueryResult option \<Rightarrow> int" where
  "QueryResult_GetTimeOr defaultValue x = getter vr_Time defaultValue x"

definition QueryResult_GetError :: "vdl_QueryResult option \<Rightarrow> string" where
  "QueryResult_GetError x = getter_opt vr_Error [] x"
definition QueryResult_GetErrorOr :: "string \<Rightarrow> vdl_QueryResult option \<Rightarrow> string" where
  "QueryResult_GetErrorOr defaultValue x = getter_opt vr_Error defaultValue x"

definition QueryResult_GetTxId :: "vdl_QueryResult option \<Rightarrow> string" where
  "QueryResult_GetTxId x = getter_opt vr_TxId [] x"
definition QueryResult_GetTxIdOr :: "string \<Rightarrow> vdl_QueryResult option \<Rightarrow> string" where
  "QueryResult_GetTxIdOr defaultValue x = getter_opt vr_TxId defaultValue x"

definition QueryResult_GetLastInsertId :: "vdl_QueryResult option \<Rightarrow> 64 word" where
  "QueryResult_GetLastInsertId x = getter_opt vr_LastInsertId 0 x"
definition QueryResult_GetLastInsertIdOr :: "64 word \<Rightarrow> vdl_QueryResult option \<Rightarrow> 64 word" where
  "QueryResult_GetLastInsertIdOr defaultValue x = getter_opt vr_LastInsertId defaultValue x"

definition QueryResult_GetRowsAffected :: "vdl_QueryResult option \<Rightarrow> 64 word" where
  "QueryResult_GetRowsAffected x = getter_opt vr_RowsAffected 0 x"
definition QueryResult_GetRowsAffectedOr :: "64 word \<Rightarrow> vdl_QueryResult option \<Rightarrow> 64 word" where
  "QueryResult_GetRowsAffectedOr defaultValue x = getter_opt vr_RowsAffected defaultValue x"

definition QueryResult_GetColumns :: "vdl_QueryResult option \<Rightarrow> string list" where
  "QueryResult_GetColumns x = getter_opt vr_Columns [] x"
definition QueryResult_GetColumnsOr :: "string list \<Rightarrow> vdl_QueryResult option \<Rightarrow> string list" where
  "QueryResult_GetColumnsOr defaultValue x = getter_opt vr_Columns defaultValue x"

definition QueryResult_GetTypes :: "vdl_QueryResult option \<Rightarrow> SqliteStorageClass list" where
  "QueryResult_GetTypes x = getter_opt vr_Types [] x"
definition QueryResult_GetTypesOr :: "SqliteStorageClass list \<Rightarrow> vdl_QueryResult option \<Rightarrow> SqliteStorageClass list" where
  "QueryResult_GetTypesOr defaultValue x = getter_opt vr_Types defaultValue x"

definition QueryResult_GetRows :: "vdl_QueryResult option \<Rightarrow> SqliteValue list list" where
  "QueryResult_GetRows x = getter_opt vr_Rows [] x"
definition QueryResult_GetRowsOr :: "SqliteValue list list \<Rightarrow> vdl_QueryResult option \<Rightarrow> SqliteValue list list" where
  "QueryResult_GetRowsOr defaultValue x = getter_opt vr_Rows defaultValue x"

definition SqliteValue_GetNull :: "SqliteValue option \<Rightarrow> bool" where
  "SqliteValue_GetNull x = getter_opt sv_Null False x"
definition SqliteValue_GetNullOr :: "bool \<Rightarrow> SqliteValue option \<Rightarrow> bool" where
  "SqliteValue_GetNullOr defaultValue x = getter_opt sv_Null defaultValue x"

definition SqliteValue_GetInteger :: "SqliteValue option \<Rightarrow> 64 word" where
  "SqliteValue_GetInteger x = getter_opt sv_Integer 0 x"
definition SqliteValue_GetIntegerOr :: "64 word \<Rightarrow> SqliteValue option \<Rightarrow> 64 word" where
  "SqliteValue_GetIntegerOr defaultValue x = getter_opt sv_Integer defaultValue x"

definition SqliteValue_GetReal :: "SqliteValue option \<Rightarrow> 64 word" where
  "SqliteValue_GetReal x = getter_opt sv_Real 0 x"
definition SqliteValue_GetRealOr :: "64 word \<Rightarrow> SqliteValue option \<Rightarrow> 64 word" where
  "SqliteValue_GetRealOr defaultValue x = getter_opt sv_Real defaultValue x"

definition SqliteValue_GetText :: "SqliteValue option \<Rightarrow> string" where
  "SqliteValue_GetText x = getter_opt sv_Text [] x"
definition SqliteValue_GetTextOr :: "string \<Rightarrow> SqliteValue option \<Rightarrow> string" where
  "SqliteValue_GetTextOr defaultValue x = getter_opt sv_Text defaultValue x"

definition SqliteValue_GetBlob :: "SqliteValue option \<Rightarrow> string" where
  "SqliteValue_GetBlob x = getter_opt sv_Blob [] x"
definition SqliteValue_GetBlobOr :: "string \<Rightarrow> SqliteValue option \<Rightarrow> string" where
  "SqliteValue_GetBlobOr defaultValue x = getter_opt sv_Blob defaultValue x"

definition Stats_GetStartedAt :: "vdl_Stats option \<Rightarrow> int" where
  "Stats_GetStartedAt x = getter vs_StartedAt 0 x"
definition Stats_GetStartedAtOr :: "int \<Rightarrow> vdl_Stats option \<Rightarrow> int" where
  "Stats_GetStartedAtOr defaultValue x = getter vs_StartedAt defaultValue x"

definition Stats_GetUptimeSeconds :: "vdl_Stats option \<Rightarrow> int" where
  "Stats_GetUptimeSeconds x = getter vs_UptimeSeconds 0 x"
definition Stats_GetUptimeSecondsOr :: "int \<Rightarrow> vdl_Stats option \<Rightarrow> int" where
  "Stats_GetUptimeSecondsOr defaultValue x = getter vs_UptimeSeconds defaultValue x"

definition Stats_GetTotals :: "vdl_Stats option \<Rightarrow> StatsTotalsCounters" where
  "Stats_GetTotals x = getter vs_Totals zero_StatsTotalsCounters x"
definition Stats_GetTotalsOr :: "StatsTotalsCounters \<Rightarrow> vdl_Stats option \<Rightarrow> StatsTotalsCounters" where
  "Stats_GetTotalsOr defaultValue x = getter vs_Totals defaultValue x"

definition Stats_GetQueued :: "vdl_Stats option \<Rightarrow> StatsQueuedCounters" where
  "Stats_GetQueued x = getter vs_Queued zero_StatsQueuedCounters x"
definition Stats_GetQueuedOr :: "StatsQueuedCounters \<Rightarrow> vdl_Stats option \<Rightarrow> StatsQueuedCounters" where
  "Stats_GetQueuedOr defaultValue x = getter vs_Queued defaultValue x"

definition Stats_GetMinutes :: "vdl_Stats option \<Rightarrow> (string \<rightharpoonup> StatsTotalsCounters)" where
  "Stats_GetMinutes x = getter vs_Minutes Map.empty x"
definition Stats_GetMinutesOr :: "(string \<rightharpoonup> StatsTotalsCounters) \<Rightarrow> vdl_Stats option \<Rightarrow> (string \<rightharpoonup> StatsTotalsCounters)" where
  "Stats_GetMinutesOr defaultValue x = getter vs_Minutes defaultValue x"

definition StatsQueuedCounters_GetBegins :: "StatsQueuedCounters option \<Rightarrow> 64 word" where
  "StatsQueuedCounters_GetBegins x = getter vk_Begins 0 x"
definition StatsQueuedCounters_GetBeginsOr :: "64 word \<Rightarrow> StatsQueuedCounters option \<Rightarrow> 64 word" where
  "StatsQueuedCounters_GetBeginsOr defaultValue x = getter vk_Begins defaultValue x"

definition StatsQueuedCounters_GetWrites :: "StatsQueuedCounters option \<Rightarrow> 64 word" where
  "StatsQueuedCounters_GetWrites x = getter vk_Writes 0 x"
definition StatsQueuedCounters_GetWritesOr :: "64 word \<Rightarrow> StatsQueuedCounters option \<Rightarrow> 64 word" where
  "StatsQueuedCounters_GetWritesOr defaultValue x = getter vk_Writes defaultValue x"

definition StatsQueuedCounters_GetHttpRequests :: "StatsQueuedCounters option \<Rightarrow> 64 word" where
  "StatsQueuedCounters_GetHttpRequests x = getter vk_HttpRequests 0 x"
definition StatsQueuedCounters_GetHttpRequestsOr :: "64 word \<Rightarrow> StatsQueuedCounters option \<Rightarrow> 64 word" where
  "StatsQueuedCounters_GetHttpRequestsOr defaultValue x = getter vk_HttpRequests defaultValue x"

definition StatsTotalsCounters_GetReads :: "StatsTotalsCounters option \<Rightarrow> 64 word" where
  "StatsTotalsCounters_GetReads x = getter vc_Reads 0 x"
definition StatsTotalsCounters_GetReadsOr :: "64 word \<Rightarrow> StatsTotalsCounters option \<Rightarrow> 64 word" where
  "StatsTotalsCounters_GetReadsOr defaultValue x = getter vc_Reads defaultValue x"

definition StatsTotalsCounters_GetWrites :: "StatsTotalsCounters option \<Rightarrow> 64 word" where
  "StatsTotalsCounters_GetWrites x = getter vc_Writes 0 x"
definition StatsTotalsCounters_GetWritesOr :: "64 word \<Rightarrow> StatsTotalsCounters option \<Rightarrow> 64 word" where
  "StatsTotalsCounters_GetWritesOr defaultValue x = getter vc_Writes defaultValue x"

definition StatsTotalsCounters_GetBegins :: "StatsTotalsCounters option \<Rightarrow> 64 word" where
  "StatsTotalsCounters_GetBegins x = getter vc_Begins 0 x"
definition StatsTotalsCounters_GetBeginsOr :: "64 word \<Rightarrow> StatsTotalsCounters option \<Rightarrow> 64 word" where
  "StatsTotalsCounters_GetBeginsOr defaultValue x = getter vc_Begins defaultValue x"

definition StatsTotalsCounters_GetCommits :: "StatsTotalsCounters option \<Rightarrow> 64 word" where
  "StatsTotalsCounters_GetCommits x = getter vc_Commits 0 x"
definition StatsTotalsCounters_GetCommitsOr :: "64 word \<Rightarrow> StatsTotalsCounters option \<Rightarrow> 64 word" where
  "StatsTotalsCounters_GetCommitsOr defaultValue x = getter vc_Commits defaultValue x"

definition StatsTotalsCounters_GetRollbacks :: "StatsTotalsCounters option \<Rightarrow> 64 word" where
  "StatsTotalsCounters_GetRollbacks x = getter vc_Rollbacks 0 x"
definition StatsTotalsCounters_GetRollbacksOr :: "64 word \<Rightarrow> StatsTotalsCounters option \<Rightarrow> 64 word" where
  "StatsTotalsCounters_GetRollbacksOr defaultValue x = getter vc_Rollbacks defaultValue x"

definition StatsTotalsCounters_GetErrors :: "StatsTotalsCounters option \<Rightarrow> 64 word" where
  "StatsTotalsCounters_GetErrors x = getter vc_Errors 0 x"
definition StatsTotalsCounters_GetErrorsOr :: "64 word \<Rightarrow> StatsTotalsCounters option \<Rightarrow> 64 word" where
  "StatsTotalsCounters_GetErrorsOr defaultValue x = getter vc_Errors defaultValue x"

definition StatsTotalsCounters_GetHttpRequests :: "StatsTotalsCounters option \<Rightarrow> 64 word" where
  "StatsTotalsCounters_GetHttpRequests x = getter vc_HttpRequests 0 x"
definition StatsTotalsCounters_GetHttpRequestsOr :: "64 word \<Rightarrow> StatsTotalsCounters option \<Rightarrow> 64 word" where
  "StatsTotalsCounters_GetHttpRequestsOr defaultValue x = getter vc_HttpRequests defaultValue x"

definition System_GetHealth :: "vdl_System option \<Rightarrow> vdl_SystemHealth" where
  "System_GetHealth x = getter sy_Health \<lparr>sh_Output = zero_SystemHealthOutput\<rparr> x"
definition System_GetHealthOr :: "vdl_SystemHealth \<Rightarrow> vdl_System option \<Rightarrow> vdl_SystemHealth" where
  "System_GetHealthOr defaultValue x = getter sy_Health defaultValue x"

definition System_GetSession :: "vdl_System option \<Rightarrow> vdl_SystemSession" where
  "System_GetSession x = getter sy_Session \<lparr>se_Output = []\<rparr> x"
definition System_GetSessionOr :: "vdl_SystemSession \<Rightarrow> vdl_System option \<Rightarrow> vdl_SystemSession" where
  "System_GetSessionOr defaultValue x = getter sy_Session defaultValue x"

definition System_GetStatus :: "vdl_System option \<Rightarrow> vdl_SystemStatus" where
  "System_GetStatus x = getter sy_Status \<lparr>su_Output = zero_SystemStatusOutput\<rparr> x"
definition System_GetStatusOr :: "vdl_SystemStatus \<Rightarrow> vdl_System option \<Rightarrow> vdl_SystemStatus" where
  "System_GetStatusOr defaultValue x = getter sy_Status defaultValue x"

definition SystemHealth_GetOutput :: "vdl_SystemHealth option \<Rightarrow> SystemHealthOutput" where
  "SystemHealth_GetOutput x = getter sh_Output zero_SystemHealthOutput x"
definition SystemHealth_GetOutputOr :: "SystemHealthOutput \<Rightarrow> vdl_SystemHealth option \<Rightarrow> SystemHealthOutput" where
  "SystemHealth_GetOutputOr defaultValue x = getter sh_Output defaultValue x"

definition SystemHealthOutput_GetHealthy :: "SystemHealthOutput option \<Rightarrow> bool" where
  "SystemHealthOutput_GetHealthy x = getter h_Healthy False x"
definition SystemHealthOutput_GetHealthyOr :: "bool \<Rightarrow> SystemHealthOutput option \<Rightarrow> bool" where
  "SystemHealthOutput_GetHealthyOr defaultValue x = getter h_Healthy defaultValue x"

definition SystemHealthOutput_GetDatabase :: "SystemHealthOutput option \<Rightarrow> bool" where
  "SystemHealthOutput_GetDatabase x = getter h_Database False x"
definition SystemHealthOutput_GetDatabaseOr :: "bool \<Rightarrow> SystemHealthOutput option \<Rightarrow> bool" where
  "SystemHealthOutput_GetDatabaseOr defaultValue x = getter h_Database defaultValue x"

definition SystemHealthOutput_GetMessage :: "SystemHealthOutput option \<Rightarrow> string" where
  "SystemHealthOutput_GetMessage x = getter h_Message [] x"
definition SystemHealthOutput_GetMessageOr :: "string \<Rightarrow> SystemHealthOutput option \<Rightarrow> string" where
  "SystemHealthOutput_GetMessageOr defaultValue x = getter h_Message defaultValue x"

definition SystemSession_GetOutput :: "vdl_SystemSession option \<Rightarrow> AuthRole" where
  "SystemSession_GetOutput x = getter se_Output [] x"
definition SystemSession_GetOutputOr :: "AuthRole \<Rightarrow> vdl_SystemSession option \<Rightarrow> AuthRole" where
  "SystemSession_GetOutputOr defaultValue x = getter se_Output defaultValue x"

definition SystemSessionOutput_GetRole :: "AuthRole option \<Rightarrow> AuthRole" where
  "SystemSessionOutput_GetRole x = getter (\<lambda>r. r) [] x"
definition SystemSessionOutput_GetRoleOr :: "AuthRole \<Rightarrow> AuthRole option \<Rightarrow> AuthRole" where
  "SystemSessionOutput_GetRoleOr defaultValue x = getter (\<lambda>r. r) defaultValue x"

definition SystemStatus_GetOutput :: "vdl_SystemStatus option \<Rightarrow> SystemStatusOutput" where
  "SystemStatus_GetOutput x = getter su_Output zero_SystemStatusOutput x"
definition SystemStatus_GetOutputOr :: "SystemStatusOutput \<Rightarrow> vdl_SystemStatus option \<Rightarrow> SystemStatusOutput" where
  "SystemStatus_GetOutputOr defaultValue x = getter su_Output defaultValue x"

definition SystemStatusOutput_GetName :: "SystemStatusOutput option \<Rightarrow> string" where
  "SystemStatusOutput_GetName x = getter y_Name [] x"
definition SystemStatusOutput_GetNameOr :: "string \<Rightarrow> SystemStatusOutput option \<Rightarrow> string" where
  "SystemStatusOutput_GetNameOr defaultValue x = getter y_Name defaultValue x"

definition SystemStatusOutput_GetVersion :: "SystemStatusOutput option \<Rightarrow> string" where
  "SystemStatusOutput_GetVersion x = getter y_Version [] x"
definition SystemStatusOutput_GetVersionOr :: "string \<Rightarrow> SystemStatusOutput option \<Rightarrow> string" where
  "SystemStatusOutput_GetVersionOr defaultValue x = getter y_Version defaultValue x"

definition SystemStatusOutput_GetStats :: "SystemStatusOutput option \<Rightarrow> vdl_Stats" where
  "SystemStatusOutput_GetStats x = getter y_Stats zero_Stats x"
definition SystemStatusOutput_GetStatsOr :: "vdl_Stats \<Rightarrow> SystemStatusOutput option \<Rightarrow> vdl_Stats" where
  "SystemStatusOutput_GetStatsOr defaultValue x = getter y_Stats defaultValue x"

section \<open>Decoding gives back what was sent\<close>

definition spells_param :: "preQueryParam \<Rightarrow> vdl_QueryParam \<Rightarrow> bool" where
  "spells_param p x \<longleftrightarrow> p = \<lparr>pp_Name = vp_Name x, pp_Value = Some (vp_Value x)\<rparr>"

definition spells_query :: "preQuery \<Rightarrow> vdl_Query \<Rightarrow> bool" where
  "spells_query p x \<longleftrightarrow> pq_TxId p = vq_TxId x \<and> pq_Query p = Some (vq_Query x) \<and>
     rel_option (list_all2 spells_param) (pq_Params p) (vq_Params x)"

definition spells_input :: "preDatabaseQueryInput \<Rightarrow> vdl_Query list \<Rightarrow> bool" where
  "spells_input p x \<longleftrightarrow> (\<exists>qs. pi_Queries p = Some qs \<and> list_all2 spells_query qs x)"

interpretation param_object: strict_object validate_preQueryParam transform_preQueryParam spells_param
  by unfold_locales (auto simp: validate_preQueryParam_def transform_preQueryParam_def spells_param_def)

interpretation query_object: strict_object validate_preQuery transform_preQuery spells_query
proof
  fix p :: preQuery and path and x :: vdl_Query
  have "(case pq_Params p of None \<Rightarrow> None | Some ps \<Rightarrow> validate_items validate_preQueryParam (field path ''params'') 0 ps) = None \<and>
      map_option (map transform_preQueryParam) (pq_Params p) = vq_Params x \<longleftrightarrow>
      rel_option (list_all2 spells_param) (pq_Params p) (vq_Params x)"
    using param_object.items [of "field path ''params''" 0] by (cases "pq_Params p"; cases "vq_Params x") auto
  then show "validate_preQuery p path = None \<and> transform_preQuery p = x \<longleftrightarrow> spells_query p x"
    by (cases x) (auto simp: validate_preQuery_def transform_preQuery_def spells_query_def)
qed

interpretation query_input: strict_object validate_preDatabaseQueryInput transform_preDatabaseQueryInput spells_input
proof
  fix p :: preDatabaseQueryInput and path and x :: "vdl_Query list"
  show "validate_preDatabaseQueryInput p path = None \<and> transform_preDatabaseQueryInput p = x \<longleftrightarrow> spells_input p x"
    using query_object.items [of "field path ''queries''" 0] by (cases "pi_Queries p")
      (auto simp: validate_preDatabaseQueryInput_def transform_preDatabaseQueryInput_def spells_input_def)
qed

text \<open>What a structure spells whose required fields are objects in their turn.\<close>

definition spells_field :: "('p \<Rightarrow> 'x \<Rightarrow> bool) \<Rightarrow> 'p option \<Rightarrow> 'x \<Rightarrow> bool" where
  "spells_field spells v x \<longleftrightarrow> (\<exists>p. v = Some p \<and> spells p x)"

definition spells_database_query :: "preDatabaseQuery \<Rightarrow> vdl_DatabaseQuery \<Rightarrow> bool" where
  "spells_database_query p x \<longleftrightarrow>
     spells_field spells_input (pdq_Input p) (dq_Input x) \<and> spells_field spells_output (pdq_Output p) (dq_Output x)"

definition spells_database :: "preDatabase \<Rightarrow> vdl_Database \<Rightarrow> bool" where
  "spells_database p x \<longleftrightarrow> spells_field spells_database_query (pdb_Query p) (db_Query_field x)"

definition spells_system_health :: "preSystemHealth \<Rightarrow> vdl_SystemHealth \<Rightarrow> bool" where
  "spells_system_health p x \<longleftrightarrow> spells_field spells_health (psh_Output p) (sh_Output x)"

definition spells_system_session :: "preSystemSession \<Rightarrow> vdl_SystemSession \<Rightarrow> bool" where
  "spells_system_session p x \<longleftrightarrow> spells_field spells_session (pse_Output p) (se_Output x)"

definition spells_system_status :: "preSystemStatus \<Rightarrow> vdl_SystemStatus \<Rightarrow> bool" where
  "spells_system_status p x \<longleftrightarrow> spells_field spells_status (psu_Output p) (su_Output x)"

definition spells_system :: "preSystem \<Rightarrow> vdl_System \<Rightarrow> bool" where
  "spells_system p x \<longleftrightarrow> spells_field spells_system_health (psy_Health p) (sy_Health x) \<and>
     spells_field spells_system_session (psy_Session p) (sy_Session x) \<and>
     spells_field spells_system_status (psy_Status p) (sy_Status x)"

interpretation database_query: strict_object validate_preDatabaseQuery transform_preDatabaseQuery spells_database_query
proof
  fix p :: preDatabaseQuery and path and x :: vdl_DatabaseQuery
  show "validate_preDatabaseQuery p path = None \<and> transform_preDatabaseQuery p = x \<longleftrightarrow> spells_database_query p x"
    using query_input.required_field [of "pdq_Input p" path "''input''" "dq_Input x"]
      query_output.required_field [of "pdq_Output p" path "''output''" "dq_Output x"]
    by (cases x) (auto simp: validate_preDatabaseQuery_def transform_preDatabaseQuery_def spells_database_query_def
        spells_field_def first_error_None)
qed

interpretation database_object: strict_object validate_preDatabase transform_preDatabase spells_database
proof
  fix p :: preDatabase and path and x :: vdl_Database
  show "validate_preDatabase p path = None \<and> transform_preDatabase p = x \<longleftrightarrow> spells_database p x"
    using database_query.required_field [of "pdb_Query p" path "''query''" "db_Query_field x"]
    by (cases x) (auto simp: validate_preDatabase_def transform_preDatabase_def spells_database_def spells_field_def first_error_None)
qed

interpretation system_health: strict_object validate_preSystemHealth transform_preSystemHealth spells_system_health
proof
  fix p :: preSystemHealth and path and x :: vdl_SystemHealth
  show "validate_preSystemHealth p path = None \<and> transform_preSystemHealth p = x \<longleftrightarrow> spells_system_health p x"
    using health.required_field [of "psh_Output p" path "''output''" "sh_Output x"]
    by (cases x) (auto simp: validate_preSystemHealth_def transform_preSystemHealth_def spells_system_health_def
        spells_field_def first_error_None)
qed

interpretation system_session: strict_object validate_preSystemSession transform_preSystemSession spells_system_session
proof
  fix p :: preSystemSession and path and x :: vdl_SystemSession
  show "validate_preSystemSession p path = None \<and> transform_preSystemSession p = x \<longleftrightarrow> spells_system_session p x"
    using session.required_field [of "pse_Output p" path "''output''" "se_Output x"]
    by (cases x) (auto simp: validate_preSystemSession_def transform_preSystemSession_def spells_system_session_def
        spells_field_def first_error_None)
qed

interpretation system_status: strict_object "validate_preSystemStatus Quote" transform_preSystemStatus spells_system_status for Quote
proof
  fix p :: preSystemStatus and path and x :: vdl_SystemStatus
  show "validate_preSystemStatus Quote p path = None \<and> transform_preSystemStatus p = x \<longleftrightarrow> spells_system_status p x"
    using status.required_field [of Quote "psu_Output p" path "''output''" "su_Output x"]
    by (cases x) (auto simp: validate_preSystemStatus_def transform_preSystemStatus_def spells_system_status_def
        spells_field_def first_error_None)
qed

interpretation system_object: strict_object "validate_preSystem Quote" transform_preSystem spells_system for Quote
proof
  fix p :: preSystem and path and x :: vdl_System
  show "validate_preSystem Quote p path = None \<and> transform_preSystem p = x \<longleftrightarrow> spells_system p x"
    using system_health.required_field [of "psy_Health p" path "''health''" "sy_Health x"]
      system_session.required_field [of "psy_Session p" path "''session''" "sy_Session x"]
      system_status.required_field [of Quote "psy_Status p" path "''status''" "sy_Status x"]
    by (cases x) (auto simp: validate_preSystem_def transform_preSystem_def spells_system_def spells_field_def first_error_None)
qed

text \<open>The descriptions of the two services decode to exactly what the JSON object spells.\<close>

lemma services_decode_back:
  "UnmarshalJSON_Database unmarshal1 d = Inr dbase \<longleftrightarrow> (\<exists>p. unmarshal1 d = Inr p \<and> spells_database p dbase)"
  "UnmarshalJSON_System Quote unmarshal2 d = Inr sys \<longleftrightarrow> (\<exists>p. unmarshal2 d = Inr p \<and> spells_system p sys)"
  unfolding UnmarshalJSON_Database_def UnmarshalJSON_System_def
  by (rule database_object.decodes, rule system_object.decodes)

text \<open>A getter with a default gives back what the JSON object had, and the default for an optional field that it did not
  have and for a nil object.\<close>

lemma getters_of_decoded_result:
  assumes "UnmarshalJSON_QueryResult unmarshal d = Inr x"
  shows "\<exists>p. unmarshal d = Inr p \<and>
    QueryResult_GetErrorOr e (Ptr x) = Or (pr_Error p) e \<and> QueryResult_GetErrorOr e None = e \<and>
    QueryResult_GetTxIdOr t (Ptr x) = Or (pr_TxId p) t \<and> QueryResult_GetRowsOr rs (Ptr x) = Or (pr_Rows p) rs \<and>
    QueryResult_GetType (Ptr x) = the (pr_Type p) \<and> QueryResult_GetError (Ptr x) = Or (pr_Error p) []"
proof -
  obtain p where "unmarshal d = Inr p" "spells_result p x"
    using assms result.decodes [of unmarshal d x] by (auto simp: UnmarshalJSON_QueryResult_def)
  then show ?thesis
    by (auto simp: spells_result_def QueryResult_GetErrorOr_def QueryResult_GetTxIdOr_def QueryResult_GetRowsOr_def
        QueryResult_GetType_def QueryResult_GetError_def getter_def getter_opt_def Or_def Ptr_def)
qed

end
