(* ===== verification/Rpc_Stream.thy ===== *)
theory Rpc_Stream
  imports Server_Props Vdl_Schema
begin

text \<open>
  The rest of \<open>internal/vdl/server.go\<close>: the registrations that the program does not make (typed and
  untyped middlewares, streams and their configuration), streams of server-sent events, and the
  writing of responses through an \<open>HTTPAdapter\<close>. The schema has no stream, so that no request
  of NSQLite reaches a stream; the runtime is modelled for every schema.

  The state of a request is a connection \<open>'c\<close>, on which the adapter and the handlers work, with the
  variable \<open>closed\<close> and the ticks of the ping loop. The loop runs in a goroutine of its own. A handler
  touches the connection through \<open>emit\<close> only, so the pings may be taken to happen right before
  its writes and before the end: \<open>ss_ticks\<close> says how many happen each time. \<open>Sse_Machine\<close> justifies this
  with the two goroutines interleaved at every lock and write.
\<close>

section \<open>Operations\<close>

definition Path :: "OperationDefinition \<Rightarrow> string" where
  "Path d = ''/'' @ od_RPCName d @ ''/'' @ od_Name d"

text \<open>\<open>VDLPaths\<close>, with its nested structures as one record.\<close>

record vdl_paths =
  Database_Query :: string
  System_Health :: string
  System_Session :: string
  System_Status :: string

definition VDLPaths :: vdl_paths where
  "VDLPaths = \<lparr>Database_Query = ''/Database/query'', System_Health = ''/System/health'',
     System_Session = ''/System/session'', System_Status = ''/System/status''\<rparr>"

definition RPCName :: "('p, 'i) HandlerContext \<Rightarrow> string" where
  "RPCName h = od_RPCName (hc_operation h)"

definition OperationName :: "('p, 'i) HandlerContext \<Rightarrow> string" where
  "OperationName h = od_Name (hc_operation h)"

definition OperationType :: "('p, 'i) HandlerContext \<Rightarrow> string" where
  "OperationType h = od_Type (hc_operation h)"

section \<open>Registration\<close>

text \<open>\<open>None\<close> is the panic of an assignment to an entry of a nil map.\<close>

definition append2 :: "('a \<rightharpoonup> ('b \<Rightarrow> 'c list)) \<Rightarrow> 'a \<Rightarrow> 'b \<Rightarrow> 'c \<Rightarrow> ('a \<rightharpoonup> ('b \<Rightarrow> 'c list)) option" where
  "append2 m a b x = (case m a of None \<Rightarrow> None | Some n \<Rightarrow> Some (m(a \<mapsto> n(b := n b @ [x]))))"

definition addProcMiddleware ::
  "string \<Rightarrow> string \<Rightarrow> ('s, 'p) middleware \<Rightarrow> ('s, 'p) internalServer \<Rightarrow> ('s, 'p) internalServer option" where
  "addProcMiddleware rpcName procName mw S =
     map_option (\<lambda>m. S\<lparr>procMiddlewares := m\<rparr>) (append2 (procMiddlewares S) rpcName procName mw)"

definition addStreamMiddleware ::
  "string \<Rightarrow> string \<Rightarrow> ('s, 'p) stream_middleware \<Rightarrow> ('s, 'p) internalServer \<Rightarrow> ('s, 'p) internalServer option" where
  "addStreamMiddleware rpcName streamName mw S =
     map_option (\<lambda>m. S\<lparr>streamMiddlewares := m\<rparr>) (append2 (streamMiddlewares S) rpcName streamName mw)"

definition addStreamEmitMiddleware ::
  "string \<Rightarrow> string \<Rightarrow> ('s, 'p) emit_middleware \<Rightarrow> ('s, 'p) internalServer \<Rightarrow> ('s, 'p) internalServer option" where
  "addStreamEmitMiddleware rpcName streamName mw S =
     map_option (\<lambda>m. S\<lparr>streamEmitMiddlewares := m\<rparr>) (append2 (streamEmitMiddlewares S) rpcName streamName mw)"

definition setGlobalStreamConfig :: "StreamConfig \<Rightarrow> ('s, 'p) internalServer \<Rightarrow> ('s, 'p) internalServer" where
  "setGlobalStreamConfig cfg S =
     S\<lparr>globalStreamConfig := (if PingInterval cfg \<le> 0 then cfg\<lparr>PingInterval := 30000000000\<rparr> else cfg)\<rparr>"

definition setRPCStreamConfig :: "string \<Rightarrow> StreamConfig \<Rightarrow> ('s, 'p) internalServer \<Rightarrow> ('s, 'p) internalServer" where
  "setRPCStreamConfig rpcName cfg S = S\<lparr>rpcStreamConfigs := (rpcStreamConfigs S)(rpcName \<mapsto> cfg)\<rparr>"

definition setStreamConfig ::
  "string \<Rightarrow> string \<Rightarrow> StreamConfig \<Rightarrow> ('s, 'p) internalServer \<Rightarrow> ('s, 'p) internalServer option" where
  "setStreamConfig rpcName streamName cfg S =
     map_option (\<lambda>n. S\<lparr>streamConfigs := (streamConfigs S)(rpcName \<mapsto> n(streamName \<mapsto> cfg))\<rparr>) (streamConfigs S rpcName)"

definition setStreamHandler ::
  "string \<Rightarrow> string \<Rightarrow> ('s, 'p) stream_handler \<Rightarrow> deserializer \<Rightarrow> ('s, 'p) internalServer \<Rightarrow>
   ('s, 'p) internalServer option" where
  "setStreamHandler rpcName streamName h d S =
     (case (streamHandlers S rpcName, streamDeserializers S rpcName) of
        (Some hs, Some ds) \<Rightarrow>
          if hs streamName \<noteq> None then None
          else Some (S\<lparr>streamHandlers := (streamHandlers S)(rpcName \<mapsto> hs(streamName \<mapsto> h)),
                       streamDeserializers := (streamDeserializers S)(rpcName \<mapsto> ds(streamName \<mapsto> d))\<rparr>)
      | _ \<Rightarrow> None)"

subsection \<open>The entries of the server and of its two services\<close>

definition Server_Use :: "('s, 'p) middleware \<Rightarrow> ('s, 'p) internalServer \<Rightarrow> ('s, 'p) internalServer" where
  "Server_Use mw = addGlobalMiddleware mw"

definition Server_SetStreamConfig :: "StreamConfig \<Rightarrow> ('s, 'p) internalServer \<Rightarrow> ('s, 'p) internalServer" where
  "Server_SetStreamConfig cfg = setGlobalStreamConfig cfg"

definition Server_SetErrorHandler :: "'p error_handler \<Rightarrow> ('s, 'p) internalServer \<Rightarrow> ('s, 'p) internalServer" where
  "Server_SetErrorHandler h = setGlobalErrorHandler h"

definition Database_Use :: "('s, 'p) middleware \<Rightarrow> ('s, 'p) internalServer \<Rightarrow> ('s, 'p) internalServer" where
  "Database_Use mw = addRPCMiddleware ''Database'' mw"

definition Database_SetStreamConfig :: "StreamConfig \<Rightarrow> ('s, 'p) internalServer \<Rightarrow> ('s, 'p) internalServer" where
  "Database_SetStreamConfig cfg = setRPCStreamConfig ''Database'' cfg"

definition Database_SetErrorHandler :: "'p error_handler \<Rightarrow> ('s, 'p) internalServer \<Rightarrow> ('s, 'p) internalServer" where
  "Database_SetErrorHandler h = setRPCErrorHandler ''Database'' h"

definition System_Use :: "('s, 'p) middleware \<Rightarrow> ('s, 'p) internalServer \<Rightarrow> ('s, 'p) internalServer" where
  "System_Use mw = addRPCMiddleware ''System'' mw"

definition System_SetStreamConfig :: "StreamConfig \<Rightarrow> ('s, 'p) internalServer \<Rightarrow> ('s, 'p) internalServer" where
  "System_SetStreamConfig cfg = setRPCStreamConfig ''System'' cfg"

definition System_SetErrorHandler :: "'p error_handler \<Rightarrow> ('s, 'p) internalServer \<Rightarrow> ('s, 'p) internalServer" where
  "System_SetErrorHandler h = setRPCErrorHandler ''System'' h"

subsection \<open>Typed middlewares\<close>

type_synonym ('s, 'p, 'i, 'o) typed_handler = "('p, 'i) HandlerContext \<Rightarrow> 's \<Rightarrow> (go_error + 'o) outcome \<times> 's"

text \<open>\<open>adapted_middleware\<close> is the untyped middleware around a typed one, with the type assertions
  \<open>in_of\<close> and \<open>out_of\<close>, which give the zero value when they fail. The generic context takes the properties
  and the input of the context that the middleware passes on.\<close>

definition adapted_middleware ::
  "(rpc_any \<Rightarrow> 'i) \<Rightarrow> ('i \<Rightarrow> rpc_any) \<Rightarrow> (rpc_any \<Rightarrow> 'o) \<Rightarrow> ('o \<Rightarrow> rpc_any) \<Rightarrow>
   (('s, 'p, 'i, 'o) typed_handler \<Rightarrow> ('s, 'p, 'i, 'o) typed_handler) \<Rightarrow> ('s, 'p) middleware" where
  "adapted_middleware in_of of_in out_of of_out mw next_handler cGeneric =
     (let typedNext = (\<lambda>c.
            bnd (next_handler (cGeneric\<lparr>hc_Props := hc_Props c, hc_Input := of_in (hc_Input c)\<rparr>)) (\<lambda>r.
            ret (case r of Inl e \<Rightarrow> Inl e | Inr genericOutput \<Rightarrow> Inr (out_of genericOutput))));
          typedChain = mw typedNext in
      bnd (typedChain (typed_context cGeneric (in_of (hc_Input cGeneric)))) (\<lambda>r. ret (map_sum id of_out r)))"

fun as_query_output :: "rpc_any \<Rightarrow> DatabaseQueryOutput" where
  "as_query_output (QueryOutput v) = v"
| "as_query_output _ = zero_DatabaseQueryOutput"

fun as_health_output :: "rpc_any \<Rightarrow> SystemHealthOutput" where
  "as_health_output (HealthOutput v) = v"
| "as_health_output _ = zero_SystemHealthOutput"

fun as_session_output :: "rpc_any \<Rightarrow> AuthRole" where
  "as_session_output (SessionOutput v) = v"
| "as_session_output _ = []"

fun as_status_output :: "rpc_any \<Rightarrow> SystemStatusOutput" where
  "as_status_output (StatusOutput v) = v"
| "as_status_output _ = zero_SystemStatusOutput"

definition Use_Database_query ::
  "(('s, 'p, vdl_Query list, DatabaseQueryOutput) typed_handler \<Rightarrow> ('s, 'p, vdl_Query list, DatabaseQueryOutput) typed_handler)
   \<Rightarrow> ('s, 'p) internalServer \<Rightarrow> ('s, 'p) internalServer option" where
  "Use_Database_query mw =
     addProcMiddleware ''Database'' ''query'' (adapted_middleware as_queries QueryInput as_query_output QueryOutput mw)"

definition Use_System_health ::
  "(('s, 'p, unit, SystemHealthOutput) typed_handler \<Rightarrow> ('s, 'p, unit, SystemHealthOutput) typed_handler)
   \<Rightarrow> ('s, 'p) internalServer \<Rightarrow> ('s, 'p) internalServer option" where
  "Use_System_health mw =
     addProcMiddleware ''System'' ''health''
       (adapted_middleware (\<lambda>_. ()) (\<lambda>_. VoidInput) as_health_output HealthOutput mw)"

definition Use_System_session ::
  "(('s, 'p, unit, AuthRole) typed_handler \<Rightarrow> ('s, 'p, unit, AuthRole) typed_handler)
   \<Rightarrow> ('s, 'p) internalServer \<Rightarrow> ('s, 'p) internalServer option" where
  "Use_System_session mw =
     addProcMiddleware ''System'' ''session''
       (adapted_middleware (\<lambda>_. ()) (\<lambda>_. VoidInput) as_session_output SessionOutput mw)"

definition Use_System_status ::
  "(('s, 'p, unit, SystemStatusOutput) typed_handler \<Rightarrow> ('s, 'p, unit, SystemStatusOutput) typed_handler)
   \<Rightarrow> ('s, 'p) internalServer \<Rightarrow> ('s, 'p) internalServer option" where
  "Use_System_status mw =
     addProcMiddleware ''System'' ''status''
       (adapted_middleware (\<lambda>_. ()) (\<lambda>_. VoidInput) as_status_output StatusOutput mw)"

section \<open>Adapters\<close>

text \<open>The interface \<open>HTTPAdapter\<close>: the body that its reader gives, and operations on a connection.\<close>

record 'c HTTPAdapter =
  RequestBody :: bytes
  SetHeader :: "string \<Rightarrow> string \<Rightarrow> 'c \<Rightarrow> 'c"
  Write :: "bytes \<Rightarrow> 'c \<Rightarrow> go_error option \<times> 'c"
  Flush :: "'c \<Rightarrow> go_error option \<times> 'c"

text \<open>The \<open>http.ResponseWriter\<close> of package \<open>net/http\<close>: the header is sent with the status or with the first write, later
  changes of it have no effect, and a write to a client that is gone fails. \<open>rw_Flushed\<close> counts the bytes that
  have left the buffer.\<close>

record ResponseWriter =
  rw_Header :: "string \<rightharpoonup> string"
  rw_Sent :: "(string \<rightharpoonup> string) option"
  rw_Status :: nat
  rw_Body :: bytes
  rw_Flushed :: nat
  rw_Gone :: bool
  rw_Flusher :: bool

definition rw_WriteHeader :: "nat \<Rightarrow> ResponseWriter \<Rightarrow> ResponseWriter" where
  "rw_WriteHeader st w = (if rw_Sent w = None then w\<lparr>rw_Sent := Some (rw_Header w), rw_Status := st\<rparr> else w)"

definition rw_Write :: "bytes \<Rightarrow> ResponseWriter \<Rightarrow> go_error option \<times> ResponseWriter" where
  "rw_Write data w =
     (if rw_Gone w then (Some (ErrorString ''write: broken pipe''), w)
      else (None, (rw_WriteHeader 200 w)\<lparr>rw_Body := rw_Body w @ data\<rparr>))"

text \<open>\<open>NetHTTPAdapter\<close> on a connection that is a response writer and whatever else the handlers use.\<close>

definition NetHTTPAdapter_SetHeader :: "string \<Rightarrow> string \<Rightarrow> ResponseWriter \<times> 'w \<Rightarrow> ResponseWriter \<times> 'w" where
  "NetHTTPAdapter_SetHeader key v c = (case c of (w, s) \<Rightarrow> (w\<lparr>rw_Header := (rw_Header w)(key \<mapsto> v)\<rparr>, s))"

definition NetHTTPAdapter_Write :: "bytes \<Rightarrow> ResponseWriter \<times> 'w \<Rightarrow> go_error option \<times> ResponseWriter \<times> 'w" where
  "NetHTTPAdapter_Write data c = (case c of (w, s) \<Rightarrow> (case rw_Write data w of (r, w1) \<Rightarrow> (r, w1, s)))"

definition NetHTTPAdapter_Flush :: "ResponseWriter \<times> 'w \<Rightarrow> go_error option \<times> ResponseWriter \<times> 'w" where
  "NetHTTPAdapter_Flush c =
     (case c of (w, s) \<Rightarrow>
        (None, if rw_Flusher w
               then (rw_WriteHeader 200 w)\<lparr>rw_Flushed := length (rw_Body w)\<rparr> else w, s))"

definition NewNetHTTPAdapter :: "bytes \<Rightarrow> (ResponseWriter \<times> 'w) HTTPAdapter" where
  "NewNetHTTPAdapter body =
     \<lparr>RequestBody = body, SetHeader = NetHTTPAdapter_SetHeader, Write = NetHTTPAdapter_Write,
      Flush = NetHTTPAdapter_Flush\<rparr>"

section \<open>Responses as JSON\<close>

text \<open>\<open>js_Marshal\<close> and \<open>js_Quote\<close> are \<open>json.Marshal\<close> and the verb \<open>%q\<close> of \<open>fmt\<close>, \<open>js_DecodeRaw\<close> reads the first
  value of a text.\<close>

record json_text =
  js_Marshal :: "Response \<Rightarrow> go_error + bytes"
  js_Quote :: "string \<Rightarrow> string"
  js_DecodeRaw :: "bytes \<Rightarrow> bytes option"

definition Response_String :: "json_text \<Rightarrow> Response \<Rightarrow> string" where
  "Response_String T r =
     (case js_Marshal T r of
        Inl e \<Rightarrow> ''{\"ok\":false,\"error\":{\"message\":'' @ js_Quote T (''failed to marshal response: '' @ Error e) @ ''}}''
      | Inr encoded \<Rightarrow> encoded)"

definition Response_Bytes :: "json_text \<Rightarrow> Response \<Rightarrow> bytes" where
  "Response_Bytes T r = Response_String T r"

section \<open>Streams\<close>

record 'c sse_state =
  ss_conn :: 'c
  ss_closed :: bool
  ss_ticks :: "nat list"

definition newline2 :: string where
  "newline2 = [CHR 0x0A, CHR 0x0A]"

definition ping_frame :: string where
  "ping_frame = '': ping'' @ newline2"

fun write_parts :: "'c HTTPAdapter \<Rightarrow> bytes list \<Rightarrow> 'c \<Rightarrow> go_error option \<times> 'c" where
  "write_parts A [] c = Flush A c"
| "write_parts A (part # parts) c =
     (case Write A part c of (Some e, c1) \<Rightarrow> (Some e, c1) | (None, c1) \<Rightarrow> write_parts A parts c1)"

definition safeWrite :: "'c HTTPAdapter \<Rightarrow> bytes list \<Rightarrow> 'c sse_state \<Rightarrow> go_error option \<times> 'c sse_state" where
  "safeWrite A parts st =
     (if ss_closed st then (None, st)
      else case write_parts A parts (ss_conn st) of (r, c) \<Rightarrow> (r, st\<lparr>ss_conn := c\<rparr>))"

definition ping :: "'c HTTPAdapter \<Rightarrow> 'c sse_state \<Rightarrow> 'c sse_state" where
  "ping A st = snd (safeWrite A [ping_frame] st)"

text \<open>The ticks of the ping loop up to here.\<close>

definition ping_loop :: "'c HTTPAdapter \<Rightarrow> 'c sse_state \<Rightarrow> 'c sse_state" where
  "ping_loop A st = (case ss_ticks st of [] \<Rightarrow> st | n # ns \<Rightarrow> (ping A ^^ n) (st\<lparr>ss_ticks := ns\<rparr>))"

definition event_parts :: "bytes \<Rightarrow> bytes list" where
  "event_parts json = [''data: '', json, newline2]"

definition baseEmit :: "json_text \<Rightarrow> 'c HTTPAdapter \<Rightarrow> ('c sse_state, 'p) emit_func" where
  "baseEmit T A c data =
     (case js_Marshal T (Response0\<lparr>rs_Ok := True, rs_Output := data\<rparr>) of
        Inl e \<Rightarrow> ret (Some (Wrapped ''failed to marshal stream data'' e))
      | Inr json \<Rightarrow> (\<lambda>st. case safeWrite A (event_parts json) (ping_loop A st) of (r, st1) \<Rightarrow> (Done r, st1)))"

text \<open>The interval of the ping loop: that of the stream, of the service or of the server.\<close>

definition pingInterval :: "('s, 'p) internalServer \<Rightarrow> string \<Rightarrow> string \<Rightarrow> int" where
  "pingInterval S rpcName streamName =
     (let p0 = PingInterval (globalStreamConfig S);
          p1 = (case rpcStreamConfigs S rpcName of
                  Some cfg \<Rightarrow> if PingInterval cfg > 0 then PingInterval cfg else p0 | None \<Rightarrow> p0) in
      case lookup2 (streamConfigs S) rpcName streamName of
        Some cfg \<Rightarrow> if PingInterval cfg > 0 then PingInterval cfg else p1 | None \<Rightarrow> p1)"

definition stream_headers :: "'c HTTPAdapter \<Rightarrow> 'c sse_state \<Rightarrow> unit outcome \<times> 'c sse_state" where
  "stream_headers A st =
     (Done (), st\<lparr>ss_conn := SetHeader A ''Connection'' ''keep-alive''
        (SetHeader A ''Cache-Control'' ''no-cache'' (SetHeader A ''Content-Type'' ''text/event-stream'' (ss_conn st)))\<rparr>)"

text \<open>\<open>closed\<close> is false when the handler starts; after it the loop ends and \<open>closed\<close> is set. The ticker panics
  for an interval that is not positive.\<close>

definition stream_begin :: "int \<Rightarrow> 'c sse_state \<Rightarrow> unit outcome \<times> 'c sse_state" where
  "stream_begin interval st = (if interval \<le> 0 then (Fatal, st) else (Done (), st\<lparr>ss_closed := False\<rparr>))"

definition stream_end :: "'c HTTPAdapter \<Rightarrow> 'c sse_state \<Rightarrow> unit outcome \<times> 'c sse_state" where
  "stream_end A st = (Done (), (ping_loop A st)\<lparr>ss_closed := True\<rparr>)"

definition handleStreamRequest ::
  "json_text \<Rightarrow> 'c HTTPAdapter \<Rightarrow> ('c sse_state, 'p) internalServer \<Rightarrow> ('p, rpc_any) HandlerContext \<Rightarrow> string \<Rightarrow> string \<Rightarrow> bytes
   \<Rightarrow> 'c sse_state \<Rightarrow> (go_error option \<times> ('p, rpc_any) HandlerContext) outcome \<times> 'c sse_state" where
  "handleStreamRequest T A S c rpcName streamName rawInput =
     bnd (stream_headers A) (\<lambda>_.
     case lookup2 (streamHandlers S) rpcName streamName of
       None \<Rightarrow> ret (Some (ErrorString (rpcName @ ''.'' @ streamName @ '' stream not implemented'')), c)
     | Some baseHandler \<Rightarrow>
         (case lookup2 (streamDeserializers S) rpcName streamName of
            None \<Rightarrow>
              ret (Some (ErrorString (rpcName @ ''.'' @ streamName @ '' stream deserializer not registered'')), c)
          | Some deserialize \<Rightarrow>
              (case deserialize rawInput of
                 Inl e \<Rightarrow> ret (Some e, c)
               | Inr typedInput \<Rightarrow>
                   let c1 = c\<lparr>hc_Input := typedInput\<rparr>;
                       emitFinal = compose (middlewares2 (streamEmitMiddlewares S) rpcName streamName) (baseEmit T A);
                       final = compose (middlewares2 (streamMiddlewares S) rpcName streamName) baseHandler;
                       exec = (\<lambda>c. bnd (final c emitFinal) (\<lambda>r. ret (case r of None \<Rightarrow> Inr AnyNil | Some e \<Rightarrow> Inl e)));
                       exec1 = compose (rpcMiddlewares S rpcName) exec;
                       exec2 = compose (globalMiddlewares S) exec1 in
                   bnd (stream_begin (pingInterval S rpcName streamName)) (\<lambda>_.
                   bnd (exec2 c1) (\<lambda>r.
                   bnd (stream_end A) (\<lambda>_.
                   ret (case r of Inl e \<Rightarrow> Some e | Inr _ \<Rightarrow> None, c1)))))))"

section \<open>A request through an adapter\<close>

definition writeProcResponse ::
  "json_text \<Rightarrow> 'c HTTPAdapter \<Rightarrow> Response \<Rightarrow> 'c sse_state \<Rightarrow> go_error option outcome \<times> 'c sse_state" where
  "writeProcResponse T A response st =
     (case Write A (Response_Bytes T response) (SetHeader A ''Content-Type'' ''application/json'' (ss_conn st)) of
        (r, c) \<Rightarrow> (Done (map_option (Wrapped ''failed to write response'') r), st\<lparr>ss_conn := c\<rparr>))"

text \<open>The event with the error of a stream, which is written and flushed without \<open>safeWrite\<close>. \<open>Inl\<close> is a return from
  \<open>handleRequest\<close>, \<open>Inr\<close> goes on behind the branch.\<close>

definition write_stream_error ::
  "json_text \<Rightarrow> 'c HTTPAdapter \<Rightarrow> Response \<Rightarrow> 'c sse_state \<Rightarrow> (go_error option + unit) outcome \<times> 'c sse_state" where
  "write_stream_error T A response st =
     (case js_Marshal T response of
        Inl e \<Rightarrow> (Done (Inl (Some (Wrapped ''failed to marshal stream error'' e))), st)
      | Inr json \<Rightarrow>
          (case Write A (''data: '' @ json @ newline2) (ss_conn st) of
             (Some e, c) \<Rightarrow> (Done (Inl (Some e)), st\<lparr>ss_conn := c\<rparr>)
           | (None, c) \<Rightarrow>
               (case Flush A c of
                  (Some e, c1) \<Rightarrow> (Done (Inl (Some e)), st\<lparr>ss_conn := c1\<rparr>)
                | (None, c1) \<Rightarrow> (Done (Inr ()), st\<lparr>ss_conn := c1\<rparr>))))"

definition handle_stream ::
  "json_text \<Rightarrow> 'c HTTPAdapter \<Rightarrow> ('c sse_state, 'p) internalServer \<Rightarrow> ('p, rpc_any) HandlerContext \<Rightarrow> string \<Rightarrow> string \<Rightarrow> bytes
   \<Rightarrow> 'c sse_state \<Rightarrow> (go_error option + ('p, rpc_any) HandlerContext) outcome \<times> 'c sse_state" where
  "handle_stream T A S c rpcName operationName rawInput =
     bnd (handleStreamRequest T A S c rpcName operationName rawInput) (\<lambda>(r, c1).
     case r of
       None \<Rightarrow> ret (Inl None)
     | Some e \<Rightarrow>
         bnd (write_stream_error T A (Response0\<lparr>rs_Ok := False, rs_Error := resolveErrorHandler S rpcName c1 e\<rparr>)) (\<lambda>v.
         ret (case v of Inl r \<Rightarrow> Inl r | Inr _ \<Rightarrow> Inr c1)))"

text \<open>The whole of \<open>handleRequest\<close>; \<open>None\<close> is a nil adapter. Only a stream that ends without an error returns from
  the first branch.\<close>

definition handleRequest_http ::
  "json_text \<Rightarrow> 'c HTTPAdapter option \<Rightarrow> ('c sse_state, 'p) internalServer \<Rightarrow> ctx \<Rightarrow> 'p \<Rightarrow> string \<Rightarrow> string
   \<Rightarrow> 'c sse_state \<Rightarrow> go_error option outcome \<times> 'c sse_state" where
  "handleRequest_http T adapter S ctx props rpcName operationName =
     (case adapter of
        None \<Rightarrow> ret (Some (ErrorString ''the HTTP adapter is nil, please provide a valid adapter''))
      | Some A \<Rightarrow>
          (case js_DecodeRaw T (RequestBody A) of
             None \<Rightarrow> writeProcResponse T A (Response0\<lparr>rs_Error := \<lparr>e_Message = ''Invalid request body''\<rparr>\<rparr>)
           | Some rawInput \<Rightarrow>
               (case lookup2 (operationDefs S) rpcName operationName of
                  None \<Rightarrow>
                    writeProcResponse T A (Response0\<lparr>rs_Error :=
                      \<lparr>e_Message = ''Invalid operation: '' @ rpcName @ ''.'' @ operationName\<rparr>\<rparr>)
                | Some operation \<Rightarrow>
                    let c = \<lparr>hc_Props = props, hc_Input = RawMessage rawInput, hc_Context = ctx,
                             hc_operation = operation\<rparr>;
                        procedure = (\<lambda>c.
                          bnd (procResponse S c rpcName operationName rawInput) (writeProcResponse T A)) in
                    if od_Type operation = OperationTypeStream then
                      bnd (handle_stream T A S c rpcName operationName rawInput) (\<lambda>v.
                      case v of Inl r \<Rightarrow> ret r | Inr c1 \<Rightarrow> procedure c1)
                    else procedure c)))"

definition Server_HandleRequest ::
  "json_text \<Rightarrow> 'c HTTPAdapter option \<Rightarrow> ('c sse_state, 'p) internalServer \<Rightarrow> ctx \<Rightarrow> 'p \<Rightarrow> string \<Rightarrow> string
   \<Rightarrow> 'c sse_state \<Rightarrow> go_error option outcome \<times> 'c sse_state" where
  "Server_HandleRequest T adapter S = handleRequest_http T adapter S"

end
