(* ===== verification/Rpc_Props.thy ===== *)
theory Rpc_Props
  imports Rpc_Stream
begin

text \<open>
  Properties of the RPC runtime: what any sequence of registrations leaves true, the order in which
  middlewares run, how the responses of \<open>Rpc\<close> reach the wire, and what becomes of a stream that fails.
\<close>

section \<open>Registrations\<close>

text \<open>The servers that \<open>NewServer\<close> and the registrations can build; a registration that panics builds none.\<close>

inductive built :: "('s, 'p) internalServer \<Rightarrow> bool" where
  built_new: "built NewServer_rpc"
| built_Use: "built S \<Longrightarrow> built (Server_Use mw S)"
| built_SetStreamConfig: "built S \<Longrightarrow> built (Server_SetStreamConfig cfg S)"
| built_SetErrorHandler: "built S \<Longrightarrow> built (Server_SetErrorHandler h S)"
| built_rpc_use: "built S \<Longrightarrow> built (addRPCMiddleware r mw S)"
| built_rpc_config: "built S \<Longrightarrow> built (setRPCStreamConfig r cfg S)"
| built_rpc_errors: "built S \<Longrightarrow> built (setRPCErrorHandler r h S)"
| built_proc: "built S \<Longrightarrow> setProcHandler r p ph d S = Some S' \<Longrightarrow> built S'"
| built_proc_use: "built S \<Longrightarrow> addProcMiddleware r p mw S = Some S' \<Longrightarrow> built S'"
| built_stream: "built S \<Longrightarrow> setStreamHandler r p sh d S = Some S' \<Longrightarrow> built S'"
| built_stream_use: "built S \<Longrightarrow> addStreamMiddleware r p smw S = Some S' \<Longrightarrow> built S'"
| built_emit_use: "built S \<Longrightarrow> addStreamEmitMiddleware r p emw S = Some S' \<Longrightarrow> built S'"
| built_stream_config: "built S \<Longrightarrow> setStreamConfig r p cfg S = Some S' \<Longrightarrow> built S'"

lemmas registration_defs = Server_Use_def Server_SetStreamConfig_def Server_SetErrorHandler_def addGlobalMiddleware_def
  setGlobalStreamConfig_def setGlobalErrorHandler_def addRPCMiddleware_def setRPCStreamConfig_def setRPCErrorHandler_def
  setProcHandler_def addProcMiddleware_def setStreamHandler_def addStreamMiddleware_def addStreamEmitMiddleware_def
  setStreamConfig_def append2_def

lemmas catalogue_defs = NewServer_rpc_def newInternalServer_def VDLProcedures_def VDLStreams_def add_operation_def
  ensureRPC_def Let_def

definition service_maps :: "('s, 'p) internalServer \<Rightarrow> string \<Rightarrow> bool" where
  "service_maps S r \<longleftrightarrow> procHandlers S r \<noteq> None \<and> procDeserializers S r \<noteq> None \<and> procMiddlewares S r \<noteq> None \<and>
     streamHandlers S r \<noteq> None \<and> streamDeserializers S r \<noteq> None \<and> streamMiddlewares S r \<noteq> None \<and>
     streamEmitMiddlewares S r \<noteq> None \<and> streamConfigs S r \<noteq> None"

definition server_inv :: "('s, 'p) internalServer \<Rightarrow> bool" where
  "server_inv S \<longleftrightarrow>
     operationDefs S = operationDefs (NewServer_rpc :: ('s, 'p) internalServer) \<and>
     0 < PingInterval (globalStreamConfig S) \<and> service_maps S ''Database'' \<and> service_maps S ''System''"

lemma server_inv_new: "server_inv NewServer_rpc"
  by (simp add: server_inv_def service_maps_def catalogue_defs)

text \<open>Every registration keeps the invariant, whatever it registers.\<close>

lemma built_inv: "built S \<Longrightarrow> server_inv S"
proof (induction rule: built.induct)
  case built_new
  show ?case by (rule server_inv_new)
qed (auto simp: server_inv_def service_maps_def registration_defs split: option.splits if_splits)

lemma pingInterval_positive: "0 < PingInterval (globalStreamConfig S) \<Longrightarrow> 0 < pingInterval S r p"
  by (auto simp: pingInterval_def Let_def split: option.split)

lemma paths_of_catalogue:
  "map Path VDLProcedures =
   [Database_Query VDLPaths, System_Health VDLPaths, System_Session VDLPaths, System_Status VDLPaths]"
  by (simp add: Path_def VDLProcedures_def VDLPaths_def)

section \<open>Responses on the wire\<close>

lemma procedure_request:
  assumes "\<And>d. lookup2 (operationDefs S) r p = Some d \<Longrightarrow> od_Type d \<noteq> OperationTypeStream"
  shows "handleRequest_http T (Some A) S ctx props r p =
    bnd (handleRequest S (js_DecodeRaw T) ctx props r p (RequestBody A)) (writeProcResponse T A)"
  using assms unfolding handleRequest_http_def handleRequest_def
  by (auto simp: Let_def split: option.split)

lemma built_procedures:
  assumes "built S" "lookup2 (operationDefs S) r p = Some d"
  shows "od_Type d \<noteq> OperationTypeStream"
  using built_inv [OF assms(1)] assms(2)
  by (auto simp: server_inv_def catalogue OperationTypeProc_def OperationTypeStream_def split: if_splits)

text \<open>C39. Whatever is registered on a server and in whatever order, every request through an adapter is answered with
  exactly one JSON response, the one that \<open>handleRequest\<close> computes; the interval of a ping loop is positive, so that
  its ticker never panics; and registering a middleware for one of the four procedures never panics.\<close>

theorem registrations_keep_server:
  assumes "built S"
  shows "handleRequest_http T (Some A) S ctx props r p =
      bnd (handleRequest S (js_DecodeRaw T) ctx props r p (RequestBody A)) (writeProcResponse T A) \<and>
    0 < pingInterval S r p \<and>
    Use_Database_query mw1 S \<noteq> None \<and> Use_System_health mw2 S \<noteq> None \<and>
    Use_System_session mw3 S \<noteq> None \<and> Use_System_status mw4 S \<noteq> None"
proof -
  have inv: "server_inv S" by (rule built_inv [OF assms])
  then have "Use_Database_query mw1 S \<noteq> None \<and> Use_System_health mw2 S \<noteq> None \<and>
      Use_System_session mw3 S \<noteq> None \<and> Use_System_status mw4 S \<noteq> None"
    by (auto simp: server_inv_def service_maps_def Use_Database_query_def Use_System_health_def
        Use_System_session_def Use_System_status_def addProcMiddleware_def append2_def split: option.splits)
  then show ?thesis
    using procedure_request built_procedures [OF assms] pingInterval_positive inv server_inv_def by metis
qed

definition text0 :: json_text where
  "text0 = \<lparr>js_Marshal = (\<lambda>r. Inr (''{'' @ e_Message (rs_Error r) @ ''}'')), js_Quote = (\<lambda>s. s), js_DecodeRaw = Some\<rparr>"

definition writer0 :: ResponseWriter where
  "writer0 = \<lparr>rw_Header = Map.empty, rw_Sent = None, rw_Status = 0, rw_Body = [], rw_Flushed = 0, rw_Gone = False, rw_Flusher = True\<rparr>"

definition state0 :: "nat list \<Rightarrow> (ResponseWriter \<times> unit) sse_state" where
  "state0 ts = \<lparr>ss_conn = (writer0, ()), ss_closed = False, ss_ticks = ts\<rparr>"

theorem registrations_keep_server_witness:
  "handleRequest_http text0 (Some (NewNetHTTPAdapter ''1''))
       (Database_SetStreamConfig \<lparr>PingInterval = 0\<rparr> (NewServer_rpc :: ((ResponseWriter \<times> unit) sse_state, unit) internalServer))
       (\<lambda>_. None) () ''System'' ''health'' =
     bnd (handleRequest (Database_SetStreamConfig \<lparr>PingInterval = 0\<rparr> NewServer_rpc) Some (\<lambda>_. None) () ''System'' ''health'' ''1'')
       (writeProcResponse text0 (NewNetHTTPAdapter ''1'')) \<and>
   0 < pingInterval (Database_SetStreamConfig \<lparr>PingInterval = 0\<rparr>
         (NewServer_rpc :: ((ResponseWriter \<times> unit) sse_state, unit) internalServer)) ''Database'' ''changes''"
proof -
  have "built (Database_SetStreamConfig \<lparr>PingInterval = 0\<rparr>
      (NewServer_rpc :: ((ResponseWriter \<times> unit) sse_state, unit) internalServer))"
    unfolding Database_SetStreamConfig_def by (rule built_rpc_config [OF built_new])
  note ok = registrations_keep_server [OF this, of text0 "NewNetHTTPAdapter ''1''" "\<lambda>_. None" "()"]
  show ?thesis
    using ok [of "''System''" "''health''"] ok [of "''Database''" "''changes''"]
    by (simp add: text0_def NewNetHTTPAdapter_def)
qed

section \<open>Middlewares\<close>

datatype ('s, 'p) registration =
    Global_mw "('s, 'p) middleware"
  | Service_mw string "('s, 'p) middleware"
  | Procedure_mw string string "('s, 'p) middleware"

fun register :: "('s, 'p) registration list \<Rightarrow> ('s, 'p) internalServer \<Rightarrow> ('s, 'p) internalServer option" where
  "register [] S = Some S"
| "register (Global_mw mw # rs) S = register rs (Server_Use mw S)"
| "register (Service_mw a mw # rs) S = register rs (addRPCMiddleware a mw S)"
| "register (Procedure_mw a b mw # rs) S = Option.bind (addProcMiddleware a b mw S) (register rs)"

definition globals_of :: "('s, 'p) registration list \<Rightarrow> ('s, 'p) middleware list" where
  "globals_of rs = List.map_filter (\<lambda>x. case x of Global_mw mw \<Rightarrow> Some mw | _ \<Rightarrow> None) rs"

definition services_of :: "string \<Rightarrow> ('s, 'p) registration list \<Rightarrow> ('s, 'p) middleware list" where
  "services_of r rs = List.map_filter (\<lambda>x. case x of Service_mw a mw \<Rightarrow> if a = r then Some mw else None | _ \<Rightarrow> None) rs"

definition procedures_of :: "string \<Rightarrow> string \<Rightarrow> ('s, 'p) registration list \<Rightarrow> ('s, 'p) middleware list" where
  "procedures_of r p rs =
     List.map_filter (\<lambda>x. case x of Procedure_mw a b mw \<Rightarrow> if a = r \<and> b = p then Some mw else None | _ \<Rightarrow> None) rs"

lemma middlewares_of_simps [simp]:
  "globals_of [] = []" "services_of r [] = []" "procedures_of r p [] = []"
  "globals_of (x # rs) = (case x of Global_mw mw \<Rightarrow> [mw] | _ \<Rightarrow> []) @ globals_of rs"
  "services_of r (x # rs) = (case x of Service_mw a mw \<Rightarrow> if a = r then [mw] else [] | _ \<Rightarrow> []) @ services_of r rs"
  "procedures_of r p (x # rs) =
     (case x of Procedure_mw a b mw \<Rightarrow> if a = r \<and> b = p then [mw] else [] | _ \<Rightarrow> []) @ procedures_of r p rs"
  by (simp_all add: globals_of_def services_of_def procedures_of_def List.map_filter_simps split: registration.split)

lemma append2_Some:
  "append2 m a b x = Some m' \<Longrightarrow> middlewares2 m' r p = middlewares2 m r p @ (if a = r \<and> b = p then [x] else [])"
  by (auto simp: append2_def middlewares2_def split: option.splits if_splits)

lemma register_Some:
  assumes "register rs S = Some S'"
  shows "globalMiddlewares S' = globalMiddlewares S @ globals_of rs"
    and "rpcMiddlewares S' r = rpcMiddlewares S r @ services_of r rs"
    and "middlewares2 (procMiddlewares S') r p = middlewares2 (procMiddlewares S) r p @ procedures_of r p rs"
  using assms
  by (induction rs S rule: register.induct)
    (auto simp: Server_Use_def addGlobalMiddleware_def addRPCMiddleware_def addProcMiddleware_def append2_Some
      split: bind_splits)

text \<open>Middlewares run in the order of their registration, those of the server before those of the service and these before
  those of the procedure, however the three kinds were mixed when they were registered; all of them run after the input has been
  decoded, and none runs for an input that cannot be.\<close>

lemma middleware_order:
  assumes "register rs NewServer_rpc = Some S" "setProcHandler r p h d S = Some S'"
  shows "handleProcRequest S' c r p raw =
     (case d raw of
        Inl e \<Rightarrow> ret (Inl e, c)
      | Inr v \<Rightarrow>
          bnd (compose (globals_of rs @ services_of r rs @ procedures_of r p rs) h (c\<lparr>hc_Input := v\<rparr>))
            (\<lambda>x. ret (x, c\<lparr>hc_Input := v\<rparr>)))"
  using setProcHandler_Some [OF assms(2)] register_Some [OF assms(1)]
  by (simp add: handleProcRequest_def fresh_rpc compose_append Let_def split: sum.split)

definition note_mw :: "string \<Rightarrow> (string list, unit) middleware" where
  "note_mw name next_handler c log = next_handler c (log @ [name])"

definition noted_handler :: "(string list, unit) handler" where
  "noted_handler c log = (Done (Inr VoidInput), log @ [''handler''])"

definition context0 :: "(unit, rpc_any) HandlerContext" where
  "context0 = \<lparr>hc_Props = (), hc_Input = AnyNil, hc_Context = (\<lambda>_. None),
     hc_operation = \<lparr>od_RPCName = ''System'', od_Name = ''health'', od_Type = OperationTypeProc\<rparr>\<rparr>"

lemma middleware_order_witness:
  "snd (handleProcRequest
      (the (setProcHandler ''System'' ''health'' noted_handler (\<lambda>_. Inr VoidInput)
        (the (register [Procedure_mw ''System'' ''health'' (note_mw ''c''), Service_mw ''System'' (note_mw ''b''),
           Service_mw ''Database'' (note_mw ''x''), Global_mw (note_mw ''a''), Procedure_mw ''System'' ''health'' (note_mw ''d'')]
           NewServer_rpc))))
      context0 ''System'' ''health'' '''' []) = [''a'', ''b'', ''c'', ''d'', ''handler'']"
proof -
  let ?rs = "[Procedure_mw ''System'' ''health'' (note_mw ''c''), Service_mw ''System'' (note_mw ''b''),
     Service_mw ''Database'' (note_mw ''x''), Global_mw (note_mw ''a''), Procedure_mw ''System'' ''health'' (note_mw ''d'')]"
  have "register ?rs NewServer_rpc \<noteq> None"
    by (simp add: registration_defs catalogue_defs)
  then obtain S where S: "register ?rs NewServer_rpc = Some S" by blast
  have "setProcHandler ''System'' ''health'' noted_handler (\<lambda>_. Inr VoidInput) S \<noteq> None"
    using S by (auto simp: registration_defs catalogue_defs)
  then obtain S' where S': "setProcHandler ''System'' ''health'' noted_handler (\<lambda>_. Inr VoidInput) S = Some S'" by blast
  show ?thesis
    using middleware_order [OF S S', of context0 "''''"]
    unfolding S option.sel S' by (simp add: bnd_def note_mw_def noted_handler_def ret_def)
qed

text \<open>A typed middleware hands its properties and its input on, but not its context: a deadline that it puts there
  does not reach the handler.\<close>

lemma typed_middleware_keeps_context:
  "adapted_middleware in_of of_in out_of of_out (\<lambda>next_handler c. next_handler (c\<lparr>hc_Context := ctx\<rparr>)) h =
   adapted_middleware in_of of_in out_of of_out (\<lambda>next_handler c. next_handler c) h"
  by (rule ext) (simp add: adapted_middleware_def)

section \<open>Streams that fail\<close>

lemma rw_WriteHeader_fields [simp]:
  "rw_Header (rw_WriteHeader st w) = rw_Header w" "rw_Body (rw_WriteHeader st w) = rw_Body w"
  "rw_Gone (rw_WriteHeader st w) = rw_Gone w" "rw_Flusher (rw_WriteHeader st w) = rw_Flusher w"
  "rw_Sent (rw_WriteHeader st w) = Some (case rw_Sent w of None \<Rightarrow> rw_Header w | Some h \<Rightarrow> h)"
  by (simp_all add: rw_WriteHeader_def split: option.split)

lemma live_Write:
  "\<not> rw_Gone w \<Longrightarrow> NetHTTPAdapter_Write data (w, s) = (None, (rw_WriteHeader 200 w)\<lparr>rw_Body := rw_Body w @ data\<rparr>, s)"
  by (simp add: NetHTTPAdapter_Write_def rw_Write_def)

text \<open>A stream that ends with an error is answered twice: behind the event with the error the client receives a second
  response, the plain JSON one of a procedure that is not implemented, under the header of an event stream, and the
  caller of \<open>handleRequest\<close> is told that all went well.\<close>

lemma failed_stream_answers_twice:
  fixes S :: "((ResponseWriter \<times> 'w) sse_state, 'p) internalServer"
  assumes "js_DecodeRaw T body = Some raw" "lookup2 (operationDefs S) r p = Some d" "od_Type d = OperationTypeStream"
    and "lookup2 (procHandlers S) r p = None"
    and "handleStreamRequest T (NewNetHTTPAdapter body) S
        \<lparr>hc_Props = props, hc_Input = RawMessage raw, hc_Context = ctx, hc_operation = d\<rparr> r p raw st = (Done (Some e, c1), st1)"
    and "\<not> rw_Gone (fst (ss_conn st1))" "rw_Flusher (fst (ss_conn st1))"
    and "js_Marshal T (Response0\<lparr>rs_Ok := False, rs_Error := resolveErrorHandler S r c1 e\<rparr>) = Inr json"
  shows "\<exists>st2. handleRequest_http T (Some (NewNetHTTPAdapter body)) S ctx props r p st = (Done None, st2) \<and>
     rw_Body (fst (ss_conn st2)) = rw_Body (fst (ss_conn st1)) @ ''data: '' @ json @ newline2 @
       Response_Bytes T (Response0\<lparr>rs_Ok := False, rs_Error := resolveErrorHandler S r c1
         (ErrorString (r @ ''.'' @ p @ '' procedure not implemented''))\<rparr>) \<and>
     rw_Sent (fst (ss_conn st2)) = Some (case rw_Sent (fst (ss_conn st1)) of None \<Rightarrow> rw_Header (fst (ss_conn st1)) | Some h \<Rightarrow> h)"
proof -
  obtain w s where conn: "ss_conn st1 = (w, s)" by fastforce
  have up: "\<not> rw_Gone w" "rw_Flusher w" using assms(6,7) conn by simp_all
  show ?thesis
    using assms(1-5,8) up
    by (simp add: NewNetHTTPAdapter_def handleRequest_http_def handle_stream_def bnd_def ret_def write_stream_error_def
        conn live_Write NetHTTPAdapter_Flush_def procResponse_def handleProcRequest_def writeProcResponse_def
        NetHTTPAdapter_SetHeader_def split: option.split)
qed

definition stream_def0 :: OperationDefinition where
  "stream_def0 = \<lparr>od_RPCName = ''Feed'', od_Name = ''changes'', od_Type = OperationTypeStream\<rparr>"

definition stream_server0 :: "((ResponseWriter \<times> unit) sse_state, unit) internalServer" where
  "stream_server0 = newInternalServer [] [stream_def0]"

lemma failed_stream_answers_twice_witness:
  "\<exists>st2. handleRequest_http text0 (Some (NewNetHTTPAdapter ''{}'')) stream_server0 (\<lambda>_. None) () ''Feed'' ''changes'' (state0 [])
      = (Done None, st2) \<and>
     rw_Body (fst (ss_conn st2)) = ''data: {Feed.changes stream not implemented}'' @ newline2 @
       ''{Feed.changes procedure not implemented}'' \<and>
     map_option (\<lambda>h. h ''Content-Type'') (rw_Sent (fst (ss_conn st2))) = Some (Some ''text/event-stream'')"
proof -
  note defs = stream_server0_def newInternalServer_def stream_def0_def add_operation_def ensureRPC_def lookup2_def Let_def
  let ?c = "\<lparr>hc_Props = (), hc_Input = RawMessage ''{}'', hc_Context = (\<lambda>_. None), hc_operation = stream_def0\<rparr>"
  define st1 where "st1 = snd (stream_headers (NewNetHTTPAdapter ''{}'') (state0 []))"
  have h: "resolveErrorHandler stream_server0 r c e = \<lparr>e_Message = Error e\<rparr>" for r c e
    by (simp add: resolveErrorHandler_def defs ToError_def)
  have w: "fst (ss_conn st1) = writer0\<lparr>rw_Header := [''Content-Type'' \<mapsto> ''text/event-stream'', ''Cache-Control'' \<mapsto> ''no-cache'',
      ''Connection'' \<mapsto> ''keep-alive'']\<rparr>"
    by (simp add: st1_def stream_headers_def state0_def NewNetHTTPAdapter_def NetHTTPAdapter_SetHeader_def writer0_def)
  note twice = failed_stream_answers_twice [of text0 "''{}''" "''{}''" stream_server0 "''Feed''" "''changes''" stream_def0 "()"
      "\<lambda>_. None" "state0 []" "ErrorString ''Feed.changes stream not implemented''" ?c st1 "''{Feed.changes stream not implemented}''"]
  have run: "handleStreamRequest text0 (NewNetHTTPAdapter ''{}'') stream_server0 ?c ''Feed'' ''changes'' ''{}'' (state0 []) =
      (Done (Some (ErrorString ''Feed.changes stream not implemented''), ?c), st1)"
    by (simp add: handleStreamRequest_def bnd_def stream_headers_def st1_def ret_def defs)
  have live: "\<not> rw_Gone (fst (ss_conn st1))" "rw_Flusher (fst (ss_conn st1))" "rw_Body (fst (ss_conn st1)) = []"
    "rw_Sent (fst (ss_conn st1)) = None" "rw_Header (fst (ss_conn st1)) ''Content-Type'' = Some ''text/event-stream''"
    unfolding w by (simp_all add: writer0_def)
  have json: "js_Marshal text0 (Response0\<lparr>rs_Ok := b, rs_Error := \<lparr>e_Message = m\<rparr>\<rparr>) = Inr (''{'' @ m @ ''}'')" for b m
    by (simp add: text0_def)
  show ?thesis
    using twice [OF _ _ _ _ run live(1,2)] unfolding live h Response_Bytes_def Response_String_def json
    by (auto simp: defs text0_def live)
qed

end
