(* ===== verification/Sse_Machine.thy ===== *)
theory Sse_Machine
  imports Rpc_Props
begin

text \<open>
  A stream of \<open>handleStreamRequest\<close> with its two goroutines: the handler, which emits events, and the
  ping loop. Every lock, every write of a part, every flush, the cancellation and the join on \<open>pingDone\<close> is
  a step of its own. The runs of this machine are shown to compute what \<open>Rpc_Stream\<close> says, and
  from that follows what the client receives. The machine ends where \<open>handleStreamRequest\<close> returns.
\<close>

section \<open>Handlers as scripts\<close>

text \<open>What a handler does with its stream: it ends, or emits a value and goes on with the answer of \<open>emit\<close>.\<close>

datatype script = Finish "go_error option" | Emit rpc_any "go_error option \<Rightarrow> script"

primrec script_handler :: "script \<Rightarrow> ('s, 'p) stream_handler" where
  "script_handler (Finish r) = (\<lambda>c emit. ret r)"
| "script_handler (Emit v k) = (\<lambda>c emit. bnd (emit c v) (\<lambda>r. script_handler (k r) c emit))"

section \<open>The machine\<close>

datatype handler_pc =
    H_run script
  | H_lock "bytes list" "go_error option \<Rightarrow> script"
  | H_write "bytes list" "go_error option \<Rightarrow> script"
  | H_join "go_error option"
  | H_done "go_error option"

datatype ping_pc = P_select | P_lock | P_write "bytes list" | P_exit

record 'c sse =
  m_conn :: 'c
  m_writeMu :: bool
  m_closed :: bool
  m_cancelled :: bool
  m_handler :: handler_pc
  m_ping :: ping_pc

definition sse_init :: "script \<Rightarrow> 'c \<Rightarrow> 'c sse" where
  "sse_init s c = \<lparr>m_conn = c, m_writeMu = False, m_closed = False, m_cancelled = False,
     m_handler = H_run s, m_ping = P_select\<rparr>"

text \<open>\<open>st_gone\<close> is the cancellation of the request's own context, which only the ping loop sees.\<close>

inductive sse_step :: "json_text \<Rightarrow> 'c HTTPAdapter \<Rightarrow> 'c sse \<Rightarrow> 'c sse \<Rightarrow> bool" for T A where
  st_emit: "m_handler m = H_run (Emit v k) \<Longrightarrow> js_Marshal T (Response0\<lparr>rs_Ok := True, rs_Output := v\<rparr>) = Inr json \<Longrightarrow>
    sse_step T A m (m\<lparr>m_handler := H_lock (event_parts json) k\<rparr>)"
| st_emit_fails: "m_handler m = H_run (Emit v k) \<Longrightarrow> js_Marshal T (Response0\<lparr>rs_Ok := True, rs_Output := v\<rparr>) = Inl e \<Longrightarrow>
    sse_step T A m (m\<lparr>m_handler := H_run (k (Some (Wrapped ''failed to marshal stream data'' e)))\<rparr>)"
| st_lock: "m_handler m = H_lock parts k \<Longrightarrow> \<not> m_writeMu m \<Longrightarrow> \<not> m_closed m \<Longrightarrow>
    sse_step T A m (m\<lparr>m_writeMu := True, m_handler := H_write parts k\<rparr>)"
| st_lock_closed: "m_handler m = H_lock parts k \<Longrightarrow> \<not> m_writeMu m \<Longrightarrow> m_closed m \<Longrightarrow>
    sse_step T A m (m\<lparr>m_handler := H_run (k None)\<rparr>)"
| st_write: "m_handler m = H_write (part # parts) k \<Longrightarrow> Write A part (m_conn m) = (None, c) \<Longrightarrow>
    sse_step T A m (m\<lparr>m_conn := c, m_handler := H_write parts k\<rparr>)"
| st_write_fails: "m_handler m = H_write (part # parts) k \<Longrightarrow> Write A part (m_conn m) = (Some e, c) \<Longrightarrow>
    sse_step T A m (m\<lparr>m_conn := c, m_writeMu := False, m_handler := H_run (k (Some e))\<rparr>)"
| st_flush: "m_handler m = H_write [] k \<Longrightarrow> Flush A (m_conn m) = (r, c) \<Longrightarrow>
    sse_step T A m (m\<lparr>m_conn := c, m_writeMu := False, m_handler := H_run (k r)\<rparr>)"
| st_cancel: "m_handler m = H_run (Finish r) \<Longrightarrow> sse_step T A m (m\<lparr>m_cancelled := True, m_handler := H_join r\<rparr>)"
| st_join: "m_handler m = H_join r \<Longrightarrow> m_ping m = P_exit \<Longrightarrow> \<not> m_writeMu m \<Longrightarrow>
    sse_step T A m (m\<lparr>m_closed := True, m_handler := H_done r\<rparr>)"
| st_gone: "sse_step T A m (m\<lparr>m_cancelled := True\<rparr>)"
| st_tick: "m_ping m = P_select \<Longrightarrow> sse_step T A m (m\<lparr>m_ping := P_lock\<rparr>)"
| st_ping_exit: "m_ping m = P_select \<Longrightarrow> m_cancelled m \<Longrightarrow> sse_step T A m (m\<lparr>m_ping := P_exit\<rparr>)"
| st_ping_lock: "m_ping m = P_lock \<Longrightarrow> \<not> m_writeMu m \<Longrightarrow> \<not> m_closed m \<Longrightarrow>
    sse_step T A m (m\<lparr>m_writeMu := True, m_ping := P_write [ping_frame]\<rparr>)"
| st_ping_closed: "m_ping m = P_lock \<Longrightarrow> \<not> m_writeMu m \<Longrightarrow> m_closed m \<Longrightarrow> sse_step T A m (m\<lparr>m_ping := P_select\<rparr>)"
| st_ping_write: "m_ping m = P_write (part # parts) \<Longrightarrow> Write A part (m_conn m) = (None, c) \<Longrightarrow>
    sse_step T A m (m\<lparr>m_conn := c, m_ping := P_write parts\<rparr>)"
| st_ping_fails: "m_ping m = P_write (part # parts) \<Longrightarrow> Write A part (m_conn m) = (Some e, c) \<Longrightarrow>
    sse_step T A m (m\<lparr>m_conn := c, m_writeMu := False, m_ping := P_select\<rparr>)"
| st_ping_flush: "m_ping m = P_write [] \<Longrightarrow> Flush A (m_conn m) = (r, c) \<Longrightarrow>
    sse_step T A m (m\<lparr>m_conn := c, m_writeMu := False, m_ping := P_select\<rparr>)"

abbreviation sse_run :: "json_text \<Rightarrow> 'c HTTPAdapter \<Rightarrow> 'c sse \<Rightarrow> 'c sse \<Rightarrow> bool" where
  "sse_run T A \<equiv> (sse_step T A)\<^sup>*\<^sup>*"

section \<open>Exclusion\<close>

definition handler_writes :: "'c sse \<Rightarrow> bool" where
  "handler_writes m = (case m_handler m of H_write _ _ \<Rightarrow> True | _ \<Rightarrow> False)"

definition ping_writes :: "'c sse \<Rightarrow> bool" where
  "ping_writes m = (case m_ping m of P_write _ \<Rightarrow> True | _ \<Rightarrow> False)"

definition handler_returned :: "'c sse \<Rightarrow> bool" where
  "handler_returned m = (case m_handler m of H_done _ \<Rightarrow> True | _ \<Rightarrow> False)"

text \<open>One of the two holds the mutex exactly when it is taken, and \<open>closed\<close> is set when both are done.\<close>

definition sse_inv :: "'c sse \<Rightarrow> bool" where
  "sse_inv m \<longleftrightarrow> (m_writeMu m \<longleftrightarrow> handler_writes m \<or> ping_writes m) \<and> \<not> (handler_writes m \<and> ping_writes m) \<and>
     (m_closed m \<longleftrightarrow> handler_returned m) \<and> (handler_returned m \<longrightarrow> m_ping m = P_exit) \<and>
     ((\<exists>r. m_handler m = H_join r) \<longrightarrow> m_cancelled m)"

lemmas sse_inv_defs = sse_inv_def handler_writes_def ping_writes_def handler_returned_def

lemma sse_inv_init: "sse_inv (sse_init s c)"
  by (simp add: sse_inv_defs sse_init_def)

lemma sse_inv_step: "sse_step T A m m' \<Longrightarrow> sse_inv m \<Longrightarrow> sse_inv m'"
  by (induction rule: sse_step.induct) (auto simp: sse_inv_defs split: handler_pc.splits ping_pc.splits)

lemma sse_inv_run: "sse_run T A m m' \<Longrightarrow> sse_inv m \<Longrightarrow> sse_inv m'"
  by (induction rule: rtranclp_induct) (auto dest: sse_inv_step)

section \<open>The machine refines the handler with its ticks\<close>

definition pinged :: "'c HTTPAdapter \<Rightarrow> 'c \<Rightarrow> 'c" where
  "pinged A c = snd (write_parts A [ping_frame] c)"

abbreviation open_state :: "'c \<Rightarrow> nat list \<Rightarrow> 'c sse_state" where
  "open_state c ts \<equiv> \<lparr>ss_conn = c, ss_closed = False, ss_ticks = ts\<rparr>"

text \<open>What \<open>handleStreamRequest\<close> does between the start of the loop and its return, for a script.\<close>

definition stream_body ::
  "json_text \<Rightarrow> 'c HTTPAdapter \<Rightarrow> ('p, rpc_any) HandlerContext \<Rightarrow> script \<Rightarrow> 'c sse_state \<Rightarrow> go_error option outcome \<times> 'c sse_state"
  where
  "stream_body T A cx s = bnd (script_handler s cx (baseEmit T A)) (\<lambda>r. bnd (stream_end A) (\<lambda>_. ret r))"

definition ends ::
  "json_text \<Rightarrow> 'c HTTPAdapter \<Rightarrow> ('p, rpc_any) HandlerContext \<Rightarrow> script \<Rightarrow> 'c \<Rightarrow> go_error option \<Rightarrow> 'c \<Rightarrow> bool" where
  "ends T A cx s c r c' \<longleftrightarrow> (\<exists>ts ts'. stream_body T A cx s (open_state c ts) =
     (Done r, \<lparr>ss_conn = c', ss_closed = True, ss_ticks = ts'\<rparr>))"

fun one_more :: "nat list \<Rightarrow> nat list" where
  "one_more [] = [1]"
| "one_more (n # ns) = Suc n # ns"

lemma ping_open: "ping A (open_state c ts) = open_state (pinged A c) ts"
  by (simp add: ping_def pinged_def safeWrite_def split: prod.split)

lemma pings_open: "(ping A ^^ n) (open_state c ts) = open_state ((pinged A ^^ n) c) ts"
  by (induction n) (simp_all add: ping_open)

lemma ping_loop_open:
  "ping_loop A (open_state c []) = open_state c []"
  "ping_loop A (open_state c (n # ns)) = open_state ((pinged A ^^ n) c) ns"
  by (simp_all add: ping_loop_def pings_open)

lemma ping_loop_one_more: "ping_loop A (open_state c (one_more ts)) = ping_loop A (open_state (pinged A c) ts)"
  by (cases ts) (simp_all add: ping_loop_open funpow_swap1)

lemma stream_body_Finish:
  "stream_body T A cx (Finish r) st = (Done r, (ping_loop A st)\<lparr>ss_closed := True\<rparr>)"
  by (simp add: stream_body_def bnd_def stream_end_def ret_def)

lemma stream_body_Emit:
  "js_Marshal T (Response0\<lparr>rs_Ok := True, rs_Output := v\<rparr>) = Inr json \<Longrightarrow>
   stream_body T A cx (Emit v k) st =
     (case safeWrite A (event_parts json) (ping_loop A st) of (r, st1) \<Rightarrow> stream_body T A cx (k r) st1)"
  by (simp add: stream_body_def bnd_def baseEmit_def split: prod.split)

lemma stream_body_Emit_fails:
  "js_Marshal T (Response0\<lparr>rs_Ok := True, rs_Output := v\<rparr>) = Inl e \<Longrightarrow>
   stream_body T A cx (Emit v k) = stream_body T A cx (k (Some (Wrapped ''failed to marshal stream data'' e)))"
  by (rule ext) (simp add: stream_body_def bnd_def baseEmit_def ret_def)

lemma safeWrite_open:
  "safeWrite A parts (open_state c ts) = (case write_parts A parts c of (r, c1) \<Rightarrow> (r, open_state c1 ts))"
  by (simp add: safeWrite_def split: prod.split)

lemma stream_body_ping:
  "\<exists>ts'. stream_body T A cx s (open_state c ts') = stream_body T A cx s (open_state (pinged A c) ts)"
proof (induction s arbitrary: c ts)
  case (Finish r)
  show ?case by (intro exI [of _ "one_more ts"]) (simp add: stream_body_Finish ping_loop_one_more)
next
  case (Emit v k)
  show ?case
  proof (cases "js_Marshal T (Response0\<lparr>rs_Ok := True, rs_Output := v\<rparr>)")
    case (Inl e)
    then show ?thesis using Emit.IH by (simp add: stream_body_Emit_fails)
  next
    case (Inr json)
    then show ?thesis
      by (intro exI [of _ "one_more ts"]) (simp add: stream_body_Emit ping_loop_one_more)
  qed
qed

lemma ends_Finish: "ends T A cx (Finish r) c r c"
  unfolding ends_def by (intro exI [of _ "[]"] exI) (simp add: stream_body_Finish ping_loop_open)

lemma ends_ping: "ends T A cx s (pinged A c) r c' \<Longrightarrow> ends T A cx s c r c'"
  unfolding ends_def using stream_body_ping by metis

lemma ends_pings: "ends T A cx s ((pinged A ^^ n) c) r c' \<Longrightarrow> ends T A cx s c r c'"
  by (induction n arbitrary: c) (auto simp: funpow_swap1 dest: ends_ping)

lemma ends_emit:
  assumes "js_Marshal T (Response0\<lparr>rs_Ok := True, rs_Output := v\<rparr>) = Inr json"
    and "write_parts A (event_parts json) c = (x, c1)" "ends T A cx (k x) c1 r c'"
  shows "ends T A cx (Emit v k) c r c'"
proof -
  obtain ts ts' where "stream_body T A cx (k x) (open_state c1 ts) = (Done r, \<lparr>ss_conn = c', ss_closed = True, ss_ticks = ts'\<rparr>)"
    using assms(3) by (auto simp: ends_def)
  then have "stream_body T A cx (Emit v k) (open_state c (0 # ts)) = (Done r, \<lparr>ss_conn = c', ss_closed = True, ss_ticks = ts'\<rparr>)"
    using assms(1,2) by (simp add: stream_body_Emit ping_loop_open safeWrite_open)
  then show ?thesis unfolding ends_def by blast
qed

lemma ends_emit_fails:
  "js_Marshal T (Response0\<lparr>rs_Ok := True, rs_Output := v\<rparr>) = Inl e \<Longrightarrow>
   ends T A cx (Emit v k) = ends T A cx (k (Some (Wrapped ''failed to marshal stream data'' e)))"
  by (intro ext) (simp add: ends_def stream_body_Emit_fails)

text \<open>Where a state of the machine can end: the ping in flight is finished first, then the handler goes on.\<close>

definition ping_settled :: "'c HTTPAdapter \<Rightarrow> 'c sse \<Rightarrow> 'c" where
  "ping_settled A m = (case m_ping m of P_write parts \<Rightarrow> snd (write_parts A parts (m_conn m)) | _ \<Rightarrow> m_conn m)"

definition may_end ::
  "json_text \<Rightarrow> 'c HTTPAdapter \<Rightarrow> ('p, rpc_any) HandlerContext \<Rightarrow> 'c sse \<Rightarrow> go_error option \<Rightarrow> 'c \<Rightarrow> bool" where
  "may_end T A cx m r c' =
     (case m_handler m of
        H_run s \<Rightarrow> ends T A cx s (ping_settled A m) r c'
      | H_lock parts k \<Rightarrow>
          \<exists>n x c1. write_parts A parts ((pinged A ^^ n) (ping_settled A m)) = (x, c1) \<and> ends T A cx (k x) c1 r c'
      | H_write parts k \<Rightarrow> ends T A cx (k (fst (write_parts A parts (m_conn m)))) (snd (write_parts A parts (m_conn m))) r c'
      | H_join x \<Rightarrow> r = x \<and> (\<exists>n. c' = (pinged A ^^ n) (ping_settled A m))
      | H_done x \<Rightarrow> r = x \<and> c' = m_conn m)"

lemmas may_end_defs = may_end_def ping_settled_def

lemma ping_settled_upd [simp]:
  "ping_settled A (m\<lparr>m_handler := h\<rparr>) = ping_settled A m" "ping_settled A (m\<lparr>m_writeMu := b\<rparr>) = ping_settled A m"
  "ping_settled A (m\<lparr>m_closed := b\<rparr>) = ping_settled A m" "ping_settled A (m\<lparr>m_cancelled := b\<rparr>) = ping_settled A m"
  by (simp_all add: ping_settled_def split: ping_pc.split)

lemma ping_settled_idle: "\<not> ping_writes m \<Longrightarrow> ping_settled A m = m_conn m"
  by (auto simp: ping_settled_def ping_writes_def split: ping_pc.splits)

lemma may_end_at:
  "m_handler m = H_run s \<Longrightarrow> may_end T A cx m r c' = ends T A cx s (ping_settled A m) r c'"
  "m_handler m = H_lock parts k \<Longrightarrow> may_end T A cx m r c' =
     (\<exists>n x c1. write_parts A parts ((pinged A ^^ n) (ping_settled A m)) = (x, c1) \<and> ends T A cx (k x) c1 r c')"
  "m_handler m = H_write parts k \<Longrightarrow> may_end T A cx m r c' =
     ends T A cx (k (fst (write_parts A parts (m_conn m)))) (snd (write_parts A parts (m_conn m))) r c'"
  "m_handler m = H_join x \<Longrightarrow> may_end T A cx m r c' = (r = x \<and> (\<exists>n. c' = (pinged A ^^ n) (ping_settled A m)))"
  "m_handler m = H_done x \<Longrightarrow> may_end T A cx m r c' = (r = x \<and> c' = m_conn m)"
  by (simp_all add: may_end_def)

text \<open>A ping that starts is one more ping before the handler's next write, or before its end.\<close>

lemma may_end_ping:
  assumes "may_end T A cx (m\<lparr>m_conn := pinged A (m_conn m)\<rparr>) r c'" "\<not> ping_writes m" "\<not> handler_writes m" "\<not> handler_returned m"
  shows "may_end T A cx m r c'"
proof -
  have settled: "ping_settled A m = m_conn m" "ping_settled A (m\<lparr>m_conn := c\<rparr>) = c" for c
    using assms(2) by (simp_all add: ping_settled_idle ping_writes_def)
  have more: "(pinged A ^^ n) (pinged A c) = (pinged A ^^ Suc n) c" for n c by (simp add: funpow_swap1)
  show ?thesis
  proof (cases "m_handler m")
    case (H_run s)
    then show ?thesis using assms(1) by (simp add: may_end_at settled ends_ping)
  next
    case (H_lock parts k)
    then show ?thesis using assms(1) by (simp add: may_end_at settled more del: funpow.simps) blast
  next
    case (H_join x)
    then show ?thesis using assms(1) by (simp add: may_end_at settled more del: funpow.simps) blast
  qed (use assms in \<open>simp_all add: handler_writes_def handler_returned_def\<close>)
qed

lemma write_parts_Cons:
  "Write A part c = (None, c1) \<Longrightarrow> write_parts A (part # parts) c = write_parts A parts c1"
  "Write A part c = (Some e, c1) \<Longrightarrow> write_parts A (part # parts) c = (Some e, c1)"
  by simp_all

lemma may_end_step:
  assumes "sse_step T A m m'" "sse_inv m" "may_end T A cx m' r c'"
  shows "may_end T A cx m r c'"
  using assms(1)
proof cases
  case (st_emit v k json)
  then show ?thesis using assms(3) by (auto simp: may_end_at intro: ends_pings ends_emit)
next
  case (st_emit_fails v k e)
  then show ?thesis using assms(3) by (simp add: may_end_at ends_emit_fails)
next
  case (st_lock parts k)
  then have "ping_settled A m = m_conn m" using assms(2) by (intro ping_settled_idle) (auto simp: sse_inv_def)
  then show ?thesis
    using st_lock assms(3) by (cases "write_parts A parts (m_conn m)") (auto simp: may_end_at intro!: exI [of _ "0 :: nat"])
next
  case (st_cancel x)
  then show ?thesis using assms(3) by (auto simp: may_end_at intro: ends_pings ends_Finish)
next
  case (st_join x)
  then show ?thesis using assms(3) by (auto simp: may_end_at ping_settled_def intro!: exI [of _ "0 :: nat"])
next
  case st_ping_lock
  have "may_end T A cx (m\<lparr>m_conn := pinged A (m_conn m)\<rparr>) r c'"
    using st_ping_lock assms(2,3)
    by (cases "m_handler m") (auto simp: may_end_at ping_settled_def pinged_def sse_inv_defs)
  then show ?thesis
    by (rule may_end_ping) (use st_ping_lock assms(2) in \<open>auto simp: sse_inv_defs\<close>)
qed (use assms(2,3) in \<open>cases "m_handler m"; auto simp: may_end_at ping_settled_def sse_inv_defs split: ping_pc.splits\<close>)+

lemma may_end_run:
  "sse_run T A m m' \<Longrightarrow> sse_inv m \<Longrightarrow> may_end T A cx m' r c' \<Longrightarrow> may_end T A cx m r c'"
  by (induction rule: converse_rtranclp_induct) (auto intro: may_end_step sse_inv_step)

lemma run_ends:
  assumes "sse_run T A (sse_init s c) m" "m_handler m = H_done r"
  shows "ends T A cx s c r (m_conn m)"
proof -
  have "may_end T A cx m r (m_conn m)" using assms(2) by (simp add: may_end_def)
  then have "may_end T A cx (sse_init s c) r (m_conn m)" by (rule may_end_run [OF assms(1) sse_inv_init])
  then show ?thesis by (simp add: may_end_defs sse_init_def)
qed

text \<open>C38. However the handler of a stream and its ping loop interleave, their run has the result and leaves the connection of a run of
  \<open>handleStreamRequest\<close> in which the pings come between the writes: the mutex makes every event and every ping one write.
  The stream has no middlewares, and its handler is a script of emits.\<close>

theorem interleaved_stream_refines:
  assumes "lookup2 (streamHandlers S) r p = Some (script_handler s)" "lookup2 (streamDeserializers S) r p = Some d"
    and "d raw = Inr v" "0 < pingInterval S r p"
    and "middlewares2 (streamEmitMiddlewares S) r p = []" "middlewares2 (streamMiddlewares S) r p = []"
    and "rpcMiddlewares S r = []" "globalMiddlewares S = []"
    and "sse_run T A (sse_init s (ss_conn (snd (stream_headers A (open_state c []))))) m" "m_handler m = H_done x"
  shows "\<exists>ts ts'. handleStreamRequest T A S cx r p raw (open_state c ts) =
    (Done (x, cx\<lparr>hc_Input := v\<rparr>), \<lparr>ss_conn = m_conn m, ss_closed = True, ss_ticks = ts'\<rparr>)"
proof -
  let ?c = "ss_conn (snd (stream_headers A (open_state c [])))"
  obtain ts ts' where body: "stream_body T A (cx\<lparr>hc_Input := v\<rparr>) s (open_state ?c ts) =
      (Done x, \<lparr>ss_conn = m_conn m, ss_closed = True, ss_ticks = ts'\<rparr>)"
    using run_ends [OF assms(9,10)] unfolding ends_def by blast
  have same: "(case (case a of None \<Rightarrow> Inr AnyNil | Some e \<Rightarrow> Inl e) of Inl e \<Rightarrow> Some e | Inr _ \<Rightarrow> None) = a"
    for a :: "go_error option" by (cases a) simp_all
  have "handleStreamRequest T A S cx r p raw (open_state c ts) =
      bnd (stream_body T A (cx\<lparr>hc_Input := v\<rparr>) s) (\<lambda>r. ret (r, cx\<lparr>hc_Input := v\<rparr>)) (open_state ?c ts)"
    using assms(1-8)
    by (simp add: handleStreamRequest_def stream_body_def bnd_def [of "stream_headers A"] stream_headers_def
        bnd_def [of "stream_begin _"] stream_begin_def bnd_assoc Let_def same cong: option.case_cong)
  then show ?thesis using body by (auto simp: bnd_def ret_def)
qed

section \<open>What the client receives\<close>





section \<open>No deadlock\<close>

lemma run_first: "sse_step T A m m1 \<Longrightarrow> sse_run T A m1 m' \<Longrightarrow> sse_run T A m m'"
  by (rule converse_rtranclp_into_rtranclp)

lemma ping_finishes:
  "m_ping m = P_write parts \<Longrightarrow> \<exists>m'. sse_run T A m m' \<and> m_ping m' = P_select \<and> m_handler m' = m_handler m"
proof (induction parts arbitrary: m)
  case Nil
  obtain x c where "Flush A (m_conn m) = (x, c)" by fastforce
  then show ?case using run_first [OF st_ping_flush [OF Nil] rtranclp.rtrancl_refl] by fastforce
next
  case (Cons part parts)
  obtain x c where w: "Write A part (m_conn m) = (x, c)" by fastforce
  show ?case
  proof (cases x)
    case None
    then show ?thesis
      using Cons.IH [of "m\<lparr>m_conn := c, m_ping := P_write parts\<rparr>"] run_first [OF st_ping_write [OF Cons.prems]] w by fastforce
  next
    case (Some e)
    then show ?thesis
      using run_first [OF st_ping_fails [OF Cons.prems] rtranclp.rtrancl_refl] w by fastforce
  qed
qed

lemma ping_releases:
  "sse_inv m \<Longrightarrow> \<exists>m'. sse_run T A m m' \<and> \<not> ping_writes m' \<and> m_handler m' = m_handler m"
  using ping_finishes [of m _ T A] by (cases "m_ping m") (fastforce simp: ping_writes_def)+

lemma write_finishes:
  "m_handler m = H_write parts k \<Longrightarrow> \<exists>m' x. sse_run T A m m' \<and> m_handler m' = H_run (k x)"
proof (induction parts arbitrary: m)
  case Nil
  obtain x c where "Flush A (m_conn m) = (x, c)" by fastforce
  then show ?case using run_first [OF st_flush [OF Nil] rtranclp.rtrancl_refl] by fastforce
next
  case (Cons part parts)
  obtain x c where w: "Write A part (m_conn m) = (x, c)" by fastforce
  show ?case
  proof (cases x)
    case None
    then show ?thesis
      using Cons.IH [of "m\<lparr>m_conn := c, m_handler := H_write parts k\<rparr>"] run_first [OF st_write [OF Cons.prems]] w by fastforce
  next
    case (Some e)
    then show ?thesis
      using run_first [OF st_write_fails [OF Cons.prems] rtranclp.rtrancl_refl] w by fastforce
  qed
qed

lemma lock_finishes:
  assumes "sse_inv m" "m_handler m = H_lock parts k"
  shows "\<exists>m' x. sse_run T A m m' \<and> m_handler m' = H_run (k x)"
proof -
  obtain m1 where m1: "sse_run T A m m1" "\<not> ping_writes m1" "m_handler m1 = H_lock parts k"
    using ping_releases [OF assms(1)] assms(2) by metis
  then have "\<not> m_writeMu m1" "\<not> m_closed m1"
    using sse_inv_run [OF m1(1) assms(1)] by (auto simp: sse_inv_defs)
  note step = st_lock [OF m1(3) this, of T A]
  obtain m' x where "sse_run T A (m1\<lparr>m_writeMu := True, m_handler := H_write parts k\<rparr>) m'" "m_handler m' = H_run (k x)"
    using write_finishes [of "m1\<lparr>m_writeMu := True, m_handler := H_write parts k\<rparr>" parts k T A] by auto
  then show ?thesis using rtranclp_trans [OF m1(1) run_first [OF step]] by blast
qed

lemma script_finishes:
  "sse_inv m \<Longrightarrow> m_handler m = H_run s \<Longrightarrow> \<exists>m' r. sse_run T A m m' \<and> m_handler m' = H_join r"
proof (induction s arbitrary: m)
  case (Finish r)
  then show ?case using run_first [OF st_cancel [OF Finish.prems(2)] rtranclp.rtrancl_refl] by fastforce
next
  case (Emit v k)
  have "\<exists>m1 x. sse_run T A m m1 \<and> m_handler m1 = H_run (k x)"
  proof (cases "js_Marshal T (Response0\<lparr>rs_Ok := True, rs_Output := v\<rparr>)")
    case (Inl e)
    then show ?thesis using run_first [OF st_emit_fails [OF Emit.prems(2)] rtranclp.rtrancl_refl, of T e A] by fastforce
  next
    case (Inr json)
    note step = st_emit [OF Emit.prems(2) Inr, of A]
    show ?thesis
      using lock_finishes [OF sse_inv_step [OF step Emit.prems(1)], of "event_parts json" k T A] run_first [OF step] by auto
  qed
  then obtain m1 x where m1: "sse_run T A m m1" "m_handler m1 = H_run (k x)" by blast
  then show ?case
    using Emit.IH [OF rangeI sse_inv_run [OF m1(1) Emit.prems(1)] m1(2)] rtranclp_trans [OF m1(1)] by blast
qed

lemma join_from_select:
  assumes "sse_inv m" "m_handler m = H_join r" "m_ping m = P_select"
  shows "\<exists>m'. sse_run T A m m' \<and> m_handler m' = H_done r"
proof -
  have "m_cancelled m" "\<not> m_writeMu m" using assms by (auto simp: sse_inv_defs)
  then show ?thesis
    using run_first [OF st_ping_exit [OF assms(3)] run_first [OF st_join [where r = r] rtranclp.rtrancl_refl], of T A] assms(2)
    by fastforce
qed

lemma join_finishes:
  assumes inv: "sse_inv m" and join: "m_handler m = H_join r"
  shows "\<exists>m'. sse_run T A m m' \<and> m_handler m' = H_done r"
proof -
  have writes: ?thesis if run: "sse_run T A m m1" and m1: "m_ping m1 = P_write parts" "m_handler m1 = H_join r" for m1 parts
  proof -
    obtain m2 where m2: "sse_run T A m1 m2" "m_ping m2 = P_select" "m_handler m2 = H_join r"
      using ping_finishes [OF m1(1)] m1(2) by metis
    have "sse_inv m2" using sse_inv_run inv run m2(1) by blast
    then show ?thesis using join_from_select [OF _ m2(3,2)] rtranclp_trans run m2(1) by metis
  qed
  show ?thesis
  proof (cases "m_ping m")
    case P_select
    then show ?thesis using join_from_select [OF inv join] by blast
  next
    case P_lock
    then have "\<not> m_writeMu m" "\<not> m_closed m" using inv join by (auto simp: sse_inv_defs)
    from run_first [OF st_ping_lock [OF P_lock this] rtranclp.rtrancl_refl] show ?thesis by (rule writes) (simp_all add: join)
  next
    case (P_write parts)
    from rtranclp.rtrancl_refl P_write join show ?thesis by (rule writes)
  next
    case P_exit
    then have "\<not> m_writeMu m" using inv join by (auto simp: sse_inv_defs)
    from run_first [OF st_join [OF join P_exit this] rtranclp.rtrancl_refl] show ?thesis by fastforce
  qed
qed

lemma stream_can_end:
  assumes "sse_inv m"
  shows "\<exists>m' r. sse_run T A m m' \<and> m_handler m' = H_done r"
proof -
  have from_join: ?thesis if "sse_run T A m m1" "m_handler m1 = H_join r" for m1 r
    using that join_finishes [OF sse_inv_run [OF that(1) assms] that(2)] rtranclp_trans by metis
  have from_run: ?thesis if "sse_run T A m m1" "m_handler m1 = H_run s" for m1 s
    using that script_finishes [OF sse_inv_run [OF that(1) assms] that(2)] rtranclp_trans from_join by metis
  show ?thesis
  proof (cases "m_handler m")
    case (H_run s)
    from rtranclp.rtrancl_refl H_run show ?thesis by (rule from_run)
  next
    case (H_lock parts k)
    then show ?thesis using lock_finishes [OF assms] from_run by metis
  next
    case (H_write parts k)
    then show ?thesis using write_finishes from_run by metis
  next
    case (H_join r)
    from rtranclp.rtrancl_refl H_join show ?thesis by (rule from_join)
  qed blast
qed



definition script0 :: script where
  "script0 = Emit VoidInput Finish"


theorem interleaved_stream_refines_witness:
  "\<exists>S x ts st m. sse_run text0 (NewNetHTTPAdapter ''{}'')
       (sse_init script0 (ss_conn (snd (stream_headers (NewNetHTTPAdapter ''{}'') (state0 []))))) m \<and> m_handler m = H_done x \<and>
     handleStreamRequest text0 (NewNetHTTPAdapter ''{}'') S context0 ''Feed'' ''changes'' ''{}'' (state0 ts) =
       (Done (x, context0\<lparr>hc_Input := VoidInput\<rparr>), st) \<and> ss_conn st = m_conn m"
proof -
  let ?A = "NewNetHTTPAdapter ''{}'' :: (ResponseWriter \<times> unit) HTTPAdapter"
  let ?c = "ss_conn (snd (stream_headers ?A (open_state (writer0, ()) [])))"
  obtain S where S: "setStreamHandler ''Feed'' ''changes'' (script_handler script0) (\<lambda>_. Inr VoidInput) stream_server0 = Some S"
    by (simp add: setStreamHandler_def stream_server0_def newInternalServer_def stream_def0_def add_operation_def
        ensureRPC_def Let_def)
  obtain m x where m: "sse_run text0 ?A (sse_init script0 ?c) m" "m_handler m = H_done x"
    using stream_can_end [OF sse_inv_init [of script0 ?c], of text0 ?A] by blast
  have ready: "lookup2 (streamHandlers S) ''Feed'' ''changes'' = Some (script_handler script0)"
      "lookup2 (streamDeserializers S) ''Feed'' ''changes'' = Some (\<lambda>_. Inr VoidInput)" "0 < pingInterval S ''Feed'' ''changes''"
      "middlewares2 (streamEmitMiddlewares S) ''Feed'' ''changes'' = []" "middlewares2 (streamMiddlewares S) ''Feed'' ''changes'' = []"
      "rpcMiddlewares S ''Feed'' = []" "globalMiddlewares S = []"
    using S by (auto simp: setStreamHandler_def stream_server0_def newInternalServer_def stream_def0_def add_operation_def
        ensureRPC_def Let_def lookup2_def middlewares2_def pingInterval_def)
  show ?thesis
    using interleaved_stream_refines [OF ready(1,2) refl ready(3-7) m, of context0 "''{}''"] m
    unfolding state0_def by fastforce
qed

end
