(* ===== verification/Util.thy ===== *)
theory Util
  imports Rpc_Stream Encoding
begin

text \<open>
  The helpers of \<open>internal/util\<close> that the other theories do not hold (\<open>numutil\<close>, \<open>syncutil\<close>, the generation of hashes in
  \<open>cryptoutil\<close>, the rest of \<open>httputil\<close>), \<open>internal/version\<close> and the script \<open>scripts/fetch-sqlite\<close>. The hash libraries,
  the text styles of the package \<open>tinta\<close>, the network, the zip reader and the file system are parameters.
\<close>

section \<open>numutil\<close>

text \<open>\<open>%03d\<close> of a number below 1000.\<close>

definition pad3 :: "nat \<Rightarrow> string" where
  "pad3 n = [digit (n div 100), digit (n div 10), digit n]"

text \<open>\<open>IntWithCommas\<close> on \<open>int64\<close>. The recursion on the negated number need not end, so that \<open>None\<close> is a call that
  never returns.\<close>

partial_function (option) IntWithCommas :: "64 word \<Rightarrow> string option" where
  "IntWithCommas i =
     (if sint i < 0 then Option.bind (IntWithCommas (- i)) (\<lambda>s. Some (''-'' @ s))
      else if sint i < 1000 then Some (show_int (sint i))
      else Option.bind (IntWithCommas (i div 1000)) (\<lambda>s. Some (s @ '','' @ pad3 (unat (i mod 1000)))))"

section \<open>syncutil\<close>

text \<open>An \<open>atomic.Value\<close> that holds nothing yet, or a value.\<close>

record 'a Atomic =
  at_value :: "'a option"

definition Atomic_Store :: "'a \<Rightarrow> 'a Atomic \<Rightarrow> 'a Atomic" where
  "Atomic_Store v a = a\<lparr>at_value := Some v\<rparr>"

definition Atomic_Load :: "'a \<Rightarrow> 'a Atomic \<Rightarrow> 'a" where
  "Atomic_Load zero a = (case at_value a of Some v \<Rightarrow> v | None \<Rightarrow> zero)"

definition NewAtomic :: "'a \<Rightarrow> 'a Atomic" where
  "NewAtomic initial = Atomic_Store initial \<lparr>at_value = None\<rparr>"

definition NewAtomicString :: "string \<Rightarrow> string Atomic" where
  "NewAtomicString initial = Atomic_Store initial \<lparr>at_value = None\<rparr>"

definition NewAtomicTime :: "time \<Rightarrow> time Atomic" where
  "NewAtomicTime initial = Atomic_Store initial \<lparr>at_value = None\<rparr>"

section \<open>cryptoutil\<close>

text \<open>\<open>generate\<close> is \<open>bcrypt.GenerateFromPassword\<close>; the bounds are those of that package.\<close>

definition bcrypt_MinCost :: int where "bcrypt_MinCost = 4"
definition bcrypt_MaxCost :: int where "bcrypt_MaxCost = 31"
definition bcrypt_DefaultCost :: int where "bcrypt_DefaultCost = 10"

definition BcryptGenerateHash ::
  "(bytes \<Rightarrow> int \<Rightarrow> go_error + bytes) \<Rightarrow> string \<Rightarrow> int list \<Rightarrow> go_error + string" where
  "BcryptGenerateHash generate password cost =
     (let pickedCost = (if length cost > 0 \<and> cost ! 0 > bcrypt_MinCost \<and> cost ! 0 < bcrypt_MaxCost
                        then cost ! 0 else bcrypt_DefaultCost) in
      case generate password pickedCost of Inl e \<Rightarrow> Inl e | Inr hash \<Rightarrow> Inr hash)"

record argon2id_Params =
  ap_Memory :: nat
  ap_Iterations :: nat
  ap_Parallelism :: nat
  ap_SaltLength :: nat
  ap_KeyLength :: nat

definition argon2idHashParams :: argon2id_Params where
  "argon2idHashParams = \<lparr>ap_Memory = 64 * 1024, ap_Iterations = 2, ap_Parallelism = 2, ap_SaltLength = 16, ap_KeyLength = 32\<rparr>"

definition Argon2IDGenerateHash ::
  "(string \<Rightarrow> argon2id_Params \<Rightarrow> go_error + string) \<Rightarrow> string \<Rightarrow> go_error + string" where
  "Argon2IDGenerateHash createHash password =
     (case createHash password argon2idHashParams of Inl e \<Rightarrow> Inl e | Inr hash \<Rightarrow> Inr hash)"

section \<open>httputil\<close>

definition WriteJSONBytes :: "nat \<Rightarrow> bytes \<Rightarrow> ResponseWriter \<Rightarrow> go_error option \<times> ResponseWriter" where
  "WriteJSONBytes status b w =
     (case rw_Write b (rw_WriteHeader status (w\<lparr>rw_Header := (rw_Header w)(''Content-Type'' \<mapsto> ''application/json'')\<rparr>)) of
        (Some e, w1) \<Rightarrow> (Some (Wrapped ''failed to write JSON response'' e), w1)
      | (None, w1) \<Rightarrow> (None, w1))"

text \<open>\<open>ReadReqBodyBytes\<close>: a request that may be nil, with a body that may be nil; a body is what \<open>io.ReadAll\<close> makes of it.\<close>

definition ReadReqBodyBytes :: "(go_error + bytes) option option \<Rightarrow> go_error + bytes" where
  "ReadReqBodyBytes r =
     (case r of
        None \<Rightarrow> Inl (ErrorString ''request cannot be nil'')
      | Some None \<Rightarrow> Inr []
      | Some (Some body) \<Rightarrow> body)"

text \<open>One turn of the loop of \<open>WaitForServer\<close>: the error of making the request, the error or the status of the
  response, and whether the deadline comes before the pause of 50 ms is over.\<close>

record poll =
  po_request :: "go_error option"
  po_answer :: "go_error + nat"
  po_deadline :: bool

partial_function (option) wait_from :: "string \<Rightarrow> string \<Rightarrow> (nat \<Rightarrow> poll) \<Rightarrow> nat \<Rightarrow> go_error option option" where
  "wait_from url timeout polls i =
     (case po_request (polls i) of
        Some e \<Rightarrow> Some (Some (Wrapped ''failed to create request'' e))
      | None \<Rightarrow>
          if po_answer (polls i) = Inr 200 then Some None
          else if po_deadline (polls i) then
            Some (Some (ErrorString (''server at '' @ url @ '' did not become ready within '' @ timeout)))
          else wait_from url timeout polls (i + 1))"

definition WaitForServer :: "string \<Rightarrow> string \<Rightarrow> (nat \<Rightarrow> poll) \<Rightarrow> go_error option option" where
  "WaitForServer url timeout polls = wait_from url timeout polls 0"

section \<open>netutil\<close>

definition GetFreePort :: "(string \<Rightarrow> go_error + 'addr) \<Rightarrow> ('addr \<Rightarrow> go_error + int) \<Rightarrow> go_error + int" where
  "GetFreePort resolve listen =
     (case resolve ''localhost:0'' of Inl e \<Rightarrow> Inl e | Inr addr \<Rightarrow> (case listen addr of Inl e \<Rightarrow> Inl e | Inr port \<Rightarrow> Inr port))"

section \<open>version\<close>

text \<open>The styles of package \<open>tinta\<close> that the banner uses; a box takes the lines that it centres.\<close>

record tinta =
  tn_bold :: "string \<Rightarrow> string"
  tn_cyan :: "string \<Rightarrow> string"
  tn_green :: "string \<Rightarrow> string"
  tn_link :: "string \<Rightarrow> string"
  tn_mainBox :: "nat list \<Rightarrow> string \<Rightarrow> string"
  tn_shadowBox :: "string \<Rightarrow> string"
  tn_canvas :: "string \<Rightarrow> string \<Rightarrow> string"

definition newline :: string where
  "newline = [CHR 0x0A]"

definition banner_content :: "tinta \<Rightarrow> string list \<Rightarrow> string \<Rightarrow> string" where
  "banner_content T logo version =
     concat (map (\<lambda>line. tn_cyan T line @ newline) logo) @
     tn_green T (''v'' @ version) @ newline @ newline @
     tn_bold T ''Star the repo: '' @ tn_link T ''https://github.com/varavelio/nsqlite'' @ newline @
     tn_bold T ''Show usage:    '' @ ''nsqlite --help'' @ newline @
     tn_bold T ''Show version:  '' @ ''nsqlite --version''"

text \<open>\<open>logo\<close> is \<open>asciiLogo\<close>.\<close>

definition AsciiArt :: "tinta \<Rightarrow> string list \<Rightarrow> string \<Rightarrow> string" where
  "AsciiArt T logo version =
     (let content = banner_content T logo version in
      tn_canvas T (tn_shadowBox T content) (tn_mainBox T [0 ..< length logo + 1] content))"

definition version_init :: "string \<Rightarrow> string" where
  "version_init v = TrimPrefix (TrimSpace v) ''v''"

text \<open>The start of the package: the variables are initialised before \<open>init\<close> runs, so the banner is made from what the
  linker has set. The result is \<open>AsciiArt\<close> and \<open>Version\<close>.\<close>

definition package_version :: "tinta \<Rightarrow> string list \<Rightarrow> string \<Rightarrow> string \<times> string" where
  "package_version T logo linked = (AsciiArt T logo linked, version_init linked)"

section \<open>fetch-sqlite\<close>

record zip_entry =
  zf_Name :: string
  zf_Open :: "go_error + ((go_error + bytes) \<times> go_error option)"

text \<open>What the script asks of the network, the hash library, the zip reader and the file system \<open>'fs\<close>.
  An opened entry has the result of reading it and the one of closing it.\<close>

record 'fs fetch_io =
  fi_NewRequest :: "string \<Rightarrow> go_error option"
  fi_Do :: "string \<Rightarrow> go_error + (go_error + bytes)"
  fi_Sum256 :: "bytes \<Rightarrow> bytes"
  fi_NewReader :: "bytes \<Rightarrow> go_error + zip_entry list"
  fi_MkdirAll :: "string \<Rightarrow> 'fs \<Rightarrow> go_error option \<times> 'fs"
  fi_WriteFile :: "string \<Rightarrow> bytes \<Rightarrow> 'fs \<Rightarrow> go_error option \<times> 'fs"

definition zipURL :: string where
  "zipURL = ''https://www.sqlite.org/2026/sqlite-amalgamation-3530100.zip''"

definition zipSHA :: string where
  "zipSHA = ''3c07136e4f6b5dd0c395be86455014039597bc65b6851f7111e88f71b6e06114''"

definition destDir :: string where
  "destDir = ''./internal/sqlite''"

definition extract_names :: "string list" where
  "extract_names = [''sqlite3.c'', ''sqlite3.h'', ''sqlite3ext.h'']"

text \<open>\<open>filepath.Base\<close> on Unix.\<close>

definition path_Base :: "string \<Rightarrow> string" where
  "path_Base p =
     (if p = [] then ''.''
      else let q = TrimRight p (CHR ''/'') in if q = [] then ''/'' else last (split_on (CHR ''/'') q))"

text \<open>The loop over the entries; an error is a panic with it.\<close>

fun extract_entries :: "'fs fetch_io \<Rightarrow> zip_entry list \<Rightarrow> 'fs \<Rightarrow> go_error option \<times> 'fs" where
  "extract_entries io [] fs = (None, fs)"
| "extract_entries io (f # files) fs =
     (if path_Base (zf_Name f) \<notin> set extract_names then extract_entries io files fs
      else case zf_Open f of
        Inl e \<Rightarrow> (Some (Wrapped (''failed to open '' @ zf_Name f @ '' in zip'') e), fs)
      | Inr (_, Some e) \<Rightarrow> (Some (Wrapped (''failed to close '' @ zf_Name f) e), fs)
      | Inr (Inl e, None) \<Rightarrow> (Some (Wrapped (''failed to read '' @ zf_Name f) e), fs)
      | Inr (Inr data, None) \<Rightarrow>
          (let destPath = path_Join [destDir, path_Base (zf_Name f)] in
           case fi_WriteFile io destPath data fs of
             (Some e, fs1) \<Rightarrow> (Some (Wrapped (''failed to write '' @ destPath) e), fs1)
           | (None, fs1) \<Rightarrow> extract_entries io files fs1))"

definition fetch_main :: "'fs fetch_io \<Rightarrow> 'fs \<Rightarrow> go_error option \<times> 'fs" where
  "fetch_main io fs =
     (case fi_NewRequest io zipURL of
        Some e \<Rightarrow> (Some (Wrapped ''failed to create request'' e), fs)
      | None \<Rightarrow>
          (case fi_Do io zipURL of
             Inl e \<Rightarrow> (Some (Wrapped ''failed to download'' e), fs)
           | Inr (Inl e) \<Rightarrow> (Some (Wrapped ''failed to read response'' e), fs)
           | Inr (Inr body) \<Rightarrow>
               (let got = hex_Encode (fi_Sum256 io body) in
                if got \<noteq> zipSHA then
                  (Some (ErrorString (''SHA3-256 mismatch: expected '' @ zipSHA @ '', got '' @ got)), fs)
                else case fi_NewReader io body of
                    Inl e \<Rightarrow> (Some (Wrapped ''failed to open zip'' e), fs)
                  | Inr files \<Rightarrow>
                      (case fi_MkdirAll io destDir fs of
                         (Some e, fs1) \<Rightarrow> (Some (Wrapped (''failed to create '' @ destDir) e), fs1)
                       | (None, fs1) \<Rightarrow> extract_entries io files fs1))))"

section \<open>Lemmas\<close>

subsection \<open>Numbers with commas\<close>

text \<open>A comma before every third digit from the right.\<close>

fun group3 :: "string \<Rightarrow> string" where
  "group3 ds = (if length ds \<le> 3 then ds
     else group3 (take (length ds - 3) ds) @ CHR '','' # drop (length ds - 3) ds)"

declare group3.simps [simp del]

lemma show_nat_1000: "1000 \<le> n \<Longrightarrow> show_nat n = show_nat (n div 1000) @ pad3 (n mod 1000)"
proof -
  assume n: "1000 \<le> n"
  have "show_nat n = show_nat (n div 10 div 10 div 10) @ [digit (n div 10 div 10 mod 10)] @ [digit (n div 10 mod 10)] @ [digit (n mod 10)]"
    using n by (simp add: show_nat_eval(2))
  moreover have "n div 10 div 10 mod 10 = n mod 1000 div 100"
    by (simp add: div_mult2_eq [symmetric] mod_mult2_eq [of n 100 10, simplified])
  moreover have "n div 10 mod 10 = n mod 1000 div 10 mod 10"
    by (simp add: mod_mult2_eq [of n 10 100, simplified] mod_mod_cancel)
  moreover have "n mod 10 = n mod 1000 mod 10" by (simp add: mod_mod_cancel)
  moreover have "n div 10 div 10 div 10 = n div 1000" by (simp add: div_mult2_eq [symmetric])
  moreover have "digit (k mod 10) = digit k" for k by (simp add: digit_def)
  ultimately show ?thesis by (simp add: pad3_def)
qed

lemma length_pad3 [simp]: "length (pad3 n) = 3"
  by (simp add: pad3_def)

lemma group3_snoc: "ds \<noteq> [] \<Longrightarrow> length p = 3 \<Longrightarrow> group3 (ds @ p) = group3 ds @ CHR '','' # p"
  by (subst group3.simps) simp

lemma length_show_nat3: "n < 1000 \<Longrightarrow> length (show_nat n) \<le> 3"
  by (simp add: show_nat.simps [of n] show_nat.simps [of "n div 10"] show_nat.simps [of "n div 10 div 10"])

lemma sint_small: "unat (i :: 64 word) < 2 ^ 63 \<Longrightarrow> sint i = int (unat i)"
proof -
  assume "unat i < 2 ^ 63"
  then have "uint i < 2 ^ 63" unfolding uint_nat by (metis of_nat_less_iff of_nat_numeral of_nat_power)
  then have "signed_take_bit 63 (uint i) = uint i" using uint_ge_0 [of i] by (intro signed_take_bit_int_eq_self) linarith+
  then show ?thesis by (simp add: sint_uint)
qed

lemma IntWithCommas_nat:
  "unat i < 2 ^ 63 \<Longrightarrow> IntWithCommas i = Some (group3 (show_nat (unat i)))"
proof (induction "unat i" arbitrary: i rule: less_induct)
  case less
  have "sint i = int (unat i)" using less.prems by (rule sint_small)
  then have sint: "\<not> sint i < 0" "sint i < 1000 \<longleftrightarrow> unat i < 1000" "show_int (sint i) = show_nat (unat i)"
    by (simp_all add: show_int_def del: of_nat_unat)
  show ?case
  proof (cases "unat i < 1000")
    case True
    then show ?thesis
      using length_show_nat3 by (simp add: IntWithCommas.simps [of i] sint group3.simps [of "show_nat (unat i)"])
  next
    case False
    have "unat (i div 1000) = unat i div 1000" "unat (i mod 1000) = unat i mod 1000"
      by (simp_all add: unat_div unat_mod)
    with less.hyps [of "i div 1000"] less.prems False show ?thesis
      by (simp add: IntWithCommas.simps [of i] sint show_nat_1000 [of "unat i"] group3_snoc)
  qed
qed

text \<open>A number is printed in decimal with its digits in groups of three; the smallest \<open>int64\<close>, which is its own
  negation, sends the function into an endless recursion.\<close>

lemma IntWithCommas_prints:
  assumes "sint i \<noteq> - (2 ^ 63)"
  shows "IntWithCommas i = Some ((if sint i < 0 then ''-'' else []) @ group3 (show_nat (nat \<bar>sint i\<bar>)))"
proof -
  have range: "- (2 ^ 63) \<le> sint i" "sint i < 2 ^ 63" using sint_range_size [of i] by (simp_all add: word_size)
  have unat_of: "unat (word_of_int k :: 64 word) = nat k" if "0 \<le> k" "k < 2 ^ 63" for k
    using that by (simp add: unat_eq_nat_uint uint_word_of_int_eq take_bit_int_eq_self)
  show ?thesis
  proof (cases "sint i < 0")
    case True
    have "- i = word_of_int (- sint i)" by (simp add: word_of_int_minus)
    then have "unat (- i) = nat (- sint i)" using unat_of [of "- sint i"] range True assms by simp
    moreover have "IntWithCommas (- i) = Some (group3 (show_nat (unat (- i))))"
      using calculation range assms by (intro IntWithCommas_nat) simp
    ultimately show ?thesis using True by (simp add: IntWithCommas.simps [of i])
  next
    case False
    have "unat i = nat (sint i)" using unat_of [of "sint i"] range False by simp
    moreover have "IntWithCommas i = Some (group3 (show_nat (unat i)))"
      using calculation range False by (intro IntWithCommas_nat) simp
    ultimately show ?thesis using False by simp
  qed
qed

lemma IntWithCommas_min:
  assumes "- i = i" "sint i < 0"
  shows "IntWithCommas i = None"
proof -
  have "IntWithCommas i = Option.bind (IntWithCommas i) (\<lambda>s. Some (''-'' @ s))"
    using IntWithCommas.simps [of i] assms by metis
  then show ?thesis by (cases "IntWithCommas i") simp_all
qed

subsection \<open>Atomic cells\<close>

lemma Atomic_laws:
  "Atomic_Load z (Atomic_Store v a) = v" "Atomic_Load z (NewAtomic v) = v" "Atomic_Load z \<lparr>at_value = None\<rparr> = z"
  by (simp_all add: Atomic_Load_def Atomic_Store_def NewAtomic_def)

subsection \<open>Waiting for a server\<close>

text \<open>With a deadline the wait ends, without an error exactly when the server has answered with status 200 by then.\<close>

lemma wait_from_ends:
  assumes "i \<le> k" "po_deadline (polls k)" "\<And>j. po_request (polls j) = None"
  shows "\<exists>r. wait_from url timeout polls i = Some r \<and>
    (r = None \<longleftrightarrow> (\<exists>j \<ge> i. po_answer (polls j) = Inr 200 \<and> (\<forall>l \<ge> i. l < j \<longrightarrow> \<not> po_deadline (polls l))))"
  using assms(1)
proof (induction "k - i" arbitrary: i)
  case 0
  then have "po_deadline (polls i)" using assms(2) by simp
  then show ?case
    by (subst wait_from.simps) (auto simp: assms(3) intro!: exI [of _ i] le_neq_implies_less)
next
  case (Suc n)
  show ?case
  proof (cases "po_answer (polls i) = Inr 200 \<or> po_deadline (polls i)")
    case True
    then show ?thesis
      by (subst wait_from.simps) (auto simp: assms(3) intro!: exI [of _ i] le_neq_implies_less)
  next
    case False
    have "n = k - (i + 1)" "i + 1 \<le> k" using Suc.hyps(2) by simp_all
    note IH = Suc.hyps(1) [OF this]
    have "(\<exists>j \<ge> i. po_answer (polls j) = Inr 200 \<and> (\<forall>l \<ge> i. l < j \<longrightarrow> \<not> po_deadline (polls l))) \<longleftrightarrow>
      (\<exists>j \<ge> i + 1. po_answer (polls j) = Inr 200 \<and> (\<forall>l \<ge> i + 1. l < j \<longrightarrow> \<not> po_deadline (polls l)))"
      using False by (metis Suc_eq_plus1 Suc_leD le_antisym not_less_eq_eq)
    then show ?thesis
      using IH False by (subst wait_from.simps) (simp add: assms(3))
  qed
qed

subsection \<open>The banner\<close>

text \<open>A tag such as \<open>v1.2.3\<close> is trimmed for \<open>Version\<close>, but the banner, made before, shows it with two letters.\<close>

lemma banner_shows_two_letters:
  "snd (package_version T logo ''v1.2.3'') = ''1.2.3''"
  "\<exists>a b. banner_content T logo ''v1.2.3'' = a @ tn_green T ''vv1.2.3'' @ b"
proof -
  show "snd (package_version T logo ''v1.2.3'') = ''1.2.3''"
    by (simp add: package_version_def version_init_def) (simp add: go_strings)
  show "\<exists>a b. banner_content T logo ''v1.2.3'' = a @ tn_green T ''vv1.2.3'' @ b"
  proof (intro exI)
    let ?logo = "concat (map (\<lambda>line. tn_cyan T line @ newline) logo)"
    show "banner_content T logo ''v1.2.3'' = ?logo @ tn_green T ''vv1.2.3'' @
        drop (length ?logo + length (tn_green T ''vv1.2.3'')) (banner_content T logo ''v1.2.3'')"
      by (simp add: banner_content_def)
  qed
qed

subsection \<open>The amalgamation\<close>

lemma extract_entries_confined:
  assumes "\<And>name data fs. name \<in> set extract_names \<Longrightarrow> P fs \<Longrightarrow> P (snd (fi_WriteFile io (path_Join [destDir, name]) data fs))"
    and "P fs"
  shows "P (snd (extract_entries io files fs))"
  using assms(2)
proof (induction files arbitrary: fs)
  case (Cons f files)
  show ?case
  proof (cases "path_Base (zf_Name f) \<in> set extract_names")
    case True
    have "P (snd (fi_WriteFile io (path_Join [destDir, path_Base (zf_Name f)]) data fs))" for data
      by (rule assms(1) [OF True Cons.prems])
    then have "P fs1" if "fi_WriteFile io (path_Join [destDir, path_Base (zf_Name f)]) data fs = (e, fs1)" for data e fs1
      using that by (metis snd_conv)
    with True Cons show ?thesis
      by (auto simp: Let_def split: sum.split prod.split option.split)
  qed (use Cons in \<open>simp\<close>)
qed simp

text \<open>The script that fetches SQLite leaves the file system as it is unless the archive has the pinned checksum, and writes nothing but the three
  source files in \<open>internal/sqlite\<close>, whatever names the entries of the archive have.\<close>

lemma fetch_confined:
  assumes mkdir: "\<And>fs. P fs \<Longrightarrow> P (snd (fi_MkdirAll io destDir fs))"
    and files: "\<And>name data fs. name \<in> {''sqlite3.c'', ''sqlite3.h'', ''sqlite3ext.h''} \<Longrightarrow> P fs \<Longrightarrow>
      P (snd (fi_WriteFile io (path_Join [''./internal/sqlite'', name]) data fs))"
    and "P fs"
  shows "P (snd (fetch_main io fs)) \<and>
    (\<forall>body. fi_Do io zipURL = Inr (Inr body) \<longrightarrow> hex_Encode (fi_Sum256 io body) \<noteq> zipSHA \<longrightarrow>
       snd (fetch_main io fs) = fs \<and> fst (fetch_main io fs) \<noteq> None)"
proof -
  have "P (snd (extract_entries io es fs1))" if "P fs1" for es fs1
    using extract_entries_confined [of P io fs1 es] files that by (simp add: extract_names_def destDir_def)
  moreover have "P fs1" if "fi_MkdirAll io destDir fs = (e, fs1)" for e fs1
    using mkdir [OF assms(3)] that by simp
  ultimately have "P (snd (fetch_main io fs))"
    using assms(3) by (auto simp: fetch_main_def Let_def split: option.split sum.split prod.split)
  then show ?thesis by (auto simp: fetch_main_def Let_def split: option.split)
qed

definition fetch_io0 :: "string \<Rightarrow> (string list) fetch_io" where
  "fetch_io0 sha = \<lparr>fi_NewRequest = (\<lambda>_. None), fi_Do = (\<lambda>_. Inr (Inr ''zip'')), fi_Sum256 = (\<lambda>_. sha),
     fi_NewReader = (\<lambda>_. Inr [\<lparr>zf_Name = ''../../etc/passwd'', zf_Open = Inr (Inr ''x'', None)\<rparr>,
       \<lparr>zf_Name = ''../../sqlite3.c'', zf_Open = Inr (Inr ''y'', None)\<rparr>]),
     fi_MkdirAll = (\<lambda>_ fs. (None, fs)), fi_WriteFile = (\<lambda>name _ fs. (None, fs @ [name]))\<rparr>"

lemma fetch_confined_witness:
  "set (snd (fetch_main (fetch_io0 []) [])) \<subseteq>
     {path_Join [''./internal/sqlite'', name] |name. name \<in> {''sqlite3.c'', ''sqlite3.h'', ''sqlite3ext.h''}} \<and>
   fst (fetch_main (fetch_io0 []) []) \<noteq> None"
proof -
  let ?P = "\<lambda>fs. set fs \<subseteq> {path_Join [''./internal/sqlite'', name] |name. name \<in> {''sqlite3.c'', ''sqlite3.h'', ''sqlite3ext.h''}}"
  have "?P fs \<Longrightarrow> ?P (snd (fi_MkdirAll (fetch_io0 []) destDir fs))" for fs by (simp add: fetch_io0_def)
  moreover have "?P (snd (fi_WriteFile (fetch_io0 []) (path_Join [''./internal/sqlite'', name]) data fs))"
    if "name \<in> {''sqlite3.c'', ''sqlite3.h'', ''sqlite3ext.h''}" "?P fs" for name data fs
    using that by (auto simp: fetch_io0_def)
  moreover have "?P []" by simp
  ultimately have "?P (snd (fetch_main (fetch_io0 []) [])) \<and>
      (\<forall>body. fi_Do (fetch_io0 []) zipURL = Inr (Inr body) \<longrightarrow> hex_Encode (fi_Sum256 (fetch_io0 []) body) \<noteq> zipSHA \<longrightarrow>
         snd (fetch_main (fetch_io0 []) []) = [] \<and> fst (fetch_main (fetch_io0 []) []) \<noteq> None)"
    by (rule fetch_confined [of ?P "fetch_io0 []" "[]"])
  moreover have "fi_Do (fetch_io0 []) zipURL = Inr (Inr ''zip'')" "hex_Encode (fi_Sum256 (fetch_io0 []) ''zip'') \<noteq> zipSHA"
    by (simp_all add: fetch_io0_def zipSHA_def)
  ultimately show ?thesis by blast
qed

end
