(* ===== verification/Spec2Isabelle.thy ===== *)
theory Spec2Isabelle
  imports Rqlite_Props Shutdown Tx_Machine Sqlite_Props Stats_Machine Sse_Machine Util
begin

text \<open>
  NSQLite is a server that gives many clients access to one SQLite database over HTTP. It is
  written in Go, with a small C part that SQLite calls back. This library models the server from the
  authorizer inside SQLite up to its HTTP handlers, its start, and the entry point of its container.

  \<^bold>\<open>The program.\<close> A request comes in over HTTP, as a call of an RPC operation or on one of three
  endpoints that imitate rqlite. The server authenticates its token, which gives a role and an
  identity, decodes a batch of queries and gives each to the database object \<open>DB\<close>. \<open>DB\<close> classifies a
  query by its first word or by letting SQLite compile it, and runs it on a connection: reads on
  a pool of read-only connections, everything else on a single read-write connection behind mutexes.
  At most one transaction is open; it has an ID, which its owner sends with each query, and an idle
  monitor ends it when the owner is silent for too long. Each connection has an authorizer, which SQLite asks for
  every action of a statement, with the role of the current caller as its policy. Counters per minute record what
  has been done. The main program reads the configuration, opens the database and starts the server; in a container, an
  entry point starts it directly or under Litestream, which replicates the database.

  \<^bold>\<open>The theories,\<close> from the ground up, each with the source that it models:

  \<^item> \<open>Prelude\<close>: Go strings, errors, case mapping and the other functions of package \<open>strings\<close>.
  \<^item> \<open>Authorizer\<close>: \<open>internal/sqlite/sqlite.c\<close>, the policies of the three roles.
  \<^item> \<open>Sqlite_Conn\<close>, \<open>Sqlite_Query\<close>: \<open>internal/sqlite/sqlite.go\<close>, connections, statements, binding, columns
    and \<open>Conn.Query\<close>, on top of the C interface of SQLite, and \<open>internal/sqlitedrv\<close>; \<open>Sqlite_Props\<close> that a query returns.
  \<^item> \<open>Gotime\<close>, \<open>Stats\<close>: \<open>internal/stats\<close>, the counters, their cleanup and \<open>LoadStats\<close>; \<open>Stats_Machine\<close>: counting under
    concurrency, as a step relation over goroutines.
  \<^item> \<open>Database\<close>: \<open>internal/db\<close>, the database object with its pools, mutexes and idle monitor;
    \<open>Database_Inv\<close> its invariant by weakest preconditions, \<open>Mini_Engine\<close> a tiny engine for the witnesses,
    \<open>Database_Run\<close> what the operations compute on an idle connection, \<open>Database_Props\<close>, \<open>Database_Tx\<close>,
    \<open>Database_Role\<close>, \<open>Role_Residue\<close> and \<open>Database_Open\<close> its properties. \<open>Tx_Machine\<close>: its lock protocol once more, as a
    step relation over any number of goroutines.
  \<^item> \<open>Encoding\<close>: base64 and hexadecimal. \<open>Vdl\<close>: \<open>internal/vdl/types.go\<close> and \<open>enums.go\<close>, the wire types and the decoding
    of a request; \<open>Vdl_Output\<close>: the decoding of the outputs and the enumerations; \<open>Vdl_Schema\<close>: the objects of the two services and the getters.
  \<^item> \<open>Rpc\<close>: \<open>internal/vdl/server.go\<close>, the generated RPC runtime, up to the response of a procedure; \<open>Rpc_Stream\<close>: its other registrations, its
    streams and the writing of responses; \<open>Rpc_Props\<close> the properties of both; \<open>Sse_Machine\<close>: a stream and its ping loop as a step relation.
  \<^item> \<open>Auth\<close>: \<open>internal/server/auth.go\<close> and \<open>internal/util/cryptoutil\<close>.
  \<^item> \<open>Convert\<close>, \<open>Query_Exec\<close>: \<open>internal/server/query_convert.go\<close> and \<open>query.go\<close>; \<open>Query_Props\<close> the properties of a batch.
  \<^item> \<open>Server\<close>: the rest of \<open>internal/server\<close> and \<open>internal/util/httputil\<close>; \<open>Server_Props\<close> the properties
    of the RPC interface.
  \<^item> \<open>Rqlite\<close>: \<open>internal/server/rqlite.go\<close>; \<open>Rqlite_Props\<close>, \<open>Rqlite_Api\<close> its properties.
  \<^item> \<open>Http\<close>: \<open>createMux\<close> and the handler of \<open>Start\<close> in \<open>internal/server/server.go\<close>, the whole HTTP face of the server.
  \<^item> \<open>Config\<close>: \<open>internal/config\<close> and \<open>internal/validate\<close>. \<open>Startup\<close>, \<open>Shutdown\<close>: \<open>cmd/nsqlite/main.go\<close>, up to the point where
    the server listens, and from there to the exit status.
  \<^item> \<open>Entrypoint\<close>, \<open>Entrypoint_Props\<close>: \<open>cmd/entrypoint/main.go\<close>. \<open>Util\<close>: the other helpers of \<open>internal/util\<close>, the banner of
    \<open>internal/version\<close> and \<open>scripts/fetch-sqlite\<close>.

  \<^bold>\<open>The state.\<close> The record \<open>DB\<close> has the fields of the struct \<open>DB\<close>, the three mutexes as booleans, the two
  pools, the counters and the world that SQLite acts on. An operation is an action: a function from the
  state to an outcome and a new state. \<open>Done\<close> is a return, \<open>Blocked\<close> a call that waits for a mutex or a
  connection, \<open>Running\<close> one that SQLite never finishes, \<open>Fatal\<close> the abort of the process by an unlock of a free mutex.
  Actions are composed by \<open>bnd\<close>, in the order of the code. The server's state adds the
  authentication state. The clock and the UUIDs are sequences that a counter in the state reads from; a
  context is a function from the same counter, so that it can be cancelled at any moment.

  \<^bold>\<open>Concurrency.\<close> An action of \<open>DB\<close> runs with no other goroutine in between. What interleaving does to the
  locks and the transaction is the subject of \<open>Tx_Machine\<close>: there a goroutine is a point in the code, and every lock, every unlock and every
  atomic load or store is a step of its own, except that the unlock of \<open>txMu\<close> after a refused \<open>BEGIN\<close> and after a write goes with the
  section in which SQLite answers. Its shared state has the fields of \<open>DB\<close> that the protocol uses; what SQLite does is left
  open. \<open>calls_refine_machine\<close> ties the two together. \<open>Stats_Machine\<close> does the same for the counters, and \<open>Sse_Machine\<close>
  for a stream: its runs are shown to be runs of \<open>handleStreamRequest\<close>.

  \<^bold>\<open>What is a parameter.\<close> SQLite itself (\<open>capi\<close>, the C functions on an arbitrary world), the hash functions (\<open>crypto\<close>),
  \<open>encoding/json\<close> (\<open>json_lib\<close> and the decoders that \<open>Rpc\<close> takes), the clock, the generator of
  UUIDs and the context of a request; what \<open>net/http\<close> answers to \<open>ListenAndServe\<close>; \<open>go-arg\<close>, the YAML printer, the answers of the operating system and the order in which
  Go visits a map. Hypotheses about them are named in the properties: UUIDs are
  not empty, hashes of the tokens in use do not collide, a role \<open>confines\<close> the engine to a fact when
  compiling statements under the role's policy and running them keeps that fact. The classification compiles each text once under
  the administrator's policy, whoever sent it; \<open>admin_compile_keeps\<close> is the condition that this does not change the fact. It is named
  wherever a property about roles needs it: SQLite runs flag pragmas while it compiles them, so that it is true of the contents of the
  database and not of the flags of a connection.

  \<^bold>\<open>What the lemmas show.\<close>

  \<^item> Of the database object: every call leaves the mutexes and pools as the next one needs them and
    never aborts or waits for itself; begin, commit, rollback and the idle monitor do what they say; while a
    transaction is open others are kept out; the effect of each answer on the transaction and the counters;
    a role confines what a request changes, apart from the compilation for its classification, and no role is left behind on a pooled connection; opening and closing.
    A transaction that SQLite has left by itself can never be ended, by
    whatever anybody sends.
  \<^item> Of its locks under interleaving: they exclude, a query that has been validated keeps its transaction, nobody
    waits in a circle; and that a \<open>BEGIN\<close> can be overtaken by the idle monitor and then locks the next client out.
  \<^item> Of the SQLite wrapper: a query returns when its statement ends, and returns a table.
  \<^item> Of the authorizer: the roles form a hierarchy, and what the two lower ones allow.
  \<^item> Of the statistics: no increment is lost, however goroutines interleave; increments count once; the order of \<open>LoadStats\<close>, what the cleanup deletes.
  \<^item> Of the server: the cache of tokens does not show; who gets in and with which role; a batch answers each
    query, in order and well formed; the RPC runtime computes the table of the schema; decoding is strict; values survive
    the way to the client and back, and a client decodes the outputs that were sent; an HTTP request without a granted token changes nothing, and no
    other one changes what its token may not change; a transaction belongs to the token that began it; the limit on bodies.
  \<^item> Of the RPC runtime: no sequence of registrations makes it answer otherwise than once, with the response of the operation; middlewares
    run in the order of their registration; a stream delivers its events whole, once and in order, and ends; a stream that fails is
    answered twice. \<open>Sse_Machine\<close> ends where \<open>handleStreamRequest\<close> returns; what \<open>handleRequest\<close> writes after that is in \<open>Rpc_Stream\<close>.
  \<^item> Of the rqlite endpoints: the requests that a batch in a transaction sends one after the other and their outcome, and the
    transactions that it can lose; the query endpoint is read-only, with the same exception; parameters and values in JSON; authentication with a password.
  \<^item> Of the start: which configurations are accepted; what holds when the server comes up; the command line that the entry
    point hands to a shell, and what it executes with which configuration and environment. Of the end: a server that cannot listen ends with
    status 0, and a signal rolls an open transaction back first. The script that fetches SQLite writes nothing but its three files, and nothing from an archive with another checksum.

  Locales state the interfaces that clients rely on: \<open>mutex\<close> (a lock as a field of the state), \<open>codec\<close> (an encoding
  that can be undone), \<open>pure_service\<close> (a service whose state does not show in its answers), \<open>enumeration\<close> and
  \<open>strict_object\<close> (the generated types), \<open>reliable_adapter\<close> (a connection on which what is written arrives). Each is
  interpreted on the definitions of the model.

  \<^bold>\<open>Termination.\<close> \<open>drain\<close> and \<open>collect\<close>, the loops over the rows of a statement, are partial functions, as a statement can
  deliver rows forever; \<open>rows_from\<close> says when they return. So are \<open>IntWithCommas\<close>, which does not return for
  the smallest number, and \<open>wait_from\<close>, which returns by its deadline. No definition uses fuel.

  \<^bold>\<open>Not modelled.\<close> The JSON text of responses is left structured in the theories about the server, and
  encoding it is taken to succeed there; \<open>encoding/json\<close> refuses a float that is infinite or not a number. Of the generated RPC runtime the
  annotations, which the schema does not use, and the comparison of two errors are left out. The log
  is output only. \<open>Close\<close> is not part of the machine of \<open>Tx_Machine\<close>. The test code and its harness are not modelled.
\<close>

end
